(* ===== verification/Prelude.thy ===== *)
theory Prelude
  imports Main "HOL-Library.Word"
begin

text \<open>
  What every component shares: the machine integers of the program as words, the
  little-endian byte encodings of the standard library (\<open>to_le_bytes\<close>, \<open>from_le_bytes\<close>),
  \<open>checked_add\<close> and \<open>saturating_add\<close>, and the result type of fallible code. A fallible
  function returns \<open>error + value\<close>: \<^term>\<open>Inl e\<close> is the error or the early return,
  \<^term>\<open>Inr x\<close> the value, and \<open>and_then\<close> is the question mark operator.
\<close>

unbundle bit_operations_syntax

section \<open>Types\<close>

type_synonym byte = "8 word"
type_synonym bytes = "byte list"
type_synonym u16 = "16 word"
type_synonym u64 = "64 word"
type_synonym i64 = "64 word" \<comment> \<open>read with \<open>sint\<close>\<close>

named_theorems layout_simps \<open>sizes and offsets of the byte layouts\<close>
named_theorems result_simps \<open>inversion of the fallible combinators\<close>

section \<open>Fallible code\<close>

fun and_then :: "'e + 'a \<Rightarrow> ('a \<Rightarrow> 'e + 'b) \<Rightarrow> 'e + 'b" where
  "and_then (Inl e) f = Inl e"
| "and_then (Inr x) f = f x"

definition require_that :: "bool \<Rightarrow> 'e \<Rightarrow> 'e + unit" where
  "require_that c e = (if c then Inr () else Inl e)"

definition ok_or :: "'a option \<Rightarrow> 'e \<Rightarrow> 'e + 'a" where
  "ok_or v e = (case v of None \<Rightarrow> Inl e | Some x \<Rightarrow> Inr x)"

lemma and_then_Inr_iff [result_simps]:
  "and_then m f = Inr y \<longleftrightarrow> (\<exists>x. m = Inr x \<and> f x = Inr y)"
  by (cases m) auto

lemma and_then_Inl_iff:
  "and_then m f = Inl e \<longleftrightarrow> m = Inl e \<or> (\<exists>x. m = Inr x \<and> f x = Inl e)"
  by (cases m) auto

lemma require_that_Inr_iff [result_simps]: "require_that c e = Inr u \<longleftrightarrow> c"
  by (simp add: require_that_def)

lemma require_that_Inl_iff: "require_that c e = Inl e' \<longleftrightarrow> \<not> c \<and> e' = e"
  by (auto simp: require_that_def)

lemma require_that_simps [simp]:
  "require_that True e = Inr ()" "require_that False e = Inl e"
  by (simp_all add: require_that_def)

lemma ok_or_Inr_iff [result_simps]: "ok_or v e = Inr x \<longleftrightarrow> v = Some x"
  by (auto simp: ok_or_def split: option.splits)

lemma ok_or_simps [simp]: "ok_or None e = Inl e" "ok_or (Some x) e = Inr x"
  by (simp_all add: ok_or_def)

section \<open>Integers\<close>

definition checked_add :: "u64 \<Rightarrow> u64 \<Rightarrow> u64 option" where
  "checked_add a b = (if unat a + unat b < 2 ^ 64 then Some (a + b) else None)"

lemma checked_add_Some_iff:
  "checked_add a b = Some c \<longleftrightarrow> unat a + unat b < 2 ^ 64 \<and> unat c = unat a + unat b"
proof -
  have "unat (a + b) = unat a + unat b" if "unat a + unat b < 2 ^ 64"
    using that by (simp add: unat_word_ariths)
  then show ?thesis
    by (auto simp: checked_add_def word_unat_eq_iff)
qed

definition I64_MAX :: int where
  "I64_MAX = 2 ^ 63 - 1"

definition I64_MIN :: int where
  "I64_MIN = - (2 ^ 63)"

definition saturating_add :: "i64 \<Rightarrow> i64 \<Rightarrow> i64" where
  "saturating_add a b =
     (let s = sint a + sint b
      in if s > I64_MAX then word_of_int I64_MAX
         else if s < I64_MIN then word_of_int I64_MIN
         else word_of_int s)"

lemma sint_i64_bounds: "I64_MIN \<le> sint (a :: i64)" "sint (a :: i64) \<le> I64_MAX"
  using sint_greater_eq [of a] sint_less [of a] by (simp_all add: I64_MIN_def I64_MAX_def)

lemma sint_word_of_int_i64:
  "I64_MIN \<le> k \<Longrightarrow> k \<le> I64_MAX \<Longrightarrow> sint (word_of_int k :: i64) = k"
  by (simp add: I64_MIN_def I64_MAX_def signed_of_int signed_take_bit_int_eq_self)

lemma sint_saturating_add:
  "sint (saturating_add a b) = max I64_MIN (min I64_MAX (sint a + sint b))"
proof -
  have "I64_MIN \<le> I64_MAX" by (simp add: I64_MIN_def I64_MAX_def)
  then show ?thesis
    by (simp add: saturating_add_def Let_def sint_word_of_int_i64 max_def min_def
        del: of_int_add)
qed

lemma unat_min_u64: "unat (min a b :: u64) = min (unat a) (unat b)"
  by (simp add: min_def word_le_nat_alt)

section \<open>Little-endian bytes\<close>

text \<open>\<open>word_to_le n w\<close> is \<open>w.to_le_bytes()\<close> for an \<open>8 n\<close>-bit integer \<open>w\<close>.\<close>

primrec word_to_le :: "nat \<Rightarrow> 'a::len word \<Rightarrow> bytes" where
  "word_to_le 0 w = []"
| "word_to_le (Suc n) w = ucast w # word_to_le n (drop_bit 8 w)"

text \<open>\<open>from_le_bytes\<close>\<close>

primrec le_to_word :: "bytes \<Rightarrow> 'a::len word" where
  "le_to_word [] = 0"
| "le_to_word (b # bs) = ucast b OR push_bit 8 (le_to_word bs)"

lemma length_word_to_le [simp, layout_simps]: "length (word_to_le n w) = n"
  by (induction n arbitrary: w) simp_all

lemma le_to_word_word_to_le:
  "le_to_word (word_to_le n (w :: 'a::len word)) = take_bit (8 * n) w"
proof (induction n arbitrary: w)
  case 0
  then show ?case by simp
next
  case (Suc n)
  show ?case
    unfolding word_to_le.simps le_to_word.simps Suc.IH
    by (rule bit_word_eqI)
       (auto simp: bit_simps not_less dest: bit_imp_le_length)
qed

lemma le_to_word_bit_bound:
  "8 * length bs \<le> i \<Longrightarrow> \<not> bit (le_to_word bs :: 'a::len word) i"
proof (induction bs arbitrary: i)
  case Nil
  then show ?case by simp
next
  case (Cons b bs)
  then show ?case by (auto simp: bit_simps dest: bit_imp_le_length)
qed

lemma word_to_le_le_to_word:
  "8 * length bs \<le> LENGTH('a) \<Longrightarrow>
   word_to_le (length bs) (le_to_word bs :: 'a::len word) = bs"
proof (induction bs)
  case Nil
  then show ?case by simp
next
  case (Cons b bs)
  let ?w = "ucast b OR push_bit 8 (le_to_word bs) :: 'a word"
  have head: "ucast ?w = b"
    using Cons.prems by (intro bit_word_eqI) (auto simp: bit_simps)
  have tail: "drop_bit 8 ?w = le_to_word bs"
  proof (rule bit_word_eqI)
    fix n assume "n < LENGTH('a)"
    have "\<not> bit (le_to_word bs :: 'a word) n" if "\<not> n + 8 < LENGTH('a)"
      using that Cons.prems by (intro le_to_word_bit_bound) simp
    then show "bit (drop_bit 8 ?w) n = bit (le_to_word bs :: 'a word) n"
      by (auto simp: bit_simps dest: bit_imp_le_length)
  qed
  have "word_to_le (length (b # bs)) (le_to_word (b # bs) :: 'a word)
      = ucast ?w # word_to_le (length bs) (drop_bit 8 ?w)"
    by (simp only: list.size(4) add_0_right add_Suc_right word_to_le.simps le_to_word.simps)
  with Cons show ?case
    by (simp only: head tail) simp
qed

lemma u64_le_roundtrip [simp]: "le_to_word (word_to_le 8 (w :: u64)) = w"
  by (simp add: le_to_word_word_to_le take_bit_word_eq_self)

lemma u16_le_roundtrip [simp]: "le_to_word (word_to_le 2 (w :: u16)) = w"
  by (simp add: le_to_word_word_to_le take_bit_word_eq_self)

section \<open>Slices\<close>

text \<open>\<open>bytes[off..off + n]\<close>, where the bytes are long enough.\<close>

definition slice :: "nat \<Rightarrow> nat \<Rightarrow> bytes \<Rightarrow> bytes" where
  "slice off n bs = take n (drop off bs)"

lemma slice_skip: "length xs \<le> off \<Longrightarrow> slice off n (xs @ ys) = slice (off - length xs) n ys"
  by (simp add: slice_def)

lemma slice_here: "length xs = n \<Longrightarrow> slice 0 n (xs @ ys) = xs"
  by (simp add: slice_def)

lemma slice_all: "length xs = n \<Longrightarrow> slice 0 n xs = xs"
  by (simp add: slice_def)

lemma slice_length: "off + n \<le> length bs \<Longrightarrow> length (slice off n bs) = n"
  by (simp add: slice_def)

lemma slice_slice: "i + n \<le> m \<Longrightarrow> slice i n (slice off m bs) = slice (off + i) n bs"
  by (simp add: slice_def drop_take add.commute min_def)

lemma slice_Cons: "0 < off \<Longrightarrow> slice off n (x # xs) = slice (off - 1) n xs"
  by (simp add: slice_def drop_Cons')

lemma slice_head: "slice 0 (Suc 0) (x # xs) = [x]"
  by (simp add: slice_def)

lemmas slice_simps = slice_skip slice_here slice_all slice_Cons slice_head

end
