(* ===== verification/Codec.thy ===== *)
theory Codec
  imports Prelude
begin

text \<open>
  The interface between the typed values of the program and their borsh bytes. A codec is an
  encoder together with a decoder that returns the value and the bytes it did not read; the two
  laws say that they are inverse to each other on well-formed values. Fixed Rust arrays
  \<open>[u8; n]\<close> are byte lists whose length is part of well-formedness. The locale lemmas (the
  encoding is injective, no encoding is a proper prefix of another, a decode that consumes
  everything is exact) are proved once here and used for every type of the program. The
  primitive codecs follow the borsh format: a byte is itself, integers are little-endian, an
  array is its elements with no length, a \<open>bool\<close> is one byte 0 or 1.
\<close>

section \<open>The interface\<close>

locale codec =
  fixes enc :: "'a \<Rightarrow> bytes"
    and dec :: "bytes \<Rightarrow> ('a \<times> bytes) option"
    and wf :: "'a \<Rightarrow> bool"
  assumes dec_enc: "wf x \<Longrightarrow> dec (enc x @ r) = Some (x, r)"
    and dec_sound: "dec bs = Some (x, r) \<Longrightarrow> wf x \<and> bs = enc x @ r"
begin

lemma dec_enc_nil: "wf x \<Longrightarrow> dec (enc x) = Some (x, [])"
  using dec_enc [of x "[]"] by simp

lemma prefix_free:
  "wf x \<Longrightarrow> wf y \<Longrightarrow> enc x @ r = enc y @ s \<Longrightarrow> x = y \<and> r = s"
  using dec_enc [of x r] dec_enc [of y s] by (metis option.inject prod.inject)

lemma enc_inject: "wf x \<Longrightarrow> wf y \<Longrightarrow> enc x = enc y \<longleftrightarrow> x = y"
  using prefix_free [of x y "[]" "[]"] by auto

lemma dec_iff: "dec bs = Some (x, r) \<longleftrightarrow> wf x \<and> bs = enc x @ r"
  using dec_enc dec_sound by blast

lemma dec_exact_iff: "dec bs = Some (x, []) \<longleftrightarrow> wf x \<and> bs = enc x"
  by (simp add: dec_iff)

end

text \<open>A codec whose encodings all have one size: the fields after it sit at a fixed offset.\<close>

locale fixed_codec = codec +
  fixes size_of :: nat
  assumes enc_length: "wf x \<Longrightarrow> length (enc x) = size_of"
begin

lemma take_enc: "wf x \<Longrightarrow> take size_of (enc x @ r) = enc x"
  by (simp add: enc_length)

lemma drop_enc: "wf x \<Longrightarrow> drop size_of (enc x @ r) = r"
  by (simp add: enc_length)

lemma dec_needs_size: "dec bs = Some (x, r) \<Longrightarrow> length bs = size_of + length r"
  by (auto simp: dec_iff enc_length)

lemma dec_short_fails: "length bs < size_of \<Longrightarrow> dec bs = None"
  using dec_needs_size by (cases "dec bs") fastforce+

end

section \<open>Primitive encodings\<close>

definition enc_u8 :: "byte \<Rightarrow> bytes" where
  "enc_u8 b = [b]"

fun dec_u8 :: "bytes \<Rightarrow> (byte \<times> bytes) option" where
  "dec_u8 [] = None"
| "dec_u8 (b # bs) = Some (b, bs)"

definition enc_u64 :: "u64 \<Rightarrow> bytes" where
  "enc_u64 w = word_to_le 8 w"

definition dec_u64 :: "bytes \<Rightarrow> (u64 \<times> bytes) option" where
  "dec_u64 bs = (if length bs < 8 then None else Some (le_to_word (take 8 bs), drop 8 bs))"

definition enc_bool :: "bool \<Rightarrow> bytes" where
  "enc_bool b = [if b then 1 else 0]"

fun dec_bool :: "bytes \<Rightarrow> (bool \<times> bytes) option" where
  "dec_bool [] = None"
| "dec_bool (b # bs) =
     (if b = 0 then Some (False, bs) else if b = 1 then Some (True, bs) else None)"

definition enc_array :: "bytes \<Rightarrow> bytes" where
  "enc_array xs = xs"

definition dec_array :: "nat \<Rightarrow> bytes \<Rightarrow> (bytes \<times> bytes) option" where
  "dec_array n bs = (if length bs < n then None else Some (take n bs, drop n bs))"

definition wf_any :: "'a \<Rightarrow> bool" where
  "wf_any x = True"

definition wf_array :: "nat \<Rightarrow> bytes \<Rightarrow> bool" where
  "wf_array n xs \<longleftrightarrow> length xs = n"

text \<open>An array \<open>[T; n]\<close> of encoded elements.\<close>

definition enc_list :: "('a \<Rightarrow> bytes) \<Rightarrow> 'a list \<Rightarrow> bytes" where
  "enc_list e xs = concat (map e xs)"

primrec dec_list ::
  "(bytes \<Rightarrow> ('a \<times> bytes) option) \<Rightarrow> nat \<Rightarrow> bytes \<Rightarrow> ('a list \<times> bytes) option" where
  "dec_list d 0 bs = Some ([], bs)"
| "dec_list d (Suc n) bs =
     (case d bs of None \<Rightarrow> None
      | Some (x, r) \<Rightarrow>
          (case dec_list d n r of None \<Rightarrow> None | Some (xs, r') \<Rightarrow> Some (x # xs, r')))"

definition wf_list :: "('a \<Rightarrow> bool) \<Rightarrow> nat \<Rightarrow> 'a list \<Rightarrow> bool" where
  "wf_list w n xs \<longleftrightarrow> length xs = n \<and> list_all w xs"

interpretation u8: fixed_codec enc_u8 dec_u8 wf_any 1
proof
  fix x y :: byte and r bs :: bytes
  show "dec_u8 (enc_u8 x @ r) = Some (x, r)" by (simp add: enc_u8_def)
  show "dec_u8 bs = Some (x, r) \<Longrightarrow> wf_any x \<and> bs = enc_u8 x @ r"
    by (cases bs) (simp_all add: enc_u8_def wf_any_def)
  show "length (enc_u8 x) = 1" by (simp add: enc_u8_def)
qed

interpretation u64: fixed_codec enc_u64 dec_u64 wf_any 8
proof
  fix x :: u64 and r bs :: bytes
  show "dec_u64 (enc_u64 x @ r) = Some (x, r)" by (simp add: enc_u64_def dec_u64_def)
  show "wf_any x \<and> bs = enc_u64 x @ r" if "dec_u64 bs = Some (x, r)"
  proof -
    from that have len: "8 \<le> length bs"
      and x: "x = le_to_word (take 8 bs)" and r: "r = drop 8 bs"
      by (auto simp: dec_u64_def split: if_splits)
    from len have "length (take 8 bs) = 8" by simp
    then have "word_to_le 8 x = take 8 bs"
      using word_to_le_le_to_word [of "take 8 bs", where 'a = 64] by (simp only: x) simp
    then show ?thesis by (simp add: wf_any_def enc_u64_def r)
  qed
  show "length (enc_u64 x) = 8" by (simp add: enc_u64_def)
qed

interpretation bool: fixed_codec enc_bool dec_bool wf_any 1
proof
  fix x :: bool and r bs :: bytes
  show "dec_bool (enc_bool x @ r) = Some (x, r)" by (simp add: enc_bool_def)
  show "dec_bool bs = Some (x, r) \<Longrightarrow> wf_any x \<and> bs = enc_bool x @ r"
    by (cases bs) (auto simp: enc_bool_def wf_any_def split: if_splits)
  show "length (enc_bool x) = 1" by (simp add: enc_bool_def)
qed

interpretation array: fixed_codec enc_array "dec_array n" "wf_array n" n for n
  by unfold_locales (auto simp: enc_array_def dec_array_def wf_array_def split: if_splits)

text \<open>The codec of a fixed-size array of elements is a codec, whatever the element.\<close>

lemma codec_list:
  assumes "codec e d w"
  shows "codec (enc_list e) (dec_list d n) (wf_list w n)"
proof -
  have enc: "dec_list d n (enc_list e xs @ r) = Some (xs, r)" if "wf_list w n xs" for xs r
    using that
  proof (induction n arbitrary: xs)
    case 0
    then show ?case by (simp add: wf_list_def enc_list_def)
  next
    case (Suc n)
    then obtain x ys where "xs = x # ys" "w x" "wf_list w n ys"
      by (cases xs) (auto simp: wf_list_def)
    with Suc.IH [of ys] show ?case
      by (simp add: enc_list_def codec.dec_enc [OF assms])
  qed
  have snd: "wf_list w n xs \<and> bs = enc_list e xs @ r" if "dec_list d n bs = Some (xs, r)"
    for bs xs r
    using that
  proof (induction n arbitrary: bs xs)
    case 0
    then show ?case by (simp add: wf_list_def enc_list_def)
  next
    case (Suc n)
    then obtain x s ys where x: "d bs = Some (x, s)" and ys: "dec_list d n s = Some (ys, r)"
      and xs: "xs = x # ys"
      by (auto split: option.splits)
    from Suc.IH [OF ys] codec.dec_sound [OF assms x] show ?case
      by (simp add: xs wf_list_def enc_list_def)
  qed
  show ?thesis by unfold_locales (fact enc, fact snd)
qed

lemma enc_list_length:
  assumes "\<And>x. w x \<Longrightarrow> length (e x) = k" and "wf_list w n xs"
  shows "length (enc_list e xs) = n * k"
  using assms(2)
proof (induction xs arbitrary: n)
  case Nil
  then show ?case by (simp add: wf_list_def enc_list_def)
next
  case (Cons x xs)
  then obtain m where "n = Suc m" by (cases n) (auto simp: wf_list_def)
  with Cons show ?case by (simp add: wf_list_def enc_list_def assms(1))
qed

text \<open>The rules with which the decoder of a struct or an enum is run and inverted.\<close>

lemmas dec_run = u8.dec_enc u64.dec_enc bool.dec_enc array.dec_enc
lemmas dec_inv = u8.dec_iff u64.dec_iff bool.dec_iff array.dec_iff

end
