(* ===== verification/Action.thy ===== *)
theory Action
  imports Codec "HOL-Library.Char_ord"
begin

text \<open>
  The crate \<open>enclavekit-encoding\<close>, files \<open>constants.rs\<close>, \<open>action.rs\<close> and \<open>wallet.rs\<close>: the
  constants the program and the SDK share, the action a user signs with its borsh encoding (the
  derived \<open>BorshSerialize\<close> and \<open>BorshDeserialize\<close>: one byte for the variant, then the fields in
  order), and the identity of a wallet. \<open>Guardian\<close> is the crate's enum; the program's own enum
  of that name is in the theory \<open>Wallet_State\<close>. SHA-256 is third-party code and a parameter.
\<close>

section \<open>Constants\<close>

text \<open>A Rust byte string literal.\<close>

definition ascii :: "string \<Rightarrow> bytes" where
  "ascii s = map of_char s"

definition WALLET_SEED :: bytes where
  "WALLET_SEED = ascii ''wallet''"

definition VAULT_SEED :: bytes where
  "VAULT_SEED = ascii ''vault''"

definition COMPRESSED_PUBKEY_LEN :: nat where
  [layout_simps]: "COMPRESSED_PUBKEY_LEN = 33"

definition MAX_GUARDIANS :: nat where
  [layout_simps]: "MAX_GUARDIANS = 3"

lemma length_ascii [simp]: "length (ascii s) = length s"
  by (simp add: ascii_def)

lemma seeds_differ: "WALLET_SEED @ xs \<noteq> VAULT_SEED @ ys"
  by (simp add: WALLET_SEED_def VAULT_SEED_def ascii_def)

section \<open>Actions\<close>

datatype EGuardian =
    EGuardian_None
  | EGuardian_P256 bytes
  | EGuardian_WebAuthn bytes

datatype Action =
    TransferSol bytes u64 \<comment> \<open>\<open>to\<close>, \<open>lamports\<close>\<close>
  | TransferToken bytes bytes u64 \<comment> \<open>\<open>mint\<close>, \<open>to\<close>, \<open>amount\<close>\<close>
  | ProposeRotation bytes \<comment> \<open>\<open>new_key\<close>\<close>
  | CancelRotation
  | SetGuardians "EGuardian list" \<comment> \<open>\<open>guardians\<close>\<close>
  | SweepVault bytes \<comment> \<open>\<open>to\<close>\<close>
  | CloseWallet bytes \<comment> \<open>\<open>to\<close>\<close>

text \<open>The sizes of the Rust arrays.\<close>

primrec wf_eguardian :: "EGuardian \<Rightarrow> bool" where
  "wf_eguardian EGuardian_None = True"
| "wf_eguardian (EGuardian_P256 k) = wf_array COMPRESSED_PUBKEY_LEN k"
| "wf_eguardian (EGuardian_WebAuthn k) = wf_array COMPRESSED_PUBKEY_LEN k"

primrec wf_action :: "Action \<Rightarrow> bool" where
  "wf_action (TransferSol dest n) = wf_array 32 dest"
| "wf_action (TransferToken mint dest n) = (wf_array 32 mint \<and> wf_array 32 dest)"
| "wf_action (ProposeRotation k) = wf_array COMPRESSED_PUBKEY_LEN k"
| "wf_action CancelRotation = True"
| "wf_action (SetGuardians gs) = wf_list wf_eguardian MAX_GUARDIANS gs"
| "wf_action (SweepVault dest) = wf_array 32 dest"
| "wf_action (CloseWallet dest) = wf_array 32 dest"

primrec enc_eguardian :: "EGuardian \<Rightarrow> bytes" where
  "enc_eguardian EGuardian_None = [0]"
| "enc_eguardian (EGuardian_P256 k) = 1 # enc_array k"
| "enc_eguardian (EGuardian_WebAuthn k) = 2 # enc_array k"

primrec enc_action :: "Action \<Rightarrow> bytes" where
  "enc_action (TransferSol dest n) = 0 # enc_array dest @ enc_u64 n"
| "enc_action (TransferToken mint dest n) = 1 # enc_array mint @ enc_array dest @ enc_u64 n"
| "enc_action (ProposeRotation k) = 2 # enc_array k"
| "enc_action CancelRotation = [3]"
| "enc_action (SetGuardians gs) = 4 # enc_list enc_eguardian gs"
| "enc_action (SweepVault dest) = 5 # enc_array dest"
| "enc_action (CloseWallet dest) = 6 # enc_array dest"

definition dec_eguardian :: "bytes \<Rightarrow> (EGuardian \<times> bytes) option" where
  "dec_eguardian bs = Option.bind (dec_u8 bs) (\<lambda>(tag, r).
     if tag = 0 then Some (EGuardian_None, r)
     else if tag = 1 then
       Option.bind (dec_array COMPRESSED_PUBKEY_LEN r) (\<lambda>(k, r). Some (EGuardian_P256 k, r))
     else if tag = 2 then
       Option.bind (dec_array COMPRESSED_PUBKEY_LEN r) (\<lambda>(k, r). Some (EGuardian_WebAuthn k, r))
     else None)"

definition dec_action :: "bytes \<Rightarrow> (Action \<times> bytes) option" where
  "dec_action bs = Option.bind (dec_u8 bs) (\<lambda>(tag, r).
     if tag = 0 then
       Option.bind (dec_array 32 r) (\<lambda>(dest, r).
       Option.bind (dec_u64 r) (\<lambda>(n, r). Some (TransferSol dest n, r)))
     else if tag = 1 then
       Option.bind (dec_array 32 r) (\<lambda>(mint, r).
       Option.bind (dec_array 32 r) (\<lambda>(dest, r).
       Option.bind (dec_u64 r) (\<lambda>(n, r). Some (TransferToken mint dest n, r))))
     else if tag = 2 then
       Option.bind (dec_array COMPRESSED_PUBKEY_LEN r) (\<lambda>(k, r). Some (ProposeRotation k, r))
     else if tag = 3 then Some (CancelRotation, r)
     else if tag = 4 then
       Option.bind (dec_list dec_eguardian MAX_GUARDIANS r) (\<lambda>(gs, r). Some (SetGuardians gs, r))
     else if tag = 5 then
       Option.bind (dec_array 32 r) (\<lambda>(dest, r). Some (SweepVault dest, r))
     else if tag = 6 then
       Option.bind (dec_array 32 r) (\<lambda>(dest, r). Some (CloseWallet dest, r))
     else None)"

text \<open>\<open>Action::try_from_slice\<close>: nothing may be left over.\<close>

definition try_from_slice :: "bytes \<Rightarrow> Action option" where
  "try_from_slice bs =
     (case dec_action bs of Some (a, []) \<Rightarrow> Some a | _ \<Rightarrow> None)"

section \<open>The codecs\<close>

lemma tag_run: "dec_u8 (t # r) = Some (t, r)"
  by simp

interpretation eguardian: codec enc_eguardian dec_eguardian wf_eguardian
proof
  fix x :: EGuardian and r bs :: bytes
  show "wf_eguardian x \<Longrightarrow> dec_eguardian (enc_eguardian x @ r) = Some (x, r)"
    by (cases x) (simp_all add: dec_eguardian_def array.dec_enc)
  show "dec_eguardian bs = Some (x, r) \<Longrightarrow> wf_eguardian x \<and> bs = enc_eguardian x @ r"
    by (auto simp: dec_eguardian_def bind_eq_Some_conv u8.dec_iff array.dec_iff enc_u8_def
        split: if_splits)
qed

interpretation eguardians:
  codec "enc_list enc_eguardian" "dec_list dec_eguardian n" "wf_list wf_eguardian n" for n
  by (rule codec_list) (rule eguardian.codec_axioms)

interpretation action: codec enc_action dec_action wf_action
proof
  fix x :: Action and r bs :: bytes
  show "wf_action x \<Longrightarrow> dec_action (enc_action x @ r) = Some (x, r)"
    by (cases x) (simp_all add: dec_action_def array.dec_enc u64.dec_enc wf_any_def
        eguardians.dec_enc)
  show "dec_action bs = Some (x, r) \<Longrightarrow> wf_action x \<and> bs = enc_action x @ r"
    by (auto simp: dec_action_def bind_eq_Some_conv u8.dec_iff u64.dec_iff array.dec_iff
        eguardians.dec_iff enc_u8_def split: if_splits)
qed

section \<open>The identity of a wallet\<close>

text \<open>\<open>wallet.rs\<close>: SHA-256 (a parameter) of the compressed key.\<close>

definition wallet_id_of :: "(bytes \<Rightarrow> bytes) \<Rightarrow> bytes \<Rightarrow> bytes" where
  "wallet_id_of sha256 compressed_pubkey = sha256 compressed_pubkey"

section \<open>Properties\<close>

text \<open>C37: a byte string decodes as an action exactly when it is the borsh encoding of that action:
  every action round-trips, and no byte string that is not an encoding is accepted.\<close>

theorem action_roundtrip: "try_from_slice bs = Some a \<longleftrightarrow> wf_action a \<and> bs = enc_action a"
  by (auto simp: try_from_slice_def action.dec_exact_iff [symmetric]
      split: option.splits list.splits)

end
