(* ===== verification/Preimage.thy ===== *)
theory Preimage
  imports Action
begin

text \<open>
  \<open>preimage.rs\<close> of the crate \<open>enclavekit-encoding\<close>: the bytes the Secure Enclave signs. The
  header has a fixed size, so each field sits at a constant offset and the action starts at
  \<open>ACTION_OFFSET\<close>. The lemmas locate every field and show that the bytes determine every field.
\<close>

section \<open>Layout\<close>

definition DOMAIN_TAG :: bytes where
  "DOMAIN_TAG = ascii ''enclavekit:v1'' @ [0, 0, 0]"

definition HEADER_LEN :: nat where
  [layout_simps]: "HEADER_LEN = 16 + 32 + 32 + 8 + 8 + 8"

definition PROGRAM_ID_OFFSET :: nat where
  [layout_simps]: "PROGRAM_ID_OFFSET = 16"

definition PREIMAGE_WALLET_ID_OFFSET :: nat where
  [layout_simps]: "PREIMAGE_WALLET_ID_OFFSET = 48"

definition PREIMAGE_NONCE_OFFSET :: nat where
  [layout_simps]: "PREIMAGE_NONCE_OFFSET = 80"

definition EXPIRES_AT_OFFSET :: nat where
  [layout_simps]: "EXPIRES_AT_OFFSET = 88"

definition MAX_RELAYER_FEE_OFFSET :: nat where
  [layout_simps]: "MAX_RELAYER_FEE_OFFSET = 96"

definition ACTION_OFFSET :: nat where
  [layout_simps]: "ACTION_OFFSET = HEADER_LEN"

record Preimage =
  pre_program_id :: bytes
  pre_wallet_id :: bytes
  pre_nonce :: u64
  pre_expires_at :: i64
  pre_max_relayer_fee :: u64
  pre_action :: Action

definition wf_preimage :: "Preimage \<Rightarrow> bool" where
  "wf_preimage p \<longleftrightarrow> wf_array 32 (pre_program_id p) \<and> wf_array 32 (pre_wallet_id p)
     \<and> wf_action (pre_action p)"

text \<open>Writing into a \<open>Vec\<close> cannot fail, so the \<open>expect\<close> of the source is never reached.\<close>

definition to_bytes :: "Preimage \<Rightarrow> bytes" where
  "to_bytes p =
     DOMAIN_TAG
     @ pre_program_id p
     @ pre_wallet_id p
     @ word_to_le 8 (pre_nonce p)
     @ word_to_le 8 (pre_expires_at p)
     @ word_to_le 8 (pre_max_relayer_fee p)
     @ enc_action (pre_action p)"

lemma DOMAIN_TAG_length [simp, layout_simps]: "length DOMAIN_TAG = 16"
  by (simp add: DOMAIN_TAG_def)

text \<open>Equal bytes and equal header sizes: the fields agree one by one.\<close>

lemma le_bytes_eq_iff [simp]: "word_to_le 8 (a :: u64) = word_to_le 8 b \<longleftrightarrow> a = b"
  using u64.enc_inject [of a b] by (simp add: enc_u64_def wf_any_def)

lemma wf_preimageD:
  assumes "wf_preimage p"
  shows "length (pre_program_id p) = 32" "length (pre_wallet_id p) = 32" "wf_action (pre_action p)"
  using assms by (simp_all add: wf_preimage_def wf_array_def)

lemma to_bytes_eqD:
  assumes "wf_preimage p" "wf_preimage q" "to_bytes p = to_bytes q"
  shows "p = q"
proof -
  note wf = wf_preimageD [OF assms(1)] wf_preimageD [OF assms(2)]
  have "pre_program_id p = pre_program_id q" "pre_wallet_id p = pre_wallet_id q"
    "pre_nonce p = pre_nonce q" "pre_expires_at p = pre_expires_at q"
    "pre_max_relayer_fee p = pre_max_relayer_fee q"
    "enc_action (pre_action p) = enc_action (pre_action q)"
    using assms(3) wf by (simp_all add: to_bytes_def)
  then show ?thesis
    using wf by (simp add: action.enc_inject)
qed

lemma enc_eguardian_length: "wf_eguardian g \<Longrightarrow> length (enc_eguardian g) \<le> 34"
  by (cases g) (simp_all add: enc_array_def wf_array_def COMPRESSED_PUBKEY_LEN_def)

lemma enc_action_length:
  assumes "wf_action a"
  shows "length (enc_action a) \<le> 103"
proof (cases a)
  case (SetGuardians gs)
  with assms obtain x y z where "gs = [x, y, z]" "wf_eguardian x" "wf_eguardian y" "wf_eguardian z"
    by (auto simp: wf_list_def MAX_GUARDIANS_def length_Suc_conv numeral_3_eq_3)
  with SetGuardians show ?thesis
    using enc_eguardian_length [of x] enc_eguardian_length [of y] enc_eguardian_length [of z]
    by (simp add: enc_list_def)
qed (use assms in \<open>simp_all add: enc_array_def enc_u64_def wf_array_def COMPRESSED_PUBKEY_LEN_def\<close>)

lemma to_bytes_length: "wf_preimage p \<Longrightarrow> length (to_bytes p) \<le> HEADER_LEN + 103"
  using enc_action_length [of "pre_action p"]
  by (simp add: to_bytes_def wf_preimage_def wf_array_def layout_simps)

section \<open>Properties\<close>

text \<open>C34: the signed bytes determine every signed field: two well-formed preimages have the same
  bytes only if program, wallet, nonce, expiry, fee cap and action all agree, whatever the actions.\<close>

theorem preimage_injective:
  assumes "wf_preimage p" "wf_preimage q"
  shows "to_bytes p = to_bytes q \<longleftrightarrow> p = q"
  using to_bytes_eqD [OF assms] by blast

text \<open>Every field of the preimage sits at its documented offset, and the action fills the rest.\<close>

theorem preimage_layout:
  assumes "wf_preimage p"
  shows "slice 0 PROGRAM_ID_OFFSET (to_bytes p) = DOMAIN_TAG
    \<and> slice PROGRAM_ID_OFFSET 32 (to_bytes p) = pre_program_id p
    \<and> slice PREIMAGE_WALLET_ID_OFFSET 32 (to_bytes p) = pre_wallet_id p
    \<and> slice PREIMAGE_NONCE_OFFSET 8 (to_bytes p) = word_to_le 8 (pre_nonce p)
    \<and> slice EXPIRES_AT_OFFSET 8 (to_bytes p) = word_to_le 8 (pre_expires_at p)
    \<and> slice MAX_RELAYER_FEE_OFFSET 8 (to_bytes p) = word_to_le 8 (pre_max_relayer_fee p)
    \<and> drop ACTION_OFFSET (to_bytes p) = enc_action (pre_action p)"
  using wf_preimageD [OF assms] by (simp add: to_bytes_def layout_simps slice_simps)

definition sample_preimage :: "u64 \<Rightarrow> Preimage" where
  "sample_preimage n = \<lparr>pre_program_id = replicate 32 0xAA, pre_wallet_id = replicate 32 0xBB,
     pre_nonce = n, pre_expires_at = 1700000000, pre_max_relayer_fee = 10000,
     pre_action = TransferSol (replicate 32 0x11) 500000000\<rparr>"

lemma sample_preimage_wf: "wf_preimage (sample_preimage n)"
  by (simp add: sample_preimage_def wf_preimage_def wf_array_def)

theorem preimage_injective_witness:
  "to_bytes (sample_preimage 7) \<noteq> to_bytes (sample_preimage 8)"
  using preimage_injective [OF sample_preimage_wf [of 7] sample_preimage_wf [of 8]]
  by (simp add: sample_preimage_def)

theorem preimage_layout_witness:
  "slice PREIMAGE_NONCE_OFFSET 8 (to_bytes (sample_preimage 7)) = [7, 0, 0, 0, 0, 0, 0, 0]"
proof -
  have "slice PREIMAGE_NONCE_OFFSET 8 (to_bytes (sample_preimage 7)) = word_to_le 8 (7 :: u64)"
    using preimage_layout [OF sample_preimage_wf [of 7]] by (simp add: sample_preimage_def)
  also have "\<dots> = [7, 0, 0, 0, 0, 0, 0, 0]" by code_simp
  finally show ?thesis .
qed

end
