(* ===== verification/Precompile.thy ===== *)
theory Precompile
  imports Preimage
begin

text \<open>
  \<open>error.rs\<close>, the precompile constants of \<open>constants.rs\<close>, and \<open>precompile.rs\<close>: how the program
  reads the secp256r1 instruction placed just before its own. \<open>get_instruction_relative\<close> of the
  crate \<open>solana-instructions-sysvar\<close> is third-party code: its result (an instruction, or an error)
  is an argument. The main lemma characterises the accepted instructions: the data is one fixed
  header, the key, a signature and the message, and nothing else.
\<close>

section \<open>Errors\<close>

datatype EnclaveKitError =
    PrecompileProgramMismatch
  | PrecompileUnexpectedAccounts
  | PrecompileDataTooShort
  | PrecompileSignatureCountMismatch
  | PrecompileLayoutMismatch
  | PrecompileMessageSizeMismatch
  | WalletIdMismatch
  | KeyMismatch
  | NonceMismatch
  | AuthorizationExpired
  | PreimageMismatch
  | WebAuthnGuardianUnsupported
  | NoPendingRotation
  | NotAGuardian
  | RotationSlotTaken
  | InvalidNewKey
  | RotationTooEarly
  | RotationExpired
  | InsufficientVaultBalance

text \<open>
  What an instruction can fail with: an error of the program, the overflow of \<open>ProgramError\<close>, a
  constraint of the accounts (Anchor's checks, named as Anchor names them), or whatever error code
  a system call, the System program or a sysvar returns.
\<close>

datatype AnchorError =
    ConstraintMut
  | ConstraintSigner
  | ConstraintSeeds
  | ConstraintAddress
  | ConstraintSpace
  | AccountNotInitialized
  | AccountNotSigner
  | AccountNotSystemOwned
  | AccountOwnedByWrongProgram
  | AccountDidNotDeserialize
  | AccountNotEnoughKeys
  | InstructionFallbackNotFound
  | InstructionDidNotDeserialize
  | DeclaredProgramIdMismatch
  | InvalidProgramId

datatype error =
    EnclaveKit EnclaveKitError
  | ArithmeticOverflow
  | Anchor AnchorError
  | External nat

section \<open>Constants\<close>

text \<open>The base58 of a \<open>Pubkey\<close> literal: the digits' value, as 32 big-endian bytes.\<close>

definition base58_alphabet :: string where
  "base58_alphabet = ''123456789ABCDEFGHJKLMNPQRSTUVWXYZabcdefghijkmnopqrstuvwxyz''"

fun index_of :: "'a list \<Rightarrow> 'a \<Rightarrow> int" where
  "index_of [] x = 0"
| "index_of (y # ys) x = (if x = y then 0 else 1 + index_of ys x)"

definition base58_value :: "string \<Rightarrow> int" where
  "base58_value s = foldl (\<lambda>n c. 58 * n + index_of base58_alphabet c) 0 s"

definition pubkey_literal :: "string \<Rightarrow> bytes" where
  "pubkey_literal s = rev (word_to_le 32 (word_of_int (base58_value s) :: 256 word))"

definition PROGRAM_ID :: bytes where
  "PROGRAM_ID = pubkey_literal ''dG4h3aizVEW1bKjzkGsfk6zqcfa2MVn2DjavPniesSY''"

definition SECP256R1_PROGRAM_ID :: bytes where
  "SECP256R1_PROGRAM_ID = pubkey_literal ''Secp256r1SigVerify1111111111111111111111111''"

lemma pubkey_literal_length [simp]: "length (pubkey_literal s) = 32"
  by (simp add: pubkey_literal_def)

lemma PROGRAM_ID_length [simp]: "length PROGRAM_ID = 32"
  by (simp add: PROGRAM_ID_def)

lemma PROGRAM_ID_bytes [code]:
  "PROGRAM_ID = [0x09, 0x49, 0xf1, 0x0e, 0x58, 0x96, 0x43, 0xe6, 0xe6, 0x9b, 0x01, 0x23, 0x74, 0x5a,
     0x51, 0x51, 0xbf, 0x9c, 0x87, 0xc5, 0x58, 0x22, 0x40, 0xb2, 0x01, 0xc0, 0x3b, 0x5b, 0x4e, 0xd4,
     0xe6, 0x49]"
  by code_simp

definition P256_SIGNATURE_LEN :: nat where
  [layout_simps]: "P256_SIGNATURE_LEN = 64"

definition PRECOMPILE_OFFSETS_START :: nat where
  [layout_simps]: "PRECOMPILE_OFFSETS_START = 2"

definition PRECOMPILE_OFFSETS_LEN :: nat where
  [layout_simps]: "PRECOMPILE_OFFSETS_LEN = 14"

definition PRECOMPILE_DATA_START :: nat where
  [layout_simps]: "PRECOMPILE_DATA_START = PRECOMPILE_OFFSETS_START + PRECOMPILE_OFFSETS_LEN"

definition PRECOMPILE_CURRENT_INSTRUCTION :: u16 where
  "PRECOMPILE_CURRENT_INSTRUCTION = 65535"

definition SECP256R1_PUBKEY_OFFSET :: nat where
  [layout_simps]: "SECP256R1_PUBKEY_OFFSET = PRECOMPILE_DATA_START"

definition SECP256R1_SIGNATURE_OFFSET :: nat where
  [layout_simps]: "SECP256R1_SIGNATURE_OFFSET = SECP256R1_PUBKEY_OFFSET + COMPRESSED_PUBKEY_LEN"

definition SECP256R1_MESSAGE_OFFSET :: nat where
  [layout_simps]: "SECP256R1_MESSAGE_OFFSET = SECP256R1_SIGNATURE_OFFSET + P256_SIGNATURE_LEN"

section \<open>Reading the precompile instruction\<close>

type_synonym pubkey = bytes

record AccountMeta =
  meta_pubkey :: pubkey
  meta_is_signer :: bool
  meta_is_writable :: bool

record Instruction =
  ix_program_id :: pubkey
  ix_accounts :: "AccountMeta list"
  ix_data :: bytes

record SignedPayload =
  pl_pubkey :: bytes
  pl_message :: bytes

record SignatureOffsets =
  so_signature_offset :: u16
  so_signature_instruction_index :: u16
  so_public_key_offset :: u16
  so_public_key_instruction_index :: u16
  so_message_data_offset :: u16
  so_message_data_size :: u16
  so_message_instruction_index :: u16

definition offsets_field :: "bytes \<Rightarrow> nat \<Rightarrow> u16" where
  "offsets_field d i =
     (let at = PRECOMPILE_OFFSETS_START + 2 * i in le_to_word [d ! at, d ! (at + 1)])"

text \<open>Called on at least \<open>SECP256R1_MESSAGE_OFFSET\<close> bytes only, so no index is out of range.\<close>

definition parse_offsets :: "bytes \<Rightarrow> SignatureOffsets" where
  "parse_offsets d =
     \<lparr>so_signature_offset = offsets_field d 0,
      so_signature_instruction_index = offsets_field d 1,
      so_public_key_offset = offsets_field d 2,
      so_public_key_instruction_index = offsets_field d 3,
      so_message_data_offset = offsets_field d 4,
      so_message_data_size = offsets_field d 5,
      so_message_instruction_index = offsets_field d 6\<rparr>"

definition load_secp256r1_payload :: "error + Instruction \<Rightarrow> error + SignedPayload" where
  "load_secp256r1_payload previous =
     and_then previous (\<lambda>ix.
     and_then (require_that (ix_program_id ix = SECP256R1_PROGRAM_ID)
       (EnclaveKit PrecompileProgramMismatch)) (\<lambda>_.
     and_then (require_that (ix_accounts ix = [])
       (EnclaveKit PrecompileUnexpectedAccounts)) (\<lambda>_.
     let d = ix_data ix in
     and_then (require_that (length d \<ge> SECP256R1_MESSAGE_OFFSET)
       (EnclaveKit PrecompileDataTooShort)) (\<lambda>_.
     and_then (require_that (d ! 0 = 1)
       (EnclaveKit PrecompileSignatureCountMismatch)) (\<lambda>_.
     let offsets = parse_offsets d in
     and_then (require_that
       (unat (so_signature_offset offsets) = SECP256R1_SIGNATURE_OFFSET
        \<and> unat (so_public_key_offset offsets) = SECP256R1_PUBKEY_OFFSET
        \<and> unat (so_message_data_offset offsets) = SECP256R1_MESSAGE_OFFSET
        \<and> so_signature_instruction_index offsets = PRECOMPILE_CURRENT_INSTRUCTION
        \<and> so_public_key_instruction_index offsets = PRECOMPILE_CURRENT_INSTRUCTION
        \<and> so_message_instruction_index offsets = PRECOMPILE_CURRENT_INSTRUCTION)
       (EnclaveKit PrecompileLayoutMismatch)) (\<lambda>_.
     and_then (require_that
       (SECP256R1_MESSAGE_OFFSET + unat (so_message_data_size offsets) = length d)
       (EnclaveKit PrecompileMessageSizeMismatch)) (\<lambda>_.
     Inr \<lparr>pl_pubkey = slice SECP256R1_PUBKEY_OFFSET
              (SECP256R1_SIGNATURE_OFFSET - SECP256R1_PUBKEY_OFFSET) d,
          pl_message = drop SECP256R1_MESSAGE_OFFSET d\<rparr>)))))))"

section \<open>The accepted instructions\<close>

text \<open>The layout that \<open>constants.rs\<close> documents; \<open>pad\<close> is the byte nobody reads.\<close>

definition precompile_data :: "byte \<Rightarrow> bytes \<Rightarrow> bytes \<Rightarrow> bytes \<Rightarrow> bytes" where
  "precompile_data pad pk sig msg =
     [1, pad]
     @ word_to_le 2 (49 :: u16) @ word_to_le 2 (65535 :: u16)
     @ word_to_le 2 (16 :: u16) @ word_to_le 2 (65535 :: u16)
     @ word_to_le 2 (113 :: u16) @ word_to_le 2 (of_nat (length msg) :: u16)
     @ word_to_le 2 (65535 :: u16)
     @ pk @ sig @ msg"

lemma word_to_le_2: "word_to_le 2 w = [ucast w, ucast (drop_bit 8 w)]"
  by (simp add: numeral_2_eq_2)

lemma le_to_word_pair [simp]: "le_to_word [ucast w, ucast (drop_bit 8 w)] = (w :: u16)"
  using u16_le_roundtrip [of w] by (simp only: word_to_le_2)

lemma le_pair_iff: "le_to_word [a, b] = (w :: u16) \<longleftrightarrow> [a, b] = word_to_le 2 w"
proof
  assume "le_to_word [a, b] = w"
  then show "[a, b] = word_to_le 2 w"
    using word_to_le_le_to_word [of "[a, b]", where 'a = 16] by (simp add: numeral_2_eq_2)
next
  assume "[a, b] = word_to_le 2 w"
  then show "le_to_word [a, b] = w" by (simp only: u16_le_roundtrip)
qed

text \<open>What the seven fields hold, as one condition on the bytes 2 to 15.\<close>

lemma take_16_nth:
  assumes "16 \<le> length d"
  shows "take 16 d = [d ! 0, d ! 1, d ! 2, d ! 3, d ! 4, d ! 5, d ! 6, d ! 7,
    d ! 8, d ! 9, d ! 10, d ! 11, d ! 12, d ! 13, d ! 14, d ! 15]"
proof -
  have "take 16 d = map ((!) d) [0..<16]"
    using assms by (simp add: list_eq_iff_nth_eq)
  then show ?thesis by (simp add: upt_rec numeral_eq_Suc)
qed

lemma offsets_bytes:
  assumes "16 \<le> length d"
  shows "take 16 d = [1, pad] @ word_to_le 2 so @ word_to_le 2 si @ word_to_le 2 ko
      @ word_to_le 2 ki @ word_to_le 2 mo @ word_to_le 2 ms @ word_to_le 2 mi
    \<longleftrightarrow> d ! 0 = 1 \<and> d ! 1 = pad
      \<and> parse_offsets d = \<lparr>so_signature_offset = so, so_signature_instruction_index = si,
          so_public_key_offset = ko, so_public_key_instruction_index = ki,
          so_message_data_offset = mo, so_message_data_size = ms,
          so_message_instruction_index = mi\<rparr>"
  unfolding take_16_nth [OF assms]
  by (simp add: parse_offsets_def offsets_field_def Let_def le_pair_iff layout_simps word_to_le_2
      del: le_to_word.simps)

lemma split_precompile:
  assumes "113 \<le> length d"
  shows "d = take 16 d @ slice 16 33 d @ slice 49 64 d @ drop 113 d"
proof -
  have "drop 16 d = take 33 (drop 16 d) @ drop 49 d" "drop 49 d = take 64 (drop 49 d) @ drop 113 d"
    using append_take_drop_id [of 33 "drop 16 d"] append_take_drop_id [of 64 "drop 49 d"] by simp_all
  then show ?thesis
    unfolding slice_def by (metis append_take_drop_id)
qed

lemma unat_u16_iff: "n < 65536 \<Longrightarrow> unat (w :: u16) = n \<longleftrightarrow> w = of_nat n"
  by (simp add: word_unat_eq_iff unsigned_of_nat take_bit_nat_eq_self)

definition fixed_offsets :: "u16 \<Rightarrow> SignatureOffsets" where
  "fixed_offsets n = \<lparr>so_signature_offset = 49, so_signature_instruction_index = 65535,
     so_public_key_offset = 16, so_public_key_instruction_index = 65535,
     so_message_data_offset = 113, so_message_data_size = n,
     so_message_instruction_index = 65535\<rparr>"

lemma layout_check_iff:
  "(unat (so_signature_offset s) = 49 \<and> unat (so_public_key_offset s) = 16
     \<and> unat (so_message_data_offset s) = 113 \<and> so_signature_instruction_index s = 65535
     \<and> so_public_key_instruction_index s = 65535 \<and> so_message_instruction_index s = 65535)
   \<longleftrightarrow> s = fixed_offsets (so_message_data_size s)"
  by (cases s) (auto simp: unat_u16_iff fixed_offsets_def)

lemma load_payload_cases:
  "load_secp256r1_payload previous = Inr pl \<longleftrightarrow>
     (\<exists>ix d ms. previous = Inr ix \<and> ix_program_id ix = SECP256R1_PROGRAM_ID \<and> ix_accounts ix = []
       \<and> d = ix_data ix \<and> 113 \<le> length d \<and> d ! 0 = 1 \<and> parse_offsets d = fixed_offsets ms
       \<and> 113 + unat ms = length d \<and> pl = \<lparr>pl_pubkey = slice 16 33 d, pl_message = drop 113 d\<rparr>)"
proof -
  have ms: "s = fixed_offsets (so_message_data_size s) \<and> P (so_message_data_size s)
      \<longleftrightarrow> (\<exists>ms. s = fixed_offsets ms \<and> P ms)" for s P
    by (auto simp: fixed_offsets_def)
  show ?thesis
    by (simp add: load_secp256r1_payload_def result_simps Let_def layout_simps layout_check_iff
        PRECOMPILE_CURRENT_INSTRUCTION_def ms [where P = "\<lambda>ms. 113 + unat ms = _ \<and> _"])
       blast
qed

lemma precompile_data_take:
  "take 16 (precompile_data pad pk sig msg) = [1, pad]
     @ word_to_le 2 (49 :: u16) @ word_to_le 2 (65535 :: u16) @ word_to_le 2 (16 :: u16)
     @ word_to_le 2 (65535 :: u16) @ word_to_le 2 (113 :: u16)
     @ word_to_le 2 (of_nat (length msg) :: u16) @ word_to_le 2 (65535 :: u16)"
  by (simp add: precompile_data_def word_to_le_2)

lemma precompile_data_length: "length (precompile_data pad pk sig msg) = 16 + length pk + length sig + length msg"
  by (simp add: precompile_data_def)

lemma precompile_data_split:
  "precompile_data pad pk sig msg = take 16 (precompile_data pad pk sig msg) @ pk @ sig @ msg"
  by (simp add: precompile_data_def word_to_le_2)

lemma precompile_data_offsets:
  "precompile_data pad pk sig msg ! 0 = 1"
  "parse_offsets (precompile_data pad pk sig msg) = fixed_offsets (of_nat (length msg))"
  using iffD1 [OF offsets_bytes precompile_data_take, of pad pk sig msg]
  by (simp_all add: precompile_data_length fixed_offsets_def)

lemma precompile_data_parts:
  assumes "length pk = 33" "length sig = 64"
  shows "slice 16 33 (precompile_data pad pk sig msg) = pk"
    "drop 113 (precompile_data pad pk sig msg) = msg"
proof -
  show "slice 16 33 (precompile_data pad pk sig msg) = pk"
    by (subst precompile_data_split, subst slice_skip) (simp_all add: precompile_data_length slice_here assms)
  show "drop 113 (precompile_data pad pk sig msg) = msg"
    by (subst precompile_data_split) (simp add: precompile_data_length assms)
qed

lemma data_is_precompile_data:
  assumes "113 \<le> length d" "d ! 0 = 1" "parse_offsets d = fixed_offsets ms"
    "113 + unat ms = length d"
  shows "d = precompile_data (d ! 1) (slice 16 33 d) (slice 49 64 d) (drop 113 d)"
proof -
  have "of_nat (length (drop 113 d)) = ms"
    using assms(4) by (metis add_diff_cancel_left' length_drop unat_of_nat word_unat_eq_iff
        of_nat_unat ucast_id)
  moreover have "take 16 d = [1, d ! 1] @ word_to_le 2 (49 :: u16) @ word_to_le 2 (65535 :: u16)
      @ word_to_le 2 (16 :: u16) @ word_to_le 2 (65535 :: u16) @ word_to_le 2 (113 :: u16)
      @ word_to_le 2 ms @ word_to_le 2 (65535 :: u16)"
    using assms(1-3) by (intro iffD2 [OF offsets_bytes]) (simp_all add: fixed_offsets_def)
  ultimately have hd: "take 16 d
      = take 16 (precompile_data (d ! 1) (slice 16 33 d) (slice 49 64 d) (drop 113 d))"
    by (simp only: precompile_data_take)
  have "d = take 16 d @ slice 16 33 d @ slice 49 64 d @ drop 113 d"
    by (rule split_precompile [OF assms(1)])
  also have "\<dots> = precompile_data (d ! 1) (slice 16 33 d) (slice 49 64 d) (drop 113 d)"
    by (simp only: hd precompile_data_split [symmetric])
  finally show ?thesis .
qed

lemma load_payload_iff:
  "load_secp256r1_payload previous = Inr pl \<longleftrightarrow>
     (\<exists>ix pad sig. previous = Inr ix \<and> ix_program_id ix = SECP256R1_PROGRAM_ID \<and> ix_accounts ix = []
       \<and> length (pl_pubkey pl) = COMPRESSED_PUBKEY_LEN \<and> length sig = P256_SIGNATURE_LEN
       \<and> length (pl_message pl) < 2 ^ 16
       \<and> ix_data ix = precompile_data pad (pl_pubkey pl) sig (pl_message pl))" (is "?L = ?R")
proof
  assume ?L
  then obtain ix ms where ix: "previous = Inr ix" "ix_program_id ix = SECP256R1_PROGRAM_ID"
      "ix_accounts ix = []"
    and d: "113 \<le> length (ix_data ix)" "ix_data ix ! 0 = 1"
      "parse_offsets (ix_data ix) = fixed_offsets ms" "113 + unat ms = length (ix_data ix)"
    and pl: "pl = \<lparr>pl_pubkey = slice 16 33 (ix_data ix), pl_message = drop 113 (ix_data ix)\<rparr>"
    unfolding load_payload_cases by blast
  have "length (pl_message pl) < 2 ^ 16" "length (pl_pubkey pl) = 33"
    "length (slice 49 64 (ix_data ix)) = 64"
    using d(1,4) unsigned_less [of ms, where 'a = nat] by (simp_all add: pl slice_length)
  with ix data_is_precompile_data [OF d] show ?R
    by (auto simp: pl layout_simps)
next
  assume ?R
  then show ?L
    by (cases pl) (auto simp: load_payload_cases precompile_data_offsets precompile_data_length
        precompile_data_parts layout_simps unsigned_of_nat take_bit_nat_eq_self
        intro!: exI [of _ "of_nat (length (pl_message pl))"])
qed

text \<open>The precompile instruction a client builds: accepted, whatever the signature's bytes.\<close>

definition signed_instruction :: "bytes \<Rightarrow> bytes \<Rightarrow> bytes \<Rightarrow> Instruction" where
  "signed_instruction pk sig msg = \<lparr>ix_program_id = SECP256R1_PROGRAM_ID, ix_accounts = [],
     ix_data = precompile_data 0 pk sig msg\<rparr>"

lemma load_signed_instruction:
  "length pk = 33 \<Longrightarrow> length sig = 64 \<Longrightarrow> length msg < 2 ^ 16 \<Longrightarrow>
   load_secp256r1_payload (Inr (signed_instruction pk sig msg))
     = Inr \<lparr>pl_pubkey = pk, pl_message = msg\<rparr>"
  by (auto simp: load_payload_iff signed_instruction_def layout_simps)

text \<open>The longest preimage: three guardians with keys.\<close>

definition longest_preimage :: Preimage where
  "longest_preimage = (sample_preimage 7)\<lparr>pre_action :=
     SetGuardians (replicate MAX_GUARDIANS (EGuardian_P256 (replicate COMPRESSED_PUBKEY_LEN 2)))\<rparr>"

lemma longest_preimage:
  "wf_preimage longest_preimage" "length (to_bytes longest_preimage) = HEADER_LEN + 103"
  by (simp_all add: longest_preimage_def sample_preimage_def wf_preimage_def wf_array_def wf_list_def
      to_bytes_def enc_list_def enc_array_def MAX_GUARDIANS_def numeral_3_eq_3 layout_simps)

section \<open>Properties\<close>

text \<open>C24: the program accepts the previous instruction exactly when it is a secp256r1 instruction
  without accounts whose data is the fixed header for one signature, a 33 byte key, a 64 byte
  signature and a message that ends where the data ends, and it returns that key and that message.\<close>

theorem load_payload_exact:
  "load_secp256r1_payload previous = Inr pl \<longleftrightarrow>
     (\<exists>ix pad sig. previous = Inr ix \<and> ix_program_id ix = SECP256R1_PROGRAM_ID \<and> ix_accounts ix = []
       \<and> length (pl_pubkey pl) = COMPRESSED_PUBKEY_LEN \<and> length sig = P256_SIGNATURE_LEN
       \<and> length (pl_message pl) < 2 ^ 16
       \<and> ix_data ix = precompile_data pad (pl_pubkey pl) sig (pl_message pl))"
  by (rule load_payload_iff)

text \<open>C39: what the enclave signs fits: a preimage has at most 207 bytes, 128 less the slack of the
  buffer \<open>to_bytes\<close> reserves after the header, the precompile instruction around it at most 320, far
  below the 16 bit sizes of its offsets, and the program reads the same preimage back out of it. The
  bound is reached, by three guardians with keys.\<close>

theorem signed_preimages_fit:
  assumes "wf_preimage p" "length pk = COMPRESSED_PUBKEY_LEN" "length sig = P256_SIGNATURE_LEN"
  shows "HEADER_LEN < length (to_bytes p) \<and> length (to_bytes p) \<le> HEADER_LEN + 103
    \<and> length (ix_data (signed_instruction pk sig (to_bytes p))) \<le> 320
    \<and> load_secp256r1_payload (Inr (signed_instruction pk sig (to_bytes p)))
        = Inr \<lparr>pl_pubkey = pk, pl_message = to_bytes p\<rparr>
    \<and> (\<exists>q. wf_preimage q \<and> length (to_bytes q) = HEADER_LEN + 103)"
proof (intro conjI)
  note fits = to_bytes_length [OF assms(1)]
  show "length (to_bytes p) \<le> HEADER_LEN + 103" by (rule fits)
  show "HEADER_LEN < length (to_bytes p)"
    using wf_preimageD [OF assms(1)] by (cases "pre_action p") (simp_all add: to_bytes_def layout_simps)
  show "length (ix_data (signed_instruction pk sig (to_bytes p))) \<le> 320"
    using assms(2,3) fits by (simp add: signed_instruction_def precompile_data_def layout_simps)
  show "load_secp256r1_payload (Inr (signed_instruction pk sig (to_bytes p)))
        = Inr \<lparr>pl_pubkey = pk, pl_message = to_bytes p\<rparr>"
    using load_signed_instruction assms(2,3) fits by (simp add: layout_simps)
  show "\<exists>q. wf_preimage q \<and> length (to_bytes q) = HEADER_LEN + 103"
    by (intro exI [of _ longest_preimage] conjI longest_preimage)
qed

theorem signed_preimages_fit_witness:
  "load_secp256r1_payload (Inr (signed_instruction (replicate 33 2) (replicate 64 1)
     (to_bytes (sample_preimage 7))))
   = Inr \<lparr>pl_pubkey = replicate 33 2, pl_message = to_bytes (sample_preimage 7)\<rparr>"
  using signed_preimages_fit [OF sample_preimage_wf [of 7], of "replicate 33 2" "replicate 64 1"]
  by (simp add: layout_simps)

end
