(* ===== verification/Layout.thy ===== *)
theory Layout
  imports Action
begin

text \<open>
  \<open>state.rs\<close> of the crate \<open>enclavekit-encoding\<close>: where each field of the wallet's state account
  sits. Every constant is computed from the one before it, as in the source; \<open>layout_simps\<close>
  collects the definitions, so that \<open>simp\<close> evaluates any offset. The names of the preimage's
  offsets and of these overlap in the source (\<open>WALLET_ID_OFFSET\<close>, \<open>NONCE_OFFSET\<close>); the preimage's
  carry a prefix in the theory \<open>Preimage\<close>.
\<close>

definition DISCRIMINATOR_LEN :: nat where
  [layout_simps]: "DISCRIMINATOR_LEN = 8"

definition WALLET_ID_OFFSET :: nat where
  [layout_simps]: "WALLET_ID_OFFSET = DISCRIMINATOR_LEN"

definition ACTIVE_KEY_OFFSET :: nat where
  [layout_simps]: "ACTIVE_KEY_OFFSET = WALLET_ID_OFFSET + 32"

definition NONCE_OFFSET :: nat where
  [layout_simps]: "NONCE_OFFSET = ACTIVE_KEY_OFFSET + COMPRESSED_PUBKEY_LEN"

definition ATTESTED_OFFSET :: nat where
  [layout_simps]: "ATTESTED_OFFSET = NONCE_OFFSET + 8"

definition GUARDIANS_OFFSET :: nat where
  [layout_simps]: "GUARDIANS_OFFSET = ATTESTED_OFFSET + 1"

definition GUARDIAN_SLOT_LEN :: nat where
  [layout_simps]: "GUARDIAN_SLOT_LEN = 1 + COMPRESSED_PUBKEY_LEN + 32"

definition GUARDIAN_KIND_NONE :: byte where
  [layout_simps]: "GUARDIAN_KIND_NONE = 0"

definition GUARDIAN_KIND_P256 :: byte where
  [layout_simps]: "GUARDIAN_KIND_P256 = 1"

definition GUARDIAN_KIND_WEBAUTHN :: byte where
  [layout_simps]: "GUARDIAN_KIND_WEBAUTHN = 2"

definition ROTATION_OFFSET :: nat where
  [layout_simps]: "ROTATION_OFFSET = GUARDIANS_OFFSET + MAX_GUARDIANS * GUARDIAN_SLOT_LEN"

definition ROTATION_NEW_KEY_OFFSET :: nat where
  [layout_simps]: "ROTATION_NEW_KEY_OFFSET = ROTATION_OFFSET + 1"

definition ROTATION_PROPOSED_AT_OFFSET :: nat where
  [layout_simps]: "ROTATION_PROPOSED_AT_OFFSET = ROTATION_NEW_KEY_OFFSET + COMPRESSED_PUBKEY_LEN"

definition ROTATION_PROPOSED_BY_OFFSET :: nat where
  [layout_simps]: "ROTATION_PROPOSED_BY_OFFSET = ROTATION_PROPOSED_AT_OFFSET + 8"

definition STATE_BUMP_OFFSET :: nat where
  [layout_simps]: "STATE_BUMP_OFFSET = ROTATION_PROPOSED_BY_OFFSET + 1"

definition VAULT_BUMP_OFFSET :: nat where
  [layout_simps]: "VAULT_BUMP_OFFSET = STATE_BUMP_OFFSET + 1"

definition STATE_LEN :: nat where
  [layout_simps]: "STATE_LEN = VAULT_BUMP_OFFSET + 1"

definition guardian_kind_offset :: "nat \<Rightarrow> nat" where
  [layout_simps]: "guardian_kind_offset index = GUARDIANS_OFFSET + index * GUARDIAN_SLOT_LEN"

definition guardian_key_offset :: "nat \<Rightarrow> nat" where
  [layout_simps]: "guardian_key_offset index = guardian_kind_offset index + 1"

definition guardian_rp_id_hash_offset :: "nat \<Rightarrow> nat" where
  [layout_simps]: "guardian_rp_id_hash_offset index = guardian_key_offset index + COMPRESSED_PUBKEY_LEN"

text \<open>The slots tile the guardians' region without overlap, and end where the rotation begins.\<close>

lemma guardian_slots_tile:
  "guardian_kind_offset (Suc i) = guardian_rp_id_hash_offset i + 32"
  "guardian_kind_offset MAX_GUARDIANS = ROTATION_OFFSET"
  by (simp_all add: layout_simps)

lemma documented_offsets:
  "ACTIVE_KEY_OFFSET = 40" "GUARDIANS_OFFSET = 82" "GUARDIAN_SLOT_LEN = 66"
  "map guardian_key_offset [0, 1, 2] = [83, 149, 215]" "guardian_rp_id_hash_offset 0 = 116"
  "ROTATION_OFFSET = 280" "ROTATION_NEW_KEY_OFFSET = 281" "ROTATION_PROPOSED_AT_OFFSET = 314"
  "ROTATION_PROPOSED_BY_OFFSET = 322" "STATE_BUMP_OFFSET = 323" "VAULT_BUMP_OFFSET = 324"
  "STATE_LEN = 325"
  by (simp_all add: layout_simps)

end
