(* ===== verification/Wallet_State.thy ===== *)
theory Wallet_State
  imports Layout
begin

text \<open>
  \<open>programs/enclavekit/src/state.rs\<close>: the wallet's state, its guardian slots and its rotation slot,
  with their operations, and the bytes Anchor stores for it (an eight byte discriminator, then the
  fields in declaration order in borsh, every one of a fixed size). The codec interpretations give
  the round trips; the layout lemmas connect the stored bytes with the offsets of the theory
  \<open>Layout\<close>, which devices use as \<open>memcmp\<close> filters. A Rust array index or slice is in range by the
  type there and by \<open>wf_wallet\<close> here.
\<close>

section \<open>Data\<close>

datatype GuardianKind = Kind_None | Kind_P256 | Kind_WebAuthn

record GuardianSlot =
  slot_kind :: GuardianKind
  slot_key :: bytes
  slot_rp_id_hash :: bytes

record PendingRotation =
  pr_new_key :: bytes
  pr_proposed_at :: i64
  pr_proposed_by :: byte

record RotationSlot =
  rs_pending :: bool
  rs_proposal :: PendingRotation

record SmartWallet =
  sw_wallet_id :: bytes
  sw_active_key :: bytes
  sw_nonce :: u64
  sw_attested :: bool
  sw_guardians :: "GuardianSlot list"
  sw_rotation :: RotationSlot
  sw_state_bump :: byte
  sw_vault_bump :: byte

datatype Guardian =
    Guardian_None
  | Guardian_P256 bytes
  | Guardian_WebAuthn bytes

text \<open>\<open>constants.rs\<close>: the default build; the \<open>devnet\<close> feature replaces the delay by 60.\<close>

definition ROTATION_DELAY :: i64 where
  "ROTATION_DELAY = 72 * 60 * 60"

definition ROTATION_WINDOW :: i64 where
  "ROTATION_WINDOW = 7 * 24 * 60 * 60"

lemma rotation_constants:
  "sint ROTATION_DELAY = 259200" "sint ROTATION_WINDOW = 604800"
  by (simp_all add: ROTATION_DELAY_def ROTATION_WINDOW_def)

section \<open>Operations\<close>

definition zero_key :: bytes where
  "zero_key = replicate COMPRESSED_PUBKEY_LEN 0"

definition EMPTY_SLOT :: GuardianSlot where
  "EMPTY_SLOT = \<lparr>slot_kind = Kind_None, slot_key = zero_key, slot_rp_id_hash = replicate 32 0\<rparr>"

definition EMPTY_ROTATION :: RotationSlot where
  "EMPTY_ROTATION = \<lparr>rs_pending = False,
     rs_proposal = \<lparr>pr_new_key = zero_key, pr_proposed_at = 0, pr_proposed_by = 0\<rparr>\<rparr>"

definition is_new :: "SmartWallet \<Rightarrow> bool" where
  "is_new w \<longleftrightarrow> sw_active_key w = zero_key"

text \<open>\<open>iter().position(..)\<close>: the first slot that satisfies the test.\<close>

primrec position :: "('a \<Rightarrow> bool) \<Rightarrow> 'a list \<Rightarrow> nat option" where
  "position p [] = None"
| "position p (x # xs) = (if p x then Some 0 else map_option Suc (position p xs))"

definition p256_guardian :: "SmartWallet \<Rightarrow> bytes \<Rightarrow> nat option" where
  "p256_guardian w k =
     position (\<lambda>slot. slot_kind slot = Kind_P256 \<and> slot_key slot = k) (sw_guardians w)"

primrec slot_of :: "Guardian \<Rightarrow> GuardianSlot" where
  "slot_of Guardian_None = EMPTY_SLOT"
| "slot_of (Guardian_P256 k) = EMPTY_SLOT\<lparr>slot_kind := Kind_P256, slot_key := k\<rparr>"
| "slot_of (Guardian_WebAuthn k) = EMPTY_SLOT\<lparr>slot_kind := Kind_WebAuthn, slot_key := k\<rparr>"

primrec eguardian_of :: "Guardian \<Rightarrow> EGuardian" where
  "eguardian_of Guardian_None = EGuardian_None"
| "eguardian_of (Guardian_P256 k) = EGuardian_P256 k"
| "eguardian_of (Guardian_WebAuthn k) = EGuardian_WebAuthn k"

definition rotation_new :: "PendingRotation \<Rightarrow> RotationSlot" where
  "rotation_new p = \<lparr>rs_pending = True, rs_proposal = p\<rparr>"

definition rotation_get :: "RotationSlot \<Rightarrow> PendingRotation option" where
  "rotation_get s = (if rs_pending s then Some (rs_proposal s) else None)"

text \<open>\<open>take\<close> empties the slot and returns what it held: the pair of the result and the new slot.\<close>

definition rotation_take :: "RotationSlot \<Rightarrow> PendingRotation option \<times> RotationSlot" where
  "rotation_take s = (if rs_pending s then Some (rs_proposal s) else None, EMPTY_ROTATION)"

definition opens_at :: "PendingRotation \<Rightarrow> i64" where
  "opens_at p = saturating_add (pr_proposed_at p) ROTATION_DELAY"

definition closes_at :: "PendingRotation \<Rightarrow> i64" where
  "closes_at p = saturating_add (opens_at p) ROTATION_WINDOW"

definition is_expired :: "PendingRotation \<Rightarrow> i64 \<Rightarrow> bool" where
  "is_expired p now \<longleftrightarrow> sint now > sint (closes_at p)"

lemma position_Some_iff:
  "position p xs = Some i \<longleftrightarrow> i < length xs \<and> p (xs ! i) \<and> (\<forall>j < i. \<not> p (xs ! j))"
proof (induction xs arbitrary: i)
  case Nil
  then show ?case by simp
next
  case (Cons x xs)
  then show ?case by (cases i) (auto simp: less_Suc_eq_0_disj)
qed

lemma position_None_iff: "position p xs = None \<longleftrightarrow> (\<forall>x \<in> set xs. \<not> p x)"
  by (induction xs) auto

lemma rotation_get_simps [simp]:
  "rotation_get (rotation_new p) = Some p" "rotation_get EMPTY_ROTATION = None"
  by (simp_all add: rotation_get_def rotation_new_def EMPTY_ROTATION_def)

lemma sint_opens_at: "sint (opens_at p) = min I64_MAX (sint (pr_proposed_at p) + 259200)"
  using sint_i64_bounds(1) [of "pr_proposed_at p"]
  by (simp add: opens_at_def sint_saturating_add rotation_constants I64_MAX_def I64_MIN_def
      max_def min_def)

lemma sint_closes_at: "sint (closes_at p) = min I64_MAX (sint (pr_proposed_at p) + 864000)"
  using sint_i64_bounds(1) [of "pr_proposed_at p"]
  by (simp add: closes_at_def sint_saturating_add sint_opens_at rotation_constants I64_MAX_def
      I64_MIN_def max_def min_def)

end
