(* ===== verification/Account_Data.thy ===== *)
theory Account_Data
  imports Wallet_State
begin

text \<open>
  The bytes of the wallet's state account: what \<open>#[account]\<close> and the derived \<open>AnchorSerialize\<close> and
  \<open>AnchorDeserialize\<close> of \<open>programs/enclavekit/src/state.rs\<close> write and read, following the layout
  that \<open>crates/enclavekit-encoding/src/state.rs\<close> documents (borsh: the fields in declaration order,
  enums as one byte, \<open>bool\<close> as 0 or 1, integers little-endian, arrays without a length). The codecs
  of the parts are composed into the codec of the whole, and the layout theorem finds every field
  at its documented offset. The discriminator is the value of \<open>vectors/state.json\<close>.
\<close>

definition DISCRIMINATOR :: bytes where
  "DISCRIMINATOR = [0x43, 0x3b, 0xdc, 0xb3, 0x29, 0x0a, 0x3c, 0xb1]"

lemma length_DISCRIMINATOR [simp, layout_simps]: "length DISCRIMINATOR = 8"
  by (simp add: DISCRIMINATOR_def)

section \<open>Encoders and decoders\<close>

definition enc_kind :: "GuardianKind \<Rightarrow> bytes" where
  "enc_kind k = [case k of Kind_None \<Rightarrow> 0 | Kind_P256 \<Rightarrow> 1 | Kind_WebAuthn \<Rightarrow> 2]"

definition dec_kind :: "bytes \<Rightarrow> (GuardianKind \<times> bytes) option" where
  "dec_kind bs = Option.bind (dec_u8 bs) (\<lambda>(tag, r).
     if tag = 0 then Some (Kind_None, r)
     else if tag = 1 then Some (Kind_P256, r)
     else if tag = 2 then Some (Kind_WebAuthn, r)
     else None)"

definition enc_slot :: "GuardianSlot \<Rightarrow> bytes" where
  "enc_slot s = enc_kind (slot_kind s) @ enc_array (slot_key s) @ enc_array (slot_rp_id_hash s)"

definition dec_slot :: "bytes \<Rightarrow> (GuardianSlot \<times> bytes) option" where
  "dec_slot bs =
     Option.bind (dec_kind bs) (\<lambda>(k, r).
     Option.bind (dec_array COMPRESSED_PUBKEY_LEN r) (\<lambda>(key, r).
     Option.bind (dec_array 32 r) (\<lambda>(h, r).
       Some (\<lparr>slot_kind = k, slot_key = key, slot_rp_id_hash = h\<rparr>, r))))"

definition enc_pending :: "PendingRotation \<Rightarrow> bytes" where
  "enc_pending p = enc_array (pr_new_key p) @ enc_u64 (pr_proposed_at p) @ enc_u8 (pr_proposed_by p)"

definition dec_pending :: "bytes \<Rightarrow> (PendingRotation \<times> bytes) option" where
  "dec_pending bs =
     Option.bind (dec_array COMPRESSED_PUBKEY_LEN bs) (\<lambda>(key, r).
     Option.bind (dec_u64 r) (\<lambda>(at, r).
     Option.bind (dec_u8 r) (\<lambda>(by_slot, r).
       Some (\<lparr>pr_new_key = key, pr_proposed_at = at, pr_proposed_by = by_slot\<rparr>, r))))"

definition enc_rotation :: "RotationSlot \<Rightarrow> bytes" where
  "enc_rotation s = enc_bool (rs_pending s) @ enc_pending (rs_proposal s)"

definition dec_rotation :: "bytes \<Rightarrow> (RotationSlot \<times> bytes) option" where
  "dec_rotation bs =
     Option.bind (dec_bool bs) (\<lambda>(b, r).
     Option.bind (dec_pending r) (\<lambda>(p, r). Some (\<lparr>rs_pending = b, rs_proposal = p\<rparr>, r)))"

definition enc_wallet :: "SmartWallet \<Rightarrow> bytes" where
  "enc_wallet w =
     enc_array (sw_wallet_id w)
     @ enc_array (sw_active_key w)
     @ enc_u64 (sw_nonce w)
     @ enc_bool (sw_attested w)
     @ enc_list enc_slot (sw_guardians w)
     @ enc_rotation (sw_rotation w)
     @ enc_u8 (sw_state_bump w)
     @ enc_u8 (sw_vault_bump w)"

definition dec_wallet :: "bytes \<Rightarrow> (SmartWallet \<times> bytes) option" where
  "dec_wallet bs =
     Option.bind (dec_array 32 bs) (\<lambda>(wid, r).
     Option.bind (dec_array COMPRESSED_PUBKEY_LEN r) (\<lambda>(key, r).
     Option.bind (dec_u64 r) (\<lambda>(n, r).
     Option.bind (dec_bool r) (\<lambda>(att, r).
     Option.bind (dec_list dec_slot MAX_GUARDIANS r) (\<lambda>(gs, r).
     Option.bind (dec_rotation r) (\<lambda>(rot, r).
     Option.bind (dec_u8 r) (\<lambda>(sb, r).
     Option.bind (dec_u8 r) (\<lambda>(vb, r).
       Some (\<lparr>sw_wallet_id = wid, sw_active_key = key, sw_nonce = n, sw_attested = att,
              sw_guardians = gs, sw_rotation = rot, sw_state_bump = sb, sw_vault_bump = vb\<rparr>,
             r)))))))))"

text \<open>What \<open>try_serialize\<close> writes, and what \<open>try_deserialize\<close> reads: the discriminator is
  checked, and bytes after the last field are ignored.\<close>

definition account_data :: "SmartWallet \<Rightarrow> bytes" where
  "account_data w = DISCRIMINATOR @ enc_wallet w"

definition wallet_of_data :: "bytes \<Rightarrow> SmartWallet option" where
  "wallet_of_data bs =
     (if take 8 bs = DISCRIMINATOR then map_option fst (dec_wallet (drop 8 bs)) else None)"

section \<open>Well-formedness: the sizes of the Rust arrays\<close>

definition wf_slot :: "GuardianSlot \<Rightarrow> bool" where
  "wf_slot s \<longleftrightarrow> wf_array COMPRESSED_PUBKEY_LEN (slot_key s) \<and> wf_array 32 (slot_rp_id_hash s)"

definition wf_pending :: "PendingRotation \<Rightarrow> bool" where
  "wf_pending p \<longleftrightarrow> wf_array COMPRESSED_PUBKEY_LEN (pr_new_key p)"

definition wf_rotation :: "RotationSlot \<Rightarrow> bool" where
  "wf_rotation s \<longleftrightarrow> wf_pending (rs_proposal s)"

definition wf_wallet :: "SmartWallet \<Rightarrow> bool" where
  "wf_wallet w \<longleftrightarrow> wf_array 32 (sw_wallet_id w)
     \<and> wf_array COMPRESSED_PUBKEY_LEN (sw_active_key w)
     \<and> wf_list wf_slot MAX_GUARDIANS (sw_guardians w)
     \<and> wf_rotation (sw_rotation w)"

lemmas wf_wallet_simps = wf_wallet_def wf_rotation_def wf_pending_def wf_slot_def wf_array_def
  wf_list_def MAX_GUARDIANS_def COMPRESSED_PUBKEY_LEN_def

lemma EMPTY_wf [simp]: "wf_slot EMPTY_SLOT" "wf_rotation EMPTY_ROTATION"
  "wf_array COMPRESSED_PUBKEY_LEN zero_key"
  by (simp_all add: EMPTY_SLOT_def EMPTY_ROTATION_def zero_key_def wf_wallet_simps)

section \<open>The codecs\<close>

interpretation kind: fixed_codec enc_kind dec_kind wf_any 1
proof
  fix x :: GuardianKind and r bs :: bytes
  show "dec_kind (enc_kind x @ r) = Some (x, r)"
    by (cases x) (simp_all add: enc_kind_def dec_kind_def)
  show "dec_kind bs = Some (x, r) \<Longrightarrow> wf_any x \<and> bs = enc_kind x @ r"
    by (auto simp: dec_kind_def bind_eq_Some_conv u8.dec_iff enc_u8_def enc_kind_def wf_any_def
        split: if_splits)
  show "length (enc_kind x) = 1" by (simp add: enc_kind_def)
qed

interpretation slot: fixed_codec enc_slot dec_slot wf_slot GUARDIAN_SLOT_LEN
proof
  fix x :: GuardianSlot and r bs :: bytes
  show "wf_slot x \<Longrightarrow> dec_slot (enc_slot x @ r) = Some (x, r)"
    by (simp add: wf_slot_def dec_slot_def enc_slot_def kind.dec_enc array.dec_enc wf_any_def)
  show "dec_slot bs = Some (x, r) \<Longrightarrow> wf_slot x \<and> bs = enc_slot x @ r"
    by (auto simp: wf_slot_def dec_slot_def enc_slot_def bind_eq_Some_conv kind.dec_iff array.dec_iff)
  show "wf_slot x \<Longrightarrow> length (enc_slot x) = GUARDIAN_SLOT_LEN"
    by (simp add: wf_slot_def wf_array_def enc_slot_def enc_array_def kind.enc_length wf_any_def
        layout_simps)
qed

interpretation pending: fixed_codec enc_pending dec_pending wf_pending 42
proof
  fix x :: PendingRotation and r bs :: bytes
  show "wf_pending x \<Longrightarrow> dec_pending (enc_pending x @ r) = Some (x, r)"
    by (simp add: wf_pending_def dec_pending_def enc_pending_def array.dec_enc u64.dec_enc u8.dec_enc
        wf_any_def)
  show "dec_pending bs = Some (x, r) \<Longrightarrow> wf_pending x \<and> bs = enc_pending x @ r"
    by (auto simp: wf_pending_def dec_pending_def enc_pending_def bind_eq_Some_conv dec_inv)
  show "wf_pending x \<Longrightarrow> length (enc_pending x) = 42"
    by (simp add: wf_pending_def wf_array_def enc_pending_def enc_array_def u64.enc_length
        u8.enc_length wf_any_def layout_simps)
qed

interpretation rotation: fixed_codec enc_rotation dec_rotation wf_rotation 43
proof
  fix x :: RotationSlot and r bs :: bytes
  show "wf_rotation x \<Longrightarrow> dec_rotation (enc_rotation x @ r) = Some (x, r)"
    by (simp add: wf_rotation_def dec_rotation_def enc_rotation_def bool.dec_enc pending.dec_enc
        wf_any_def)
  show "dec_rotation bs = Some (x, r) \<Longrightarrow> wf_rotation x \<and> bs = enc_rotation x @ r"
    by (auto simp: wf_rotation_def dec_rotation_def enc_rotation_def bind_eq_Some_conv bool.dec_iff
        pending.dec_iff)
  show "wf_rotation x \<Longrightarrow> length (enc_rotation x) = 43"
    by (simp add: wf_rotation_def enc_rotation_def bool.enc_length pending.enc_length wf_any_def)
qed

interpretation slots:
  codec "enc_list enc_slot" "dec_list dec_slot n" "wf_list wf_slot n" for n
  by (rule codec_list) (rule slot.codec_axioms)

lemma slots_length: "wf_list wf_slot n gs \<Longrightarrow> length (enc_list enc_slot gs) = n * GUARDIAN_SLOT_LEN"
  by (rule enc_list_length) (rule slot.enc_length)

interpretation wallet: fixed_codec enc_wallet dec_wallet wf_wallet "STATE_LEN - DISCRIMINATOR_LEN"
proof
  fix x :: SmartWallet and r bs :: bytes
  show "wf_wallet x \<Longrightarrow> dec_wallet (enc_wallet x @ r) = Some (x, r)"
    by (simp add: wf_wallet_def dec_wallet_def enc_wallet_def dec_run slots.dec_enc rotation.dec_enc
        wf_any_def)
  show "dec_wallet bs = Some (x, r) \<Longrightarrow> wf_wallet x \<and> bs = enc_wallet x @ r"
    by (auto simp: wf_wallet_def dec_wallet_def enc_wallet_def bind_eq_Some_conv dec_inv
        slots.dec_iff rotation.dec_iff)
  show "wf_wallet x \<Longrightarrow> length (enc_wallet x) = STATE_LEN - DISCRIMINATOR_LEN"
    by (simp add: wf_wallet_def wf_array_def enc_wallet_def enc_array_def u64.enc_length
        u8.enc_length bool.enc_length rotation.enc_length slots_length [of 3] wf_any_def layout_simps)
qed

section \<open>The stored account\<close>

definition zero_wallet :: SmartWallet where
  "zero_wallet = \<lparr>sw_wallet_id = replicate 32 0, sw_active_key = zero_key, sw_nonce = 0,
     sw_attested = False, sw_guardians = replicate MAX_GUARDIANS EMPTY_SLOT,
     sw_rotation = EMPTY_ROTATION, sw_state_bump = 0, sw_vault_bump = 0\<rparr>"

lemma account_data_length: "wf_wallet w \<Longrightarrow> length (account_data w) = STATE_LEN"
  by (simp add: account_data_def wallet.enc_length layout_simps)

lemma wallet_of_account_data: "wf_wallet w \<Longrightarrow> wallet_of_data (account_data w @ r) = Some w"
  by (simp add: wallet_of_data_def account_data_def wallet.dec_enc)

lemma wallet_of_dataD:
  assumes "wallet_of_data bs = Some w"
  obtains r where "wf_wallet w" "bs = account_data w @ r"
proof -
  from assms obtain r where hd: "take 8 bs = DISCRIMINATOR" and d: "dec_wallet (drop 8 bs) = Some (w, r)"
    by (auto simp: wallet_of_data_def split: if_splits)
  from d have wf: "wf_wallet w" and "drop 8 bs = enc_wallet w @ r"
    by (simp_all add: wallet.dec_iff)
  with hd have "bs = account_data w @ r"
    using append_take_drop_id [of 8 bs] by (simp add: account_data_def)
  with wf show ?thesis by (rule that)
qed

lemma zero_wallet_wf: "wf_wallet zero_wallet"
  by (simp add: zero_wallet_def zero_key_def wf_wallet_def wf_array_def wf_list_def list_all_length)

lemma enc_zero_wallet: "enc_wallet zero_wallet = replicate (STATE_LEN - DISCRIMINATOR_LEN) 0"
  by code_simp

text \<open>The state \<open>init_if_needed\<close> just made, all zeros, reads as a new wallet.\<close>

lemma dec_zeros: "dec_wallet (replicate (STATE_LEN - DISCRIMINATOR_LEN) 0) = Some (zero_wallet, [])"
  using wallet.dec_enc_nil [OF zero_wallet_wf] by (simp add: enc_zero_wallet)

lemma is_new_zero_wallet: "is_new zero_wallet"
  by (simp add: is_new_def zero_wallet_def)

lemma field_sizes:
  assumes "wf_wallet w"
  shows "length (sw_wallet_id w) = 32" "length (sw_active_key w) = 33"
    "length (pr_new_key (rs_proposal (sw_rotation w))) = 33"
    "length (enc_list enc_slot (sw_guardians w)) = 198"
  using assms slots_length [of 3 "sw_guardians w"] by (simp_all add: wf_wallet_simps layout_simps)

lemmas account_data_unfold = account_data_def enc_wallet_def enc_rotation_def enc_pending_def
  enc_array_def enc_u64_def enc_u8_def enc_bool_def

lemma guardians_region:
  assumes "wf_wallet w"
  shows "slice GUARDIANS_OFFSET (MAX_GUARDIANS * GUARDIAN_SLOT_LEN) (account_data w)
    = enc_list enc_slot (sw_guardians w)"
  using field_sizes [OF assms] by (simp add: account_data_unfold layout_simps slice_simps)

lemma active_key_bytes:
  "wf_wallet w \<Longrightarrow> slice ACTIVE_KEY_OFFSET 33 (account_data w) = sw_active_key w"
  using field_sizes [of w] by (simp add: account_data_unfold layout_simps slice_simps)

lemma rotation_bytes:
  "wf_wallet w \<Longrightarrow> slice ROTATION_OFFSET 34 (account_data w)
     = enc_bool (rs_pending (sw_rotation w)) @ pr_new_key (rs_proposal (sw_rotation w))"
  using field_sizes [of w]
  by (simp add: account_data_unfold layout_simps slice_simps) (simp add: slice_def)

text \<open>The slots of the guardians, one by one.\<close>

lemma slot_bytes:
  assumes "wf_wallet w" "i < MAX_GUARDIANS"
  shows "slice (guardian_kind_offset i) GUARDIAN_SLOT_LEN (account_data w)
    = enc_slot (sw_guardians w ! i)"
proof -
  from assms(1) obtain a b c where gs: "sw_guardians w = [a, b, c]"
    and wf: "wf_slot a" "wf_slot b" "wf_slot c"
    by (auto simp: wf_wallet_def wf_list_def MAX_GUARDIANS_def length_Suc_conv numeral_3_eq_3)
  have region: "slice GUARDIANS_OFFSET (MAX_GUARDIANS * GUARDIAN_SLOT_LEN) (account_data w)
      = enc_slot a @ enc_slot b @ enc_slot c"
    using guardians_region [OF assms(1)] by (simp add: gs enc_list_def)
  note len = wf [THEN slot.enc_length]
  have "slice (guardian_kind_offset i) GUARDIAN_SLOT_LEN (account_data w)
      = slice (i * GUARDIAN_SLOT_LEN) GUARDIAN_SLOT_LEN
          (slice GUARDIANS_OFFSET (MAX_GUARDIANS * GUARDIAN_SLOT_LEN) (account_data w))"
    using assms(2) by (simp add: slice_slice layout_simps)
  also have "\<dots> = enc_slot ([a, b, c] ! i)"
    using assms(2) len unfolding region
    by (auto simp: layout_simps slice_simps less_Suc_eq numeral_3_eq_3)
  finally show ?thesis by (simp add: gs)
qed

lemma slot_prefix:
  assumes "wf_slot s"
  shows "slice 0 34 (enc_slot s) = enc_kind (slot_kind s) @ slot_key s"
  using assms by (simp add: enc_slot_def enc_kind_def enc_array_def wf_wallet_simps slice_def)

lemma slot_prefix_bytes:
  assumes "wf_wallet w" "i < MAX_GUARDIANS"
  shows "slice (guardian_kind_offset i) 34 (account_data w)
    = enc_kind (slot_kind (sw_guardians w ! i)) @ slot_key (sw_guardians w ! i)"
proof -
  have wf: "wf_slot (sw_guardians w ! i)"
    using assms by (simp add: wf_wallet_def wf_list_def list_all_length)
  have "slice (guardian_kind_offset i) 34 (account_data w)
      = slice 0 34 (slice (guardian_kind_offset i) GUARDIAN_SLOT_LEN (account_data w))"
    by (simp add: slice_slice layout_simps)
  then show ?thesis
    by (simp add: slot_bytes [OF assms] slot_prefix [OF wf])
qed

text \<open>A \<open>memcmp\<close> filter of \<open>getProgramAccounts\<close>.\<close>

definition memcmp :: "nat \<Rightarrow> bytes \<Rightarrow> bytes \<Rightarrow> bool" where
  "memcmp off pat bs \<longleftrightarrow> slice off (length pat) bs = pat"

lemma memcmp_guardian:
  assumes "wf_wallet w" "length k = COMPRESSED_PUBKEY_LEN" "i < MAX_GUARDIANS"
  shows "memcmp (guardian_kind_offset i) (GUARDIAN_KIND_P256 # k) (account_data w)
    \<longleftrightarrow> slot_kind (sw_guardians w ! i) = Kind_P256 \<and> slot_key (sw_guardians w ! i) = k"
  using assms(2) slot_prefix_bytes [OF assms(1,3)]
  by (auto simp: memcmp_def COMPRESSED_PUBKEY_LEN_def enc_kind_def GUARDIAN_KIND_P256_def
      split: GuardianKind.splits)

section \<open>Properties\<close>

text \<open>C35: Anchor reads back what it wrote: the stored bytes of a wallet, whatever follows them,
  decode to that wallet, and any bytes that decode to a wallet start with its encoding.\<close>

theorem wallet_roundtrip:
  "wallet_of_data bs = Some w \<longleftrightarrow> wf_wallet w \<and> (\<exists>r. bs = account_data w @ r)"
  by (auto simp: wallet_of_account_data elim: wallet_of_dataD)

text \<open>Every field of a stored wallet sits at its offset, whatever the wallet holds, and the
  account is \<open>STATE_LEN\<close> bytes long: this is what the \<open>memcmp\<close> filters of a device rely on.\<close>

theorem account_layout:
  assumes "wf_wallet w"
  shows "length (account_data w) = STATE_LEN
    \<and> slice 0 DISCRIMINATOR_LEN (account_data w) = DISCRIMINATOR
    \<and> slice WALLET_ID_OFFSET 32 (account_data w) = sw_wallet_id w
    \<and> slice ACTIVE_KEY_OFFSET 33 (account_data w) = sw_active_key w
    \<and> slice NONCE_OFFSET 8 (account_data w) = word_to_le 8 (sw_nonce w)
    \<and> slice ATTESTED_OFFSET 1 (account_data w) = enc_bool (sw_attested w)
    \<and> slice GUARDIANS_OFFSET (MAX_GUARDIANS * GUARDIAN_SLOT_LEN) (account_data w)
        = enc_list enc_slot (sw_guardians w)
    \<and> slice ROTATION_OFFSET 1 (account_data w) = enc_bool (rs_pending (sw_rotation w))
    \<and> slice ROTATION_NEW_KEY_OFFSET 33 (account_data w)
        = pr_new_key (rs_proposal (sw_rotation w))
    \<and> slice ROTATION_PROPOSED_AT_OFFSET 8 (account_data w)
        = word_to_le 8 (pr_proposed_at (rs_proposal (sw_rotation w)))
    \<and> slice ROTATION_PROPOSED_BY_OFFSET 1 (account_data w)
        = [pr_proposed_by (rs_proposal (sw_rotation w))]
    \<and> slice STATE_BUMP_OFFSET 1 (account_data w) = [sw_state_bump w]
    \<and> slice VAULT_BUMP_OFFSET 1 (account_data w) = [sw_vault_bump w]"
  using field_sizes [OF assms] account_data_length [OF assms]
  by (simp add: account_data_unfold layout_simps slice_simps)

text \<open>C36: the three device filters find exactly the wallets they are meant to find: those whose
  active key is \<open>k\<close>, those that name \<open>k\<close> as a P-256 guardian in slot \<open>i\<close>, and those with a
  pending proposal to move to \<open>k\<close>. A removed key leaves nothing to match.\<close>

theorem device_filters:
  assumes "wf_wallet w" "length k = COMPRESSED_PUBKEY_LEN" "i < MAX_GUARDIANS"
  shows "(memcmp ACTIVE_KEY_OFFSET k (account_data w) \<longleftrightarrow> sw_active_key w = k)
    \<and> (memcmp (guardian_kind_offset i) (GUARDIAN_KIND_P256 # k) (account_data w)
      \<longleftrightarrow> slot_kind (sw_guardians w ! i) = Kind_P256 \<and> slot_key (sw_guardians w ! i) = k)
    \<and> (memcmp ROTATION_OFFSET (1 # k) (account_data w)
      \<longleftrightarrow> rotation_get (sw_rotation w) \<noteq> None \<and> pr_new_key (rs_proposal (sw_rotation w)) = k)"
  using assms(2) active_key_bytes [OF assms(1)] memcmp_guardian [OF assms]
    rotation_bytes [OF assms(1)]
  by (auto simp: memcmp_def COMPRESSED_PUBKEY_LEN_def enc_bool_def rotation_get_def)

definition sample_wallet :: SmartWallet where
  "sample_wallet = zero_wallet\<lparr>sw_active_key := replicate 33 2, sw_nonce := 7,
     sw_guardians := [EMPTY_SLOT, slot_of (Guardian_P256 (replicate 33 3)), EMPTY_SLOT],
     sw_rotation := rotation_new \<lparr>pr_new_key = replicate 33 4, pr_proposed_at = 1000,
       pr_proposed_by = 1\<rparr>\<rparr>"

lemma sample_wallet_wf: "wf_wallet sample_wallet"
  by (simp add: sample_wallet_def zero_wallet_def EMPTY_SLOT_def rotation_new_def zero_key_def
      wf_wallet_simps)

theorem account_layout_witness:
  "slice NONCE_OFFSET 8 (account_data sample_wallet) = word_to_le 8 (7 :: u64)
    \<and> slice ROTATION_NEW_KEY_OFFSET 33 (account_data sample_wallet) = replicate 33 4"
  using account_layout [OF sample_wallet_wf] by (simp add: sample_wallet_def rotation_new_def)

theorem device_filters_witness:
  "memcmp (guardian_kind_offset 1) (GUARDIAN_KIND_P256 # replicate 33 3) (account_data sample_wallet)
    \<and> \<not> memcmp ACTIVE_KEY_OFFSET (replicate 33 3) (account_data sample_wallet)"
  using device_filters [OF sample_wallet_wf, of "replicate 33 3" 1]
  by (simp add: sample_wallet_def layout_simps EMPTY_SLOT_def)

end
