(* ===== verification/Runtime.thy ===== *)
theory Runtime
  imports Precompile Account_Data
begin

text \<open>
  The ledger the program runs on, and the code that is not in the repository, as parameters: the
  SHA-256 of \<open>solana-sha256-hasher\<close>, the derivation of program addresses, the System program's
  transfer, the account creation behind \<open>init_if_needed\<close>, the tag that begins the data of Anchor's
  event instructions (\<open>EVENT_IX_TAG_LE\<close>), and the values of the sysvars (the
  \<open>Clock\<close>, the \<open>Rent\<close>, the previous instruction). What the program relies on is stated as named
  contracts (\<open>transfer_contract\<close>, \<open>pda_contract\<close>, \<open>init_contract\<close>); a property that needs one has it
  as a hypothesis, and \<open>demo_runtime\<close> is a concrete runtime that satisfies all of them.
\<close>

section \<open>The ledger\<close>

record Account =
  acc_lamports :: u64
  acc_owner :: pubkey
  acc_data :: bytes

type_synonym bank = "pubkey \<Rightarrow> Account"

abbreviation lamports_of :: "bank \<Rightarrow> pubkey \<Rightarrow> u64" where
  "lamports_of b a \<equiv> acc_lamports (b a)"

definition debit :: "pubkey \<Rightarrow> u64 \<Rightarrow> bank \<Rightarrow> bank" where
  "debit a n b = b(a := (b a)\<lparr>acc_lamports := acc_lamports (b a) - n\<rparr>)"

definition credit :: "pubkey \<Rightarrow> u64 \<Rightarrow> bank \<Rightarrow> bank" where
  "credit a n b = b(a := (b a)\<lparr>acc_lamports := acc_lamports (b a) + n\<rparr>)"

definition move_lamports :: "pubkey \<Rightarrow> pubkey \<Rightarrow> u64 \<Rightarrow> bank \<Rightarrow> bank" where
  "move_lamports src dst n b = credit dst n (debit src n b)"

lemma move_lamports_self: "move_lamports a a n b = b"
  by (simp add: move_lamports_def debit_def credit_def)

lemma move_lamports_zero [simp]: "move_lamports src dst 0 b = b"
  by (simp add: move_lamports_def debit_def credit_def)

lemma move_lamports_lamports:
  "src \<noteq> dst \<Longrightarrow> lamports_of (move_lamports src dst n b) a =
     (if a = src then lamports_of b src - n
      else if a = dst then lamports_of b dst + n else lamports_of b a)"
  by (simp add: move_lamports_def debit_def credit_def)

lemma move_lamports_frame [simp]:
  "acc_owner (move_lamports src dst n b a) = acc_owner (b a)"
  "acc_data (move_lamports src dst n b a) = acc_data (b a)"
  by (simp_all add: move_lamports_def debit_def credit_def)

lemma move_lamports_other: "a \<noteq> src \<Longrightarrow> a \<noteq> dst \<Longrightarrow> move_lamports src dst n b a = b a"
  by (simp add: move_lamports_def debit_def credit_def)

section \<open>Third-party code\<close>

record runtime =
  rt_sha256 :: "bytes \<Rightarrow> bytes"
  rt_create_program_address :: "bytes list \<Rightarrow> pubkey option"
  rt_find_program_address :: "bytes list \<Rightarrow> pubkey \<times> byte"
  rt_transfer :: "bytes list \<Rightarrow> pubkey \<Rightarrow> pubkey \<Rightarrow> u64 \<Rightarrow> bank \<Rightarrow> error + bank"
  rt_init :: "pubkey \<Rightarrow> bytes list \<Rightarrow> pubkey \<Rightarrow> nat \<Rightarrow> bank \<Rightarrow> error + bank"
  rt_system_program :: pubkey
  rt_instructions_sysvar :: pubkey
  rt_event_tag :: bytes

text \<open>The sysvars, read by \<open>Clock::get()\<close>, \<open>Rent::get()\<close> and \<open>get_instruction_relative(-1, ..)\<close>,
  each of which can fail.\<close>

record env =
  env_clock :: "error + i64"
  env_rent :: "error + (nat \<Rightarrow> u64)"
  env_previous :: "error + Instruction"

text \<open>System's transfer, signed with seeds: it succeeds exactly when the seeds derive the source,
  the source is a System account without data that holds the amount, and the destination's balance
  does not overflow; then it moves the amount.\<close>

definition transfer_allowed ::
  "runtime \<Rightarrow> bytes list \<Rightarrow> pubkey \<Rightarrow> pubkey \<Rightarrow> u64 \<Rightarrow> bank \<Rightarrow> bool" where
  "transfer_allowed rt seeds src dst n b \<longleftrightarrow>
     rt_create_program_address rt seeds = Some src
     \<and> acc_owner (b src) = rt_system_program rt
     \<and> acc_data (b src) = []
     \<and> n \<le> lamports_of b src
     \<and> (src \<noteq> dst \<longrightarrow> unat (lamports_of b dst) + unat n < 2 ^ 64)"

definition transfer_contract :: "runtime \<Rightarrow> bool" where
  "transfer_contract rt \<longleftrightarrow>
     (\<forall>seeds src dst n b b'. rt_transfer rt seeds src dst n b = Inr b' \<longleftrightarrow>
        transfer_allowed rt seeds src dst n b \<and> b' = move_lamports src dst n b)"

text \<open>\<open>find_program_address\<close> returns an address and the bump that makes
  \<open>create_program_address\<close> return it.\<close>

definition pda_contract :: "runtime \<Rightarrow> bool" where
  "pda_contract rt \<longleftrightarrow>
     (\<forall>seeds. rt_create_program_address rt (seeds @ [[snd (rt_find_program_address rt seeds)]])
        = Some (fst (rt_find_program_address rt seeds)))"

text \<open>Account creation: on success the new account belongs to the program and is all zeros; only
  the payer pays, and nothing else changes.\<close>

definition init_contract :: "runtime \<Rightarrow> bool" where
  "init_contract rt \<longleftrightarrow>
     (\<forall>payer seeds addr space b b'. rt_init rt payer seeds addr space b = Inr b' \<longrightarrow>
        acc_owner (b' addr) = PROGRAM_ID \<and> acc_data (b' addr) = replicate space 0
        \<and> lamports_of b addr \<le> lamports_of b' addr
        \<and> (\<forall>a. a \<noteq> addr \<longrightarrow> acc_owner (b' a) = acc_owner (b a) \<and> acc_data (b' a) = acc_data (b a))
        \<and> (\<forall>a. a \<noteq> addr \<longrightarrow> a \<noteq> payer \<longrightarrow> lamports_of b' a = lamports_of b a))"

lemma transfer_iff:
  "transfer_contract rt \<Longrightarrow> rt_transfer rt seeds src dst n b = Inr b' \<longleftrightarrow>
     transfer_allowed rt seeds src dst n b \<and> b' = move_lamports src dst n b"
  by (simp add: transfer_contract_def)

lemma find_creates:
  "pda_contract rt \<Longrightarrow> rt_find_program_address rt seeds = (a, bump) \<Longrightarrow>
   rt_create_program_address rt (seeds @ [[bump]]) = Some a"
  by (metis fst_conv pda_contract_def snd_conv)

text \<open>The addresses of a wallet: its state and its vault.\<close>

definition wallet_pda :: "runtime \<Rightarrow> bytes \<Rightarrow> pubkey \<times> byte" where
  "wallet_pda rt wid = rt_find_program_address rt [WALLET_SEED, wid]"

definition vault_pda :: "runtime \<Rightarrow> bytes \<Rightarrow> pubkey \<times> byte" where
  "vault_pda rt wid = rt_find_program_address rt [VAULT_SEED, wid]"

section \<open>A concrete runtime\<close>

text \<open>For the witnesses: the only bump is 255, addresses are the padded other seeds, the hash a padded
  reversed copy.\<close>

definition pad32 :: "bytes \<Rightarrow> bytes" where
  "pad32 xs = take 32 (xs @ replicate 32 0)"

definition demo_address :: "bytes list \<Rightarrow> pubkey option" where
  "demo_address seeds =
     (if seeds \<noteq> [] \<and> last seeds = [255] then Some (pad32 (concat (butlast seeds))) else None)"

definition demo_transfer ::
  "bytes list \<Rightarrow> pubkey \<Rightarrow> pubkey \<Rightarrow> u64 \<Rightarrow> bank \<Rightarrow> error + bank" where
  "demo_transfer seeds src dst n b =
     (if demo_address seeds = Some src \<and> acc_owner (b src) = replicate 32 0
         \<and> acc_data (b src) = [] \<and> n \<le> lamports_of b src
         \<and> (src \<noteq> dst \<longrightarrow> unat (lamports_of b dst) + unat n < 2 ^ 64)
      then Inr (move_lamports src dst n b) else Inl (External 1))"

definition demo_init :: "pubkey \<Rightarrow> bytes list \<Rightarrow> pubkey \<Rightarrow> nat \<Rightarrow> bank \<Rightarrow> error + bank" where
  "demo_init payer seeds addr space b =
     (if addr \<noteq> payer \<and> 2301240 \<le> lamports_of b payer \<and> lamports_of b addr = 0
      then Inr ((move_lamports payer addr 2301240 b)
        (addr := \<lparr>acc_lamports = 2301240, acc_owner = PROGRAM_ID, acc_data = replicate space 0\<rparr>))
      else Inl (External 1))"

definition demo_runtime :: runtime where
  "demo_runtime = \<lparr>
     rt_sha256 = (\<lambda>bs. pad32 (rev bs)),
     rt_create_program_address = demo_address,
     rt_find_program_address = (\<lambda>seeds. (pad32 (concat seeds), 255)),
     rt_transfer = demo_transfer,
     rt_init = demo_init,
     rt_system_program = replicate 32 0,
     rt_instructions_sysvar = replicate 32 9,
     rt_event_tag = replicate 8 0xEE\<rparr>"

lemma demo_runtime_contracts:
  "transfer_contract demo_runtime" "pda_contract demo_runtime" "init_contract demo_runtime"
proof -
  show "transfer_contract demo_runtime"
    by (auto simp: transfer_contract_def transfer_allowed_def demo_runtime_def demo_transfer_def)
  show "pda_contract demo_runtime"
    by (simp add: pda_contract_def demo_runtime_def demo_address_def)
  show "init_contract demo_runtime"
    by (auto simp: init_contract_def demo_runtime_def demo_init_def move_lamports_other
        split: if_splits)
qed

end
