(* ===== verification/Authorization.thy ===== *)
theory Authorization
  imports Runtime
begin

text \<open>
  \<open>programs/enclavekit/src/authorization.rs\<close>: the check every signed instruction starts with, and
  the two ways lamports leave a vault. \<open>verify_enclave_authorization\<close> takes the wallet it may
  fill and returns the signing key with the wallet as it leaves it.
\<close>

record Authorization =
  auth_wallet_id :: bytes
  auth_nonce :: u64
  auth_expires_at :: i64
  auth_max_relayer_fee :: u64

lemma authorization_eta [simp]:
  "\<lparr>auth_wallet_id = auth_wallet_id a, auth_nonce = auth_nonce a,
     auth_expires_at = auth_expires_at a, auth_max_relayer_fee = auth_max_relayer_fee a\<rparr> = a"
  by (cases a) simp

definition created_wallet :: "bytes \<Rightarrow> bytes \<Rightarrow> byte \<Rightarrow> byte \<Rightarrow> SmartWallet" where
  "created_wallet wid key state_bump vault_bump =
     \<lparr>sw_wallet_id = wid, sw_active_key = key, sw_nonce = 0, sw_attested = False,
      sw_guardians = replicate MAX_GUARDIANS EMPTY_SLOT, sw_rotation = EMPTY_ROTATION,
      sw_state_bump = state_bump, sw_vault_bump = vault_bump\<rparr>"

definition expected_preimage :: "Authorization \<Rightarrow> Action \<Rightarrow> Preimage" where
  "expected_preimage auth action =
     \<lparr>pre_program_id = PROGRAM_ID, pre_wallet_id = auth_wallet_id auth,
      pre_nonce = auth_nonce auth, pre_expires_at = auth_expires_at auth,
      pre_max_relayer_fee = auth_max_relayer_fee auth, pre_action = action\<rparr>"

definition verify_enclave_authorization ::
  "runtime \<Rightarrow> env \<Rightarrow> SmartWallet \<Rightarrow> Authorization \<Rightarrow> Action \<Rightarrow> byte \<Rightarrow> byte
     \<Rightarrow> error + bytes \<times> SmartWallet" where
  "verify_enclave_authorization rt env wallet auth action state_bump vault_bump =
     and_then (load_secp256r1_payload (env_previous env)) (\<lambda>payload.
     and_then
       (if is_new wallet
        then and_then (require_that (rt_sha256 rt (pl_pubkey payload) = auth_wallet_id auth)
                 (EnclaveKit WalletIdMismatch)) (\<lambda>_.
               Inr (created_wallet (auth_wallet_id auth) (pl_pubkey payload) state_bump vault_bump))
        else Inr wallet) (\<lambda>wallet.
     and_then (require_that (auth_nonce auth = sw_nonce wallet) (EnclaveKit NonceMismatch)) (\<lambda>_.
     and_then (env_clock env) (\<lambda>now.
     and_then (require_that (sint (auth_expires_at auth) > sint now)
       (EnclaveKit AuthorizationExpired)) (\<lambda>_.
     and_then (require_that (to_bytes (expected_preimage auth action) = pl_message payload)
       (EnclaveKit PreimageMismatch)) (\<lambda>_.
     and_then (ok_or (checked_add (sw_nonce wallet) 1) ArithmeticOverflow) (\<lambda>n.
     Inr (pl_pubkey payload, wallet\<lparr>sw_nonce := n\<rparr>))))))))"

definition require_active_key :: "SmartWallet \<Rightarrow> bytes \<Rightarrow> error + unit" where
  "require_active_key wallet signer =
     require_that (signer = sw_active_key wallet) (EnclaveKit KeyMismatch)"

definition transfer_from_vault ::
  "runtime \<Rightarrow> SmartWallet \<Rightarrow> pubkey \<Rightarrow> pubkey \<Rightarrow> u64 \<Rightarrow> bank \<Rightarrow> error + bank" where
  "transfer_from_vault rt wallet vault dst n b =
     rt_transfer rt [VAULT_SEED, sw_wallet_id wallet, [sw_vault_bump wallet]] vault dst n b"

definition refund_relayer ::
  "runtime \<Rightarrow> SmartWallet \<Rightarrow> pubkey \<Rightarrow> pubkey \<Rightarrow> u64 \<Rightarrow> u64 \<Rightarrow> bank \<Rightarrow> error + u64 \<times> bank" where
  "refund_relayer rt wallet vault relayer relayer_fee max_relayer_fee b =
     (let refund = min relayer_fee max_relayer_fee in
      and_then (transfer_from_vault rt wallet vault relayer refund b) (\<lambda>b.
      Inr (refund, b)))"

section \<open>What a passed check means\<close>

text \<open>The wallet that is checked: the stored one, or on first use the one just made.\<close>

definition checked_wallet :: "SmartWallet \<Rightarrow> Authorization \<Rightarrow> bytes \<Rightarrow> byte \<Rightarrow> byte \<Rightarrow> SmartWallet" where
  "checked_wallet wallet auth signer state_bump vault_bump =
     (if is_new wallet then created_wallet (auth_wallet_id auth) signer state_bump vault_bump
      else wallet)"

lemma verify_Inr_iff:
  "verify_enclave_authorization rt env wallet auth action sb vb = Inr (signer, w') \<longleftrightarrow>
     (\<exists>pl now. load_secp256r1_payload (env_previous env) = Inr pl \<and> env_clock env = Inr now
        \<and> signer = pl_pubkey pl
        \<and> (is_new wallet \<longrightarrow> rt_sha256 rt signer = auth_wallet_id auth)
        \<and> auth_nonce auth = sw_nonce (checked_wallet wallet auth signer sb vb)
        \<and> sint now < sint (auth_expires_at auth)
        \<and> pl_message pl = to_bytes (expected_preimage auth action)
        \<and> unat (auth_nonce auth) + 1 < 2 ^ 64
        \<and> w' = (checked_wallet wallet auth signer sb vb)\<lparr>sw_nonce := auth_nonce auth + 1\<rparr>)"
  by (cases "is_new wallet")
    (auto simp: verify_enclave_authorization_def result_simps checked_wallet_def checked_add_def
      split: if_splits)

lemma require_active_key_iff [result_simps]:
  "require_active_key w signer = Inr u \<longleftrightarrow> signer = sw_active_key w"
  by (simp add: require_active_key_def result_simps)

lemma transfer_from_vault_iff:
  "transfer_contract rt \<Longrightarrow> transfer_from_vault rt w vault dst n b = Inr b' \<longleftrightarrow>
     transfer_allowed rt [VAULT_SEED, sw_wallet_id w, [sw_vault_bump w]] vault dst n b
     \<and> b' = move_lamports vault dst n b"
  by (simp add: transfer_from_vault_def transfer_iff)

lemma refund_relayer_iff:
  "transfer_contract rt \<Longrightarrow> refund_relayer rt w vault relayer fee cap b = Inr (refund, b') \<longleftrightarrow>
     refund = min fee cap
     \<and> transfer_allowed rt [VAULT_SEED, sw_wallet_id w, [sw_vault_bump w]] vault relayer refund b
     \<and> b' = move_lamports vault relayer refund b"
  by (auto simp: refund_relayer_def Let_def result_simps transfer_from_vault_iff)

lemma expected_preimage_wf:
  "length (auth_wallet_id auth) = 32 \<Longrightarrow> wf_action a \<Longrightarrow> wf_preimage (expected_preimage auth a)"
  by (simp add: expected_preimage_def wf_preimage_def wf_array_def)

section \<open>Payout and refund\<close>

text \<open>One transfer, then two in a row out of the same vault, in unbounded arithmetic.\<close>

lemma move_unat:
  assumes "transfer_allowed rt seeds src dst n b" "src \<noteq> dst"
  shows "unat (lamports_of (move_lamports src dst n b) src) = unat (lamports_of b src) - unat n"
    and "unat (lamports_of (move_lamports src dst n b) dst) = unat (lamports_of b dst) + unat n"
    and "unat n \<le> unat (lamports_of b src)"
proof -
  from assms have n: "n \<le> lamports_of b src"
    and fits: "unat (lamports_of b dst) + unat n < 2 ^ 64"
    by (simp_all add: transfer_allowed_def)
  from n show "unat (lamports_of (move_lamports src dst n b) src) = unat (lamports_of b src) - unat n"
    using assms(2) by (simp add: move_lamports_lamports unat_sub)
  from fits show "unat (lamports_of (move_lamports src dst n b) dst) = unat (lamports_of b dst) + unat n"
    using assms(2) by (simp add: move_lamports_lamports unat_word_ariths)
  from n show "unat n \<le> unat (lamports_of b src)"
    by (simp add: word_le_nat_alt)
qed

definition paid_out :: "bank \<Rightarrow> bank \<Rightarrow> pubkey \<Rightarrow> pubkey \<Rightarrow> pubkey \<Rightarrow> u64 \<Rightarrow> u64 \<Rightarrow> bool" where
  "paid_out b b' vault dst relayer n refund \<longleftrightarrow>
     unat n + unat refund \<le> unat (lamports_of b vault)
     \<and> unat (lamports_of b' vault) = unat (lamports_of b vault) - unat n - unat refund
     \<and> (dst \<noteq> relayer \<longrightarrow>
          unat (lamports_of b' dst) = unat (lamports_of b dst) + unat n
          \<and> unat (lamports_of b' relayer) = unat (lamports_of b relayer) + unat refund)
     \<and> (dst = relayer \<longrightarrow>
          unat (lamports_of b' dst) = unat (lamports_of b dst) + unat n + unat refund)
     \<and> (\<forall>a. a \<notin> {vault, dst, relayer} \<longrightarrow> b' a = b a)"

lemma payout_then_refund:
  assumes "transfer_allowed rt seeds vault dst n b"
    and "transfer_allowed rt seeds' vault relayer refund (move_lamports vault dst n b)"
    and "vault \<noteq> dst" "vault \<noteq> relayer"
  shows "paid_out b (move_lamports vault relayer refund (move_lamports vault dst n b))
    vault dst relayer n refund"
proof -
  note one = move_unat [OF assms(1,3)] and two = move_unat [OF assms(2,4)]
  have other: "lamports_of (move_lamports s d k c) a = lamports_of c a"
    if "a \<noteq> s" "a \<noteq> d" for s d k c a
    using that by (simp add: move_lamports_other)
  show ?thesis
    unfolding paid_out_def using one two assms(3,4)
    by (auto simp: other move_lamports_other)
qed

text \<open>Enough lamports for the amount, the cap and the rent are enough for both transfers, whatever
  fee the relayer asks, if nobody's balance overflows.\<close>

lemma transfer_allowed_both:
  assumes "rt_create_program_address rt seeds = Some v"
    "acc_owner (b v) = rt_system_program rt" "acc_data (b v) = []" "v \<noteq> d" "v \<noteq> r"
    "unat n + unat cap \<le> unat (lamports_of b v)"
    "unat (lamports_of b d) + unat n + unat cap < 2 ^ 64"
    "unat (lamports_of b r) + unat n + unat cap < 2 ^ 64" "refund \<le> cap"
  shows "transfer_allowed rt seeds v d n b
    \<and> transfer_allowed rt seeds v r refund (move_lamports v d n b)"
proof -
  have one: "transfer_allowed rt seeds v d n b"
    using assms by (simp add: transfer_allowed_def word_le_nat_alt)
  note move = move_unat [OF one assms(4)]
  have "unat refund \<le> unat cap" using assms(9) by (simp add: word_le_nat_alt)
  moreover have "unat (lamports_of (move_lamports v d n b) r) \<le> unat (lamports_of b r) + unat n"
    using move(2) assms(5) by (cases "r = d") (simp_all add: move_lamports_other)
  ultimately have "transfer_allowed rt seeds v r refund (move_lamports v d n b)"
    using assms move(1) by (simp add: transfer_allowed_def word_le_nat_alt)
  with one show ?thesis by simp
qed

end
