(* ===== verification/Wallet_Invariant.thy ===== *)
theory Wallet_Invariant
  imports Authorization
begin

text \<open>
  The invariant of a wallet that exists: its arrays have their sizes, its key is set, it was never
  attested (no code of the program sets the flag), a guardian slot is empty or a P-256 key (no
  WebAuthn kind in v1, no rpId hash), and the rotation slot is all zeros or a proposal for a
  non-zero key made by a slot that still holds a guardian. The operations on the parts keep it.
\<close>

definition good_slot :: "GuardianSlot \<Rightarrow> bool" where
  "good_slot s \<longleftrightarrow> wf_slot s \<and>
     (s = EMPTY_SLOT \<or> s = EMPTY_SLOT\<lparr>slot_kind := Kind_P256, slot_key := slot_key s\<rparr>)"

definition good_rotation :: "GuardianSlot list \<Rightarrow> RotationSlot \<Rightarrow> bool" where
  "good_rotation gs s \<longleftrightarrow> wf_rotation s \<and>
     (if rs_pending s
      then (let p = rs_proposal s; i = unat (pr_proposed_by p) in
            pr_new_key p \<noteq> zero_key \<and> i < MAX_GUARDIANS \<and> slot_kind (gs ! i) = Kind_P256)
      else s = EMPTY_ROTATION)"

definition wallet_inv :: "SmartWallet \<Rightarrow> bool" where
  "wallet_inv w \<longleftrightarrow> wf_wallet w \<and> \<not> is_new w \<and> \<not> sw_attested w
     \<and> list_all good_slot (sw_guardians w)
     \<and> good_rotation (sw_guardians w) (sw_rotation w)"

lemma wallet_invD:
  assumes "wallet_inv w"
  shows "wf_wallet w" "\<not> is_new w" "\<not> sw_attested w" "length (sw_guardians w) = MAX_GUARDIANS"
    "length (sw_active_key w) = COMPRESSED_PUBKEY_LEN" "length (sw_wallet_id w) = 32"
  using assms by (simp_all add: wallet_inv_def wf_wallet_def wf_list_def wf_array_def)

lemma wallet_inv_nonce [simp]: "wallet_inv (w\<lparr>sw_nonce := n\<rparr>) \<longleftrightarrow> wallet_inv w"
  by (simp add: wallet_inv_def wf_wallet_def is_new_def)

lemma good_rotation_EMPTY [simp]: "good_rotation gs EMPTY_ROTATION"
  by (simp add: good_rotation_def) (simp add: EMPTY_ROTATION_def)

lemma good_slot_EMPTY [simp]: "good_slot EMPTY_SLOT"
  by (simp add: good_slot_def)

lemma created_wallet_inv:
  "length wid = 32 \<Longrightarrow> length key = COMPRESSED_PUBKEY_LEN \<Longrightarrow> key \<noteq> zero_key \<Longrightarrow>
   wallet_inv (created_wallet wid key sb vb)"
  by (simp add: wallet_inv_def created_wallet_def wf_wallet_def wf_array_def wf_list_def is_new_def
      list_all_length)

text \<open>The wallet a passed check leaves. The precompile verifies the signature before the program
  runs, so the key it reports is never the all-zero array, which is no curve point.\<close>

definition signer_key_set :: "env \<Rightarrow> bool" where
  "signer_key_set env \<longleftrightarrow>
     (\<forall>pl. load_secp256r1_payload (env_previous env) = Inr pl \<longrightarrow> pl_pubkey pl \<noteq> zero_key)"

lemma verify_inv:
  assumes "verify_enclave_authorization rt env w auth action sb vb = Inr (signer, w1)"
    and "signer_key_set env" "length (auth_wallet_id auth) = 32" "is_new w \<or> wallet_inv w"
  shows "wallet_inv w1"
proof -
  from assms(1) obtain pl where pl: "load_secp256r1_payload (env_previous env) = Inr pl"
    and signer: "signer = pl_pubkey pl"
    and w1: "w1 = (checked_wallet w auth signer sb vb)\<lparr>sw_nonce := auth_nonce auth + 1\<rparr>"
    by (auto simp: verify_Inr_iff)
  from pl have "length signer = COMPRESSED_PUBKEY_LEN"
    by (auto simp: load_payload_iff signer)
  moreover from pl assms(2) have "signer \<noteq> zero_key"
    by (simp add: signer_key_set_def signer)
  ultimately have "wallet_inv (checked_wallet w auth signer sb vb)"
    using assms(3,4) by (auto simp: checked_wallet_def created_wallet_inv)
  then show ?thesis by (simp add: w1)
qed

text \<open>The updates the handlers make.\<close>

lemma wallet_inv_rotate:
  assumes "wallet_inv w" "length k = COMPRESSED_PUBKEY_LEN" "k \<noteq> zero_key"
  shows "wallet_inv (w\<lparr>sw_active_key := k, sw_attested := False, sw_rotation := EMPTY_ROTATION\<rparr>)"
  using assms by (simp add: wallet_inv_def wf_wallet_def wf_array_def is_new_def)

lemma wallet_inv_clear: "wallet_inv w \<Longrightarrow> wallet_inv (w\<lparr>sw_rotation := EMPTY_ROTATION\<rparr>)"
  by (simp add: wallet_inv_def wf_wallet_def is_new_def)

lemma wallet_inv_propose:
  assumes "wallet_inv w" "p256_guardian w signer = Some slot"
    and "length k = COMPRESSED_PUBKEY_LEN" "k \<noteq> zero_key"
  shows "wallet_inv (w\<lparr>sw_rotation := rotation_new
    \<lparr>pr_new_key = k, pr_proposed_at = now, pr_proposed_by = of_nat slot\<rparr>\<rparr>)"
proof -
  have "slot < MAX_GUARDIANS" "slot_kind (sw_guardians w ! slot) = Kind_P256"
    using assms(2) wallet_invD(4) [OF assms(1)] by (auto simp: p256_guardian_def position_Some_iff)
  then show ?thesis
    using assms(1,3,4)
    by (simp add: wallet_inv_def wf_wallet_def is_new_def good_rotation_def wf_rotation_def
        wf_pending_def wf_array_def rotation_new_def Let_def unsigned_of_nat MAX_GUARDIANS_def
        take_bit_nat_eq_self)
qed

definition wf_guardian :: "Guardian \<Rightarrow> bool" where
  "wf_guardian g \<longleftrightarrow> wf_eguardian (eguardian_of g)"

definition is_webauthn :: "Guardian \<Rightarrow> bool" where
  "is_webauthn g \<longleftrightarrow> (case g of Guardian_WebAuthn _ \<Rightarrow> True | _ \<Rightarrow> False)"

lemma good_slot_of: "wf_guardian g \<Longrightarrow> \<not> is_webauthn g \<Longrightarrow> good_slot (slot_of g)"
  by (cases g) (simp_all add: wf_guardian_def is_webauthn_def good_slot_def wf_slot_def EMPTY_SLOT_def
      wf_array_def zero_key_def)

lemma wallet_inv_guardians:
  assumes "wallet_inv w" "wf_list wf_guardian MAX_GUARDIANS gs" "\<not> list_ex is_webauthn gs"
  shows "wallet_inv (w\<lparr>sw_guardians := map slot_of gs, sw_rotation := EMPTY_ROTATION\<rparr>)"
proof -
  have good: "list_all good_slot (map slot_of gs)"
    using assms(2,3) by (auto simp: wf_list_def list_all_iff list_ex_iff intro: good_slot_of)
  then have "list_all wf_slot (map slot_of gs)"
    by (auto simp: list_all_iff good_slot_def)
  with good assms(1,2) show ?thesis
    by (simp add: wallet_inv_def wf_wallet_def wf_list_def is_new_def)
qed

end
