(* ===== verification/Accounts_Context.thy ===== *)
theory Accounts_Context
  imports Wallet_Invariant
begin

text \<open>
  What the instruction theories share: the events of \<open>events.rs\<close>, the accounts of an instruction,
  and the checks that the \<open>#[derive(Accounts)]\<close> attributes of the instruction files declare
  (\<open>mut\<close>, \<open>seeds\<close>, \<open>bump\<close>, \<open>address\<close>, \<open>init_if_needed\<close>, \<open>close\<close>, the types \<open>Account\<close>,
  \<open>SystemAccount\<close>, \<open>Signer\<close> and \<open>Program\<close>), with the documented meaning of each attribute; the
  order in which Anchor runs them decides only which error a rejected instruction gets. Then the
  interface \<open>signed_handler\<close>, which every enclave-signed handler satisfies, with what follows from
  it once for all of them. One record holds the accounts of all instructions; an instruction uses
  the fields its struct declares.
\<close>

section \<open>Events\<close>

datatype Event =
    WalletCreated bytes bytes \<comment> \<open>\<open>wallet_id\<close>, \<open>key\<close>\<close>
  | SolTransferred bytes pubkey u64 u64 \<comment> \<open>\<open>wallet_id\<close>, \<open>to\<close>, \<open>lamports\<close>, \<open>relayer_fee\<close>\<close>
  | VaultSwept bytes pubkey u64 u64
  | WalletClosed bytes pubkey u64 u64
  | GuardiansSet bytes "Guardian list" \<comment> \<open>\<open>wallet_id\<close>, \<open>guardians\<close>\<close>
  | RotationProposed bytes bytes bytes i64 \<comment> \<open>\<open>wallet_id\<close>, \<open>new_key\<close>, \<open>guardian\<close>, \<open>opens_at\<close>\<close>
  | RotationCancelled bytes bytes \<comment> \<open>\<open>wallet_id\<close>, \<open>new_key\<close>\<close>
  | KeyRotated bytes bytes bool \<comment> \<open>\<open>wallet_id\<close>, \<open>new_key\<close>, \<open>recovery\<close>\<close>

section \<open>Accounts and their checks\<close>

record Accounts =
  ac_wallet :: AccountMeta
  ac_vault :: AccountMeta
  ac_to :: AccountMeta
  ac_relayer :: AccountMeta
  ac_instructions_sysvar :: AccountMeta
  ac_system_program :: AccountMeta
  ac_event_authority :: AccountMeta
  ac_program :: AccountMeta

abbreviation wallet_key :: "Accounts \<Rightarrow> pubkey" where
  "wallet_key ac \<equiv> meta_pubkey (ac_wallet ac)"

abbreviation vault_key :: "Accounts \<Rightarrow> pubkey" where
  "vault_key ac \<equiv> meta_pubkey (ac_vault ac)"

abbreviation to_key :: "Accounts \<Rightarrow> pubkey" where
  "to_key ac \<equiv> meta_pubkey (ac_to ac)"

abbreviation relayer_key :: "Accounts \<Rightarrow> pubkey" where
  "relayer_key ac \<equiv> meta_pubkey (ac_relayer ac)"

definition require_mut :: "AccountMeta \<Rightarrow> error + unit" where
  "require_mut m = require_that (meta_is_writable m) (Anchor ConstraintMut)"

text \<open>\<open>Account<SmartWallet>\<close>: what Anchor reads before the handler runs.\<close>

definition read_wallet :: "runtime \<Rightarrow> pubkey \<Rightarrow> bank \<Rightarrow> error + SmartWallet" where
  "read_wallet rt a b =
     and_then (require_that (\<not> (acc_owner (b a) = rt_system_program rt \<and> lamports_of b a = 0))
       (Anchor AccountNotInitialized)) (\<lambda>_.
     and_then (require_that (acc_owner (b a) = PROGRAM_ID)
       (Anchor AccountOwnedByWrongProgram)) (\<lambda>_.
     ok_or (wallet_of_data (acc_data (b a))) (Anchor AccountDidNotDeserialize)))"

text \<open>What Anchor writes back after the handler: the serialised wallet, over the old bytes.\<close>

definition store_wallet :: "pubkey \<Rightarrow> SmartWallet \<Rightarrow> bank \<Rightarrow> bank" where
  "store_wallet a w b =
     b(a := (b a)\<lparr>acc_data := account_data w @ drop (length (account_data w)) (acc_data (b a))\<rparr>)"

text \<open>\<open>InitSpace\<close>: the sum of the sizes of the fields.\<close>

definition INIT_SPACE :: nat where
  [layout_simps]: "INIT_SPACE = 32 + COMPRESSED_PUBKEY_LEN + 8 + 1
     + MAX_GUARDIANS * (1 + COMPRESSED_PUBKEY_LEN + 32)
     + (1 + (COMPRESSED_PUBKEY_LEN + 8 + 1)) + 1 + 1"

text \<open>The compile-time assertion of \<open>state.rs\<close>.\<close>

lemma INIT_SPACE_matches: "length DISCRIMINATOR + INIT_SPACE = STATE_LEN"
  by (simp add: layout_simps)

text \<open>\<open>init_if_needed, payer = relayer, space, seeds, bump\<close>: the wallet, its bump, and the ledger in
  which it exists. An account that still belongs to the System program is created first.\<close>

definition load_or_init_wallet ::
  "runtime \<Rightarrow> Accounts \<Rightarrow> bytes \<Rightarrow> bank \<Rightarrow> error + SmartWallet \<times> byte \<times> bank" where
  "load_or_init_wallet rt ac wid b =
     (let a = wallet_key ac; bump = snd (wallet_pda rt wid) in
      and_then (require_that (a = fst (wallet_pda rt wid)) (Anchor ConstraintSeeds)) (\<lambda>_.
      and_then (require_mut (ac_wallet ac)) (\<lambda>_.
      if acc_owner (b a) = rt_system_program rt
      then and_then (rt_init rt (relayer_key ac) [WALLET_SEED, wid, [bump]] a
               (length DISCRIMINATOR + INIT_SPACE) b) (\<lambda>b'.
           and_then (ok_or (dec_wallet (drop 8 (acc_data (b' a)))) (Anchor AccountDidNotDeserialize))
             (\<lambda>(w, _). Inr (w, bump, b')))
      else and_then (read_wallet rt a b) (\<lambda>w.
           and_then (require_that (length (acc_data (b a)) = length DISCRIMINATOR + INIT_SPACE)
             (Anchor ConstraintSpace)) (\<lambda>_.
           Inr (w, bump, b))))))"

text \<open>\<open>mut, seeds, bump = wallet.state_bump\<close>: the wallet must exist.\<close>

definition load_wallet :: "runtime \<Rightarrow> Accounts \<Rightarrow> bytes \<Rightarrow> bank \<Rightarrow> error + SmartWallet" where
  "load_wallet rt ac wid b =
     and_then (read_wallet rt (wallet_key ac) b) (\<lambda>w.
     and_then (require_that
       (rt_create_program_address rt [WALLET_SEED, wid, [sw_state_bump w]] = Some (wallet_key ac))
       (Anchor ConstraintSeeds)) (\<lambda>_.
     and_then (require_mut (ac_wallet ac)) (\<lambda>_. Inr w)))"

text \<open>The vault: a System account at the vault's address, with the canonical or the stored bump.\<close>

definition check_vault_system :: "runtime \<Rightarrow> Accounts \<Rightarrow> bank \<Rightarrow> error + unit" where
  "check_vault_system rt ac b =
     and_then (require_that (acc_owner (b (vault_key ac)) = rt_system_program rt)
       (Anchor AccountNotSystemOwned)) (\<lambda>_. require_mut (ac_vault ac))"

definition check_vault :: "runtime \<Rightarrow> Accounts \<Rightarrow> bytes \<Rightarrow> bank \<Rightarrow> error + byte" where
  "check_vault rt ac wid b =
     and_then (require_that (vault_key ac = fst (vault_pda rt wid)) (Anchor ConstraintSeeds)) (\<lambda>_.
     and_then (check_vault_system rt ac b) (\<lambda>_. Inr (snd (vault_pda rt wid))))"

definition check_vault_stored ::
  "runtime \<Rightarrow> Accounts \<Rightarrow> bytes \<Rightarrow> SmartWallet \<Rightarrow> bank \<Rightarrow> error + unit" where
  "check_vault_stored rt ac wid w b =
     and_then (require_that
       (rt_create_program_address rt [VAULT_SEED, wid, [sw_vault_bump w]] = Some (vault_key ac))
       (Anchor ConstraintSeeds)) (\<lambda>_. check_vault_system rt ac b)"

text \<open>The relayer signs and is writable; the sysvar and the System program are themselves.\<close>

definition check_relayer_and_programs :: "runtime \<Rightarrow> Accounts \<Rightarrow> error + unit" where
  "check_relayer_and_programs rt ac =
     and_then (require_that (meta_is_signer (ac_relayer ac)) (Anchor AccountNotSigner)) (\<lambda>_.
     and_then (require_mut (ac_relayer ac)) (\<lambda>_.
     and_then (require_that (meta_pubkey (ac_instructions_sysvar ac) = rt_instructions_sysvar rt)
       (Anchor ConstraintAddress)) (\<lambda>_.
     require_that (meta_pubkey (ac_system_program ac) = rt_system_program rt)
       (Anchor InvalidProgramId))))"

text \<open>\<open>#[event_cpi]\<close>: the event authority and the program itself, last. Anchor leaves a wrong \<open>program\<close>
  account to the self-call of the event, which then fails; here it is refused with the other accounts.
  Either way the instruction fails and leaves nothing; only the error differs.\<close>

definition check_event_cpi :: "runtime \<Rightarrow> Accounts \<Rightarrow> error + unit" where
  "check_event_cpi rt ac =
     and_then (require_that (meta_pubkey (ac_event_authority ac)
         = fst (rt_find_program_address rt [ascii ''__event_authority'']))
       (Anchor ConstraintSeeds)) (\<lambda>_.
     require_that (meta_pubkey (ac_program ac) = PROGRAM_ID) (Anchor ConstraintAddress))"

text \<open>\<open>close = relayer\<close>: all the lamports of the state go to the relayer, and the account goes back
  to the System program without data. The sum of two balances overflows only past the supply, where
  Anchor's \<open>checked_add\<close> panics.\<close>

definition close_account :: "runtime \<Rightarrow> pubkey \<Rightarrow> pubkey \<Rightarrow> bank \<Rightarrow> error + bank" where
  "close_account rt a dst b =
     and_then (ok_or (checked_add (lamports_of b dst) (lamports_of b a)) ArithmeticOverflow) (\<lambda>sum.
     let b' = b(dst := (b dst)\<lparr>acc_lamports := sum\<rparr>) in
     Inr (b'(a := \<lparr>acc_lamports = 0, acc_owner = rt_system_program rt, acc_data = []\<rparr>)))"

lemma check_simps [result_simps]:
  "require_mut m = Inr u \<longleftrightarrow> meta_is_writable m"
  "check_vault_system rt ac b = Inr u \<longleftrightarrow>
     acc_owner (b (vault_key ac)) = rt_system_program rt \<and> meta_is_writable (ac_vault ac)"
  by (simp_all add: require_mut_def check_vault_system_def and_then_Inr_iff require_that_Inr_iff)

section \<open>Enclave-signed handlers\<close>

text \<open>
  The contract of a handler that goes through \<open>verify_enclave_authorization\<close>: when it succeeds,
  the check passed for the action the handler builds from its arguments, the wallet it leaves keeps
  the identity, the bumps and the next nonce that the check gave it, and only the lamports of the
  vault, the destination and the relayer changed. \<open>arg\<close> holds the handler's own arguments.
\<close>

type_synonym 'arg handler =
  "runtime \<Rightarrow> env \<Rightarrow> Accounts \<Rightarrow> Authorization \<Rightarrow> 'arg \<Rightarrow> SmartWallet \<Rightarrow> bank
     \<Rightarrow> error + Event \<times> SmartWallet \<times> bank"

definition same_but_lamports :: "bank \<Rightarrow> bank \<Rightarrow> pubkey set \<Rightarrow> bool" where
  "same_but_lamports b b' S \<longleftrightarrow>
     (\<forall>a. acc_owner (b' a) = acc_owner (b a) \<and> acc_data (b' a) = acc_data (b a)
        \<and> (a \<notin> S \<longrightarrow> b' a = b a))"

lemma same_but_lamports_refl [simp]: "same_but_lamports b b S"
  by (simp add: same_but_lamports_def)

lemma same_but_lamports_move:
  "src \<in> S \<Longrightarrow> dst \<in> S \<Longrightarrow> same_but_lamports b b' S \<Longrightarrow>
   same_but_lamports b (move_lamports src dst n b') S"
  unfolding same_but_lamports_def by (metis move_lamports_frame move_lamports_other)

definition keeps_identity :: "SmartWallet \<Rightarrow> SmartWallet \<Rightarrow> bool" where
  "keeps_identity w w' \<longleftrightarrow> sw_wallet_id w' = sw_wallet_id w \<and> sw_nonce w' = sw_nonce w
     \<and> sw_state_bump w' = sw_state_bump w \<and> sw_vault_bump w' = sw_vault_bump w"

locale signed_handler =
  fixes handle :: "'arg handler"
    and action_of :: "Accounts \<Rightarrow> 'arg \<Rightarrow> Action"
    and bumps_of :: "'arg \<Rightarrow> SmartWallet \<Rightarrow> byte \<times> byte"
    and wf_arg :: "'arg \<Rightarrow> bool"
  assumes authorized: "handle rt env ac auth arg w b = Inr (ev, w', b') \<Longrightarrow>
      \<exists>signer w1. verify_enclave_authorization rt env w auth (action_of ac arg)
          (fst (bumps_of arg w)) (snd (bumps_of arg w)) = Inr (signer, w1) \<and> keeps_identity w1 w'"
    and frame: "transfer_contract rt \<Longrightarrow> handle rt env ac auth arg w b = Inr (ev, w', b') \<Longrightarrow>
      same_but_lamports b b' {vault_key ac, to_key ac, relayer_key ac}"
    and inv_step: "handle rt env ac auth arg w b = Inr (ev, w', b') \<Longrightarrow> wf_arg arg \<Longrightarrow>
      verify_enclave_authorization rt env w auth (action_of ac arg)
          (fst (bumps_of arg w)) (snd (bumps_of arg w)) = Inr (signer, w1) \<Longrightarrow>
      wallet_inv w1 \<Longrightarrow> wallet_inv w'"
begin

text \<open>The invariant holds after a success, on first use as on any later one.\<close>

lemma keeps_invariant:
  assumes "handle rt env ac auth arg w b = Inr (ev, w', b')" "wf_arg arg"
    and "signer_key_set env" "length (auth_wallet_id auth) = 32" "is_new w \<or> wallet_inv w"
  shows "wallet_inv w'"
proof -
  from authorized [OF assms(1)] obtain signer w1 where
    v: "verify_enclave_authorization rt env w auth (action_of ac arg)
          (fst (bumps_of arg w)) (snd (bumps_of arg w)) = Inr (signer, w1)" by blast
  show ?thesis
    by (rule inv_step [OF assms(1,2) v]) (rule verify_inv [OF v assms(3-5)])
qed

text \<open>Success consumes exactly the signed nonce.\<close>

lemma consumes_nonce:
  assumes "handle rt env ac auth arg w b = Inr (ev, w', b')"
  shows "unat (sw_nonce w') = unat (auth_nonce auth) + 1"
    and "\<not> is_new w \<Longrightarrow> auth_nonce auth = sw_nonce w"
proof -
  from authorized [OF assms] obtain signer w1 where
    v: "verify_enclave_authorization rt env w auth (action_of ac arg)
          (fst (bumps_of arg w)) (snd (bumps_of arg w)) = Inr (signer, w1)"
    and k: "keeps_identity w1 w'" by blast
  from v k show "unat (sw_nonce w') = unat (auth_nonce auth) + 1"
    by (auto simp: verify_Inr_iff keeps_identity_def unat_word_ariths)
  from v show "auth_nonce auth = sw_nonce w" if "\<not> is_new w"
    using that by (auto simp: verify_Inr_iff checked_wallet_def)
qed

text \<open>Success needs a precompile instruction over exactly the preimage of this call.\<close>

lemma signed_preimage:
  assumes "handle rt env ac auth arg w b = Inr (ev, w', b')"
  obtains ix pad pk sig where "env_previous env = Inr ix"
    "ix_program_id ix = SECP256R1_PROGRAM_ID"
    "length pk = COMPRESSED_PUBKEY_LEN" "length sig = P256_SIGNATURE_LEN"
    "ix_data ix = precompile_data pad pk sig
       (to_bytes (expected_preimage auth (action_of ac arg)))"
proof -
  from authorized [OF assms] obtain pl where
    pl: "load_secp256r1_payload (env_previous env) = Inr pl"
    and msg: "pl_message pl = to_bytes (expected_preimage auth (action_of ac arg))"
    by (auto simp: verify_Inr_iff)
  from pl [unfolded load_payload_iff] msg that show ?thesis by auto
qed

text \<open>The same authorization cannot pass again on the wallet that a success leaves.\<close>

lemma replay_fails:
  assumes "handle rt env ac auth arg w b = Inr (ev, w', b')" "\<not> is_new w'"
  shows "handle rt2 env2 ac2 auth arg2 w' b2 \<noteq> Inr r"
proof
  assume again: "handle rt2 env2 ac2 auth arg2 w' b2 = Inr r"
  obtain ev2 w2 b2' where r: "r = (ev2, w2, b2')" by (cases r)
  have "auth_nonce auth = sw_nonce w'"
    using consumes_nonce(2) [OF again [unfolded r]] assms(2) by simp
  with consumes_nonce(1) [OF assms(1)] show False by simp
qed

end

text \<open>A handler only the active key may call.\<close>

locale active_key_handler = signed_handler +
  assumes by_active_key: "handle rt env ac auth arg w b = Inr (ev, w', b') \<Longrightarrow>
      verify_enclave_authorization rt env w auth (action_of ac arg)
          (fst (bumps_of arg w)) (snd (bumps_of arg w)) = Inr (signer, w1) \<Longrightarrow>
      signer = sw_active_key w1"
begin

lemma active_key_signed:
  assumes "handle rt env ac auth arg w b = Inr (ev, w', b')" "\<not> is_new w"
  obtains ix pad sig where "env_previous env = Inr ix"
    "ix_program_id ix = SECP256R1_PROGRAM_ID"
    "ix_data ix = precompile_data pad (sw_active_key w) sig
       (to_bytes (expected_preimage auth (action_of ac arg)))"
proof -
  from authorized [OF assms(1)] obtain signer w1 where
    v: "verify_enclave_authorization rt env w auth (action_of ac arg)
          (fst (bumps_of arg w)) (snd (bumps_of arg w)) = Inr (signer, w1)" by blast
  from by_active_key [OF assms(1) v] v assms(2) obtain pl where
    pl: "load_secp256r1_payload (env_previous env) = Inr pl"
    and "pl_pubkey pl = sw_active_key w"
    and "pl_message pl = to_bytes (expected_preimage auth (action_of ac arg))"
    by (auto simp: verify_Inr_iff checked_wallet_def)
  with pl [unfolded load_payload_iff] that show ?thesis by auto
qed

end

text \<open>How such a handler is shown to satisfy the contract: from a success, the wallet \<open>w1\<close> the check
  returned together with its active key, and what became of it.\<close>

lemma active_key_handlerI:
  assumes run: "\<And>rt env ac auth arg w b ev w' b'. handle rt env ac auth arg w b = Inr (ev, w', b') \<Longrightarrow>
      \<exists>w1. verify_enclave_authorization rt env w auth (action_of ac arg)
          (fst (bumps_of arg w)) (snd (bumps_of arg w)) = Inr (sw_active_key w1, w1)
        \<and> keeps_identity w1 w' \<and> (wf_arg arg \<longrightarrow> wallet_inv w1 \<longrightarrow> wallet_inv w')"
    and frame: "\<And>rt env ac auth arg w b ev w' b'. transfer_contract rt \<Longrightarrow>
      handle rt env ac auth arg w b = Inr (ev, w', b') \<Longrightarrow>
      same_but_lamports b b' {vault_key ac, to_key ac, relayer_key ac}"
  shows "active_key_handler handle action_of bumps_of wf_arg"
proof
  fix rt env ac auth arg w b ev w' b' signer w1
  assume h: "handle rt env ac auth arg w b = Inr (ev, w', b')"
  note checked = run [OF h]
  show "\<exists>signer w1. verify_enclave_authorization rt env w auth (action_of ac arg)
      (fst (bumps_of arg w)) (snd (bumps_of arg w)) = Inr (signer, w1) \<and> keeps_identity w1 w'"
    using checked by blast
  show "same_but_lamports b b' {vault_key ac, to_key ac, relayer_key ac}" if "transfer_contract rt"
    using that h by (rule frame)
  assume v: "verify_enclave_authorization rt env w auth (action_of ac arg)
      (fst (bumps_of arg w)) (snd (bumps_of arg w)) = Inr (signer, w1)"
  with checked show "signer = sw_active_key w1" by auto
  show "wallet_inv w'" if "wf_arg arg" "wallet_inv w1"
    using checked v that by auto
qed

text \<open>The bumps of an instruction whose wallet must exist: those its state stores.\<close>

definition stored_bumps :: "'arg \<Rightarrow> SmartWallet \<Rightarrow> byte \<times> byte" where
  "stored_bumps arg w = (sw_state_bump w, sw_vault_bump w)"

lemma keeps_identity_simps [simp]:
  "keeps_identity w w" "keeps_identity w (w'\<lparr>sw_rotation := r\<rparr>) = keeps_identity w w'"
  "keeps_identity w (w'\<lparr>sw_guardians := gs\<rparr>) = keeps_identity w w'"
  "keeps_identity w (w'\<lparr>sw_active_key := k\<rparr>) = keeps_identity w w'"
  "keeps_identity w (w'\<lparr>sw_attested := a\<rparr>) = keeps_identity w w'"
  by (simp_all add: keeps_identity_def)

end
