(* ===== verification/Scenario.thy ===== *)
theory Scenario
  imports Accounts_Context
begin

text \<open>
  A concrete wallet for the witnesses: an owner's key, a guardian in slot 0, the accounts of a
  transaction, a ledger with a vault of a chosen balance, and the sysvars of a transaction whose
  previous instruction is the precompile over the right preimage. Everything runs on
  \<open>demo_runtime\<close>.
\<close>

definition owner_key :: bytes where
  "owner_key = replicate 33 2"

definition guardian_key :: bytes where
  "guardian_key = replicate 33 3"

definition device_key :: bytes where
  "device_key = replicate 33 4"

definition demo_id :: bytes where
  "demo_id = replicate 32 2"

definition plain_meta :: "pubkey \<Rightarrow> AccountMeta" where
  "plain_meta k = \<lparr>meta_pubkey = k, meta_is_signer = True, meta_is_writable = True\<rparr>"

definition demo_accounts :: Accounts where
  "demo_accounts = \<lparr>
     ac_wallet = plain_meta (fst (wallet_pda demo_runtime demo_id)),
     ac_vault = plain_meta (fst (vault_pda demo_runtime demo_id)),
     ac_to = plain_meta (replicate 32 0x55),
     ac_relayer = plain_meta (replicate 32 0x77),
     ac_instructions_sysvar = plain_meta (replicate 32 9),
     ac_system_program = plain_meta (replicate 32 0),
     ac_event_authority =
       plain_meta (fst (rt_find_program_address demo_runtime [ascii ''__event_authority''])),
     ac_program = plain_meta PROGRAM_ID\<rparr>"

definition demo_wallet :: SmartWallet where
  "demo_wallet = (created_wallet demo_id owner_key 255 255)\<lparr>sw_nonce := 5,
     sw_guardians := [slot_of (Guardian_P256 guardian_key), EMPTY_SLOT, EMPTY_SLOT]\<rparr>"

definition demo_bank :: "SmartWallet \<Rightarrow> u64 \<Rightarrow> bank" where
  "demo_bank w n a =
     (if a = vault_key demo_accounts
      then \<lparr>acc_lamports = n, acc_owner = replicate 32 0, acc_data = []\<rparr>
      else if a = wallet_key demo_accounts
      then \<lparr>acc_lamports = 2301240, acc_owner = PROGRAM_ID, acc_data = account_data w\<rparr>
      else if a = relayer_key demo_accounts
      then \<lparr>acc_lamports = 1000000000, acc_owner = replicate 32 0, acc_data = []\<rparr>
      else \<lparr>acc_lamports = 0, acc_owner = replicate 32 0, acc_data = []\<rparr>)"

definition demo_auth :: "u64 \<Rightarrow> Authorization" where
  "demo_auth n = \<lparr>auth_wallet_id = demo_id, auth_nonce = n, auth_expires_at = 2000,
     auth_max_relayer_fee = 100000\<rparr>"

definition demo_env :: "i64 \<Rightarrow> bytes \<Rightarrow> Authorization \<Rightarrow> Action \<Rightarrow> env" where
  "demo_env now key auth action = \<lparr>env_clock = Inr now, env_rent = Inr (\<lambda>_. 890880),
     env_previous = Inr (signed_instruction key (replicate 64 7)
       (to_bytes (expected_preimage auth action)))\<rparr>"

lemma demo_auth_fields [simp]:
  "auth_wallet_id (demo_auth n) = demo_id" "auth_nonce (demo_auth n) = n"
  "auth_expires_at (demo_auth n) = 2000" "auth_max_relayer_fee (demo_auth n) = 100000"
  by (simp_all add: demo_auth_def)

lemma demo_keys [simp]:
  "length owner_key = 33" "length guardian_key = 33" "length device_key = 33"
  "owner_key \<noteq> guardian_key" "owner_key \<noteq> device_key" "guardian_key \<noteq> device_key"
  "owner_key \<noteq> zero_key" "guardian_key \<noteq> zero_key" "device_key \<noteq> zero_key"
  by (code_simp, code_simp, code_simp, code_simp, code_simp, code_simp, code_simp, code_simp, code_simp)

lemma demo_addresses [simp]:
  "vault_key demo_accounts \<noteq> wallet_key demo_accounts"
  "vault_key demo_accounts \<noteq> to_key demo_accounts"
  "vault_key demo_accounts \<noteq> relayer_key demo_accounts"
  "wallet_key demo_accounts \<noteq> to_key demo_accounts"
  "wallet_key demo_accounts \<noteq> relayer_key demo_accounts"
  "to_key demo_accounts \<noteq> relayer_key demo_accounts"
  by code_simp+

lemma demo_address_lengths [simp]:
  "length (to_key demo_accounts) = 32" "length (vault_key demo_accounts) = 32"
  by (simp_all add: demo_accounts_def plain_meta_def vault_pda_def demo_runtime_def pad32_def)

lemmas demo_addresses_sym [simp] = demo_addresses [THEN not_sym]

lemma demo_seeds:
  "rt_create_program_address demo_runtime [VAULT_SEED, demo_id, [255]]
     = Some (vault_key demo_accounts)"
  "rt_create_program_address demo_runtime [WALLET_SEED, demo_id, [255]]
     = Some (wallet_key demo_accounts)"
  by (simp_all add: demo_runtime_def demo_address_def demo_accounts_def plain_meta_def vault_pda_def wallet_pda_def)

lemma demo_bank_simps [simp]:
  "demo_bank w n (vault_key demo_accounts)
     = \<lparr>acc_lamports = n, acc_owner = replicate 32 0, acc_data = []\<rparr>"
  "demo_bank w n (wallet_key demo_accounts)
     = \<lparr>acc_lamports = 2301240, acc_owner = PROGRAM_ID, acc_data = account_data w\<rparr>"
  "demo_bank w n (to_key demo_accounts)
     = \<lparr>acc_lamports = 0, acc_owner = replicate 32 0, acc_data = []\<rparr>"
  "demo_bank w n (relayer_key demo_accounts)
     = \<lparr>acc_lamports = 1000000000, acc_owner = replicate 32 0, acc_data = []\<rparr>"
  by (simp_all add: demo_bank_def)

lemma demo_system_program [simp]: "rt_system_program demo_runtime = replicate 32 0"
  by (simp add: demo_runtime_def)

text \<open>A run that is not an error has a result.\<close>

lemma run_result: "\<not> isl r \<Longrightarrow> \<exists>ev w b. r = Inr (ev, w, b)"
  by (cases r) auto

lemma demo_wallet_new [simp]: "\<not> is_new demo_wallet"
  by (simp add: is_new_def demo_wallet_def created_wallet_def)

lemma demo_wallet_fields [simp]:
  "sw_wallet_id demo_wallet = demo_id" "sw_active_key demo_wallet = owner_key"
  "sw_nonce demo_wallet = 5" "sw_vault_bump demo_wallet = 255" "sw_state_bump demo_wallet = 255"
  "sw_rotation demo_wallet = EMPTY_ROTATION"
  by (simp_all add: demo_wallet_def created_wallet_def)

lemma demo_wallet_inv: "wallet_inv demo_wallet"
proof -
  have "good_slot (slot_of (Guardian_P256 guardian_key))"
    by (intro good_slot_of)
      (simp_all add: wf_guardian_def wf_array_def COMPRESSED_PUBKEY_LEN_def is_webauthn_def)
  moreover from this have "wf_slot (slot_of (Guardian_P256 guardian_key))"
    by (simp only: good_slot_def)
  ultimately have "list_all good_slot (sw_guardians demo_wallet)"
    "list_all wf_slot (sw_guardians demo_wallet)"
    by (simp_all add: demo_wallet_def)
  then show ?thesis
    using demo_wallet_new
    by (simp add: wallet_inv_def wf_wallet_def wf_list_def)
      (simp add: demo_wallet_def created_wallet_def wf_array_def MAX_GUARDIANS_def
        COMPRESSED_PUBKEY_LEN_def demo_id_def)
qed

text \<open>The check passes for any well-formed action the key of the environment signed.\<close>

lemma demo_load:
  assumes "length key = 33" "wf_action action" "length (auth_wallet_id auth) = 32"
  shows "load_secp256r1_payload (env_previous (demo_env now key auth action))
    = Inr \<lparr>pl_pubkey = key, pl_message = to_bytes (expected_preimage auth action)\<rparr>"
proof -
  have "length (to_bytes (expected_preimage auth action)) \<le> HEADER_LEN + 103"
    using assms by (intro to_bytes_length expected_preimage_wf)
  then show ?thesis
    using assms(1) by (simp add: demo_env_def load_signed_instruction layout_simps)
qed

lemma demo_verify:
  assumes "length key = 33" "wf_action action" "auth = demo_auth (sw_nonce w)"
    "\<not> is_new w" "sint now < 2000" "unat (sw_nonce w) + 1 < 2 ^ 64"
  shows "verify_enclave_authorization rt (demo_env now key auth action) w auth action sb vb
    = Inr (key, w\<lparr>sw_nonce := sw_nonce w + 1\<rparr>)"
proof -
  have "length (auth_wallet_id auth) = 32" by (simp add: assms(3) demo_auth_def demo_id_def)
  from demo_load [OF assms(1,2) this, of now] show ?thesis
    using assms(3-6)
    by (simp add: verify_Inr_iff checked_wallet_def) (simp add: demo_env_def demo_auth_def)
qed

end
