(* ===== verification/Transfer_Sol.thy ===== *)
theory Transfer_Sol
  imports Scenario
begin

text \<open>
  \<open>instructions/transfer_sol.rs\<close>: the handler that sends lamports from the vault. It refuses an
  amount the vault cannot cover together with the signed fee cap and its own rent-exempt minimum.
\<close>

definition transfer ::
  "runtime \<Rightarrow> env \<Rightarrow> Accounts \<Rightarrow> Authorization \<Rightarrow> u64 \<Rightarrow> u64 \<Rightarrow> byte \<Rightarrow> byte \<Rightarrow> SmartWallet \<Rightarrow> bank
     \<Rightarrow> error + Event \<times> SmartWallet \<times> bank" where
  "transfer rt env ac authorization lamports relayer_fee bump_wallet bump_vault wallet b =
     (let action = TransferSol (to_key ac) lamports in
      and_then (verify_enclave_authorization rt env wallet authorization action bump_wallet bump_vault)
        (\<lambda>(signer, wallet).
      and_then (require_active_key wallet signer) (\<lambda>_.
      and_then (env_rent env) (\<lambda>minimum_balance.
      let rent = minimum_balance 0 in
      and_then (ok_or
        (Option.bind (checked_add lamports (auth_max_relayer_fee authorization))
          (\<lambda>sum. checked_add sum rent)) ArithmeticOverflow) (\<lambda>required.
      and_then (require_that (lamports_of b (vault_key ac) \<ge> required)
        (EnclaveKit InsufficientVaultBalance)) (\<lambda>_.
      and_then (transfer_from_vault rt wallet (vault_key ac) (to_key ac) lamports b) (\<lambda>b.
      and_then (refund_relayer rt wallet (vault_key ac) (relayer_key ac) relayer_fee
        (auth_max_relayer_fee authorization) b) (\<lambda>(refund, b).
      Inr (SolTransferred (sw_wallet_id wallet) (to_key ac) lamports refund, wallet, b)))))))))"

text \<open>The successful runs.\<close>

lemma transfer_Inr_iff:
  assumes "transfer_contract rt"
  shows "transfer rt env ac auth lamports fee sb vb w b = Inr (ev, w', b') \<longleftrightarrow>
    (\<exists>minimum_balance b1. let seeds = [VAULT_SEED, sw_wallet_id w', [sw_vault_bump w']];
        refund = min fee (auth_max_relayer_fee auth) in
      verify_enclave_authorization rt env w auth (TransferSol (to_key ac) lamports) sb vb
        = Inr (sw_active_key w', w')
      \<and> env_rent env = Inr minimum_balance
      \<and> unat lamports + unat (auth_max_relayer_fee auth) + unat (minimum_balance 0)
          \<le> unat (lamports_of b (vault_key ac))
      \<and> transfer_allowed rt seeds (vault_key ac) (to_key ac) lamports b
      \<and> b1 = move_lamports (vault_key ac) (to_key ac) lamports b
      \<and> transfer_allowed rt seeds (vault_key ac) (relayer_key ac) refund b1
      \<and> b' = move_lamports (vault_key ac) (relayer_key ac) refund b1
      \<and> ev = SolTransferred (sw_wallet_id w') (to_key ac) lamports refund)"
proof -
  have required: "(\<exists>r. (\<exists>s. checked_add x y = Some s \<and> checked_add s z = Some r) \<and> r \<le> v)
      \<longleftrightarrow> unat x + unat y + unat z \<le> unat v" for x y z v :: u64
  proof
    assume "\<exists>r. (\<exists>s. checked_add x y = Some s \<and> checked_add s z = Some r) \<and> r \<le> v"
    then show "unat x + unat y + unat z \<le> unat v"
      by (auto simp: checked_add_Some_iff word_le_nat_alt)
  next
    assume le: "unat x + unat y + unat z \<le> unat v"
    have "unat v < 2 ^ 64" using unsigned_less [of v, where 'a = nat] by simp
    with le have "checked_add x y = Some (x + y)" "checked_add (x + y) z = Some (x + y + z)"
      by (simp_all add: checked_add_def unat_word_ariths)
    moreover from this le have "x + y + z \<le> v"
      by (auto simp: checked_add_Some_iff word_le_nat_alt)
    ultimately show "\<exists>r. (\<exists>s. checked_add x y = Some s \<and> checked_add s z = Some r) \<and> r \<le> v"
      by blast
  qed
  show ?thesis
    by (auto simp: transfer_def result_simps Let_def bind_eq_Some_conv split_paired_Ex
        transfer_from_vault_iff [OF assms] refund_relayer_iff [OF assms] required [symmetric])
qed

text \<open>The handler under the shared contract: its arguments are the amount, the fee asked and the
  canonical bumps of the two addresses.\<close>

definition transfer_handle :: "(u64 \<times> u64 \<times> byte \<times> byte) handler" where
  "transfer_handle rt env ac auth arg w b =
     (case arg of (lamports, fee, sb, vb) \<Rightarrow> transfer rt env ac auth lamports fee sb vb w b)"

definition transfer_action :: "Accounts \<Rightarrow> u64 \<times> u64 \<times> byte \<times> byte \<Rightarrow> Action" where
  "transfer_action ac arg = TransferSol (to_key ac) (fst arg)"

definition transfer_bumps :: "u64 \<times> u64 \<times> byte \<times> byte \<Rightarrow> SmartWallet \<Rightarrow> byte \<times> byte" where
  "transfer_bumps arg w = snd (snd arg)"

lemma transfer_authorized:
  assumes "transfer rt env ac auth lamports fee sb vb w b = Inr (ev, w', b')"
  shows "verify_enclave_authorization rt env w auth (TransferSol (to_key ac) lamports) sb vb
    = Inr (sw_active_key w', w')"
  using assms by (auto simp: transfer_def result_simps Let_def)

interpretation transfer: active_key_handler transfer_handle transfer_action transfer_bumps wf_any
  by (rule active_key_handlerI)
    (fastforce simp: transfer_handle_def transfer_action_def transfer_bumps_def dest: transfer_authorized,
     auto simp: transfer_handle_def transfer_Inr_iff Let_def intro!: same_but_lamports_move)

lemma transfer_pays:
  assumes "transfer_contract rt"
    and "transfer rt env ac auth lamports fee sb vb w b = Inr (ev, w', b')"
    and "vault_key ac \<noteq> to_key ac" "vault_key ac \<noteq> relayer_key ac"
  shows "paid_out b b' (vault_key ac) (to_key ac) (relayer_key ac) lamports
    (min fee (auth_max_relayer_fee auth))"
  using assms(2) by (auto simp: transfer_Inr_iff [OF assms(1)] Let_def
      intro!: payout_then_refund [OF _ _ assms(3,4)])

lemma transfer_succeeds:
  assumes "transfer_contract rt"
    and "verify_enclave_authorization rt env w auth (TransferSol (to_key ac) lamports) sb vb
      = Inr (sw_active_key w1, w1)"
    and "env_rent env = Inr minimum_balance"
    and "rt_create_program_address rt [VAULT_SEED, sw_wallet_id w1, [sw_vault_bump w1]]
      = Some (vault_key ac)"
    and "acc_owner (b (vault_key ac)) = rt_system_program rt" "acc_data (b (vault_key ac)) = []"
    and "vault_key ac \<noteq> to_key ac" "vault_key ac \<noteq> relayer_key ac"
    and "unat (lamports_of b (to_key ac)) + unat lamports + unat (auth_max_relayer_fee auth) < 2 ^ 64"
    and "unat (lamports_of b (relayer_key ac)) + unat lamports + unat (auth_max_relayer_fee auth)
      < 2 ^ 64"
    and "unat lamports + unat (auth_max_relayer_fee auth) + unat (minimum_balance 0)
      \<le> unat (lamports_of b (vault_key ac))"
  shows "\<exists>ev b'. transfer rt env ac auth lamports fee sb vb w b = Inr (ev, w1, b')"
proof -
  have "transfer_allowed rt [VAULT_SEED, sw_wallet_id w1, [sw_vault_bump w1]] (vault_key ac)
        (to_key ac) lamports b
    \<and> transfer_allowed rt [VAULT_SEED, sw_wallet_id w1, [sw_vault_bump w1]] (vault_key ac)
        (relayer_key ac) (min fee (auth_max_relayer_fee auth))
        (move_lamports (vault_key ac) (to_key ac) lamports b)"
    using assms by (intro transfer_allowed_both [where cap = "auth_max_relayer_fee auth"]) auto
  with assms(2,3,11) show ?thesis
    by (auto simp: transfer_Inr_iff [OF assms(1)] Let_def)
qed

section \<open>Properties\<close>

text \<open>C16: a transfer that succeeds pays exactly the signed amount to the signed destination and
  exactly the smaller of the asked fee and the signed cap to the relayer, takes both from the vault
  and touches no other account, and leaves the vault at least its rent-exempt minimum.\<close>

theorem transfer_pays_exactly:
  assumes "transfer_contract rt"
    and "transfer rt env ac auth lamports fee sb vb w b = Inr (ev, w', b')"
    and "vault_key ac \<noteq> to_key ac" "vault_key ac \<noteq> relayer_key ac"
  shows "ev = SolTransferred (sw_wallet_id w') (to_key ac) lamports (min fee (auth_max_relayer_fee auth))
    \<and> paid_out b b' (vault_key ac) (to_key ac) (relayer_key ac) lamports
        (min fee (auth_max_relayer_fee auth))
    \<and> (\<exists>minimum_balance. env_rent env = Inr minimum_balance
         \<and> unat (minimum_balance 0) \<le> unat (lamports_of b' (vault_key ac)))"
proof -
  from assms(2) obtain minimum_balance where
    ev: "ev = SolTransferred (sw_wallet_id w') (to_key ac) lamports (min fee (auth_max_relayer_fee auth))"
    and rent: "env_rent env = Inr minimum_balance"
    and covers: "unat lamports + unat (auth_max_relayer_fee auth) + unat (minimum_balance 0)
      \<le> unat (lamports_of b (vault_key ac))"
    by (auto simp: transfer_Inr_iff [OF assms(1)] Let_def)
  note paid = transfer_pays [OF assms]
  have "unat (min fee (auth_max_relayer_fee auth)) \<le> unat (auth_max_relayer_fee auth)"
    by (simp add: unat_min_u64)
  with covers paid have "unat (minimum_balance 0) \<le> unat (lamports_of b' (vault_key ac))"
    unfolding paid_out_def by linarith
  with ev rent paid show ?thesis by blast
qed

text \<open>C27: once the signature check passed, the vault's balance alone decides, whatever fee the
  relayer asks: the transfer goes through exactly when the vault covers the amount, the signed cap
  and its rent-exempt minimum, and is otherwise refused before any lamport moves.\<close>

theorem transfer_decided_by_balance:
  assumes "transfer_contract rt"
    and "verify_enclave_authorization rt env w auth (TransferSol (to_key ac) lamports) sb vb
      = Inr (sw_active_key w1, w1)"
    and "env_rent env = Inr minimum_balance"
    and "rt_create_program_address rt [VAULT_SEED, sw_wallet_id w1, [sw_vault_bump w1]]
      = Some (vault_key ac)"
    and "acc_owner (b (vault_key ac)) = rt_system_program rt" "acc_data (b (vault_key ac)) = []"
    and "vault_key ac \<noteq> to_key ac" "vault_key ac \<noteq> relayer_key ac"
    and "unat (lamports_of b (to_key ac)) + unat lamports + unat (auth_max_relayer_fee auth) < 2 ^ 64"
    and "unat (lamports_of b (relayer_key ac)) + unat lamports + unat (auth_max_relayer_fee auth)
      < 2 ^ 64"
  shows "(\<exists>r. transfer rt env ac auth lamports fee sb vb w b = Inr r)
    \<longleftrightarrow> unat lamports + unat (auth_max_relayer_fee auth) + unat (minimum_balance 0)
        \<le> unat (lamports_of b (vault_key ac))" (is "?L \<longleftrightarrow> ?R")
proof
  assume ?L
  then show ?R
    using assms(3) by (auto simp: transfer_Inr_iff [OF assms(1)] Let_def split_paired_Ex)
next
  assume ?R
  from transfer_succeeds [OF assms this] show ?L by blast
qed

text \<open>A payment of 100 000 000 lamports by the owner; the relayer asks for twice the cap.\<close>

definition demo_transfer_run :: "u64 \<Rightarrow> error + Event \<times> SmartWallet \<times> bank" where
  "demo_transfer_run funding =
     transfer demo_runtime
       (demo_env 1000 owner_key (demo_auth 5) (TransferSol (to_key demo_accounts) 100000000))
       demo_accounts (demo_auth 5) 100000000 200000 255 255 demo_wallet (demo_bank demo_wallet funding)"

lemma demo_transfer_verify:
  "verify_enclave_authorization demo_runtime
     (demo_env 1000 owner_key (demo_auth 5) (TransferSol (to_key demo_accounts) 100000000))
     demo_wallet (demo_auth 5) (TransferSol (to_key demo_accounts) 100000000) 255 255
   = Inr (sw_active_key (demo_wallet\<lparr>sw_nonce := 6\<rparr>), demo_wallet\<lparr>sw_nonce := 6\<rparr>)"
  using demo_verify [of owner_key "TransferSol (to_key demo_accounts) 100000000" "demo_auth 5"
      demo_wallet 1000 demo_runtime 255 255]
  by (simp add: wf_array_def demo_accounts_def plain_meta_def)

theorem transfer_decided_by_balance_witness:
  "(\<exists>r. demo_transfer_run 1000000000 = Inr r) \<and> \<not> (\<exists>r. demo_transfer_run 100990879 = Inr r)"
proof -
  have decided: "(\<exists>r. demo_transfer_run funding = Inr r) \<longleftrightarrow> 100990880 \<le> unat funding" for funding
    unfolding demo_transfer_run_def
    by (subst transfer_decided_by_balance
        [OF demo_runtime_contracts(1) demo_transfer_verify, where minimum_balance = "\<lambda>_. 890880"])
      (simp_all add: demo_seeds demo_env_def demo_auth_def)
  show ?thesis unfolding decided by simp
qed

theorem transfer_pays_exactly_witness:
  "\<exists>ev w' b'. demo_transfer_run 1000000000 = Inr (ev, w', b')
     \<and> paid_out (demo_bank demo_wallet 1000000000) b' (vault_key demo_accounts)
         (to_key demo_accounts) (relayer_key demo_accounts) 100000000 100000"
proof -
  have "\<exists>ev b'. demo_transfer_run 1000000000 = Inr (ev, demo_wallet\<lparr>sw_nonce := 6\<rparr>, b')"
    unfolding demo_transfer_run_def
    by (rule transfer_succeeds
        [OF demo_runtime_contracts(1) demo_transfer_verify, where minimum_balance = "\<lambda>_. 890880"])
      (simp_all add: demo_seeds demo_env_def demo_auth_def)
  then obtain ev w' b' where run: "demo_transfer_run 1000000000 = Inr (ev, w', b')"
    by blast
  from transfer_pays_exactly [OF demo_runtime_contracts(1) run [unfolded demo_transfer_run_def]] run
  show ?thesis by (simp add: demo_auth_def)
qed

end
