(* ===== verification/Sweep_Vault.thy ===== *)
theory Sweep_Vault
  imports Scenario
begin

text \<open>
  \<open>instructions/sweep_vault.rs\<close>: everything the vault holds, read at execution, goes to the signed
  destination, but the relayer's refund; the wallet's state stays.
\<close>

definition sweep ::
  "runtime \<Rightarrow> env \<Rightarrow> Accounts \<Rightarrow> Authorization \<Rightarrow> u64 \<Rightarrow> byte \<Rightarrow> byte \<Rightarrow> SmartWallet \<Rightarrow> bank
     \<Rightarrow> error + Event \<times> SmartWallet \<times> bank" where
  "sweep rt env ac authorization relayer_fee bump_wallet bump_vault wallet b =
     (let action = SweepVault (to_key ac) in
      and_then (verify_enclave_authorization rt env wallet authorization action bump_wallet bump_vault)
        (\<lambda>(signer, wallet).
      and_then (require_active_key wallet signer) (\<lambda>_.
      let refund = min relayer_fee (auth_max_relayer_fee authorization);
          balance = lamports_of b (vault_key ac) in
      and_then (require_that (balance \<ge> refund) (EnclaveKit InsufficientVaultBalance)) (\<lambda>_.
      let lamports = balance - refund in
      and_then (transfer_from_vault rt wallet (vault_key ac) (to_key ac) lamports b) (\<lambda>b.
      and_then (refund_relayer rt wallet (vault_key ac) (relayer_key ac) relayer_fee
        (auth_max_relayer_fee authorization) b) (\<lambda>(_, b).
      Inr (VaultSwept (sw_wallet_id wallet) (to_key ac) lamports refund, wallet, b)))))))"

lemma sweep_Inr_iff:
  assumes "transfer_contract rt"
  shows "sweep rt env ac auth fee sb vb w b = Inr (ev, w', b') \<longleftrightarrow>
    (\<exists>b1. let seeds = [VAULT_SEED, sw_wallet_id w', [sw_vault_bump w']];
        refund = min fee (auth_max_relayer_fee auth);
        lamports = lamports_of b (vault_key ac) - refund in
      verify_enclave_authorization rt env w auth (SweepVault (to_key ac)) sb vb
        = Inr (sw_active_key w', w')
      \<and> refund \<le> lamports_of b (vault_key ac)
      \<and> transfer_allowed rt seeds (vault_key ac) (to_key ac) lamports b
      \<and> b1 = move_lamports (vault_key ac) (to_key ac) lamports b
      \<and> transfer_allowed rt seeds (vault_key ac) (relayer_key ac) refund b1
      \<and> b' = move_lamports (vault_key ac) (relayer_key ac) refund b1
      \<and> ev = VaultSwept (sw_wallet_id w') (to_key ac) lamports refund)"
  by (auto simp: sweep_def result_simps Let_def split_paired_Ex
      transfer_from_vault_iff [OF assms] refund_relayer_iff [OF assms])

definition sweep_handle :: "(u64 \<times> byte \<times> byte) handler" where
  "sweep_handle rt env ac auth arg w b =
     (case arg of (fee, sb, vb) \<Rightarrow> sweep rt env ac auth fee sb vb w b)"

definition sweep_action :: "Accounts \<Rightarrow> u64 \<times> byte \<times> byte \<Rightarrow> Action" where
  "sweep_action ac arg = SweepVault (to_key ac)"

definition sweep_bumps :: "u64 \<times> byte \<times> byte \<Rightarrow> SmartWallet \<Rightarrow> byte \<times> byte" where
  "sweep_bumps arg w = snd arg"

lemma sweep_authorized:
  assumes "sweep rt env ac auth fee sb vb w b = Inr (ev, w', b')"
  shows "verify_enclave_authorization rt env w auth (SweepVault (to_key ac)) sb vb
    = Inr (sw_active_key w', w')"
  using assms by (auto simp: sweep_def result_simps Let_def)

interpretation sweep: active_key_handler sweep_handle sweep_action sweep_bumps wf_any
  by (rule active_key_handlerI)
    (fastforce simp: sweep_handle_def sweep_action_def sweep_bumps_def dest: sweep_authorized,
     auto simp: sweep_handle_def sweep_Inr_iff Let_def intro!: same_but_lamports_move)

lemma sweep_pays:
  assumes "transfer_contract rt"
    and "sweep rt env ac auth fee sb vb w b = Inr (ev, w', b')"
    and "vault_key ac \<noteq> to_key ac" "vault_key ac \<noteq> relayer_key ac"
  shows "paid_out b b' (vault_key ac) (to_key ac) (relayer_key ac)
    (lamports_of b (vault_key ac) - min fee (auth_max_relayer_fee auth))
    (min fee (auth_max_relayer_fee auth))"
  using assms(2) by (auto simp: sweep_Inr_iff [OF assms(1)] Let_def
      intro!: payout_then_refund [OF _ _ assms(3,4)])

lemma sweep_succeeds:
  assumes "transfer_contract rt"
    and "verify_enclave_authorization rt env w auth (SweepVault (to_key ac)) sb vb
      = Inr (sw_active_key w1, w1)"
    and "rt_create_program_address rt [VAULT_SEED, sw_wallet_id w1, [sw_vault_bump w1]]
      = Some (vault_key ac)"
    and "acc_owner (b (vault_key ac)) = rt_system_program rt" "acc_data (b (vault_key ac)) = []"
    and "vault_key ac \<noteq> to_key ac" "vault_key ac \<noteq> relayer_key ac"
    and "unat (lamports_of b (to_key ac)) + unat (lamports_of b (vault_key ac)) < 2 ^ 64"
    and "unat (lamports_of b (relayer_key ac)) + unat (lamports_of b (vault_key ac)) < 2 ^ 64"
    and covers: "min fee (auth_max_relayer_fee auth) \<le> lamports_of b (vault_key ac)"
  shows "\<exists>ev b'. sweep rt env ac auth fee sb vb w b = Inr (ev, w1, b')"
proof -
  let ?refund = "min fee (auth_max_relayer_fee auth)"
  let ?n = "lamports_of b (vault_key ac) - ?refund"
  have sum: "unat ?n + unat ?refund = unat (lamports_of b (vault_key ac))"
    using covers by (simp add: unat_sub word_le_nat_alt)
  have "transfer_allowed rt [VAULT_SEED, sw_wallet_id w1, [sw_vault_bump w1]] (vault_key ac)
        (to_key ac) ?n b
    \<and> transfer_allowed rt [VAULT_SEED, sw_wallet_id w1, [sw_vault_bump w1]] (vault_key ac)
        (relayer_key ac) ?refund (move_lamports (vault_key ac) (to_key ac) ?n b)"
    using assms sum by (intro transfer_allowed_both [where cap = ?refund]) auto
  with assms(2) covers show ?thesis
    by (auto simp: sweep_Inr_iff [OF assms(1)] Let_def)
qed

section \<open>Properties\<close>

text \<open>C28: a sweep to another account empties the vault exactly: the relayer gets the smaller of the
  asked fee and the cap, the destination all the rest, no other account changes, and the wallet's
  guardians, key and pending rotation stay (only its nonce moved).\<close>

theorem sweep_empties_vault:
  assumes "transfer_contract rt"
    and "sweep rt env ac auth fee sb vb w b = Inr (ev, w', b')"
    and "vault_key ac \<noteq> to_key ac" "vault_key ac \<noteq> relayer_key ac"
  shows "lamports_of b' (vault_key ac) = 0
    \<and> paid_out b b' (vault_key ac) (to_key ac) (relayer_key ac)
        (lamports_of b (vault_key ac) - min fee (auth_max_relayer_fee auth))
        (min fee (auth_max_relayer_fee auth))
    \<and> ev = VaultSwept (sw_wallet_id w') (to_key ac)
        (lamports_of b (vault_key ac) - min fee (auth_max_relayer_fee auth))
        (min fee (auth_max_relayer_fee auth))
    \<and> (\<not> is_new w \<longrightarrow> w' = w\<lparr>sw_nonce := sw_nonce w + 1\<rparr>)"
proof -
  from assms(2) have v: "verify_enclave_authorization rt env w auth (SweepVault (to_key ac)) sb vb
        = Inr (sw_active_key w', w')"
    and ev: "ev = VaultSwept (sw_wallet_id w') (to_key ac)
        (lamports_of b (vault_key ac) - min fee (auth_max_relayer_fee auth))
        (min fee (auth_max_relayer_fee auth))"
    and le: "min fee (auth_max_relayer_fee auth) \<le> lamports_of b (vault_key ac)"
    by (auto simp: sweep_Inr_iff [OF assms(1)] Let_def)
  note paid = sweep_pays [OF assms]
  with le have "unat (lamports_of b' (vault_key ac)) = 0"
    by (simp add: paid_out_def unat_sub)
  moreover have "\<not> is_new w \<longrightarrow> w' = w\<lparr>sw_nonce := sw_nonce w + 1\<rparr>"
    using v by (auto simp: verify_Inr_iff checked_wallet_def)
  ultimately show ?thesis using paid ev by (simp add: unat_eq_0)
qed

text \<open>The comment "the vault ends at 0" fails for one destination: a sweep whose signed
  destination is the vault itself pays the refund, leaves the rest where it was, and still reports
  the whole balance as swept.\<close>

theorem sweep_to_vault_keeps_balance:
  assumes "transfer_contract rt"
    and "sweep rt env ac auth fee sb vb w b = Inr (ev, w', b')"
    and "to_key ac = vault_key ac" "vault_key ac \<noteq> relayer_key ac"
  shows "lamports_of b' (vault_key ac)
      = lamports_of b (vault_key ac) - min fee (auth_max_relayer_fee auth)
    \<and> ev = VaultSwept (sw_wallet_id w') (vault_key ac) (lamports_of b' (vault_key ac))
        (min fee (auth_max_relayer_fee auth))"
  using assms(2-4)
  by (auto simp: sweep_Inr_iff [OF assms(1)] Let_def move_lamports_self move_lamports_lamports)

definition demo_sweep_run :: "Accounts \<Rightarrow> u64 \<Rightarrow> error + Event \<times> SmartWallet \<times> bank" where
  "demo_sweep_run ac funding =
     sweep demo_runtime (demo_env 1000 owner_key (demo_auth 5) (SweepVault (to_key ac))) ac
       (demo_auth 5) 50000 255 255 demo_wallet (demo_bank demo_wallet funding)"

lemma demo_sweep_verify:
  "length (to_key ac) = 32 \<Longrightarrow>
   verify_enclave_authorization demo_runtime
     (demo_env 1000 owner_key (demo_auth 5) (SweepVault (to_key ac)))
     demo_wallet (demo_auth 5) (SweepVault (to_key ac)) 255 255
   = Inr (sw_active_key (demo_wallet\<lparr>sw_nonce := 6\<rparr>), demo_wallet\<lparr>sw_nonce := 6\<rparr>)"
  using demo_verify [of owner_key "SweepVault (to_key ac)" "demo_auth 5" demo_wallet 1000
      demo_runtime 255 255]
  by (simp add: wf_array_def)

theorem sweep_empties_vault_witness:
  "\<exists>ev w' b'. demo_sweep_run demo_accounts 700000 = Inr (ev, w', b')
     \<and> lamports_of b' (vault_key demo_accounts) = 0
     \<and> unat (lamports_of b' (to_key demo_accounts)) = 650000"
proof -
  have "\<exists>ev b'. demo_sweep_run demo_accounts 700000 = Inr (ev, demo_wallet\<lparr>sw_nonce := 6\<rparr>, b')"
    unfolding demo_sweep_run_def
    by (rule sweep_succeeds [OF demo_runtime_contracts(1) demo_sweep_verify])
      (simp_all add: demo_seeds demo_auth_def)
  then obtain ev w' b' where run: "demo_sweep_run demo_accounts 700000 = Inr (ev, w', b')"
    by blast
  from sweep_empties_vault [OF demo_runtime_contracts(1) run [unfolded demo_sweep_run_def]] run
  show ?thesis by (simp add: demo_auth_def paid_out_def)
qed

definition self_accounts :: Accounts where
  "self_accounts = demo_accounts\<lparr>ac_to := ac_vault demo_accounts\<rparr>"

theorem sweep_to_vault_keeps_balance_witness:
  "\<exists>ev w' b'. demo_sweep_run self_accounts 700000 = Inr (ev, w', b')
     \<and> lamports_of b' (vault_key self_accounts) = 650000"
proof -
  have to: "to_key self_accounts = vault_key self_accounts"
    "vault_key self_accounts \<noteq> relayer_key self_accounts"
    by (simp_all add: self_accounts_def)
  have v: "verify_enclave_authorization demo_runtime
     (demo_env 1000 owner_key (demo_auth 5) (SweepVault (vault_key demo_accounts)))
     demo_wallet (demo_auth 5) (SweepVault (vault_key demo_accounts)) 255 255
   = Inr (sw_active_key (demo_wallet\<lparr>sw_nonce := 6\<rparr>), demo_wallet\<lparr>sw_nonce := 6\<rparr>)"
    using demo_sweep_verify [of self_accounts] by (simp add: self_accounts_def)
  have "\<exists>r. demo_sweep_run self_accounts 700000 = Inr r"
    unfolding demo_sweep_run_def split_paired_Ex sweep_Inr_iff [OF demo_runtime_contracts(1)]
    by (simp add: v Let_def self_accounts_def move_lamports_self transfer_allowed_def demo_seeds)
  then obtain ev w' b' where run: "demo_sweep_run self_accounts 700000 = Inr (ev, w', b')"
    by auto
  from sweep_to_vault_keeps_balance [OF demo_runtime_contracts(1) run [unfolded demo_sweep_run_def] to]
    run show ?thesis by (simp add: demo_auth_def self_accounts_def)
qed

end
