(* ===== verification/Close_Wallet.thy ===== *)
theory Close_Wallet
  imports Scenario
begin

text \<open>
  \<open>instructions/close_wallet.rs\<close>: like a sweep, but the refund is capped by the balance too, so an
  empty vault can close. The state account itself is closed by Anchor after the handler
  (\<open>close_account\<close>), in the entry point of the theory \<open>Program\<close>.
\<close>

definition close ::
  "runtime \<Rightarrow> env \<Rightarrow> Accounts \<Rightarrow> Authorization \<Rightarrow> u64 \<Rightarrow> SmartWallet \<Rightarrow> bank
     \<Rightarrow> error + Event \<times> SmartWallet \<times> bank" where
  "close rt env ac authorization relayer_fee wallet b =
     (let action = CloseWallet (to_key ac);
          state_bump = sw_state_bump wallet; vault_bump = sw_vault_bump wallet in
      and_then (verify_enclave_authorization rt env wallet authorization action state_bump vault_bump)
        (\<lambda>(signer, wallet).
      and_then (require_active_key wallet signer) (\<lambda>_.
      let balance = lamports_of b (vault_key ac);
          refund = min (min relayer_fee (auth_max_relayer_fee authorization)) balance;
          lamports = balance - refund in
      and_then (transfer_from_vault rt wallet (vault_key ac) (to_key ac) lamports b) (\<lambda>b.
      and_then (transfer_from_vault rt wallet (vault_key ac) (relayer_key ac) refund b) (\<lambda>b.
      Inr (WalletClosed (sw_wallet_id wallet) (to_key ac) lamports refund, wallet, b))))))"

lemma close_Inr_iff:
  assumes "transfer_contract rt"
  shows "close rt env ac auth fee w b = Inr (ev, w', b') \<longleftrightarrow>
    (\<exists>b1. let seeds = [VAULT_SEED, sw_wallet_id w', [sw_vault_bump w']];
        balance = lamports_of b (vault_key ac);
        refund = min (min fee (auth_max_relayer_fee auth)) balance in
      verify_enclave_authorization rt env w auth (CloseWallet (to_key ac))
        (sw_state_bump w) (sw_vault_bump w) = Inr (sw_active_key w', w')
      \<and> transfer_allowed rt seeds (vault_key ac) (to_key ac) (balance - refund) b
      \<and> b1 = move_lamports (vault_key ac) (to_key ac) (balance - refund) b
      \<and> transfer_allowed rt seeds (vault_key ac) (relayer_key ac) refund b1
      \<and> b' = move_lamports (vault_key ac) (relayer_key ac) refund b1
      \<and> ev = WalletClosed (sw_wallet_id w') (to_key ac) (balance - refund) refund)"
  by (auto simp: close_def result_simps Let_def split_paired_Ex transfer_from_vault_iff [OF assms])

definition close_action :: "Accounts \<Rightarrow> u64 \<Rightarrow> Action" where
  "close_action ac arg = CloseWallet (to_key ac)"

lemma close_authorized:
  assumes "close rt env ac auth fee w b = Inr (ev, w', b')"
  shows "verify_enclave_authorization rt env w auth (CloseWallet (to_key ac))
    (sw_state_bump w) (sw_vault_bump w) = Inr (sw_active_key w', w')"
  using assms by (auto simp: close_def result_simps Let_def)

interpretation close: active_key_handler close close_action stored_bumps wf_any
  by (rule active_key_handlerI)
    (fastforce simp: close_action_def stored_bumps_def dest: close_authorized,
     auto simp: close_Inr_iff Let_def intro!: same_but_lamports_move)



section \<open>Properties\<close>




end
