(* ===== verification/Set_Guardians.thy ===== *)
theory Set_Guardians
  imports Scenario
begin

text \<open>
  \<open>instructions/set_guardians.rs\<close>: the active key replaces the whole guardian list. WebAuthn
  guardians are refused after the signature check, the pending rotation is dropped, and the relayer
  is refunded out of the vault.
\<close>

definition set_guardians ::
  "runtime \<Rightarrow> env \<Rightarrow> Accounts \<Rightarrow> Authorization \<Rightarrow> Guardian list \<Rightarrow> u64 \<Rightarrow> byte \<Rightarrow> byte
     \<Rightarrow> SmartWallet \<Rightarrow> bank \<Rightarrow> error + Event \<times> SmartWallet \<times> bank" where
  "set_guardians rt env ac authorization guardians relayer_fee bump_wallet bump_vault wallet b =
     (let action = SetGuardians (map eguardian_of guardians) in
      and_then (verify_enclave_authorization rt env wallet authorization action bump_wallet bump_vault)
        (\<lambda>(signer, wallet).
      and_then (require_active_key wallet signer) (\<lambda>_.
      and_then (require_that (\<not> list_ex is_webauthn guardians)
        (EnclaveKit WebAuthnGuardianUnsupported)) (\<lambda>_.
      let wallet = wallet\<lparr>sw_guardians := map slot_of guardians\<rparr>;
          wallet = wallet\<lparr>sw_rotation := EMPTY_ROTATION\<rparr> in
      and_then (refund_relayer rt wallet (vault_key ac) (relayer_key ac) relayer_fee
        (auth_max_relayer_fee authorization) b) (\<lambda>(refund, b).
      Inr (GuardiansSet (sw_wallet_id wallet) guardians, wallet, b))))))"

lemma set_guardians_Inr_iff:
  assumes "transfer_contract rt"
  shows "set_guardians rt env ac auth gs fee sb vb w b = Inr (ev, w', b') \<longleftrightarrow>
    (\<exists>w1. let refund = min fee (auth_max_relayer_fee auth) in
      verify_enclave_authorization rt env w auth (SetGuardians (map eguardian_of gs)) sb vb
        = Inr (sw_active_key w1, w1)
      \<and> \<not> list_ex is_webauthn gs
      \<and> w' = w1\<lparr>sw_guardians := map slot_of gs, sw_rotation := EMPTY_ROTATION\<rparr>
      \<and> transfer_allowed rt [VAULT_SEED, sw_wallet_id w', [sw_vault_bump w']] (vault_key ac)
          (relayer_key ac) refund b
      \<and> b' = move_lamports (vault_key ac) (relayer_key ac) refund b
      \<and> ev = GuardiansSet (sw_wallet_id w') gs)"
  by (auto simp: set_guardians_def result_simps Let_def refund_relayer_iff [OF assms])

type_synonym set_guardians_arg = "Guardian list \<times> u64 \<times> byte \<times> byte"

definition set_guardians_handle :: "set_guardians_arg handler" where
  "set_guardians_handle rt env ac auth arg w b =
     (case arg of (gs, fee, sb, vb) \<Rightarrow> set_guardians rt env ac auth gs fee sb vb w b)"

definition set_guardians_action :: "Accounts \<Rightarrow> set_guardians_arg \<Rightarrow> Action" where
  "set_guardians_action ac arg = SetGuardians (map eguardian_of (fst arg))"

definition set_guardians_bumps :: "set_guardians_arg \<Rightarrow> SmartWallet \<Rightarrow> byte \<times> byte" where
  "set_guardians_bumps arg w = snd (snd arg)"

definition wf_guardians_arg :: "set_guardians_arg \<Rightarrow> bool" where
  "wf_guardians_arg arg \<longleftrightarrow> wf_list wf_guardian MAX_GUARDIANS (fst arg)"

lemma set_guardians_authorized:
  assumes "set_guardians rt env ac auth gs fee sb vb w b = Inr (ev, w', b')"
  shows "\<exists>w1. verify_enclave_authorization rt env w auth (SetGuardians (map eguardian_of gs)) sb vb
      = Inr (sw_active_key w1, w1) \<and> \<not> list_ex is_webauthn gs
    \<and> w' = w1\<lparr>sw_guardians := map slot_of gs, sw_rotation := EMPTY_ROTATION\<rparr>"
  using assms by (auto simp: set_guardians_def result_simps Let_def)

interpretation set_guardians: active_key_handler
  set_guardians_handle set_guardians_action set_guardians_bumps wf_guardians_arg
  by (rule active_key_handlerI)
    (fastforce simp: set_guardians_handle_def set_guardians_action_def set_guardians_bumps_def
        wf_guardians_arg_def dest: set_guardians_authorized intro: wallet_inv_guardians,
     auto simp: set_guardians_handle_def set_guardians_Inr_iff Let_def
       intro!: same_but_lamports_move)

section \<open>Properties\<close>

text \<open>C32: replacing the guardians leaves no trace of the old ones in the stored bytes. After a
  success, the filters of a device whose key \<open>k\<close> is not in the new list find it in no slot, and the
  rotation region of the account, the pending proposal of a removed guardian included, is all
  zeros.\<close>

theorem set_guardians_removes:
  assumes "set_guardians rt env ac auth gs fee sb vb w b = Inr (ev, w', b')"
    and "wf_list wf_guardian MAX_GUARDIANS gs" "signer_key_set env"
    and "length (auth_wallet_id auth) = 32" "is_new w \<or> wallet_inv w"
    and "length k = COMPRESSED_PUBKEY_LEN" "Guardian_P256 k \<notin> set gs"
  shows "(\<forall>i < MAX_GUARDIANS.
        \<not> memcmp (guardian_kind_offset i) (GUARDIAN_KIND_P256 # k) (account_data w'))
    \<and> slice ROTATION_OFFSET 34 (account_data w') = replicate 34 0
    \<and> rotation_get (sw_rotation w') = None"
proof -
  from set_guardians_authorized [OF assms(1)]
  have gs: "sw_guardians w' = map slot_of gs" and rot: "sw_rotation w' = EMPTY_ROTATION" by auto
  have "set_guardians_handle rt env ac auth (gs, fee, sb, vb) w b = Inr (ev, w', b')"
    by (simp add: set_guardians_handle_def assms(1))
  from set_guardians.keeps_invariant [OF this _ assms(3-5)] assms(2)
  have wf: "wf_wallet w'" by (simp add: wf_guardians_arg_def wallet_inv_def)
  have len: "length gs = MAX_GUARDIANS" using assms(2) by (simp add: wf_list_def)
  have "slot_kind (slot_of g) = Kind_P256 \<and> slot_key (slot_of g) = k \<longleftrightarrow> g = Guardian_P256 k" for g
    by (cases g) (auto simp: EMPTY_SLOT_def)
  moreover have "sw_guardians w' ! i = slot_of (gs ! i)" "gs ! i \<noteq> Guardian_P256 k"
    if "i < MAX_GUARDIANS" for i
    using that len assms(7) by (simp_all add: gs) (metis nth_mem)
  ultimately have "\<not> (slot_kind (sw_guardians w' ! i) = Kind_P256 \<and> slot_key (sw_guardians w' ! i) = k)"
    if "i < MAX_GUARDIANS" for i
    using that by metis
  then have "\<forall>i < MAX_GUARDIANS.
      \<not> memcmp (guardian_kind_offset i) (GUARDIAN_KIND_P256 # k) (account_data w')"
    using memcmp_guardian [OF wf assms(6)] by blast
  moreover have "slice ROTATION_OFFSET 34 (account_data w') = replicate 34 0"
    using rotation_bytes [OF wf]
    by (simp add: rot EMPTY_ROTATION_def enc_bool_def zero_key_def COMPRESSED_PUBKEY_LEN_def numeral_eq_Suc)
  ultimately show ?thesis by (simp add: rot)
qed

text \<open>The owner of \<open>demo_wallet\<close>, whose slot 0 holds \<open>guardian_key\<close>, appoints \<open>device_key\<close>.\<close>

definition new_guardians :: "Guardian list" where
  "new_guardians = [Guardian_P256 device_key, Guardian_None, Guardian_None]"

definition set_guardians_env :: env where
  "set_guardians_env = demo_env 1000 owner_key (demo_auth 5) (SetGuardians (map eguardian_of new_guardians))"

theorem set_guardians_removes_witness:
  "\<exists>ev w' b'. set_guardians demo_runtime set_guardians_env demo_accounts (demo_auth 5) new_guardians
      200000 255 255 demo_wallet (demo_bank demo_wallet 30000000) = Inr (ev, w', b')
    \<and> memcmp (guardian_kind_offset 0) (GUARDIAN_KIND_P256 # guardian_key) (account_data demo_wallet)
    \<and> (\<forall>i < MAX_GUARDIANS.
        \<not> memcmp (guardian_kind_offset i) (GUARDIAN_KIND_P256 # guardian_key) (account_data w'))"
proof -
  have gs: "wf_list wf_guardian MAX_GUARDIANS new_guardians" "\<not> list_ex is_webauthn new_guardians"
    by (simp_all add: new_guardians_def wf_list_def MAX_GUARDIANS_def wf_guardian_def wf_array_def
        COMPRESSED_PUBKEY_LEN_def is_webauthn_def)
  then have wf: "wf_action (SetGuardians (map eguardian_of new_guardians))"
    by (simp add: wf_list_def wf_guardian_def list_all_iff)
  have v: "verify_enclave_authorization demo_runtime set_guardians_env demo_wallet (demo_auth 5)
      (SetGuardians (map eguardian_of new_guardians)) 255 255
    = Inr (owner_key, demo_wallet\<lparr>sw_nonce := 6\<rparr>)"
    using demo_verify [of owner_key _ "demo_auth 5" demo_wallet 1000 demo_runtime 255 255, OF _ wf]
    by (simp add: set_guardians_env_def)
  have "\<exists>ev w' b'. set_guardians demo_runtime set_guardians_env demo_accounts (demo_auth 5)
      new_guardians 200000 255 255 demo_wallet (demo_bank demo_wallet 30000000) = Inr (ev, w', b')"
    using v gs(2)
    by (intro exI, subst set_guardians_Inr_iff [OF demo_runtime_contracts(1)])
      (auto simp: Let_def transfer_allowed_def demo_seeds)
  then obtain ev w' b' where run: "set_guardians demo_runtime set_guardians_env demo_accounts
      (demo_auth 5) new_guardians 200000 255 255 demo_wallet (demo_bank demo_wallet 30000000)
    = Inr (ev, w', b')" by blast
  have "signer_key_set set_guardians_env"
    using wf by (simp add: signer_key_set_def set_guardians_env_def demo_load demo_id_def)
  from set_guardians_removes [OF run gs(1) this, of guardian_key] demo_wallet_inv run show ?thesis
    using memcmp_guardian [of demo_wallet guardian_key 0]
    by (simp add: demo_id_def COMPRESSED_PUBKEY_LEN_def new_guardians_def wallet_inv_def MAX_GUARDIANS_def
        demo_wallet_def created_wallet_def EMPTY_SLOT_def)
qed

end
