(* ===== verification/Propose_Rotation.thy ===== *)
theory Propose_Rotation
  imports Scenario
begin

text \<open>
  \<open>instructions/propose_rotation.rs\<close>: signed by the active key, the rotation happens at once; signed
  by a P-256 guardian, it becomes the pending proposal, unless another guardian's proposal is still
  live. The branch is \<open>apply_proposal\<close>, the refund after it is shared.
\<close>

datatype Proposal = Rotated Event | Pending Event

definition propose_by_guardian ::
  "env \<Rightarrow> bytes \<Rightarrow> bytes \<Rightarrow> SmartWallet \<Rightarrow> error + Proposal \<times> SmartWallet" where
  "propose_by_guardian env new_key signer wallet =
     and_then (ok_or (p256_guardian wallet signer) (EnclaveKit NotAGuardian)) (\<lambda>slot.
     and_then (env_clock env) (\<lambda>now.
     and_then
       (case rotation_get (sw_rotation wallet) of
          None \<Rightarrow> Inr ()
        | Some pending \<Rightarrow>
            require_that (unat (pr_proposed_by pending) = slot \<or> is_expired pending now)
              (EnclaveKit RotationSlotTaken)) (\<lambda>_.
     let pending = \<lparr>pr_new_key = new_key, pr_proposed_at = now, pr_proposed_by = of_nat slot\<rparr> in
     Inr (Pending (RotationProposed (sw_wallet_id wallet) new_key signer (opens_at pending)),
       wallet\<lparr>sw_rotation := rotation_new pending\<rparr>))))"

definition apply_proposal ::
  "env \<Rightarrow> bytes \<Rightarrow> bytes \<Rightarrow> SmartWallet \<Rightarrow> error + Proposal \<times> SmartWallet" where
  "apply_proposal env new_key signer wallet =
     (if signer = sw_active_key wallet
      then let wallet = wallet\<lparr>sw_active_key := new_key\<rparr>;
               wallet = wallet\<lparr>sw_attested := False\<rparr>;
               wallet = wallet\<lparr>sw_rotation := EMPTY_ROTATION\<rparr> in
           Inr (Rotated (KeyRotated (sw_wallet_id wallet) new_key False), wallet)
      else propose_by_guardian env new_key signer wallet)"

definition propose ::
  "runtime \<Rightarrow> env \<Rightarrow> Accounts \<Rightarrow> Authorization \<Rightarrow> bytes \<Rightarrow> u64 \<Rightarrow> SmartWallet \<Rightarrow> bank
     \<Rightarrow> error + Proposal \<times> SmartWallet \<times> bank" where
  "propose rt env ac authorization new_key relayer_fee wallet b =
     and_then (require_that (new_key \<noteq> zero_key) (EnclaveKit InvalidNewKey)) (\<lambda>_.
     let action = ProposeRotation new_key;
         state_bump = sw_state_bump wallet; vault_bump = sw_vault_bump wallet in
     and_then (verify_enclave_authorization rt env wallet authorization action state_bump vault_bump)
       (\<lambda>(signer, wallet).
     and_then (apply_proposal env new_key signer wallet) (\<lambda>(proposal, wallet).
     and_then (refund_relayer rt wallet (vault_key ac) (relayer_key ac) relayer_fee
       (auth_max_relayer_fee authorization) b) (\<lambda>(refund, b).
     Inr (proposal, wallet, b)))))"

text \<open>A guardian's proposal takes the slot when it is empty, its own, or expired.\<close>

definition slot_free :: "RotationSlot \<Rightarrow> nat \<Rightarrow> i64 \<Rightarrow> bool" where
  "slot_free rotation slot now \<longleftrightarrow>
     (case rotation_get rotation of None \<Rightarrow> True
      | Some p \<Rightarrow> unat (pr_proposed_by p) = slot \<or> is_expired p now)"

lemma propose_by_guardian_Inr_iff:
  "propose_by_guardian env k signer w = Inr (p, w') \<longleftrightarrow>
    (\<exists>slot now. p256_guardian w signer = Some slot \<and> env_clock env = Inr now
      \<and> slot_free (sw_rotation w) slot now
      \<and> w' = w\<lparr>sw_rotation := rotation_new
           \<lparr>pr_new_key = k, pr_proposed_at = now, pr_proposed_by = of_nat slot\<rparr>\<rparr>
      \<and> p = Pending (RotationProposed (sw_wallet_id w) k signer
           (saturating_add now ROTATION_DELAY)))"
  by (auto simp: propose_by_guardian_def result_simps Let_def slot_free_def opens_at_def
      split: option.splits)

lemma apply_proposal_Inr_iff:
  "apply_proposal env k signer w = Inr (p, w') \<longleftrightarrow>
    (if signer = sw_active_key w
     then w' = w\<lparr>sw_active_key := k, sw_attested := False, sw_rotation := EMPTY_ROTATION\<rparr>
       \<and> p = Rotated (KeyRotated (sw_wallet_id w) k False)
     else propose_by_guardian env k signer w = Inr (p, w'))"
  by (auto simp: apply_proposal_def Let_def)

lemma apply_proposal_identity: "apply_proposal env k signer w = Inr (p, w') \<Longrightarrow> keeps_identity w w'"
  by (auto simp: apply_proposal_Inr_iff propose_by_guardian_Inr_iff split: if_splits)

lemma apply_proposal_inv:
  assumes "apply_proposal env k signer w = Inr (p, w')" "wallet_inv w"
    and "length k = COMPRESSED_PUBKEY_LEN" "k \<noteq> zero_key"
  shows "wallet_inv w'"
  using assms by (auto simp: apply_proposal_Inr_iff propose_by_guardian_Inr_iff split: if_splits
      intro: wallet_inv_rotate wallet_inv_propose)

lemma propose_Inr_iff:
  assumes "transfer_contract rt"
  shows "propose rt env ac auth k fee w b = Inr (p, w', b') \<longleftrightarrow>
    (\<exists>signer w1. let refund = min fee (auth_max_relayer_fee auth) in
      k \<noteq> zero_key
      \<and> verify_enclave_authorization rt env w auth (ProposeRotation k) (sw_state_bump w)
          (sw_vault_bump w) = Inr (signer, w1)
      \<and> apply_proposal env k signer w1 = Inr (p, w')
      \<and> transfer_allowed rt [VAULT_SEED, sw_wallet_id w', [sw_vault_bump w']] (vault_key ac)
          (relayer_key ac) refund b
      \<and> b' = move_lamports (vault_key ac) (relayer_key ac) refund b)"
  by (auto simp: propose_def result_simps Let_def refund_relayer_iff [OF assms])

lemma propose_authorized:
  assumes "propose rt env ac auth k fee w b = Inr (p, w', b')"
  shows "\<exists>signer w1. k \<noteq> zero_key
    \<and> verify_enclave_authorization rt env w auth (ProposeRotation k) (sw_state_bump w)
        (sw_vault_bump w) = Inr (signer, w1)
    \<and> apply_proposal env k signer w1 = Inr (p, w')"
  using assms by (auto simp: propose_def result_simps Let_def)

definition proposal_event :: "Proposal \<Rightarrow> Event" where
  "proposal_event p = (case p of Rotated ev \<Rightarrow> ev | Pending ev \<Rightarrow> ev)"

definition propose_handle :: "(bytes \<times> u64) handler" where
  "propose_handle rt env ac auth arg w b =
     and_then (propose rt env ac auth (fst arg) (snd arg) w b) (\<lambda>(p, w, b).
     Inr (proposal_event p, w, b))"

definition propose_action :: "Accounts \<Rightarrow> bytes \<times> u64 \<Rightarrow> Action" where
  "propose_action ac arg = ProposeRotation (fst arg)"

definition wf_propose_arg :: "bytes \<times> u64 \<Rightarrow> bool" where
  "wf_propose_arg arg \<longleftrightarrow> wf_array COMPRESSED_PUBKEY_LEN (fst arg)"

interpretation propose: signed_handler propose_handle propose_action stored_bumps wf_propose_arg
proof
  fix rt env ac auth arg w b ev w' b' signer w1
  assume "propose_handle rt env ac auth arg w b = Inr (ev, w', b')"
  then obtain p where run: "propose rt env ac auth (fst arg) (snd arg) w b = Inr (p, w', b')"
    by (auto simp: propose_handle_def result_simps)
  note checked = propose_authorized [OF run]
  show "\<exists>signer w1. verify_enclave_authorization rt env w auth (propose_action ac arg)
      (fst (stored_bumps arg w)) (snd (stored_bumps arg w)) = Inr (signer, w1) \<and> keeps_identity w1 w'"
    using checked by (auto simp: propose_action_def stored_bumps_def dest: apply_proposal_identity)
  show "same_but_lamports b b' {vault_key ac, to_key ac, relayer_key ac}" if "transfer_contract rt"
    using run by (auto simp: propose_Inr_iff [OF that] Let_def intro!: same_but_lamports_move)
  assume "verify_enclave_authorization rt env w auth (propose_action ac arg)
      (fst (stored_bumps arg w)) (snd (stored_bumps arg w)) = Inr (signer, w1)"
  with checked have "fst arg \<noteq> zero_key" "apply_proposal env (fst arg) signer w1 = Inr (p, w')"
    by (auto simp: propose_action_def stored_bumps_def)
  then show "wallet_inv w'" if "wf_propose_arg arg" "wallet_inv w1"
    using that by (auto simp: wf_propose_arg_def wf_array_def intro: apply_proposal_inv)
qed

section \<open>Properties\<close>

text \<open>C31: a guardian cannot displace the live proposal of another guardian. When a proposal made at
  \<open>t\<close> by another slot is pending, a guardian's own is refused with \<open>RotationSlotTaken\<close> as long as
  the first can still be confirmed (until \<open>t\<close> + 72 hours + 7 days), and afterwards replaces it, with
  its own time and slot; the active key stays in either case.\<close>

theorem live_proposal_blocks:
  assumes "signer \<noteq> sw_active_key w" "p256_guardian w signer = Some slot" "env_clock env = Inr now"
    and "rotation_get (sw_rotation w) = Some p" "unat (pr_proposed_by p) \<noteq> slot"
    and "sint (pr_proposed_at p) + 864000 \<le> I64_MAX"
  shows "apply_proposal env k signer w =
    (if sint now \<le> sint (pr_proposed_at p) + 72 * 60 * 60 + 7 * 24 * 60 * 60
     then Inl (EnclaveKit RotationSlotTaken)
     else Inr (Pending (RotationProposed (sw_wallet_id w) k signer (saturating_add now ROTATION_DELAY)),
       w\<lparr>sw_rotation := rotation_new
         \<lparr>pr_new_key = k, pr_proposed_at = now, pr_proposed_by = of_nat slot\<rparr>\<rparr>))"
  using assms by (simp add: apply_proposal_def propose_by_guardian_def Let_def is_expired_def
      sint_closes_at opens_at_def)

text \<open>A second guardian, in slot 1, against the first one's proposal of time 1000.\<close>

definition contested_wallet :: SmartWallet where
  "contested_wallet = demo_wallet\<lparr>
     sw_guardians := [slot_of (Guardian_P256 guardian_key), slot_of (Guardian_P256 device_key), EMPTY_SLOT],
     sw_rotation := rotation_new
       \<lparr>pr_new_key = replicate 33 5, pr_proposed_at = 1000, pr_proposed_by = 0\<rparr>\<rparr>"

definition contested_env :: "i64 \<Rightarrow> env" where
  "contested_env now = \<lparr>env_clock = Inr now, env_rent = Inl (External 0), env_previous = Inl (External 0)\<rparr>"

theorem live_proposal_blocks_witness:
  "apply_proposal (contested_env 865000) (replicate 33 6) device_key contested_wallet
     = Inl (EnclaveKit RotationSlotTaken)
   \<and> (\<exists>w. apply_proposal (contested_env 865001) (replicate 33 6) device_key contested_wallet
         = Inr (Pending (RotationProposed demo_id (replicate 33 6) device_key 1124201), w)
       \<and> sw_active_key w = owner_key)"
proof -
  have guardian: "p256_guardian contested_wallet device_key = Some 1"
    by (simp add: p256_guardian_def contested_wallet_def EMPTY_SLOT_def)
  have run: "apply_proposal (contested_env now) k device_key contested_wallet =
    (if sint now \<le> 865000 then Inl (EnclaveKit RotationSlotTaken)
     else Inr (Pending (RotationProposed demo_id k device_key (saturating_add now ROTATION_DELAY)),
       contested_wallet\<lparr>sw_rotation := rotation_new
         \<lparr>pr_new_key = k, pr_proposed_at = now, pr_proposed_by = 1\<rparr>\<rparr>))" for now k
    using demo_keys(5) [THEN not_sym]
    by (subst live_proposal_blocks [OF _ guardian, where now = now and p = "\<lparr>pr_new_key = replicate 33 5,
          pr_proposed_at = 1000, pr_proposed_by = 0\<rparr>"])
      (simp_all add: contested_wallet_def contested_env_def I64_MAX_def)
  have "saturating_add 865001 ROTATION_DELAY = 1124201"
    by (simp add: saturating_add_def ROTATION_DELAY_def I64_MAX_def I64_MIN_def Let_def)
  then show ?thesis unfolding run by (simp add: contested_wallet_def)
qed

end
