(* ===== verification/Confirm_Rotation.thy ===== *)
theory Confirm_Rotation
  imports Scenario
begin

text \<open>
  \<open>instructions/confirm_rotation.rs\<close>: anyone may confirm the pending rotation inside its window. No
  signature, no nonce, no refund; the clock decides.
\<close>

definition confirm :: "env \<Rightarrow> SmartWallet \<Rightarrow> error + Event \<times> SmartWallet" where
  "confirm env wallet =
     and_then (ok_or (rotation_get (sw_rotation wallet)) (EnclaveKit NoPendingRotation)) (\<lambda>pending.
     and_then (env_clock env) (\<lambda>now.
     and_then (require_that (sint now \<ge> sint (opens_at pending)) (EnclaveKit RotationTooEarly)) (\<lambda>_.
     and_then (require_that (\<not> is_expired pending now) (EnclaveKit RotationExpired)) (\<lambda>_.
     let new_key = pr_new_key pending;
         wallet = wallet\<lparr>sw_active_key := new_key\<rparr>;
         wallet = wallet\<lparr>sw_attested := False\<rparr>;
         wallet = wallet\<lparr>sw_rotation := EMPTY_ROTATION\<rparr> in
     Inr (KeyRotated (sw_wallet_id wallet) new_key True, wallet)))))"

lemma confirm_Inr_iff:
  "confirm env w = Inr (ev, w') \<longleftrightarrow>
    (\<exists>pending now. rotation_get (sw_rotation w) = Some pending \<and> env_clock env = Inr now
      \<and> sint (opens_at pending) \<le> sint now \<and> sint now \<le> sint (closes_at pending)
      \<and> w' = w\<lparr>sw_active_key := pr_new_key pending, sw_attested := False,
           sw_rotation := EMPTY_ROTATION\<rparr>
      \<and> ev = KeyRotated (sw_wallet_id w) (pr_new_key pending) True)"
  by (auto simp: confirm_def result_simps Let_def is_expired_def)

lemma confirm_inv:
  assumes "confirm env w = Inr (ev, w')" "wallet_inv w"
  shows "wallet_inv w'"
proof -
  from assms(1) obtain pending where
    pending: "rotation_get (sw_rotation w) = Some pending"
    and w': "w' = w\<lparr>sw_active_key := pr_new_key pending, sw_attested := False,
      sw_rotation := EMPTY_ROTATION\<rparr>"
    by (auto simp: confirm_Inr_iff)
  from pending assms(2)
  have "length (pr_new_key pending) = COMPRESSED_PUBKEY_LEN" "pr_new_key pending \<noteq> zero_key"
    by (auto simp: rotation_get_def wallet_inv_def good_rotation_def wf_rotation_def wf_pending_def
        wf_array_def Let_def split: if_splits)
  with assms(2) show ?thesis unfolding w' by (intro wallet_inv_rotate)
qed

section \<open>Properties\<close>

text \<open>C30: the clock alone decides a confirmation. With a proposal made at \<open>t\<close>, it is refused as too
  early before \<open>t\<close> + 72 hours, refused as expired after \<open>t\<close> + 72 hours + 7 days, and in between the
  proposed key becomes the active key, unattested, and the proposal is gone; nothing else changes.\<close>

theorem confirm_by_the_clock:
  assumes "rotation_get (sw_rotation w) = Some p" "env_clock env = Inr now"
    and "sint (pr_proposed_at p) + 864000 \<le> I64_MAX"
  shows "confirm env w =
    (if sint now < sint (pr_proposed_at p) + 72 * 60 * 60 then Inl (EnclaveKit RotationTooEarly)
     else if sint now > sint (pr_proposed_at p) + 72 * 60 * 60 + 7 * 24 * 60 * 60
     then Inl (EnclaveKit RotationExpired)
     else Inr (KeyRotated (sw_wallet_id w) (pr_new_key p) True,
       w\<lparr>sw_active_key := pr_new_key p, sw_attested := False, sw_rotation := EMPTY_ROTATION\<rparr>))"
  using assms by (simp add: confirm_def is_expired_def sint_opens_at sint_closes_at Let_def)

text \<open>A proposal at 1000, tried one second too early and at the first and last second of its window.\<close>

definition waiting_wallet :: SmartWallet where
  "waiting_wallet = demo_wallet\<lparr>sw_rotation := rotation_new
     \<lparr>pr_new_key = device_key, pr_proposed_at = 1000, pr_proposed_by = 0\<rparr>\<rparr>"

definition clock_env :: "i64 \<Rightarrow> env" where
  "clock_env now = \<lparr>env_clock = Inr now, env_rent = Inl (External 0), env_previous = Inl (External 0)\<rparr>"

theorem confirm_by_the_clock_witness:
  "confirm (clock_env 260199) waiting_wallet = Inl (EnclaveKit RotationTooEarly)
   \<and> (\<exists>w. confirm (clock_env 260200) waiting_wallet = Inr (KeyRotated demo_id device_key True, w)
        \<and> sw_active_key w = device_key)
   \<and> (\<exists>w. confirm (clock_env 865000) waiting_wallet = Inr (KeyRotated demo_id device_key True, w))
   \<and> confirm (clock_env 865001) waiting_wallet = Inl (EnclaveKit RotationExpired)"
proof -
  have run: "confirm (clock_env now) waiting_wallet =
      (if sint now < 260200 then Inl (EnclaveKit RotationTooEarly)
       else if sint now > 865000 then Inl (EnclaveKit RotationExpired)
       else Inr (KeyRotated demo_id device_key True, waiting_wallet\<lparr>sw_active_key := device_key,
         sw_attested := False, sw_rotation := EMPTY_ROTATION\<rparr>))" for now
    by (subst confirm_by_the_clock [where now = now and
          p = "\<lparr>pr_new_key = device_key, pr_proposed_at = 1000, pr_proposed_by = 0\<rparr>"])
      (simp_all add: waiting_wallet_def clock_env_def I64_MAX_def)
  show ?thesis unfolding run by simp
qed

end
