(* ===== verification/Cancel_Rotation.thy ===== *)
theory Cancel_Rotation
  imports Confirm_Rotation
begin

text \<open>
  \<open>instructions/cancel_rotation.rs\<close>: the active key drops the pending rotation, whatever the clock
  says about its window.
\<close>

definition cancel ::
  "runtime \<Rightarrow> env \<Rightarrow> Accounts \<Rightarrow> Authorization \<Rightarrow> u64 \<Rightarrow> SmartWallet \<Rightarrow> bank
     \<Rightarrow> error + Event \<times> SmartWallet \<times> bank" where
  "cancel rt env ac authorization relayer_fee wallet b =
     (let action = CancelRotation;
          state_bump = sw_state_bump wallet; vault_bump = sw_vault_bump wallet in
      and_then (verify_enclave_authorization rt env wallet authorization action state_bump vault_bump)
        (\<lambda>(signer, wallet).
      and_then (require_active_key wallet signer) (\<lambda>_.
      let (taken, rotation) = rotation_take (sw_rotation wallet);
          wallet = wallet\<lparr>sw_rotation := rotation\<rparr> in
      and_then (ok_or taken (EnclaveKit NoPendingRotation)) (\<lambda>cancelled.
      and_then (refund_relayer rt wallet (vault_key ac) (relayer_key ac) relayer_fee
        (auth_max_relayer_fee authorization) b) (\<lambda>(refund, b).
      Inr (RotationCancelled (sw_wallet_id wallet) (pr_new_key cancelled), wallet, b))))))"

lemma cancel_Inr_iff:
  assumes "transfer_contract rt"
  shows "cancel rt env ac auth fee w b = Inr (ev, w', b') \<longleftrightarrow>
    (\<exists>w1 pending. let refund = min fee (auth_max_relayer_fee auth) in
      verify_enclave_authorization rt env w auth CancelRotation (sw_state_bump w) (sw_vault_bump w)
        = Inr (sw_active_key w1, w1)
      \<and> rotation_get (sw_rotation w1) = Some pending
      \<and> w' = w1\<lparr>sw_rotation := EMPTY_ROTATION\<rparr>
      \<and> transfer_allowed rt [VAULT_SEED, sw_wallet_id w', [sw_vault_bump w']] (vault_key ac)
          (relayer_key ac) refund b
      \<and> b' = move_lamports (vault_key ac) (relayer_key ac) refund b
      \<and> ev = RotationCancelled (sw_wallet_id w') (pr_new_key pending))"
  by (auto simp: cancel_def result_simps Let_def refund_relayer_iff [OF assms] rotation_take_def
      rotation_get_def)

definition cancel_action :: "Accounts \<Rightarrow> u64 \<Rightarrow> Action" where
  "cancel_action ac arg = CancelRotation"

lemma cancel_authorized:
  assumes "cancel rt env ac auth fee w b = Inr (ev, w', b')"
  shows "\<exists>w1. verify_enclave_authorization rt env w auth CancelRotation
      (sw_state_bump w) (sw_vault_bump w) = Inr (sw_active_key w1, w1)
    \<and> rotation_get (sw_rotation w1) \<noteq> None \<and> w' = w1\<lparr>sw_rotation := EMPTY_ROTATION\<rparr>"
  using assms by (auto simp: cancel_def result_simps Let_def rotation_take_def rotation_get_def
      split: if_splits)

interpretation cancel: active_key_handler cancel cancel_action stored_bumps wf_any
  by (rule active_key_handlerI)
    (fastforce simp: cancel_action_def stored_bumps_def dest: cancel_authorized
        intro: wallet_inv_clear,
     auto simp: cancel_Inr_iff Let_def intro!: same_but_lamports_move)

lemma cancel_runs:
  assumes "transfer_contract rt"
    and "verify_enclave_authorization rt env w auth CancelRotation (sw_state_bump w)
      (sw_vault_bump w) = Inr (sw_active_key w1, w1)"
    and "rotation_get (sw_rotation w1) = Some p"
    and "transfer_allowed rt [VAULT_SEED, sw_wallet_id w1, [sw_vault_bump w1]] (vault_key ac)
      (relayer_key ac) (min fee (auth_max_relayer_fee auth)) b"
  shows "cancel rt env ac auth fee w b
    = Inr (RotationCancelled (sw_wallet_id w1) (pr_new_key p), w1\<lparr>sw_rotation := EMPTY_ROTATION\<rparr>,
        move_lamports (vault_key ac) (relayer_key ac) (min fee (auth_max_relayer_fee auth)) b)"
  using assms by (simp add: cancel_Inr_iff Let_def)

text \<open>The handler asks the clock nothing but whether the authorization still runs: an example of a
  cancellation long after the window closed.\<close>

definition late_wallet :: SmartWallet where
  "late_wallet = demo_wallet\<lparr>sw_rotation := rotation_new
     \<lparr>pr_new_key = device_key, pr_proposed_at = -1000000, pr_proposed_by = 0\<rparr>\<rparr>"

lemma demo_cancel_verify:
  assumes "\<not> is_new w" "sw_active_key w = owner_key" "sw_nonce w = 5"
    and "sw_state_bump w = 255" "sw_vault_bump w = 255"
  shows "verify_enclave_authorization demo_runtime
      (demo_env 1000 owner_key (demo_auth 5) CancelRotation) w (demo_auth 5) CancelRotation
      (sw_state_bump w) (sw_vault_bump w)
    = Inr (sw_active_key (w\<lparr>sw_nonce := 6\<rparr>), w\<lparr>sw_nonce := 6\<rparr>)"
  using demo_verify [of owner_key CancelRotation "demo_auth 5" w 1000 demo_runtime 255 255] assms
  by simp

lemma cancel_at_any_time:
  "\<exists>b'. cancel demo_runtime (demo_env 1000 owner_key (demo_auth 5) CancelRotation) demo_accounts
      (demo_auth 5) 200000 late_wallet (demo_bank late_wallet 30000000)
    = Inr (RotationCancelled demo_id device_key,
        late_wallet\<lparr>sw_nonce := 6, sw_rotation := EMPTY_ROTATION\<rparr>, b')"
proof -
  have "\<not> is_new late_wallet" using demo_wallet_new by (simp add: late_wallet_def is_new_def)
  then show ?thesis
    by (subst cancel_runs [OF demo_runtime_contracts(1) demo_cancel_verify, where
          p = "\<lparr>pr_new_key = device_key, pr_proposed_at = -1000000, pr_proposed_by = 0\<rparr>"])
      (simp_all add: late_wallet_def transfer_allowed_def demo_seeds)
qed

section \<open>Properties\<close>

text \<open>C33: until a proposal opens, the owner can stop it. Before \<open>opens_at\<close> nobody can confirm the
  pending rotation. A cancellation whose signature passed the check, with a vault that covers the capped
  fee, succeeds if the active key signed: it drops exactly the proposal and pays the relayer that fee, and
  after it no confirmation succeeds at any time. Signed by any other key, it is refused.\<close>

theorem owner_cancels_until_opening:
  assumes "transfer_contract rt" "\<not> is_new w" "rotation_get (sw_rotation w) = Some p"
    and "env_clock env = Inr now" "sint now < sint (opens_at p)"
    and "verify_enclave_authorization rt env w auth CancelRotation (sw_state_bump w)
      (sw_vault_bump w) = Inr (signer, w1)"
    and "transfer_allowed rt [VAULT_SEED, sw_wallet_id w, [sw_vault_bump w]] (vault_key ac)
      (relayer_key ac) (min fee (auth_max_relayer_fee auth)) b"
  shows "confirm env w = Inl (EnclaveKit RotationTooEarly)
    \<and> (if signer = sw_active_key w
       then \<exists>w'. cancel rt env ac auth fee w b = Inr (RotationCancelled (sw_wallet_id w) (pr_new_key p), w',
             move_lamports (vault_key ac) (relayer_key ac) (min fee (auth_max_relayer_fee auth)) b)
         \<and> w' = w\<lparr>sw_nonce := sw_nonce w + 1, sw_rotation := EMPTY_ROTATION\<rparr>
         \<and> (\<forall>env'. confirm env' w' = Inl (EnclaveKit NoPendingRotation))
       else cancel rt env ac auth fee w b = Inl (EnclaveKit KeyMismatch))"
proof -
  have early: "confirm env w = Inl (EnclaveKit RotationTooEarly)"
    using assms(3-5) by (simp add: confirm_def)
  have w1: "w1 = w\<lparr>sw_nonce := sw_nonce w + 1\<rparr>"
    using assms(2,6) by (auto simp: verify_Inr_iff checked_wallet_def)
  show ?thesis
  proof (cases "signer = sw_active_key w")
    case True
    with assms(6) w1 have "verify_enclave_authorization rt env w auth CancelRotation (sw_state_bump w)
        (sw_vault_bump w) = Inr (sw_active_key w1, w1)" by simp
    from cancel_runs [OF assms(1) this] assms(3,7) early True show ?thesis
      by (simp add: w1 confirm_def rotation_get_def EMPTY_ROTATION_def)
  next
    case False
    with assms(6) early w1 show ?thesis by (simp add: cancel_def require_active_key_def Let_def)
  qed
qed

text \<open>A proposal at 1000, cancelled at 1000.\<close>

theorem owner_cancels_until_opening_witness:
  "\<exists>w' b'. cancel demo_runtime (demo_env 1000 owner_key (demo_auth 5) CancelRotation) demo_accounts
      (demo_auth 5) 200000 waiting_wallet (demo_bank waiting_wallet 30000000)
    = Inr (RotationCancelled demo_id device_key, w', b')
   \<and> confirm (clock_env 260200) w' = Inl (EnclaveKit NoPendingRotation)"
proof -
  have "\<not> is_new waiting_wallet" using demo_wallet_new by (simp add: waiting_wallet_def is_new_def)
  note verify = demo_cancel_verify [OF this]
  have p: "rotation_get (sw_rotation waiting_wallet)
      = Some \<lparr>pr_new_key = device_key, pr_proposed_at = 1000, pr_proposed_by = 0\<rparr>"
    by (simp add: waiting_wallet_def)
  have "sint (opens_at \<lparr>pr_new_key = device_key, pr_proposed_at = 1000, pr_proposed_by = 0\<rparr>) = 260200"
    by code_simp
  with owner_cancels_until_opening [OF demo_runtime_contracts(1) \<open>\<not> is_new waiting_wallet\<close> p _ _ verify,
      of 1000 demo_accounts 200000 "demo_bank waiting_wallet 30000000"]
  show ?thesis
    by (simp add: demo_env_def transfer_allowed_def demo_seeds waiting_wallet_def)
qed

end
