(* ===== verification/Program.thy ===== *)
theory Program
  imports Transfer_Sol Sweep_Vault Close_Wallet Set_Guardians Propose_Rotation Cancel_Rotation
    Confirm_Rotation
begin

text \<open>
  \<open>programs/enclavekit/src/lib.rs\<close>: the seven entry points. Each loads and checks the accounts its
  struct declares, builds the \<open>Authorization\<close> from its arguments, runs the handler, emits the event
  (after \<open>WalletCreated\<close>, on a wallet's first action) and writes the wallet back, or closes it. An
  entry point returns the events and the ledger; an error leaves no ledger, because the runtime
  discards what a failed transaction changed. \<open>process\<close> dispatches on the instruction.
\<close>

section \<open>Loading the accounts\<close>

text \<open>\<open>TransferSol\<close>, \<open>SweepVault\<close>, \<open>SetGuardians\<close> (the last without \<open>to\<close>): the wallet may be new.
  Returns the wallet, the two canonical bumps and the ledger.\<close>

definition init_accounts ::
  "bool \<Rightarrow> runtime \<Rightarrow> Accounts \<Rightarrow> bytes \<Rightarrow> bank \<Rightarrow> error + SmartWallet \<times> byte \<times> byte \<times> bank" where
  "init_accounts has_to rt ac wid b =
     and_then (load_or_init_wallet rt ac wid b) (\<lambda>(wallet, bump_wallet, b).
     and_then (check_vault rt ac wid b) (\<lambda>bump_vault.
     and_then (if has_to then require_mut (ac_to ac) else Inr ()) (\<lambda>_.
     and_then (check_relayer_and_programs rt ac) (\<lambda>_.
     and_then (check_event_cpi rt ac) (\<lambda>_.
     Inr (wallet, bump_wallet, bump_vault, b))))))"

text \<open>\<open>CloseWallet\<close>, \<open>ProposeRotation\<close>, \<open>CancelRotation\<close> (the last two without \<open>to\<close>): the wallet must
  exist.\<close>

definition existing_accounts ::
  "bool \<Rightarrow> runtime \<Rightarrow> Accounts \<Rightarrow> bytes \<Rightarrow> bank \<Rightarrow> error + SmartWallet" where
  "existing_accounts has_to rt ac wid b =
     and_then (load_wallet rt ac wid b) (\<lambda>wallet.
     and_then (check_vault_stored rt ac wid wallet b) (\<lambda>_.
     and_then (if has_to then require_mut (ac_to ac) else Inr ()) (\<lambda>_.
     and_then (check_relayer_and_programs rt ac) (\<lambda>_.
     and_then (check_event_cpi rt ac) (\<lambda>_.
     Inr wallet)))))"

definition confirm_accounts :: "runtime \<Rightarrow> Accounts \<Rightarrow> bytes \<Rightarrow> bank \<Rightarrow> error + SmartWallet" where
  "confirm_accounts rt ac wid b =
     and_then (load_wallet rt ac wid b) (\<lambda>wallet.
     and_then (check_event_cpi rt ac) (\<lambda>_. Inr wallet))"

text \<open>The accounts of each instruction, by the struct that declares them.\<close>

definition TransferSol_accounts ::
  "runtime \<Rightarrow> Accounts \<Rightarrow> bytes \<Rightarrow> bank \<Rightarrow> error + SmartWallet \<times> byte \<times> byte \<times> bank" where
  [simp]: "TransferSol_accounts = init_accounts True"

definition SweepVault_accounts ::
  "runtime \<Rightarrow> Accounts \<Rightarrow> bytes \<Rightarrow> bank \<Rightarrow> error + SmartWallet \<times> byte \<times> byte \<times> bank" where
  [simp]: "SweepVault_accounts = init_accounts True"

definition SetGuardians_accounts ::
  "runtime \<Rightarrow> Accounts \<Rightarrow> bytes \<Rightarrow> bank \<Rightarrow> error + SmartWallet \<times> byte \<times> byte \<times> bank" where
  [simp]: "SetGuardians_accounts = init_accounts False"

definition CloseWallet_accounts :: "runtime \<Rightarrow> Accounts \<Rightarrow> bytes \<Rightarrow> bank \<Rightarrow> error + SmartWallet" where
  [simp]: "CloseWallet_accounts = existing_accounts True"

definition ProposeRotation_accounts :: "runtime \<Rightarrow> Accounts \<Rightarrow> bytes \<Rightarrow> bank \<Rightarrow> error + SmartWallet" where
  [simp]: "ProposeRotation_accounts = existing_accounts False"

definition CancelRotation_accounts :: "runtime \<Rightarrow> Accounts \<Rightarrow> bytes \<Rightarrow> bank \<Rightarrow> error + SmartWallet" where
  [simp]: "CancelRotation_accounts = existing_accounts False"

section \<open>The entry points\<close>

definition created_event :: "bool \<Rightarrow> bytes \<Rightarrow> SmartWallet \<Rightarrow> Event list" where
  "created_event created wallet_id wallet =
     (if created then [WalletCreated wallet_id (sw_active_key wallet)] else [])"

definition transfer_sol ::
  "runtime \<Rightarrow> env \<Rightarrow> Accounts \<Rightarrow> bytes \<Rightarrow> u64 \<Rightarrow> i64 \<Rightarrow> u64 \<Rightarrow> u64 \<Rightarrow> u64 \<Rightarrow> bank
     \<Rightarrow> error + Event list \<times> bank" where
  "transfer_sol rt env ac wallet_id nonce expires_at max_relayer_fee lamports relayer_fee b =
     and_then (TransferSol_accounts rt ac wallet_id b) (\<lambda>(wallet, bump_wallet, bump_vault, b).
     let authorization = \<lparr>auth_wallet_id = wallet_id, auth_nonce = nonce,
           auth_expires_at = expires_at, auth_max_relayer_fee = max_relayer_fee\<rparr>;
         created = is_new wallet in
     and_then (transfer rt env ac authorization lamports relayer_fee bump_wallet bump_vault wallet b)
       (\<lambda>(event, wallet, b).
     Inr (created_event created wallet_id wallet @ [event],
       store_wallet (wallet_key ac) wallet b)))"

definition set_guardians_entry ::
  "runtime \<Rightarrow> env \<Rightarrow> Accounts \<Rightarrow> bytes \<Rightarrow> u64 \<Rightarrow> i64 \<Rightarrow> u64 \<Rightarrow> Guardian list \<Rightarrow> u64 \<Rightarrow> bank
     \<Rightarrow> error + Event list \<times> bank" where
  "set_guardians_entry rt env ac wallet_id nonce expires_at max_relayer_fee guardians relayer_fee b =
     and_then (SetGuardians_accounts rt ac wallet_id b) (\<lambda>(wallet, bump_wallet, bump_vault, b).
     let authorization = \<lparr>auth_wallet_id = wallet_id, auth_nonce = nonce,
           auth_expires_at = expires_at, auth_max_relayer_fee = max_relayer_fee\<rparr>;
         created = is_new wallet in
     and_then (set_guardians rt env ac authorization guardians relayer_fee bump_wallet bump_vault
       wallet b) (\<lambda>(event, wallet, b).
     Inr (created_event created wallet_id wallet @ [event],
       store_wallet (wallet_key ac) wallet b)))"

definition cancel_rotation ::
  "runtime \<Rightarrow> env \<Rightarrow> Accounts \<Rightarrow> bytes \<Rightarrow> u64 \<Rightarrow> i64 \<Rightarrow> u64 \<Rightarrow> u64 \<Rightarrow> bank
     \<Rightarrow> error + Event list \<times> bank" where
  "cancel_rotation rt env ac wallet_id nonce expires_at max_relayer_fee relayer_fee b =
     and_then (CancelRotation_accounts rt ac wallet_id b) (\<lambda>wallet.
     let authorization = \<lparr>auth_wallet_id = wallet_id, auth_nonce = nonce,
           auth_expires_at = expires_at, auth_max_relayer_fee = max_relayer_fee\<rparr> in
     and_then (cancel rt env ac authorization relayer_fee wallet b) (\<lambda>(event, wallet, b).
     Inr ([event], store_wallet (wallet_key ac) wallet b)))"

definition propose_rotation ::
  "runtime \<Rightarrow> env \<Rightarrow> Accounts \<Rightarrow> bytes \<Rightarrow> u64 \<Rightarrow> i64 \<Rightarrow> u64 \<Rightarrow> bytes \<Rightarrow> u64 \<Rightarrow> bank
     \<Rightarrow> error + Event list \<times> bank" where
  "propose_rotation rt env ac wallet_id nonce expires_at max_relayer_fee new_key relayer_fee b =
     and_then (ProposeRotation_accounts rt ac wallet_id b) (\<lambda>wallet.
     let authorization = \<lparr>auth_wallet_id = wallet_id, auth_nonce = nonce,
           auth_expires_at = expires_at, auth_max_relayer_fee = max_relayer_fee\<rparr> in
     and_then (propose rt env ac authorization new_key relayer_fee wallet b) (\<lambda>(proposal, wallet, b).
     Inr ([case proposal of Rotated event \<Rightarrow> event | Pending event \<Rightarrow> event],
       store_wallet (wallet_key ac) wallet b)))"

definition confirm_rotation ::
  "runtime \<Rightarrow> env \<Rightarrow> Accounts \<Rightarrow> bytes \<Rightarrow> bank \<Rightarrow> error + Event list \<times> bank" where
  "confirm_rotation rt env ac wallet_id b =
     and_then (confirm_accounts rt ac wallet_id b) (\<lambda>wallet.
     and_then (confirm env wallet) (\<lambda>(event, wallet).
     Inr ([event], store_wallet (wallet_key ac) wallet b)))"

definition sweep_vault ::
  "runtime \<Rightarrow> env \<Rightarrow> Accounts \<Rightarrow> bytes \<Rightarrow> u64 \<Rightarrow> i64 \<Rightarrow> u64 \<Rightarrow> u64 \<Rightarrow> bank
     \<Rightarrow> error + Event list \<times> bank" where
  "sweep_vault rt env ac wallet_id nonce expires_at max_relayer_fee relayer_fee b =
     and_then (SweepVault_accounts rt ac wallet_id b) (\<lambda>(wallet, bump_wallet, bump_vault, b).
     let authorization = \<lparr>auth_wallet_id = wallet_id, auth_nonce = nonce,
           auth_expires_at = expires_at, auth_max_relayer_fee = max_relayer_fee\<rparr>;
         created = is_new wallet in
     and_then (sweep rt env ac authorization relayer_fee bump_wallet bump_vault wallet b)
       (\<lambda>(event, wallet, b).
     Inr (created_event created wallet_id wallet @ [event],
       store_wallet (wallet_key ac) wallet b)))"

definition close_wallet ::
  "runtime \<Rightarrow> env \<Rightarrow> Accounts \<Rightarrow> bytes \<Rightarrow> u64 \<Rightarrow> i64 \<Rightarrow> u64 \<Rightarrow> u64 \<Rightarrow> bank
     \<Rightarrow> error + Event list \<times> bank" where
  "close_wallet rt env ac wallet_id nonce expires_at max_relayer_fee relayer_fee b =
     and_then (CloseWallet_accounts rt ac wallet_id b) (\<lambda>wallet.
     let authorization = \<lparr>auth_wallet_id = wallet_id, auth_nonce = nonce,
           auth_expires_at = expires_at, auth_max_relayer_fee = max_relayer_fee\<rparr> in
     and_then (close rt env ac authorization relayer_fee wallet b) (\<lambda>(event, wallet, b).
     and_then (close_account rt (wallet_key ac) (relayer_key ac) b) (\<lambda>b.
     Inr ([event], b))))"

section \<open>The dispatcher\<close>

text \<open>An instruction: the wallet, the authorization where there is one, and the own arguments.\<close>

datatype Call =
    Call_TransferSol Authorization u64 u64 \<comment> \<open>\<open>lamports\<close>, \<open>relayer_fee\<close>\<close>
  | Call_SetGuardians Authorization "Guardian list" u64
  | Call_CancelRotation Authorization u64
  | Call_ProposeRotation Authorization bytes u64
  | Call_ConfirmRotation bytes
  | Call_SweepVault Authorization u64
  | Call_CloseWallet Authorization u64

primrec process :: "runtime \<Rightarrow> env \<Rightarrow> Accounts \<Rightarrow> Call \<Rightarrow> bank \<Rightarrow> error + Event list \<times> bank" where
  "process rt env ac (Call_TransferSol auth lamports fee) b =
     transfer_sol rt env ac (auth_wallet_id auth) (auth_nonce auth) (auth_expires_at auth)
       (auth_max_relayer_fee auth) lamports fee b"
| "process rt env ac (Call_SetGuardians auth guardians fee) b =
     set_guardians_entry rt env ac (auth_wallet_id auth) (auth_nonce auth) (auth_expires_at auth)
       (auth_max_relayer_fee auth) guardians fee b"
| "process rt env ac (Call_CancelRotation auth fee) b =
     cancel_rotation rt env ac (auth_wallet_id auth) (auth_nonce auth) (auth_expires_at auth)
       (auth_max_relayer_fee auth) fee b"
| "process rt env ac (Call_ProposeRotation auth new_key fee) b =
     propose_rotation rt env ac (auth_wallet_id auth) (auth_nonce auth) (auth_expires_at auth)
       (auth_max_relayer_fee auth) new_key fee b"
| "process rt env ac (Call_ConfirmRotation wid) b = confirm_rotation rt env ac wid b"
| "process rt env ac (Call_SweepVault auth fee) b =
     sweep_vault rt env ac (auth_wallet_id auth) (auth_nonce auth) (auth_expires_at auth)
       (auth_max_relayer_fee auth) fee b"
| "process rt env ac (Call_CloseWallet auth fee) b =
     close_wallet rt env ac (auth_wallet_id auth) (auth_nonce auth) (auth_expires_at auth)
       (auth_max_relayer_fee auth) fee b"

primrec call_wallet :: "Call \<Rightarrow> bytes" where
  "call_wallet (Call_TransferSol auth lamports fee) = auth_wallet_id auth"
| "call_wallet (Call_SetGuardians auth guardians fee) = auth_wallet_id auth"
| "call_wallet (Call_CancelRotation auth fee) = auth_wallet_id auth"
| "call_wallet (Call_ProposeRotation auth new_key fee) = auth_wallet_id auth"
| "call_wallet (Call_ConfirmRotation wid) = wid"
| "call_wallet (Call_SweepVault auth fee) = auth_wallet_id auth"
| "call_wallet (Call_CloseWallet auth fee) = auth_wallet_id auth"

section \<open>What an instruction's signature covers\<close>

primrec call_authorization :: "Call \<Rightarrow> Authorization option" where
  "call_authorization (Call_TransferSol auth lamports fee) = Some auth"
| "call_authorization (Call_SetGuardians auth guardians fee) = Some auth"
| "call_authorization (Call_CancelRotation auth fee) = Some auth"
| "call_authorization (Call_ProposeRotation auth new_key fee) = Some auth"
| "call_authorization (Call_ConfirmRotation wid) = None"
| "call_authorization (Call_SweepVault auth fee) = Some auth"
| "call_authorization (Call_CloseWallet auth fee) = Some auth"

primrec call_action :: "Accounts \<Rightarrow> Call \<Rightarrow> Action option" where
  "call_action ac (Call_TransferSol auth lamports fee) = Some (TransferSol (to_key ac) lamports)"
| "call_action ac (Call_SetGuardians auth guardians fee)
     = Some (SetGuardians (map eguardian_of guardians))"
| "call_action ac (Call_CancelRotation auth fee) = Some CancelRotation"
| "call_action ac (Call_ProposeRotation auth new_key fee) = Some (ProposeRotation new_key)"
| "call_action ac (Call_ConfirmRotation wid) = None"
| "call_action ac (Call_SweepVault auth fee) = Some (SweepVault (to_key ac))"
| "call_action ac (Call_CloseWallet auth fee) = Some (CloseWallet (to_key ac))"

lemma call_wallet_authorization: "call_authorization call = Some auth \<Longrightarrow> call_wallet call = auth_wallet_id auth"
  by (cases call) auto

lemma process_verified:
  assumes "process rt env ac call b = Inr r" "call_authorization call = Some auth"
    and "call_action ac call = Some action"
  shows "\<exists>w sb vb signer w1.
    verify_enclave_authorization rt env w auth action sb vb = Inr (signer, w1)"
  using assms
  by (cases call)
    (auto simp: transfer_sol_def set_guardians_entry_def cancel_rotation_def propose_rotation_def
      sweep_vault_def close_wallet_def result_simps Let_def
      dest!: transfer_authorized set_guardians_authorized cancel_authorized propose_authorized
        sweep_authorized close_authorized, blast+)

text \<open>A success needs the signature over exactly this call, not yet expired.\<close>

lemma process_signed:
  assumes "process rt env ac call b = Inr r" "call_authorization call = Some auth"
    and "call_action ac call = Some action"
  obtains pl now where "load_secp256r1_payload (env_previous env) = Inr pl"
    "pl_message pl = to_bytes (expected_preimage auth action)"
    "env_clock env = Inr now" "sint now < sint (auth_expires_at auth)"
  using process_verified [OF assms] that by (auto simp: verify_Inr_iff)

text \<open>The same precompile instruction serves one call only.\<close>

lemma same_signature_same_call:
  assumes "process rt env ac call b = Inr r" "process rt' env' ac' call' b' = Inr r'"
    and "env_previous env = env_previous env'"
    and "call_authorization call = Some auth" "call_action ac call = Some action"
    and "call_authorization call' = Some auth'" "call_action ac' call' = Some action'"
    and "length (auth_wallet_id auth) = 32" "wf_action action"
    and "length (auth_wallet_id auth') = 32" "wf_action action'"
  shows "auth = auth' \<and> action = action'"
proof -
  obtain pl where pl: "load_secp256r1_payload (env_previous env) = Inr pl"
    "pl_message pl = to_bytes (expected_preimage auth action)"
    using process_signed [OF assms(1,4,5)] by blast
  obtain pl' where pl': "load_secp256r1_payload (env_previous env') = Inr pl'"
    "pl_message pl' = to_bytes (expected_preimage auth' action')"
    using process_signed [OF assms(2,6,7)] by blast
  have "expected_preimage auth action = expected_preimage auth' action'"
    using pl pl' assms(3) to_bytes_eqD expected_preimage_wf [OF assms(8,9)]
      expected_preimage_wf [OF assms(10,11)] by auto
  then show ?thesis
    by (auto simp: expected_preimage_def intro: Authorization.equality)
qed

section \<open>Lamports\<close>

lemma store_wallet_lamports [simp]: "lamports_of (store_wallet a w b) x = lamports_of b x"
  by (simp add: store_wallet_def)

text \<open>A refund alone: nobody but the vault loses anything, and the vault at most the cap.\<close>

lemma refund_lamports:
  assumes "transfer_allowed rt seeds vault relayer (min fee cap) b"
  shows "a \<noteq> vault \<Longrightarrow> lamports_of b a \<le> lamports_of (move_lamports vault relayer (min fee cap) b) a"
    and "unat (lamports_of b vault)
      \<le> unat (lamports_of (move_lamports vault relayer (min fee cap) b) vault) + unat cap"
proof -
  have cap: "unat (min fee cap) \<le> unat cap" by (simp add: unat_min_u64)
  show "lamports_of b a \<le> lamports_of (move_lamports vault relayer (min fee cap) b) a" if "a \<noteq> vault"
  proof (cases "a = relayer")
    case True
    with that move_unat(2) [OF assms] show ?thesis by (simp add: word_le_nat_alt)
  next
    case False
    with that show ?thesis by (simp add: move_lamports_other)
  qed
  show "unat (lamports_of b vault)
      \<le> unat (lamports_of (move_lamports vault relayer (min fee cap) b) vault) + unat cap"
  proof (cases "vault = relayer")
    case True
    then show ?thesis by (simp add: move_lamports_self)
  next
    case False
    with move_unat(1,3) [OF assms] cap show ?thesis by simp
  qed
qed

lemma propose_entry_lamports:
  assumes "transfer_contract rt"
    and "process rt env ac (Call_ProposeRotation auth k fee) b = Inr (evs, b')"
  shows "(\<forall>a. a \<noteq> vault_key ac \<longrightarrow> lamports_of b a \<le> lamports_of b' a)
    \<and> unat (lamports_of b (vault_key ac))
        \<le> unat (lamports_of b' (vault_key ac)) + unat (auth_max_relayer_fee auth)"
proof -
  from assms(2) obtain w p w' b1 where run: "propose rt env ac auth k fee w b = Inr (p, w', b1)"
    and b': "b' = store_wallet (wallet_key ac) w' b1"
    by (auto simp: propose_rotation_def result_simps Let_def)
  from run obtain seeds where
    "transfer_allowed rt seeds (vault_key ac) (relayer_key ac) (min fee (auth_max_relayer_fee auth)) b"
    "b1 = move_lamports (vault_key ac) (relayer_key ac) (min fee (auth_max_relayer_fee auth)) b"
    by (auto simp: propose_Inr_iff [OF assms(1)] Let_def)
  with refund_lamports show ?thesis by (simp add: b')
qed

end
