(* ===== verification/Ledger.thy ===== *)
theory Ledger
  imports Program
begin

text \<open>
  The wallets a ledger stores, the invariant of the stored state, and what loading, storing and
  closing a wallet do to it. \<open>ids\<close> is the set of the wallet ids in use; \<open>address_contract\<close> states what
  the program relies on about their addresses: no two pairs of an id and a bump derive the same one.
\<close>

definition wallet_seeds :: "bytes \<Rightarrow> byte \<Rightarrow> bytes list" where
  "wallet_seeds wid bump = [WALLET_SEED, wid, [bump]]"

definition address_contract :: "runtime \<Rightarrow> bytes set \<Rightarrow> bool" where
  "address_contract rt ids \<longleftrightarrow> pda_contract rt \<and> rt_system_program rt \<noteq> PROGRAM_ID
     \<and> (\<forall>wid \<in> ids. length wid = 32)
     \<and> (\<forall>wid \<in> ids. \<forall>wid' \<in> ids. \<forall>bump bump' a.
          rt_create_program_address rt (wallet_seeds wid bump) = Some a \<longrightarrow>
          rt_create_program_address rt (wallet_seeds wid' bump') = Some a \<longrightarrow>
          wid = wid' \<and> bump = bump')"

abbreviation wallet_address :: "runtime \<Rightarrow> bytes \<Rightarrow> pubkey" where
  "wallet_address rt wid \<equiv> fst (wallet_pda rt wid)"

text \<open>The wallet an account holds, and the wallet with an id.\<close>

definition wallet_at :: "bank \<Rightarrow> pubkey \<Rightarrow> SmartWallet option" where
  "wallet_at b a = (if acc_owner (b a) = PROGRAM_ID then wallet_of_data (acc_data (b a)) else None)"

definition wallet_with_id :: "runtime \<Rightarrow> bank \<Rightarrow> bytes \<Rightarrow> SmartWallet option" where
  "wallet_with_id rt b wid = wallet_at b (wallet_address rt wid)"

definition stored :: "runtime \<Rightarrow> bytes \<Rightarrow> SmartWallet \<Rightarrow> bool" where
  "stored rt wid w \<longleftrightarrow> wallet_inv w \<and> sw_wallet_id w = wid
     \<and> sw_state_bump w = snd (wallet_pda rt wid) \<and> sw_vault_bump w = snd (vault_pda rt wid)"

text \<open>An account of the program at an address of a wallet id is the canonical one, and holds exactly
  a wallet with that id that satisfies the invariant.\<close>

definition ledger_inv :: "runtime \<Rightarrow> bytes set \<Rightarrow> bank \<Rightarrow> bool" where
  "ledger_inv rt ids b \<longleftrightarrow>
     (\<forall>wid \<in> ids. \<forall>bump a. rt_create_program_address rt (wallet_seeds wid bump) = Some a \<longrightarrow>
        acc_owner (b a) = PROGRAM_ID \<longrightarrow>
        a = wallet_address rt wid \<and> (\<exists>w. acc_data (b a) = account_data w \<and> stored rt wid w))"

text \<open>The ledgers that agree, for every id in use but one, on the accounts at its addresses.\<close>

definition same_state :: "bank \<Rightarrow> bank \<Rightarrow> pubkey \<Rightarrow> bool" where
  "same_state b b' a \<longleftrightarrow> acc_owner (b' a) = acc_owner (b a) \<and> acc_data (b' a) = acc_data (b a)"

definition others_kept :: "runtime \<Rightarrow> bytes set \<Rightarrow> bytes \<Rightarrow> bank \<Rightarrow> bank \<Rightarrow> bool" where
  "others_kept rt ids wid b b' \<longleftrightarrow>
     (\<forall>wid' \<in> ids. wid' \<noteq> wid \<longrightarrow> wallet_with_id rt b' wid' = wallet_with_id rt b wid')"

lemma wallet_at_same: "same_state b b' a \<Longrightarrow> wallet_at b' a = wallet_at b a"
  by (simp add: same_state_def wallet_at_def)

lemma canonical_address:
  assumes "address_contract rt ids"
  shows "rt_create_program_address rt (wallet_seeds wid (snd (wallet_pda rt wid)))
    = Some (wallet_address rt wid)"
  using assms find_creates [of rt "[WALLET_SEED, wid]"]
  by (simp add: address_contract_def wallet_seeds_def wallet_pda_def prod_eq_iff)

lemma same_address:
  assumes "address_contract rt ids" "wid \<in> ids" "wid' \<in> ids"
    and "rt_create_program_address rt (wallet_seeds wid' bump) = Some (wallet_address rt wid)"
  shows "wid' = wid" "bump = snd (wallet_pda rt wid)"
  using assms canonical_address [OF assms(1), of wid] unfolding address_contract_def by blast+

text \<open>Changing only the account of one wallet keeps the invariant if that wallet keeps it.\<close>

lemma ledger_inv_update:
  assumes "address_contract rt ids" "ledger_inv rt ids b" "wid \<in> ids"
    and other: "\<And>a. a \<noteq> wallet_address rt wid \<Longrightarrow> same_state b b' a"
    and target: "acc_owner (b' (wallet_address rt wid)) = PROGRAM_ID \<Longrightarrow>
      \<exists>w. acc_data (b' (wallet_address rt wid)) = account_data w \<and> stored rt wid w"
  shows "ledger_inv rt ids b'" and "others_kept rt ids wid b b'"
proof -
  show "ledger_inv rt ids b'"
    unfolding ledger_inv_def
  proof (intro ballI allI impI)
    fix wid' bump a
    assume wid': "wid' \<in> ids" "rt_create_program_address rt (wallet_seeds wid' bump) = Some a"
      and own: "acc_owner (b' a) = PROGRAM_ID"
    show "a = wallet_address rt wid' \<and> (\<exists>w. acc_data (b' a) = account_data w \<and> stored rt wid' w)"
    proof (cases "a = wallet_address rt wid")
      case True
      with same_address [OF assms(1,3) wid'(1)] wid'(2) have "wid' = wid" by blast
      with True target own show ?thesis by simp
    next
      case False
      with other [OF False] own wid' assms(2) show ?thesis
        by (auto simp: ledger_inv_def same_state_def)
    qed
  qed
  show "others_kept rt ids wid b b'"
    unfolding others_kept_def
  proof (intro ballI impI)
    fix wid' assume wid': "wid' \<in> ids" "wid' \<noteq> wid"
    have "wallet_address rt wid' \<noteq> wallet_address rt wid"
      using same_address(1) [OF assms(1,3) wid'(1)] canonical_address [OF assms(1), of wid'] wid'(2)
      by metis
    then show "wallet_with_id rt b' wid' = wallet_with_id rt b wid'"
      by (simp add: wallet_with_id_def wallet_at_same [OF other])
  qed
qed

lemma ledger_invD:
  assumes "ledger_inv rt ids b" "wid \<in> ids"
    and "rt_create_program_address rt (wallet_seeds wid bump) = Some a" "acc_owner (b a) = PROGRAM_ID"
  shows "a = wallet_address rt wid" "\<exists>w. acc_data (b a) = account_data w \<and> stored rt wid w"
  using assms unfolding ledger_inv_def by blast+

lemma stored_wf: "stored rt wid w \<Longrightarrow> wf_wallet w"
  by (simp add: stored_def wallet_inv_def)

lemma stored_wallet:
  assumes "address_contract rt ids" "ledger_inv rt ids b" "wid \<in> ids"
    and "wallet_with_id rt b wid = Some w"
  shows "stored rt wid w" "acc_data (b (wallet_address rt wid)) = account_data w"
    "acc_owner (b (wallet_address rt wid)) = PROGRAM_ID"
proof -
  from assms(4) have own: "acc_owner (b (wallet_address rt wid)) = PROGRAM_ID"
    and w: "wallet_of_data (acc_data (b (wallet_address rt wid))) = Some w"
    by (auto simp: wallet_with_id_def wallet_at_def split: if_splits)
  from ledger_invD [OF assms(2,3) canonical_address [OF assms(1)] own] obtain v where
    v: "acc_data (b (wallet_address rt wid)) = account_data v" "stored rt wid v" by blast
  with w have "v = w"
    using wallet_of_account_data [OF stored_wf [OF v(2)], of "[]"] by simp
  with v own show "stored rt wid w" "acc_data (b (wallet_address rt wid)) = account_data w"
    "acc_owner (b (wallet_address rt wid)) = PROGRAM_ID" by simp_all
qed

section \<open>Loading\<close>

lemma read_wallet_wallet_at: "read_wallet rt a b = Inr w \<Longrightarrow> wallet_at b a = Some w"
  by (auto simp: read_wallet_def result_simps wallet_at_def)

lemma load_wallet_stored:
  assumes "address_contract rt ids" "ledger_inv rt ids b" "wid \<in> ids"
    and "load_wallet rt ac wid b = Inr w"
  shows "wallet_key ac = wallet_address rt wid" "wallet_with_id rt b wid = Some w"
proof -
  from assms(4) have read: "wallet_at b (wallet_key ac) = Some w"
    and addr: "rt_create_program_address rt (wallet_seeds wid (sw_state_bump w)) = Some (wallet_key ac)"
    by (auto simp: load_wallet_def result_simps wallet_seeds_def dest: read_wallet_wallet_at)
  from read have "acc_owner (b (wallet_key ac)) = PROGRAM_ID"
    by (auto simp: wallet_at_def split: if_splits)
  from ledger_invD(1) [OF assms(2,3) addr this] show key: "wallet_key ac = wallet_address rt wid" .
  from read show "wallet_with_id rt b wid = Some w"
    by (simp add: wallet_with_id_def key)
qed

lemma load_or_init_Inr_iff:
  "load_or_init_wallet rt ac wid b = Inr (w, bump, b1) \<longleftrightarrow>
     wallet_key ac = wallet_address rt wid \<and> meta_is_writable (ac_wallet ac)
     \<and> bump = snd (wallet_pda rt wid)
     \<and> (if acc_owner (b (wallet_key ac)) = rt_system_program rt
        then rt_init rt (relayer_key ac) (wallet_seeds wid bump) (wallet_key ac)
               (length DISCRIMINATOR + INIT_SPACE) b = Inr b1
             \<and> (\<exists>r. dec_wallet (drop 8 (acc_data (b1 (wallet_key ac)))) = Some (w, r))
        else read_wallet rt (wallet_key ac) b = Inr w \<and> b1 = b
             \<and> length (acc_data (b (wallet_key ac))) = length DISCRIMINATOR + INIT_SPACE)"
  unfolding load_or_init_wallet_def Let_def wallet_seeds_def
  by (cases "acc_owner (b (wallet_key ac)) = rt_system_program rt") (auto simp: result_simps)

text \<open>After \<open>init_if_needed\<close>: the account exists with the right size, and the wallet is the stored
  one or the all-zero one of an account just made.\<close>

lemma load_or_init_stored:
  assumes "address_contract rt ids" "init_contract rt" "ledger_inv rt ids b" "wid \<in> ids"
    and "load_or_init_wallet rt ac wid b = Inr (w, bump, b1)"
  shows "wallet_key ac = wallet_address rt wid" "bump = snd (wallet_pda rt wid)"
    "acc_owner (b1 (wallet_key ac)) = PROGRAM_ID" "length (acc_data (b1 (wallet_key ac))) = STATE_LEN"
    "a \<noteq> wallet_key ac \<Longrightarrow> same_state b b1 a"
    "wallet_with_id rt b wid = None \<and> is_new w \<or> wallet_with_id rt b wid = Some w"
proof -
  let ?a = "wallet_key ac"
  from assms(5) show key: "?a = wallet_address rt wid" and "bump = snd (wallet_pda rt wid)"
    by (simp_all add: load_or_init_Inr_iff)
  consider
    (new) r where "acc_owner (b ?a) = rt_system_program rt"
      "rt_init rt (relayer_key ac) (wallet_seeds wid bump) ?a
         (length DISCRIMINATOR + INIT_SPACE) b = Inr b1"
      "dec_wallet (drop 8 (acc_data (b1 ?a))) = Some (w, r)"
  | (old) "acc_owner (b ?a) \<noteq> rt_system_program rt" "read_wallet rt ?a b = Inr w" "b1 = b"
    using assms(5) by (auto simp: load_or_init_Inr_iff split: if_split_asm)
  then have "acc_owner (b1 ?a) = PROGRAM_ID \<and> length (acc_data (b1 ?a)) = STATE_LEN
    \<and> (a \<noteq> ?a \<longrightarrow> same_state b b1 a)
    \<and> (wallet_with_id rt b wid = None \<and> is_new w \<or> wallet_with_id rt b wid = Some w)"
  proof cases
    case new
    from assms(2) new(2) have made: "acc_owner (b1 ?a) = PROGRAM_ID"
      "acc_data (b1 ?a) = replicate (length DISCRIMINATOR + INIT_SPACE) 0"
      "\<forall>a. a \<noteq> ?a \<longrightarrow> same_state b b1 a"
      unfolding init_contract_def same_state_def by blast+
    have "length DISCRIMINATOR + INIT_SPACE = 8 + (STATE_LEN - DISCRIMINATOR_LEN)"
      by (simp add: layout_simps)
    with made(2) have "drop 8 (acc_data (b1 ?a)) = replicate (STATE_LEN - DISCRIMINATOR_LEN) 0"
      by simp
    with new(3) have "w = zero_wallet"
      by (simp add: dec_zeros)
    moreover from new(1) assms(1) have "wallet_with_id rt b wid = None"
      by (simp add: wallet_with_id_def wallet_at_def key [symmetric] address_contract_def)
    ultimately show ?thesis using made INIT_SPACE_matches by (simp add: is_new_zero_wallet)
  next
    case old
    from old(2) have w: "wallet_with_id rt b wid = Some w"
      by (simp add: read_wallet_wallet_at wallet_with_id_def key [symmetric])
    from stored_wallet [OF assms(1,3,4) w] old(3) show ?thesis
      by (simp add: w key same_state_def account_data_length stored_wf)
  qed
  then show "acc_owner (b1 ?a) = PROGRAM_ID" "length (acc_data (b1 ?a)) = STATE_LEN"
    "a \<noteq> ?a \<Longrightarrow> same_state b b1 a"
    "wallet_with_id rt b wid = None \<and> is_new w \<or> wallet_with_id rt b wid = Some w"
    by simp_all
qed

section \<open>Storing\<close>

text \<open>What becomes of a ledger when an instruction on \<open>wid\<close> ends: its wallet is the new one, the
  others are what they were, and the invariant holds.\<close>

definition leaves ::
  "runtime \<Rightarrow> bytes set \<Rightarrow> bytes \<Rightarrow> bank \<Rightarrow> bank \<Rightarrow> SmartWallet option \<Rightarrow> bool" where
  "leaves rt ids wid b b' w \<longleftrightarrow> ledger_inv rt ids b' \<and> others_kept rt ids wid b b'
     \<and> wallet_with_id rt b' wid = w"

lemma store_leaves:
  assumes "address_contract rt ids" "ledger_inv rt ids b" "wid \<in> ids" "stored rt wid w"
    and "acc_owner (b1 (wallet_address rt wid)) = PROGRAM_ID"
    and "length (acc_data (b1 (wallet_address rt wid))) = STATE_LEN"
    and "\<And>a. a \<noteq> wallet_address rt wid \<Longrightarrow> same_state b b1 a"
  shows "leaves rt ids wid b (store_wallet (wallet_address rt wid) w b1) (Some w)"
proof -
  let ?b = "store_wallet (wallet_address rt wid) w b1"
  have data: "acc_data (?b (wallet_address rt wid)) = account_data w"
    "acc_owner (?b (wallet_address rt wid)) = PROGRAM_ID"
    using assms(5,6) account_data_length [OF stored_wf [OF assms(4)]]
    by (simp_all add: store_wallet_def)
  have other: "same_state b ?b a" if "a \<noteq> wallet_address rt wid" for a
    using assms(7) [OF that] that by (simp add: same_state_def store_wallet_def)
  have "ledger_inv rt ids ?b" "others_kept rt ids wid b ?b"
    using assms(4) data other
    by (auto intro!: ledger_inv_update [OF assms(1,2,3), of ?b])
  moreover have "wallet_with_id rt ?b wid = Some w"
    using data wallet_of_account_data [OF stored_wf [OF assms(4)], of "[]"]
    by (simp add: wallet_with_id_def wallet_at_def)
  ultimately show ?thesis by (simp add: leaves_def)
qed

lemma close_leaves:
  assumes "address_contract rt ids" "ledger_inv rt ids b" "wid \<in> ids"
    and "\<And>a. a \<noteq> wallet_address rt wid \<Longrightarrow> same_state b b1 a"
    and "close_account rt (wallet_address rt wid) dst b1 = Inr b'"
  shows "leaves rt ids wid b b' None"
proof -
  have sys: "rt_system_program rt \<noteq> PROGRAM_ID" using assms(1) by (simp add: address_contract_def)
  from assms(5) have b': "acc_owner (b' (wallet_address rt wid)) = rt_system_program rt"
    "\<And>a. a \<noteq> wallet_address rt wid \<Longrightarrow> same_state b1 b' a"
    by (auto simp: close_account_def result_simps Let_def same_state_def)
  have "ledger_inv rt ids b'" "others_kept rt ids wid b b'"
    using assms(4) b' sys
    by (auto simp: same_state_def intro!: ledger_inv_update [OF assms(1,2,3), of b'])
  then show ?thesis
    using b'(1) sys by (simp add: leaves_def wallet_with_id_def wallet_at_def)
qed

lemma same_but_lamports_state: "same_but_lamports b b' S \<Longrightarrow> same_state b b' a"
  by (simp add: same_but_lamports_def same_state_def)

lemma same_state_trans: "same_state b b1 a \<Longrightarrow> same_state b1 b2 a \<Longrightarrow> same_state b b2 a"
  by (simp add: same_state_def)

end
