(* ===== verification/Wallet_Machine.thy ===== *)
theory Wallet_Machine
  imports Prelude
begin

text \<open>
  What the program promises of one wallet, without accounts, bytes or lamports: a wallet does not
  exist or has a key, the next nonce, its guardians' keys by slot and at most one pending rotation.
  A step is labelled with the key that signed, the nonce and the operation, or is the permissionless
  confirmation. Times and nonces are unbounded numbers here. The theory \<open>Refinement\<close> shows that the
  entry points implement these steps; the facts on runs proved here then hold of the ledger.
\<close>

record Wallet_Spec =
  sp_key :: bytes
  sp_nonce :: nat
  sp_guardians :: "bytes option list"
  sp_pending :: "(bytes \<times> int \<times> nat) option" \<comment> \<open>new key, time of the proposal, slot\<close>

datatype Op =
    Op_Spend \<comment> \<open>a transfer or a sweep\<close>
  | Op_Guardians "bytes option list"
  | Op_Cancel
  | Op_Propose bytes
  | Op_Close

datatype Label = Signed bytes nat Op | Confirmed

definition spec_delay :: int where
  "spec_delay = 72 * 60 * 60"

definition spec_window :: int where
  "spec_window = 7 * 24 * 60 * 60"

text \<open>On first use the wallet is made for the signer, if the hash of its key is the wallet's id.\<close>

fun spec_open :: "(bytes \<Rightarrow> bytes) \<Rightarrow> bytes \<Rightarrow> nat \<Rightarrow> bytes \<Rightarrow> Wallet_Spec option \<Rightarrow> Wallet_Spec option" where
  "spec_open sha wid slots signer None =
     (if sha signer = wid
      then Some \<lparr>sp_key = signer, sp_nonce = 0, sp_guardians = replicate slots None, sp_pending = None\<rparr>
      else None)"
| "spec_open sha wid slots signer (Some w) = Some w"

definition spec_slot_free :: "int \<Rightarrow> Wallet_Spec \<Rightarrow> nat \<Rightarrow> bool" where
  "spec_slot_free now w i \<longleftrightarrow>
     (case sp_pending w of None \<Rightarrow> True
      | Some (k, t, j) \<Rightarrow> j = i \<or> t + spec_delay + spec_window < now)"

inductive spec_step ::
  "(bytes \<Rightarrow> bytes) \<Rightarrow> bytes \<Rightarrow> nat \<Rightarrow> int \<Rightarrow> Wallet_Spec option \<Rightarrow> Label \<Rightarrow> Wallet_Spec option \<Rightarrow> bool"
  for sha :: "bytes \<Rightarrow> bytes" and wid :: bytes and slots :: nat and now :: int where
  spend: "spec_open sha wid slots signer a = Some w \<Longrightarrow> signer = sp_key w \<Longrightarrow> n = sp_nonce w \<Longrightarrow>
    spec_step sha wid slots now a (Signed signer n Op_Spend) (Some (w\<lparr>sp_nonce := n + 1\<rparr>))"
| guardians: "spec_open sha wid slots signer a = Some w \<Longrightarrow> signer = sp_key w \<Longrightarrow> n = sp_nonce w \<Longrightarrow>
    spec_step sha wid slots now a (Signed signer n (Op_Guardians gs))
      (Some (w\<lparr>sp_nonce := n + 1, sp_guardians := gs, sp_pending := None\<rparr>))"
| cancel: "signer = sp_key w \<Longrightarrow> n = sp_nonce w \<Longrightarrow> sp_pending w \<noteq> None \<Longrightarrow>
    spec_step sha wid slots now (Some w) (Signed signer n Op_Cancel)
      (Some (w\<lparr>sp_nonce := n + 1, sp_pending := None\<rparr>))"
| rotate: "signer = sp_key w \<Longrightarrow> n = sp_nonce w \<Longrightarrow>
    spec_step sha wid slots now (Some w) (Signed signer n (Op_Propose k))
      (Some (w\<lparr>sp_nonce := n + 1, sp_key := k, sp_pending := None\<rparr>))"
| propose: "signer \<noteq> sp_key w \<Longrightarrow> n = sp_nonce w \<Longrightarrow> i < length (sp_guardians w) \<Longrightarrow>
    sp_guardians w ! i = Some signer \<Longrightarrow> spec_slot_free now w i \<Longrightarrow>
    spec_step sha wid slots now (Some w) (Signed signer n (Op_Propose k))
      (Some (w\<lparr>sp_nonce := n + 1, sp_pending := Some (k, now, i)\<rparr>))"
| confirm: "sp_pending w = Some (k, t, i) \<Longrightarrow> t + spec_delay \<le> now \<Longrightarrow>
    now \<le> t + spec_delay + spec_window \<Longrightarrow>
    spec_step sha wid slots now (Some w) Confirmed (Some (w\<lparr>sp_key := k, sp_pending := None\<rparr>))"
| close: "signer = sp_key w \<Longrightarrow> n = sp_nonce w \<Longrightarrow>
    spec_step sha wid slots now (Some w) (Signed signer n Op_Close) None"

inductive_simps spec_step_confirmed: "spec_step sha wid slots now a Confirmed a'"
inductive_simps spec_step_spend: "spec_step sha wid slots now a (Signed s n Op_Spend) a'"
inductive_simps spec_step_guardians: "spec_step sha wid slots now a (Signed s n (Op_Guardians gs)) a'"
inductive_simps spec_step_cancel: "spec_step sha wid slots now a (Signed s n Op_Cancel) a'"
inductive_simps spec_step_propose: "spec_step sha wid slots now a (Signed s n (Op_Propose k)) a'"
inductive_simps spec_step_close: "spec_step sha wid slots now a (Signed s n Op_Close) a'"
inductive_cases spec_step_signedE: "spec_step sha wid slots now a (Signed s n c) a'"

lemmas spec_step_simps = spec_step_confirmed spec_step_spend spec_step_guardians spec_step_cancel
  spec_step_propose spec_step_close

text \<open>A run: the steps with the clock of each, the last one last.\<close>

inductive spec_run ::
  "(bytes \<Rightarrow> bytes) \<Rightarrow> bytes \<Rightarrow> nat \<Rightarrow> Wallet_Spec option \<Rightarrow> (int \<times> Label) list \<Rightarrow> Wallet_Spec option \<Rightarrow> bool"
  for sha :: "bytes \<Rightarrow> bytes" and wid :: bytes and slots :: nat and a :: "Wallet_Spec option" where
  start: "spec_run sha wid slots a [] a"
| step: "spec_run sha wid slots a tr a1 \<Longrightarrow> spec_step sha wid slots now a1 l a2 \<Longrightarrow>
    spec_run sha wid slots a (tr @ [(now, l)]) a2"

section \<open>Recovery\<close>

text \<open>Where a pending rotation comes from: a guardian that is not the active key proposed it, is
  still a guardian, and since then there were only spends.\<close>

definition only_spends :: "(int \<times> Label) list \<Rightarrow> bool" where
  "only_spends tr \<longleftrightarrow> (\<forall>l \<in> snd ` set tr. \<exists>s n. l = Signed s n Op_Spend)"

lemma only_spends_simps [simp]:
  "only_spends []" "only_spends (tr @ tr') \<longleftrightarrow> only_spends tr \<and> only_spends tr'"
  "only_spends [(t, Signed s n Op_Spend)]"
  by (auto simp: only_spends_def)

definition proposed_by_guardian ::
  "(int \<times> Label) list \<Rightarrow> Wallet_Spec \<Rightarrow> bytes \<Rightarrow> int \<Rightarrow> nat \<Rightarrow> bool" where
  "proposed_by_guardian tr w k t i \<longleftrightarrow>
     (\<exists>tr1 tr2 g n. tr = tr1 @ [(t, Signed g n (Op_Propose k))] @ tr2 \<and> only_spends tr2
        \<and> i < length (sp_guardians w) \<and> sp_guardians w ! i = Some g \<and> g \<noteq> sp_key w)"

lemma proposed_by_guardian_spend:
  "proposed_by_guardian tr w k t i \<Longrightarrow>
   proposed_by_guardian (tr @ [(now, Signed s n Op_Spend)]) (w\<lparr>sp_nonce := m\<rparr>) k t i"
  unfolding proposed_by_guardian_def by fastforce

lemma proposed_by_guardian_new:
  "i < length (sp_guardians w) \<Longrightarrow> sp_guardians w ! i = Some g \<Longrightarrow> g \<noteq> sp_key w \<Longrightarrow>
   proposed_by_guardian (tr @ [(t, Signed g n (Op_Propose k))])
     (w\<lparr>sp_nonce := m, sp_pending := p\<rparr>) k t i"
  unfolding proposed_by_guardian_def by fastforce

lemma spec_open_pending:
  "spec_open sha wid slots signer a = Some w \<Longrightarrow> sp_pending w = Some p \<Longrightarrow> a = Some w"
  by (cases a) (auto split: if_splits)

lemma pending_proposed:
  assumes "spec_run sha wid slots None tr a"
  shows "\<forall>w k t i. a = Some w \<longrightarrow> sp_pending w = Some (k, t, i) \<longrightarrow> proposed_by_guardian tr w k t i"
  using assms
proof induction
  case start
  then show ?case by simp
next
  case (step tr a1 now l a2)
  from step.hyps(2) step.IH show ?case
  proof cases
    case (spend signer w n)
    with step.IH show ?thesis
      using spec_open_pending [OF spend(3)] by (fastforce intro: proposed_by_guardian_spend)
  qed (auto intro: proposed_by_guardian_new)
qed

lemma confirmed_after_proposal:
  assumes "spec_run sha wid slots None tr a" "spec_step sha wid slots now a Confirmed a'"
  obtains w t i where "a = Some w"
    "a' = Some (w\<lparr>sp_key := fst (the (sp_pending w)), sp_pending := None\<rparr>)"
    "proposed_by_guardian tr w (fst (the (sp_pending w))) t i"
    "t + spec_delay \<le> now" "now \<le> t + spec_delay + spec_window"
proof -
  from assms(2) obtain w k t i where w: "a = Some w" "sp_pending w = Some (k, t, i)"
    "a' = Some (w\<lparr>sp_key := k, sp_pending := None\<rparr>)"
    "t + spec_delay \<le> now" "now \<le> t + spec_delay + spec_window"
    by (auto simp: spec_step_confirmed)
  with pending_proposed [OF assms(1)] that show ?thesis by auto
qed

section \<open>Nonces\<close>

text \<open>While a wallet stays open, the signed steps use consecutive nonces.\<close>

primrec label_nonce :: "Label \<Rightarrow> nat list" where
  "label_nonce (Signed s n c) = [n]"
| "label_nonce Confirmed = []"

definition nonces :: "(int \<times> Label) list \<Rightarrow> nat list" where
  "nonces tr = concat (map (label_nonce \<circ> snd) tr)"

lemma nonces_simps [simp]:
  "nonces [] = []" "nonces (tr @ tr') = nonces tr @ nonces tr'"
  "nonces [(t, l)] = label_nonce l"
  by (simp_all add: nonces_def)

definition closes :: "Label \<Rightarrow> bool" where
  "closes l \<longleftrightarrow> (\<exists>s n. l = Signed s n Op_Close)"

lemma spec_step_stays_open:
  "spec_step sha wid slots now a l a' \<Longrightarrow> \<not> closes l \<Longrightarrow> a' \<noteq> None"
  by (auto elim!: spec_step.cases simp: closes_def)

lemma spec_step_nonce:
  assumes "spec_step sha wid slots now (Some w) l (Some w')"
  shows "[sp_nonce w..<sp_nonce w'] = label_nonce l \<and> sp_nonce w \<le> sp_nonce w'"
  using assms by cases auto

lemma run_nonces:
  assumes "spec_run sha wid slots (Some w) tr a" "\<not> list_ex closes (map snd tr)"
  shows "\<exists>w'. a = Some w' \<and> nonces tr = [sp_nonce w..<sp_nonce w'] \<and> sp_nonce w \<le> sp_nonce w'"
  using assms
proof induction
  case start
  then show ?case by simp
next
  case (step tr a1 now l a2)
  then obtain w1 where w1: "a1 = Some w1" "nonces tr = [sp_nonce w..<sp_nonce w1]"
    "sp_nonce w \<le> sp_nonce w1" by auto
  from step.hyps(2) step.prems obtain w2 where w2: "a2 = Some w2"
    using spec_step_stays_open by fastforce
  from spec_step_nonce step.hyps(2) w1(1) w2
  have "[sp_nonce w1..<sp_nonce w2] = label_nonce l" "sp_nonce w1 \<le> sp_nonce w2" by blast+
  moreover from this w1(3) have "[sp_nonce w..<sp_nonce w2]
      = [sp_nonce w..<sp_nonce w1] @ [sp_nonce w1..<sp_nonce w2]"
    by (metis le_Suc_ex upt_add_eq_append)
  ultimately show ?case using w1 w2 by simp
qed

section \<open>The key\<close>

text \<open>The key of a wallet that exists changes only by a rotation the key itself signed, or by a
  confirmation.\<close>

lemma key_changes:
  assumes "spec_step sha wid slots now (Some w) l (Some w')" "sp_key w' \<noteq> sp_key w"
  shows "(\<exists>n. l = Signed (sp_key w) n (Op_Propose (sp_key w')))
    \<or> l = Confirmed \<and> (\<exists>t i. sp_pending w = Some (sp_key w', t, i))"
  using assms by cases auto

text \<open>A signed step uses the wallet's nonce and leaves the next one.\<close>

lemma signed_step_nonce:
  assumes "spec_step sha wid slots now a (Signed s n c) a'"
  shows "a = Some w \<Longrightarrow> sp_nonce w = n" and "a' = Some w' \<Longrightarrow> sp_nonce w' = n + 1"
  using assms by (auto elim: spec_step_signedE)

text \<open>Someone other than the key can only propose, as a guardian; the key and the guardians stay.\<close>

lemma other_signer_proposes:
  assumes "spec_step sha wid slots now (Some w) (Signed s n c) a'" "s \<noteq> sp_key w"
  obtains k i where "c = Op_Propose k" "i < length (sp_guardians w)" "sp_guardians w ! i = Some s"
    "spec_slot_free now w i" "a' = Some (w\<lparr>sp_nonce := n + 1, sp_pending := Some (k, now, i)\<rparr>)"
  using assms by cases auto

text \<open>A wallet that does not exist is made by a spend or a list of guardians, signed by the key whose
  hash is its id, with nonce 0.\<close>

lemma spec_open_None:
  "spec_open sha wid slots s None = Some w \<Longrightarrow> sha s = wid \<and> sp_key w = s \<and> sp_nonce w = 0"
  by (auto split: if_splits)

lemma first_step:
  assumes "spec_step sha wid slots now None l a'"
  shows "\<exists>s c w. l = Signed s 0 c \<and> sha s = wid \<and> a' = Some w \<and> sp_key w = s \<and> sp_nonce w = 1
    \<and> (c = Op_Spend \<or> (\<exists>gs. c = Op_Guardians gs))"
  using assms by cases (auto simp del: spec_open.simps dest!: spec_open_None)

end
