(* ===== verification/Refinement.thy ===== *)
theory Refinement
  imports Ledger Wallet_Machine
begin

text \<open>
  The entry points implement the abstract machine of \<open>Wallet_Machine\<close>: a successful instruction on a
  ledger that satisfies the invariant is one step of the wallet with the instruction's id, leaves the
  other wallets alone and keeps the invariant.
\<close>

definition slot_guardian :: "GuardianSlot \<Rightarrow> bytes option" where
  "slot_guardian s = (if slot_kind s = Kind_P256 then Some (slot_key s) else None)"

definition spec_of :: "SmartWallet \<Rightarrow> Wallet_Spec" where
  "spec_of w = \<lparr>sp_key = sw_active_key w, sp_nonce = unat (sw_nonce w),
     sp_guardians = map slot_guardian (sw_guardians w),
     sp_pending = map_option (\<lambda>p. (pr_new_key p, sint (pr_proposed_at p), unat (pr_proposed_by p)))
       (rotation_get (sw_rotation w))\<rparr>"

definition spec_at :: "runtime \<Rightarrow> bank \<Rightarrow> bytes \<Rightarrow> Wallet_Spec option" where
  "spec_at rt b wid = map_option spec_of (wallet_with_id rt b wid)"

text \<open>The label of an instruction: the key of the precompile instruction before it, the nonce and
  the operation.\<close>

definition signer_of :: "env \<Rightarrow> bytes" where
  "signer_of env =
     (case load_secp256r1_payload (env_previous env) of Inr pl \<Rightarrow> pl_pubkey pl | Inl _ \<Rightarrow> [])"

definition guardian_key_of :: "Guardian \<Rightarrow> bytes option" where
  "guardian_key_of g = (case g of Guardian_P256 k \<Rightarrow> Some k | _ \<Rightarrow> None)"

primrec label_of :: "env \<Rightarrow> Call \<Rightarrow> Label" where
  "label_of env (Call_TransferSol auth lamports fee)
     = Signed (signer_of env) (unat (auth_nonce auth)) Op_Spend"
| "label_of env (Call_SetGuardians auth guardians fee)
     = Signed (signer_of env) (unat (auth_nonce auth)) (Op_Guardians (map guardian_key_of guardians))"
| "label_of env (Call_CancelRotation auth fee)
     = Signed (signer_of env) (unat (auth_nonce auth)) Op_Cancel"
| "label_of env (Call_ProposeRotation auth new_key fee)
     = Signed (signer_of env) (unat (auth_nonce auth)) (Op_Propose new_key)"
| "label_of env (Call_ConfirmRotation wid) = Confirmed"
| "label_of env (Call_SweepVault auth fee)
     = Signed (signer_of env) (unat (auth_nonce auth)) Op_Spend"
| "label_of env (Call_CloseWallet auth fee)
     = Signed (signer_of env) (unat (auth_nonce auth)) Op_Close"

text \<open>Arguments of the Rust types: arrays of their sizes.\<close>

definition wf_call :: "Call \<Rightarrow> bool" where
  "wf_call call \<longleftrightarrow>
     (case call of
        Call_SetGuardians auth guardians fee \<Rightarrow> wf_list wf_guardian MAX_GUARDIANS guardians
      | Call_ProposeRotation auth new_key fee \<Rightarrow> wf_array COMPRESSED_PUBKEY_LEN new_key
      | _ \<Rightarrow> True)"

definition runtime_contract :: "runtime \<Rightarrow> bytes set \<Rightarrow> bool" where
  "runtime_contract rt ids \<longleftrightarrow> address_contract rt ids \<and> init_contract rt \<and> transfer_contract rt"

lemma runtime_contractD:
  assumes "runtime_contract rt ids"
  shows "address_contract rt ids" "init_contract rt" "transfer_contract rt"
    "wid \<in> ids \<Longrightarrow> length wid = 32"
  using assms by (simp_all add: runtime_contract_def address_contract_def)

section \<open>The check, abstractly\<close>

lemma spec_of_simps [simp]:
  "sp_key (spec_of w) = sw_active_key w" "sp_nonce (spec_of w) = unat (sw_nonce w)"
  "spec_of (w\<lparr>sw_rotation := EMPTY_ROTATION\<rparr>) = (spec_of w)\<lparr>sp_pending := None\<rparr>"
  "spec_of (w\<lparr>sw_attested := a\<rparr>) = spec_of w"
  "spec_of (w\<lparr>sw_active_key := k\<rparr>) = (spec_of w)\<lparr>sp_key := k\<rparr>"
  "spec_of (w\<lparr>sw_rotation := rotation_new p\<rparr>)
     = (spec_of w)\<lparr>sp_pending := Some (pr_new_key p, sint (pr_proposed_at p), unat (pr_proposed_by p))\<rparr>"
  "spec_of (w\<lparr>sw_guardians := gs\<rparr>) = (spec_of w)\<lparr>sp_guardians := map slot_guardian gs\<rparr>"
  by (simp_all add: spec_of_def)

lemma slot_guardian_of: "slot_guardian (slot_of g) = guardian_key_of g"
  by (cases g) (simp_all add: slot_guardian_def guardian_key_of_def EMPTY_SLOT_def)

lemma spec_of_created:
  "spec_of (created_wallet wid key sb vb)
     = \<lparr>sp_key = key, sp_nonce = 0, sp_guardians = replicate MAX_GUARDIANS None, sp_pending = None\<rparr>"
  by (simp add: spec_of_def created_wallet_def) (simp add: slot_guardian_def EMPTY_SLOT_def)

text \<open>What the check found and left: \<open>s\<close> is the wallet it was made on.\<close>

lemma verify_spec:
  assumes "verify_enclave_authorization rt env w auth action sb vb = Inr (signer, w1)"
    and "before = None \<and> is_new w \<or> before = Some w \<and> \<not> is_new w"
  obtains s where
    "spec_open (rt_sha256 rt) (auth_wallet_id auth) MAX_GUARDIANS signer (map_option spec_of before)
      = Some s"
    "signer = signer_of env" "sp_nonce s = unat (auth_nonce auth)"
    "spec_of w1 = s\<lparr>sp_nonce := unat (auth_nonce auth) + 1\<rparr>"
proof -
  let ?c = "checked_wallet w auth signer sb vb"
  from assms(1) have signer: "signer = signer_of env"
    and n: "auth_nonce auth = sw_nonce ?c" "unat (auth_nonce auth) + 1 < 2 ^ 64"
    and sha: "is_new w \<longrightarrow> rt_sha256 rt signer = auth_wallet_id auth"
    and w1: "w1 = ?c\<lparr>sw_nonce := auth_nonce auth + 1\<rparr>"
    by (auto simp: verify_Inr_iff signer_of_def)
  have "unat (auth_nonce auth + 1) = unat (auth_nonce auth) + 1"
    using n(2) by (simp add: unat_word_ariths)
  then have "spec_of w1 = (spec_of ?c)\<lparr>sp_nonce := unat (auth_nonce auth) + 1\<rparr>"
    by (simp add: w1 spec_of_def)
  moreover have "spec_open (rt_sha256 rt) (auth_wallet_id auth) MAX_GUARDIANS signer
      (map_option spec_of before) = Some (spec_of ?c)"
    using assms(2) sha by (auto simp: checked_wallet_def spec_of_created)
  ultimately show ?thesis using that [of "spec_of ?c"] signer n(1) by simp
qed

lemma verify_stored:
  assumes "verify_enclave_authorization rt env w auth action sb vb = Inr (signer, w1)"
    and "is_new w \<or> stored rt wid w" "auth_wallet_id auth = wid"
    and "is_new w \<Longrightarrow> sb = snd (wallet_pda rt wid) \<and> vb = snd (vault_pda rt wid)"
    and "keeps_identity w1 w'" "wallet_inv w'"
  shows "stored rt wid w'"
  using assms by (auto simp: verify_Inr_iff stored_def checked_wallet_def created_wallet_def
      keeps_identity_def split: if_splits)

lemma stored_not_new: "stored rt wid w \<Longrightarrow> \<not> is_new w"
  by (simp add: stored_def wallet_inv_def)

section \<open>The two shapes of an entry point\<close>

context signed_handler
begin

text \<open>An entry point that may create the wallet.\<close>

lemma init_entry:
  assumes rt: "runtime_contract rt ids" and inv: "ledger_inv rt ids b"
    and wid: "auth_wallet_id auth \<in> ids" and key: "signer_key_set env" and wf: "wf_arg arg"
    and load: "init_accounts has_to rt ac (auth_wallet_id auth) b = Inr (w, sb, vb, b1)"
    and bumps: "bumps_of arg w = (sb, vb)"
    and run: "handle rt env ac auth arg w b1 = Inr (ev, w', b2)"
  obtains s signer w1 where
    "leaves rt ids (auth_wallet_id auth) b (store_wallet (wallet_key ac) w' b2) (Some w')"
    "verify_enclave_authorization rt env w auth (action_of ac arg) sb vb = Inr (signer, w1)"
    "signer = signer_of env"
    "spec_open (rt_sha256 rt) (auth_wallet_id auth) MAX_GUARDIANS signer
       (spec_at rt b (auth_wallet_id auth)) = Some s"
    "sp_nonce s = unat (auth_nonce auth)"
    "spec_of w1 = s\<lparr>sp_nonce := unat (auth_nonce auth) + 1\<rparr>"
proof -
  let ?wid = "auth_wallet_id auth"
  note contract = runtime_contractD [OF rt]
  from load have load': "load_or_init_wallet rt ac ?wid b = Inr (w, sb, b1)"
    and vb: "vb = snd (vault_pda rt ?wid)"
    by (auto simp: init_accounts_def check_vault_def result_simps)
  note loaded = load_or_init_stored [OF contract(1,2) inv wid load']
  have before: "wallet_with_id rt b ?wid = None \<and> is_new w
      \<or> wallet_with_id rt b ?wid = Some w \<and> \<not> is_new w"
    and old: "is_new w \<or> stored rt ?wid w"
    using loaded(6) stored_wallet(1) [OF contract(1) inv wid] stored_not_new by blast+
  from authorized [OF run] bumps obtain signer w1 where
    v: "verify_enclave_authorization rt env w auth (action_of ac arg) sb vb = Inr (signer, w1)"
    and keeps: "keeps_identity w1 w'" by auto
  have "wallet_inv w'"
    using keeps_invariant [OF run wf key contract(4) [OF wid]] old by (auto simp: stored_def)
  from verify_stored [OF v old refl _ keeps this] have "stored rt ?wid w'"
    using loaded(2) vb by simp
  moreover have same: "same_state b1 b2 a" for a
    using frame [OF contract(3) run] by (rule same_but_lamports_state)
  ultimately have "leaves rt ids ?wid b (store_wallet (wallet_key ac) w' b2) (Some w')"
    using loaded(3,4) same_state_trans [OF loaded(5) same] same [of "wallet_key ac"]
    unfolding loaded(1) same_state_def by (intro store_leaves [OF contract(1) inv wid]) (auto simp: same_state_def)
  then show ?thesis
    by (rule verify_spec [OF v before, folded spec_at_def, OF that [OF _ v]])
qed

text \<open>An entry point on a wallet that must exist.\<close>

lemma existing_entry:
  assumes rt: "runtime_contract rt ids" and inv: "ledger_inv rt ids b"
    and wid: "auth_wallet_id auth \<in> ids" and key: "signer_key_set env" and wf: "wf_arg arg"
    and load: "existing_accounts has_to rt ac (auth_wallet_id auth) b = Inr w"
    and bumps: "bumps_of arg w = (sw_state_bump w, sw_vault_bump w)"
    and run: "handle rt env ac auth arg w b = Inr (ev, w', b2)"
  obtains signer w1 where
    "leaves rt ids (auth_wallet_id auth) b (store_wallet (wallet_key ac) w' b2) (Some w')"
    "\<forall>a. same_state b b2 a" "wallet_key ac = wallet_address rt (auth_wallet_id auth)"
    "verify_enclave_authorization rt env w auth (action_of ac arg) (sw_state_bump w)
       (sw_vault_bump w) = Inr (signer, w1)"
    "signer = signer_of env" "spec_at rt b (auth_wallet_id auth) = Some (spec_of w)"
    "unat (sw_nonce w) = unat (auth_nonce auth)"
    "spec_of w1 = (spec_of w)\<lparr>sp_nonce := unat (auth_nonce auth) + 1\<rparr>"
proof -
  let ?wid = "auth_wallet_id auth"
  note contract = runtime_contractD [OF rt]
  from load have "load_wallet rt ac ?wid b = Inr w"
    by (auto simp: existing_accounts_def result_simps)
  note loaded = load_wallet_stored [OF contract(1) inv wid this]
  note old = stored_wallet [OF contract(1) inv wid loaded(2)]
  from authorized [OF run] bumps obtain signer w1 where
    v: "verify_enclave_authorization rt env w auth (action_of ac arg) (sw_state_bump w)
       (sw_vault_bump w) = Inr (signer, w1)"
    and keeps: "keeps_identity w1 w'" by auto
  have "wallet_inv w'"
    using keeps_invariant [OF run wf key contract(4) [OF wid]] old(1) by (auto simp: stored_def)
  from verify_stored [OF v _ refl _ keeps this] have st: "stored rt ?wid w'"
    using old(1) stored_not_new by blast
  have same: "same_state b b2 a" for a
    using frame [OF contract(3) run] by (rule same_but_lamports_state)
  have "leaves rt ids ?wid b (store_wallet (wallet_key ac) w' b2) (Some w')"
    using st old(2,3) same [of "wallet_address rt ?wid"] same account_data_length [OF stored_wf [OF old(1)]]
    unfolding loaded(1) same_state_def by (intro store_leaves [OF contract(1) inv wid]) (auto simp: same_state_def)
  moreover have "Some w = None \<and> is_new w \<or> Some w = Some w \<and> \<not> is_new w"
    using stored_not_new [OF old(1)] by simp
  then have "signer = signer_of env" "unat (sw_nonce w) = unat (auth_nonce auth)"
    "spec_of w1 = (spec_of w)\<lparr>sp_nonce := unat (auth_nonce auth) + 1\<rparr>"
    by (rule verify_spec [OF v], simp)+
  ultimately show ?thesis
    using that [OF _ _ loaded(1) v] same loaded(2) by (simp add: spec_at_def)
qed

end

text \<open>When only the active key may call, the signer is the wallet's key.\<close>

context active_key_handler
begin

lemma owner_signed:
  assumes "handle rt env ac auth arg w b = Inr (ev, w', b')" "bumps_of arg w = (sb, vb)"
    and "verify_enclave_authorization rt env w auth (action_of ac arg) sb vb = Inr (signer, w1)"
    and "spec_of w1 = s\<lparr>sp_nonce := n\<rparr>"
  shows "signer = sp_key s"
proof -
  have "signer = sw_active_key w1" using by_active_key [OF assms(1)] assms(2,3) by simp
  then show ?thesis using arg_cong [OF assms(4), of sp_key] by simp
qed

end

section \<open>Every instruction is a step\<close>

text \<open>A successful instruction on \<open>wid\<close> takes the ledger \<open>b\<close> to \<open>b'\<close> by the step \<open>l\<close>.\<close>

definition refines_step ::
  "runtime \<Rightarrow> bytes set \<Rightarrow> bytes \<Rightarrow> i64 \<Rightarrow> Label \<Rightarrow> bank \<Rightarrow> bank \<Rightarrow> bool" where
  "refines_step rt ids wid now l b b' \<longleftrightarrow>
     ledger_inv rt ids b' \<and> others_kept rt ids wid b b'
     \<and> spec_step (rt_sha256 rt) wid MAX_GUARDIANS (sint now) (spec_at rt b wid) l (spec_at rt b' wid)"

lemma leaves_refines:
  "leaves rt ids wid b b' w \<Longrightarrow>
   spec_step (rt_sha256 rt) wid MAX_GUARDIANS (sint now) (spec_at rt b wid) l (map_option spec_of w) \<Longrightarrow>
   refines_step rt ids wid now l b b'"
  by (simp add: leaves_def refines_step_def spec_at_def)

lemma transfer_refines:
  assumes "runtime_contract rt ids" "ledger_inv rt ids b" "auth_wallet_id auth \<in> ids"
    and "signer_key_set env"
    and "process rt env ac (Call_TransferSol auth lamports fee) b = Inr (evs, b')"
  shows "refines_step rt ids (auth_wallet_id auth) now
    (label_of env (Call_TransferSol auth lamports fee)) b b'"
proof -
  from assms(5) obtain w sb vb b1 ev w' b2 where
    load: "init_accounts True rt ac (auth_wallet_id auth) b = Inr (w, sb, vb, b1)"
    and run: "transfer rt env ac auth lamports fee sb vb w b1 = Inr (ev, w', b2)"
    and b': "b' = store_wallet (wallet_key ac) w' b2"
    by (auto simp: transfer_sol_def result_simps Let_def)
  then have h: "transfer_handle rt env ac auth (lamports, fee, sb, vb) w b1 = Inr (ev, w', b2)"
    and bumps: "transfer_bumps (lamports, fee, sb, vb) w = (sb, vb)"
    and wf: "wf_any (lamports, fee, sb, vb)"
    by (simp_all add: transfer_handle_def transfer_bumps_def wf_any_def)
  show ?thesis
  proof (rule transfer.init_entry [OF assms(1-4) wf load bumps h, folded b'])
    fix s signer w1
    assume leaves: "leaves rt ids (auth_wallet_id auth) b b' (Some w')"
      and v: "verify_enclave_authorization rt env w auth
        (transfer_action ac (lamports, fee, sb, vb)) sb vb = Inr (signer, w1)"
      and s: "signer = signer_of env"
        "spec_open (rt_sha256 rt) (auth_wallet_id auth) MAX_GUARDIANS signer
          (spec_at rt b (auth_wallet_id auth)) = Some s"
        "sp_nonce s = unat (auth_nonce auth)"
        "spec_of w1 = s\<lparr>sp_nonce := unat (auth_nonce auth) + 1\<rparr>"
    from transfer_authorized [OF run] v have "w' = w1" by (simp add: transfer_action_def)
    with transfer.owner_signed [OF h bumps v s(4)] s show ?thesis
      by (intro leaves_refines [OF leaves]) (auto simp: spec_step_spend)
  qed
qed

lemma sweep_refines:
  assumes "runtime_contract rt ids" "ledger_inv rt ids b" "auth_wallet_id auth \<in> ids"
    and "signer_key_set env"
    and "process rt env ac (Call_SweepVault auth fee) b = Inr (evs, b')"
  shows "refines_step rt ids (auth_wallet_id auth) now
    (label_of env (Call_SweepVault auth fee)) b b'"
proof -
  from assms(5) obtain w sb vb b1 ev w' b2 where
    load: "init_accounts True rt ac (auth_wallet_id auth) b = Inr (w, sb, vb, b1)"
    and run: "sweep rt env ac auth fee sb vb w b1 = Inr (ev, w', b2)"
    and b': "b' = store_wallet (wallet_key ac) w' b2"
    by (auto simp: sweep_vault_def result_simps Let_def)
  then have h: "sweep_handle rt env ac auth (fee, sb, vb) w b1 = Inr (ev, w', b2)"
    and bumps: "sweep_bumps (fee, sb, vb) w = (sb, vb)" and wf: "wf_any (fee, sb, vb)"
    by (simp_all add: sweep_handle_def sweep_bumps_def wf_any_def)
  show ?thesis
  proof (rule sweep.init_entry [OF assms(1-4) wf load bumps h, folded b'])
    fix s signer w1
    assume leaves: "leaves rt ids (auth_wallet_id auth) b b' (Some w')"
      and v: "verify_enclave_authorization rt env w auth (sweep_action ac (fee, sb, vb)) sb vb
        = Inr (signer, w1)"
      and s: "signer = signer_of env"
        "spec_open (rt_sha256 rt) (auth_wallet_id auth) MAX_GUARDIANS signer
          (spec_at rt b (auth_wallet_id auth)) = Some s"
        "sp_nonce s = unat (auth_nonce auth)"
        "spec_of w1 = s\<lparr>sp_nonce := unat (auth_nonce auth) + 1\<rparr>"
    from sweep_authorized [OF run] v have "w' = w1" by (simp add: sweep_action_def)
    with sweep.owner_signed [OF h bumps v s(4)] s show ?thesis
      by (intro leaves_refines [OF leaves]) (auto simp: spec_step_spend)
  qed
qed

lemma set_guardians_refines:
  assumes "runtime_contract rt ids" "ledger_inv rt ids b" "auth_wallet_id auth \<in> ids"
    and "signer_key_set env" "wf_call (Call_SetGuardians auth gs fee)"
    and "process rt env ac (Call_SetGuardians auth gs fee) b = Inr (evs, b')"
  shows "refines_step rt ids (auth_wallet_id auth) now
    (label_of env (Call_SetGuardians auth gs fee)) b b'"
proof -
  from assms(6) obtain w sb vb b1 ev w' b2 where
    load: "init_accounts False rt ac (auth_wallet_id auth) b = Inr (w, sb, vb, b1)"
    and run: "set_guardians rt env ac auth gs fee sb vb w b1 = Inr (ev, w', b2)"
    and b': "b' = store_wallet (wallet_key ac) w' b2"
    by (auto simp: set_guardians_entry_def result_simps Let_def)
  then have h: "set_guardians_handle rt env ac auth (gs, fee, sb, vb) w b1 = Inr (ev, w', b2)"
    and bumps: "set_guardians_bumps (gs, fee, sb, vb) w = (sb, vb)"
    by (simp_all add: set_guardians_handle_def set_guardians_bumps_def)
  have wf: "wf_guardians_arg (gs, fee, sb, vb)"
    using assms(5) by (simp add: wf_call_def wf_guardians_arg_def)
  show ?thesis
  proof (rule set_guardians.init_entry [OF assms(1-4) wf load bumps h, folded b'])
    fix s signer w1
    assume leaves: "leaves rt ids (auth_wallet_id auth) b b' (Some w')"
      and v: "verify_enclave_authorization rt env w auth
        (set_guardians_action ac (gs, fee, sb, vb)) sb vb = Inr (signer, w1)"
      and s: "signer = signer_of env"
        "spec_open (rt_sha256 rt) (auth_wallet_id auth) MAX_GUARDIANS signer
          (spec_at rt b (auth_wallet_id auth)) = Some s"
        "sp_nonce s = unat (auth_nonce auth)"
        "spec_of w1 = s\<lparr>sp_nonce := unat (auth_nonce auth) + 1\<rparr>"
    from set_guardians_authorized [OF run] v
    have "w' = w1\<lparr>sw_guardians := map slot_of gs, sw_rotation := EMPTY_ROTATION\<rparr>"
      by (auto simp: set_guardians_action_def)
    with set_guardians.owner_signed [OF h bumps v s(4)] s show ?thesis
      by (intro leaves_refines [OF leaves])
        (auto simp: spec_step_guardians slot_guardian_of comp_def)
  qed
qed

lemma cancel_refines:
  assumes "runtime_contract rt ids" "ledger_inv rt ids b" "auth_wallet_id auth \<in> ids"
    and "signer_key_set env"
    and "process rt env ac (Call_CancelRotation auth fee) b = Inr (evs, b')"
  shows "refines_step rt ids (auth_wallet_id auth) now
    (label_of env (Call_CancelRotation auth fee)) b b'"
proof -
  from assms(5) obtain w ev w' b2 where
    load: "existing_accounts False rt ac (auth_wallet_id auth) b = Inr w"
    and run: "cancel rt env ac auth fee w b = Inr (ev, w', b2)"
    and b': "b' = store_wallet (wallet_key ac) w' b2"
    by (auto simp: cancel_rotation_def result_simps Let_def)
  have bumps: "stored_bumps fee w = (sw_state_bump w, sw_vault_bump w)" and wf: "wf_any fee"
    by (simp_all add: stored_bumps_def wf_any_def)
  show ?thesis
  proof (rule cancel.existing_entry [OF assms(1-4) wf load bumps run, folded b'])
    fix signer w1
    assume leaves: "leaves rt ids (auth_wallet_id auth) b b' (Some w')"
      and v: "verify_enclave_authorization rt env w auth (cancel_action ac fee) (sw_state_bump w)
        (sw_vault_bump w) = Inr (signer, w1)"
      and s: "signer = signer_of env" "spec_at rt b (auth_wallet_id auth) = Some (spec_of w)"
        "unat (sw_nonce w) = unat (auth_nonce auth)"
        "spec_of w1 = (spec_of w)\<lparr>sp_nonce := unat (auth_nonce auth) + 1\<rparr>"
    from cancel_authorized [OF run] v have w': "rotation_get (sw_rotation w1) \<noteq> None"
      "w' = w1\<lparr>sw_rotation := EMPTY_ROTATION\<rparr>"
      by (auto simp: cancel_action_def)
    have "sp_pending (spec_of w1) \<noteq> None" using w'(1) by (simp add: spec_of_def)
    with s(4) have "sp_pending (spec_of w) \<noteq> None" by simp
    with w'(2) cancel.owner_signed [OF run bumps v s(4)] s show ?thesis
      by (intro leaves_refines [OF leaves]) (auto simp: spec_step_cancel)
  qed
qed

lemma close_refines:
  assumes "runtime_contract rt ids" "ledger_inv rt ids b" "auth_wallet_id auth \<in> ids"
    and "signer_key_set env"
    and "process rt env ac (Call_CloseWallet auth fee) b = Inr (evs, b')"
  shows "refines_step rt ids (auth_wallet_id auth) now
    (label_of env (Call_CloseWallet auth fee)) b b'"
proof -
  from assms(5) obtain w ev w' b2 where
    load: "existing_accounts True rt ac (auth_wallet_id auth) b = Inr w"
    and run: "close rt env ac auth fee w b = Inr (ev, w', b2)"
    and b': "close_account rt (wallet_key ac) (relayer_key ac) b2 = Inr b'"
    by (auto simp: close_wallet_def result_simps Let_def)
  have bumps: "stored_bumps fee w = (sw_state_bump w, sw_vault_bump w)" and wf: "wf_any fee"
    by (simp_all add: stored_bumps_def wf_any_def)
  show ?thesis
  proof (rule close.existing_entry [OF assms(1-4) wf load bumps run])
    fix signer w1
    assume same: "\<forall>a. same_state b b2 a"
      and key: "wallet_key ac = wallet_address rt (auth_wallet_id auth)"
      and v: "verify_enclave_authorization rt env w auth (close_action ac fee) (sw_state_bump w)
        (sw_vault_bump w) = Inr (signer, w1)"
      and s: "signer = signer_of env" "spec_at rt b (auth_wallet_id auth) = Some (spec_of w)"
        "unat (sw_nonce w) = unat (auth_nonce auth)"
        "spec_of w1 = (spec_of w)\<lparr>sp_nonce := unat (auth_nonce auth) + 1\<rparr>"
    have leaves: "leaves rt ids (auth_wallet_id auth) b b' None"
      using b' same unfolding key
      by (intro close_leaves [OF runtime_contractD(1) [OF assms(1)] assms(2,3)]) auto
    from close.owner_signed [OF run bumps v s(4)] s show ?thesis
      by (intro leaves_refines [OF leaves]) (auto simp: spec_step_close)
  qed
qed

text \<open>The saturating arithmetic of the window, below the end of time.\<close>

lemma expired_spec: "is_expired p now \<Longrightarrow> sint (pr_proposed_at p) + spec_delay + spec_window < sint now"
  using sint_i64_bounds(2) [of now]
  by (simp add: is_expired_def sint_closes_at spec_delay_def spec_window_def min_def split: if_splits)

lemma window_spec:
  assumes "sint (opens_at p) \<le> sint now" "sint now \<le> sint (closes_at p)" "sint now < I64_MAX"
  shows "sint (pr_proposed_at p) + spec_delay \<le> sint now"
    "sint now \<le> sint (pr_proposed_at p) + spec_delay + spec_window"
  using assms by (simp_all add: sint_opens_at sint_closes_at spec_delay_def spec_window_def min_def
      split: if_splits)

lemma slot_free_spec:
  "slot_free (sw_rotation w) slot now \<Longrightarrow> spec_slot_free (sint now) (spec_of w) slot"
  by (auto simp: slot_free_def spec_slot_free_def spec_of_def dest: expired_spec split: option.splits)

lemma p256_guardian_spec:
  assumes "p256_guardian w signer = Some slot"
  shows "slot < length (sp_guardians (spec_of w))" "sp_guardians (spec_of w) ! slot = Some signer"
  using assms by (simp_all add: p256_guardian_def position_Some_iff spec_of_def slot_guardian_def)

text \<open>Both branches of a proposal.\<close>

lemma apply_proposal_spec:
  assumes "apply_proposal env k signer w1 = Inr (p, w')" "env_clock env = Inr now"
    and "spec_of w1 = (spec_of w)\<lparr>sp_nonce := n + 1\<rparr>" "n = sp_nonce (spec_of w)"
    and "length (sw_guardians w1) = MAX_GUARDIANS"
  shows "spec_step sha wid m (sint now) (Some (spec_of w)) (Signed signer n (Op_Propose k))
    (Some (spec_of w'))"
proof -
  have key: "sw_active_key w1 = sw_active_key w" using arg_cong [OF assms(3), of sp_key] by simp
  show ?thesis
  proof (cases "signer = sw_active_key w1")
    case True
    with assms(1,3,4) key show ?thesis
      by (auto simp: apply_proposal_Inr_iff spec_step_propose)
  next
    case False
    with assms(1,2) obtain slot where slot: "p256_guardian w1 signer = Some slot"
      and free: "slot_free (sw_rotation w1) slot now"
      and w': "w' = w1\<lparr>sw_rotation := rotation_new
        \<lparr>pr_new_key = k, pr_proposed_at = now, pr_proposed_by = of_nat slot\<rparr>\<rparr>"
      by (auto simp: apply_proposal_Inr_iff propose_by_guardian_Inr_iff)
    have "slot < MAX_GUARDIANS"
      using p256_guardian_spec(1) [OF slot] assms(5) by (simp add: spec_of_def)
    then have "unat (of_nat slot :: byte) = slot"
      by (simp add: unsigned_of_nat take_bit_nat_eq_self MAX_GUARDIANS_def)
    moreover have "spec_slot_free (sint now) (spec_of w) slot"
      using slot_free_spec [OF free] assms(3) by (simp add: spec_slot_free_def)
    ultimately show ?thesis
      using False key p256_guardian_spec [OF slot] assms(3,4) unfolding w'
      by (auto simp: spec_step_propose)
  qed
qed

lemma propose_refines:
  assumes "runtime_contract rt ids" "ledger_inv rt ids b" "auth_wallet_id auth \<in> ids"
    and "signer_key_set env" "wf_call (Call_ProposeRotation auth k fee)" "env_clock env = Inr now"
    and "process rt env ac (Call_ProposeRotation auth k fee) b = Inr (evs, b')"
  shows "refines_step rt ids (auth_wallet_id auth) now
    (label_of env (Call_ProposeRotation auth k fee)) b b'"
proof -
  from assms(7) obtain w p w' b2 where
    load: "existing_accounts False rt ac (auth_wallet_id auth) b = Inr w"
    and run: "propose rt env ac auth k fee w b = Inr (p, w', b2)"
    and b': "b' = store_wallet (wallet_key ac) w' b2"
    by (auto simp: propose_rotation_def result_simps Let_def)
  then have h: "propose_handle rt env ac auth (k, fee) w b = Inr (proposal_event p, w', b2)"
    and bumps: "stored_bumps (k, fee) w = (sw_state_bump w, sw_vault_bump w)"
    by (simp_all add: propose_handle_def stored_bumps_def)
  have wf: "wf_propose_arg (k, fee)"
    using assms(5) by (simp add: wf_call_def wf_propose_arg_def)
  show ?thesis
  proof (rule propose.existing_entry [OF assms(1-4) wf load bumps h, folded b'])
    fix signer w1
    assume leaves: "leaves rt ids (auth_wallet_id auth) b b' (Some w')"
      and v: "verify_enclave_authorization rt env w auth (propose_action ac (k, fee))
        (sw_state_bump w) (sw_vault_bump w) = Inr (signer, w1)"
      and s: "signer = signer_of env" "spec_at rt b (auth_wallet_id auth) = Some (spec_of w)"
        "unat (sw_nonce w) = unat (auth_nonce auth)"
        "spec_of w1 = (spec_of w)\<lparr>sp_nonce := unat (auth_nonce auth) + 1\<rparr>"
    from propose_authorized [OF run] v have p: "apply_proposal env k signer w1 = Inr (p, w')"
      by (auto simp: propose_action_def)
    have "stored rt (auth_wallet_id auth) w"
      using stored_wallet(1) [OF runtime_contractD(1) [OF assms(1)] assms(2,3)] s(2)
        load_wallet_stored(2) [OF runtime_contractD(1) [OF assms(1)] assms(2,3)] load
      by (auto simp: existing_accounts_def result_simps)
    then have "length (sw_guardians w) = MAX_GUARDIANS"
      by (auto simp: stored_def dest: wallet_invD(4))
    moreover have "length (sw_guardians w1) = length (sw_guardians w)"
      using arg_cong [OF s(4), of "\<lambda>s. length (sp_guardians s)"] by (simp add: spec_of_def)
    ultimately show ?thesis
      using apply_proposal_spec [OF p assms(6) s(4)] s
      by (intro leaves_refines [OF leaves]) simp
  qed
qed

lemma confirm_leaves:
  assumes "runtime_contract rt ids" "ledger_inv rt ids b" "wid \<in> ids"
    and "process rt env ac (Call_ConfirmRotation wid) b = Inr (evs, b')"
  obtains w w' ev where "wallet_with_id rt b wid = Some w" "confirm env w = Inr (ev, w')"
    "evs = [ev]" "leaves rt ids wid b b' (Some w')"
proof -
  note contract = runtime_contractD(1) [OF assms(1)]
  from assms(4) obtain w ev w' where
    load: "load_wallet rt ac wid b = Inr w" and run: "confirm env w = Inr (ev, w')"
    and r: "b' = store_wallet (wallet_key ac) w' b" "evs = [ev]"
    by (auto simp: confirm_rotation_def confirm_accounts_def result_simps)
  note loaded = load_wallet_stored [OF contract assms(2,3) load]
  note old = stored_wallet [OF contract assms(2,3) loaded(2)]
  have "stored rt wid w'"
    using confirm_inv [OF run] old(1) run by (auto simp: stored_def confirm_Inr_iff)
  then have "leaves rt ids wid b b' (Some w')"
    using old account_data_length [OF stored_wf [OF old(1)]] unfolding r(1) loaded(1)
    by (intro store_leaves [OF contract assms(2,3)]) (auto simp: same_state_def)
  with that loaded(2) run r(2) show ?thesis by blast
qed

lemma confirm_refines:
  assumes "runtime_contract rt ids" "ledger_inv rt ids b" "wid \<in> ids"
    and "env_clock env = Inr now" "sint now < I64_MAX"
    and "process rt env ac (Call_ConfirmRotation wid) b = Inr (evs, b')"
  shows "refines_step rt ids wid now (label_of env (Call_ConfirmRotation wid)) b b'"
proof -
  from confirm_leaves [OF assms(1-3,6)] obtain w w' ev where
    w: "wallet_with_id rt b wid = Some w" and run: "confirm env w = Inr (ev, w')"
    and leaves: "leaves rt ids wid b b' (Some w')" .
  from run assms(4) obtain p where p: "rotation_get (sw_rotation w) = Some p"
    "sint (opens_at p) \<le> sint now" "sint now \<le> sint (closes_at p)"
    and w': "w' = w\<lparr>sw_active_key := pr_new_key p, sw_attested := False,
      sw_rotation := EMPTY_ROTATION\<rparr>"
    by (auto simp: confirm_Inr_iff)
  have "sp_pending (spec_of w) = Some (pr_new_key p, sint (pr_proposed_at p), unat (pr_proposed_by p))"
    by (simp add: spec_of_def p(1))
  with window_spec [OF p(2,3) assms(5)] w w' show ?thesis
    by (intro leaves_refines [OF leaves]) (auto simp: spec_step_confirmed spec_at_def)
qed

lemma process_refines:
  assumes "runtime_contract rt ids" "ledger_inv rt ids b" "call_wallet call \<in> ids"
    and "signer_key_set env" "wf_call call" "env_clock env = Inr now" "sint now < I64_MAX"
    and "process rt env ac call b = Inr (evs, b')"
  shows "refines_step rt ids (call_wallet call) now (label_of env call) b b'"
proof (cases call)
  case (Call_TransferSol auth lamports fee)
  with assms show ?thesis by (simp del: label_of.simps process.simps add: transfer_refines)
next
  case (Call_SetGuardians auth gs fee)
  with assms show ?thesis by (simp del: label_of.simps process.simps add: set_guardians_refines)
next
  case (Call_CancelRotation auth fee)
  with assms show ?thesis by (simp del: label_of.simps process.simps add: cancel_refines)
next
  case (Call_ProposeRotation auth k fee)
  with assms show ?thesis by (simp del: label_of.simps process.simps add: propose_refines)
next
  case (Call_ConfirmRotation wid)
  with assms show ?thesis by (simp del: label_of.simps process.simps add: confirm_refines)
next
  case (Call_SweepVault auth fee)
  with assms show ?thesis by (simp del: label_of.simps process.simps add: sweep_refines)
next
  case (Call_CloseWallet auth fee)
  with assms show ?thesis by (simp del: label_of.simps process.simps add: close_refines)
qed

lemma label_of_signed:
  "call_authorization call = Some auth \<Longrightarrow>
   \<exists>c. label_of env call = Signed (signer_of env) (unat (auth_nonce auth)) c"
  by (cases call) auto

lemma label_of_propose:
  "label_of env call = Signed s n (Op_Propose k) \<Longrightarrow>
   \<exists>auth fee. call = Call_ProposeRotation auth k fee"
  by (cases call) auto

lemma label_of_confirmed: "label_of env call = Confirmed \<Longrightarrow> \<exists>wid. call = Call_ConfirmRotation wid"
  by (cases call) auto

section \<open>Creation\<close>

lemma verify_signer:
  "verify_enclave_authorization rt env w auth action sb vb = Inr (signer, w1) \<Longrightarrow> signer = signer_of env"
  by (auto simp: verify_Inr_iff signer_of_def)

lemma init_accounts_new:
  assumes "runtime_contract rt ids" "ledger_inv rt ids b" "wid \<in> ids"
    and "init_accounts has_to rt ac wid b = Inr (w, sb, vb, b1)" "wallet_with_id rt b wid = None"
  shows "is_new w"
proof -
  from assms(4) have "load_or_init_wallet rt ac wid b = Inr (w, sb, b1)"
    by (auto simp: init_accounts_def result_simps)
  from load_or_init_stored(6) [OF runtime_contractD(1,2) [OF assms(1)] assms(2,3) this] assms(5)
  show ?thesis by simp
qed

lemma first_use_events:
  assumes "runtime_contract rt ids" "ledger_inv rt ids b" "call_wallet call \<in> ids"
    and "process rt env ac call b = Inr (evs, b')" "wallet_with_id rt b (call_wallet call) = None"
    and "label_of env call = Signed s n c" "c = Op_Spend \<or> (\<exists>gs. c = Op_Guardians gs)"
  shows "\<exists>e. evs = [WalletCreated (call_wallet call) (signer_of env), e]"
proof -
  note new = init_accounts_new [OF assms(1-3) _ assms(5)]
  show ?thesis
  proof (cases call)
    case (Call_TransferSol auth lamports fee)
    with assms(4) show ?thesis
      by (auto simp: transfer_sol_def result_simps Let_def created_event_def
          dest!: new [unfolded Call_TransferSol call_wallet.simps] transfer_authorized verify_signer)
  next
    case (Call_SetGuardians auth gs fee)
    with assms(4) show ?thesis
      by (auto simp: set_guardians_entry_def result_simps Let_def created_event_def
          dest!: new [unfolded Call_SetGuardians call_wallet.simps] set_guardians_authorized verify_signer)
  next
    case (Call_SweepVault auth fee)
    with assms(4) show ?thesis
      by (auto simp: sweep_vault_def result_simps Let_def created_event_def
          dest!: new [unfolded Call_SweepVault call_wallet.simps] sweep_authorized verify_signer)
  qed (use assms(6,7) in auto)
qed

end
