(* ===== verification/History.thy ===== *)
theory History
  imports Refinement
begin

text \<open>
  Sequences of instructions. A run interleaves successful instructions on any of the wallets in use
  with steps of everything else on the chain, which may change any account but the state of the
  accounts at the wallets' addresses (only the program can write or assign those). Its history
  records, per instruction, the wallet, the clock and the label. Each wallet's part of the history is
  a run of the abstract machine, so the facts on runs of \<open>Wallet_Machine\<close> hold of the ledger.
\<close>

definition external_step :: "runtime \<Rightarrow> bytes set \<Rightarrow> bank \<Rightarrow> bank \<Rightarrow> bool" where
  "external_step rt ids b b' \<longleftrightarrow>
     (\<forall>wid \<in> ids. \<forall>bump a. rt_create_program_address rt (wallet_seeds wid bump) = Some a \<longrightarrow>
        same_state b b' a)"

text \<open>A transaction's sysvars: a clock that is not at its end, and a verified signature.\<close>

definition good_env :: "env \<Rightarrow> i64 \<Rightarrow> bool" where
  "good_env env now \<longleftrightarrow> env_clock env = Inr now \<and> sint now < I64_MAX \<and> signer_key_set env"

definition good_call :: "bytes set \<Rightarrow> Call \<Rightarrow> bool" where
  "good_call ids call \<longleftrightarrow> call_wallet call \<in> ids \<and> wf_call call"

type_synonym history = "(bytes \<times> int \<times> Label) list"

inductive ledger_run :: "runtime \<Rightarrow> bytes set \<Rightarrow> bank \<Rightarrow> history \<Rightarrow> bank \<Rightarrow> bool"
  for rt :: runtime and ids :: "bytes set" and b :: bank where
  start: "ledger_run rt ids b [] b"
| instruction: "ledger_run rt ids b tr b1 \<Longrightarrow> good_env env now \<Longrightarrow> good_call ids call \<Longrightarrow>
    process rt env ac call b1 = Inr (evs, b2) \<Longrightarrow>
    ledger_run rt ids b (tr @ [(call_wallet call, sint now, label_of env call)]) b2"
| external: "ledger_run rt ids b tr b1 \<Longrightarrow> external_step rt ids b1 b2 \<Longrightarrow> ledger_run rt ids b tr b2"

definition history_of :: "bytes \<Rightarrow> history \<Rightarrow> (int \<times> Label) list" where
  "history_of wid tr = map snd (filter (\<lambda>e. fst e = wid) tr)"

lemma history_of_simps [simp]:
  "history_of wid [] = []"
  "history_of wid (tr @ [(wid', t, l)])
     = history_of wid tr @ (if wid' = wid then [(t, l)] else [])"
  by (simp_all add: history_of_def)

lemma external_same_wallet:
  assumes "address_contract rt ids" "external_step rt ids b b'" "wid \<in> ids"
  shows "wallet_with_id rt b' wid = wallet_with_id rt b wid"
proof -
  have "same_state b b' (wallet_address rt wid)"
    using assms(2,3) canonical_address [OF assms(1)] by (auto simp: external_step_def)
  then show ?thesis by (simp add: wallet_with_id_def wallet_at_same)
qed

lemma external_wallet:
  "address_contract rt ids \<Longrightarrow> external_step rt ids b b' \<Longrightarrow> wid \<in> ids \<Longrightarrow>
   spec_at rt b' wid = spec_at rt b wid"
  by (simp add: spec_at_def external_same_wallet)

lemma external_inv:
  assumes "external_step rt ids b b'" "ledger_inv rt ids b"
  shows "ledger_inv rt ids b'"
  unfolding ledger_inv_def
proof (intro ballI allI impI)
  fix wid bump a
  assume a: "wid \<in> ids" "rt_create_program_address rt (wallet_seeds wid bump) = Some a"
    "acc_owner (b' a) = PROGRAM_ID"
  with assms(1) have "same_state b b' a" by (auto simp: external_step_def)
  with a assms(2) show "a = wallet_address rt wid
      \<and> (\<exists>w. acc_data (b' a) = account_data w \<and> stored rt wid w)"
    using ledger_invD [OF assms(2) a(1,2)] by (simp add: same_state_def)
qed

text \<open>A ledger run is a run of every wallet's machine.\<close>

lemma run_refines:
  assumes "ledger_run rt ids b tr b'" "runtime_contract rt ids" "ledger_inv rt ids b"
  shows "ledger_inv rt ids b' \<and> (\<forall>wid \<in> ids.
    spec_run (rt_sha256 rt) wid MAX_GUARDIANS (spec_at rt b wid) (history_of wid tr) (spec_at rt b' wid))"
  using assms(1)
proof induction
  case start
  then show ?case using assms(3) by (simp add: spec_run.start)
next
  case (instruction tr b1 env now call ac evs b2)
  then have step: "refines_step rt ids (call_wallet call) now (label_of env call) b1 b2"
    using assms(2) by (intro process_refines) (auto simp: good_env_def good_call_def)
  show ?case
  proof (intro conjI ballI)
    show "ledger_inv rt ids b2" using step by (simp add: refines_step_def)
    fix wid assume wid: "wid \<in> ids"
    show "spec_run (rt_sha256 rt) wid MAX_GUARDIANS (spec_at rt b wid)
        (history_of wid (tr @ [(call_wallet call, sint now, label_of env call)])) (spec_at rt b2 wid)"
    proof (cases "call_wallet call = wid")
      case True
      with step wid instruction.IH show ?thesis
        by (auto simp: refines_step_def intro: spec_run.step)
    next
      case False
      with step wid have "spec_at rt b2 wid = spec_at rt b1 wid"
        by (auto simp: refines_step_def others_kept_def spec_at_def)
      with False wid instruction.IH show ?thesis by simp
    qed
  qed
next
  case (external tr b1 b2)
  then show ?case
    using external_inv external_wallet runtime_contractD(1) [OF assms(2)] by auto
qed

text \<open>Before the program was ever used: no account of the program at the wallets' addresses.\<close>

definition unused_ledger :: "runtime \<Rightarrow> bytes set \<Rightarrow> bank \<Rightarrow> bool" where
  "unused_ledger rt ids b \<longleftrightarrow>
     (\<forall>wid \<in> ids. \<forall>bump a. rt_create_program_address rt (wallet_seeds wid bump) = Some a \<longrightarrow>
        acc_owner (b a) \<noteq> PROGRAM_ID)"

lemma unused_ledgerD:
  assumes "unused_ledger rt ids b"
  shows "ledger_inv rt ids b" "address_contract rt ids \<Longrightarrow> wid \<in> ids \<Longrightarrow> spec_at rt b wid = None"
  using assms canonical_address [of rt ids wid]
  by (auto simp: unused_ledger_def ledger_inv_def spec_at_def wallet_with_id_def wallet_at_def)

lemma used_ledger_run:
  assumes "ledger_run rt ids b tr b'" "runtime_contract rt ids" "unused_ledger rt ids b" "wid \<in> ids"
  shows "ledger_inv rt ids b'"
    "spec_run (rt_sha256 rt) wid MAX_GUARDIANS None (history_of wid tr) (spec_at rt b' wid)"
  using run_refines [OF assms(1,2) unused_ledgerD(1) [OF assms(3)]] assms(4)
    unused_ledgerD(2) [OF assms(3) runtime_contractD(1) [OF assms(2)] assms(4)]
  by auto

text \<open>An authorization is spent while its wallet stays open.\<close>

lemma spent_authorization_fails:
  assumes "runtime_contract rt ids" "ledger_inv rt ids b"
    and "good_call ids call" "good_env env now" "process rt env ac call b = Inr (evs, b1)"
    and "call_authorization call = Some auth"
    and "wallet_with_id rt b1 (auth_wallet_id auth) \<noteq> None"
    and "ledger_run rt ids b1 tr b2" "\<not> list_ex closes (map snd (history_of (auth_wallet_id auth) tr))"
    and "good_call ids call2" "good_env env2 now2" "call_authorization call2 = Some auth2"
    and "auth_wallet_id auth2 = auth_wallet_id auth" "auth_nonce auth2 = auth_nonce auth"
  shows "process rt env2 ac2 call2 b2 \<noteq> Inr r"
proof
  let ?wid = "auth_wallet_id auth"
  assume again: "process rt env2 ac2 call2 b2 = Inr r"
  obtain evs2 b3 where r: "r = (evs2, b3)" by (cases r)
  have wid: "call_wallet call = ?wid" "call_wallet call2 = ?wid" "?wid \<in> ids"
    using assms(3,6,12,13) by (auto simp: call_wallet_authorization good_call_def)
  have one: "refines_step rt ids ?wid now (label_of env call) b b1"
    using process_refines [OF assms(1,2) _ _ _ _ _ assms(5), of now] assms(3,4) wid
    by (simp add: good_env_def good_call_def)
  have run: "ledger_inv rt ids b2" "spec_run (rt_sha256 rt) ?wid MAX_GUARDIANS (spec_at rt b1 ?wid)
      (history_of ?wid tr) (spec_at rt b2 ?wid)"
    using run_refines [OF assms(8,1)] one wid by (auto simp: refines_step_def)
  have two: "refines_step rt ids ?wid now2 (label_of env2 call2) b2 b3"
    using process_refines [OF assms(1) run(1) _ _ _ _ _ again [unfolded r], of now2] assms(10,11) wid
    by (simp add: good_env_def good_call_def)
  obtain s1 where s1: "spec_at rt b1 ?wid = Some s1" using assms(7) by (auto simp: spec_at_def)
  have "sp_nonce s1 = unat (auth_nonce auth) + 1"
    using label_of_signed [OF assms(6), of env] one s1 signed_step_nonce(2)
    unfolding refines_step_def by metis
  moreover obtain s2 where s2: "spec_at rt b2 ?wid = Some s2" "sp_nonce s1 \<le> sp_nonce s2"
    using run_nonces [OF run(2) [unfolded s1] assms(9)] by auto
  moreover have "sp_nonce s2 = unat (auth_nonce auth2)"
    using label_of_signed [OF assms(12), of env2] two s2(1) signed_step_nonce(1)
    unfolding refines_step_def by metis
  ultimately show False using assms(14) by simp
qed

end
