(* ===== verification/Scenario_Runs.thy ===== *)
theory Scenario_Runs
  imports History
begin

text \<open>
  The wallet of \<open>Scenario\<close> through whole instructions, for the witnesses: from a ledger on which the
  program was never used, the owner sets a guardian, the guardian proposes, anyone confirms. The
  relayer asks for no fee in these, so that only the wallet's account changes.
\<close>

lemma demo_address_contract: "address_contract demo_runtime {demo_id}"
proof -
  have bump: "bump = 255"
    if "rt_create_program_address demo_runtime (wallet_seeds wid bump) = Some a" for wid bump a
    using that by (auto simp: demo_runtime_def demo_address_def wallet_seeds_def split: if_splits)
  moreover have "rt_system_program demo_runtime \<noteq> PROGRAM_ID" by code_simp
  ultimately show ?thesis
    using demo_runtime_contracts(2) bump
    by (simp add: address_contract_def demo_id_def) blast
qed

lemma demo_contract: "runtime_contract demo_runtime {demo_id}"
  by (simp add: runtime_contract_def demo_address_contract demo_runtime_contracts)

lemma demo_pda:
  "wallet_pda demo_runtime demo_id = (wallet_key demo_accounts, 255)"
  "vault_pda demo_runtime demo_id = (vault_key demo_accounts, 255)"
  by (simp_all add: demo_accounts_def plain_meta_def wallet_pda_def vault_pda_def)
    (simp_all add: demo_runtime_def)

lemma demo_checks:
  "meta_is_writable (ac_wallet demo_accounts)" "meta_is_writable (ac_vault demo_accounts)"
  "meta_is_writable (ac_to demo_accounts)" "meta_is_writable (ac_relayer demo_accounts)"
  "meta_is_signer (ac_relayer demo_accounts)"
  "check_relayer_and_programs demo_runtime demo_accounts = Inr ()"
  "check_event_cpi demo_runtime demo_accounts = Inr ()"
  by (simp_all add: demo_accounts_def plain_meta_def check_relayer_and_programs_def require_mut_def
      check_event_cpi_def) (simp_all add: demo_runtime_def)

text \<open>A ledger on which the wallet does not exist.\<close>

definition demo_unused :: "u64 \<Rightarrow> bank" where
  "demo_unused n = (demo_bank zero_wallet n)
     (wallet_key demo_accounts := \<lparr>acc_lamports = 0, acc_owner = replicate 32 0, acc_data = []\<rparr>,
      relayer_key demo_accounts := \<lparr>acc_lamports = 1002301240, acc_owner = replicate 32 0, acc_data = []\<rparr>)"

definition demo_fresh :: "u64 \<Rightarrow> bank" where
  "demo_fresh n = (demo_bank zero_wallet n)(wallet_key demo_accounts :=
     \<lparr>acc_lamports = 2301240, acc_owner = PROGRAM_ID, acc_data = replicate STATE_LEN 0\<rparr>)"

lemma demo_zero_not_program: "replicate 32 0 \<noteq> PROGRAM_ID"
  by code_simp

lemma demo_init_fresh:
  "rt_init demo_runtime (relayer_key demo_accounts) seeds (wallet_key demo_accounts) STATE_LEN
     (demo_unused n) = Inr (demo_fresh n)"
proof -
  have "(move_lamports (relayer_key demo_accounts) (wallet_key demo_accounts) 2301240 (demo_unused n))
      (wallet_key demo_accounts :=
        \<lparr>acc_lamports = 2301240, acc_owner = PROGRAM_ID, acc_data = replicate STATE_LEN 0\<rparr>)
    = demo_fresh n"
    by (rule ext)
      (auto simp: demo_unused_def demo_fresh_def move_lamports_def debit_def credit_def demo_bank_def)
  then show ?thesis
    by (simp add: demo_runtime_def demo_init_def) (simp add: demo_unused_def)
qed

lemma demo_store:
  assumes "wf_wallet w" "wf_wallet w'"
  shows "store_wallet (wallet_key demo_accounts) w' (demo_bank w n) = demo_bank w' n"
    "store_wallet (wallet_key demo_accounts) w' (demo_fresh n) = demo_bank w' n"
proof -
  show "store_wallet (wallet_key demo_accounts) w' (demo_bank w n) = demo_bank w' n"
    using assms account_data_length
    by (intro ext) (simp add: store_wallet_def, simp add: demo_bank_def)
  show "store_wallet (wallet_key demo_accounts) w' (demo_fresh n) = demo_bank w' n"
    using assms account_data_length
    by (intro ext) (simp add: store_wallet_def demo_fresh_def, simp add: demo_bank_def)
qed

text \<open>Loading.\<close>

definition demo_state :: "SmartWallet \<Rightarrow> bool" where
  "demo_state w \<longleftrightarrow> stored demo_runtime demo_id w"

lemma demo_stateD:
  "demo_state w \<Longrightarrow> wf_wallet w" "demo_state w \<Longrightarrow> sw_state_bump w = 255"
  "demo_state w \<Longrightarrow> sw_vault_bump w = 255" "demo_state w \<Longrightarrow> \<not> is_new w"
  "demo_state w \<Longrightarrow> sw_wallet_id w = demo_id"
  by (auto simp: demo_state_def stored_wf stored_not_new) (simp_all add: stored_def demo_pda)

lemma demo_existing_accounts:
  assumes "demo_state w"
  shows "existing_accounts has_to demo_runtime demo_accounts demo_id (demo_bank w n) = Inr w"
  using assms wallet_of_account_data [of w "[]"] demo_seeds demo_checks demo_zero_not_program
  by (simp add: existing_accounts_def load_wallet_def read_wallet_def check_vault_stored_def
      check_vault_system_def demo_stateD require_mut_def)

lemma demo_confirm_accounts:
  assumes "demo_state w"
  shows "confirm_accounts demo_runtime demo_accounts demo_id (demo_bank w n) = Inr w"
  using assms wallet_of_account_data [of w "[]"] demo_seeds demo_checks demo_zero_not_program
  by (simp add: confirm_accounts_def load_wallet_def read_wallet_def demo_stateD require_mut_def)

lemma demo_init_accounts:
  assumes "demo_state w"
  shows "init_accounts has_to demo_runtime demo_accounts demo_id (demo_bank w n)
    = Inr (w, 255, 255, demo_bank w n)"
  using assms wallet_of_account_data [of w "[]"] demo_checks demo_zero_not_program demo_pda
    INIT_SPACE_matches account_data_length [of w]
  by (simp add: init_accounts_def load_or_init_wallet_def read_wallet_def Let_def check_vault_def
      check_vault_system_def demo_stateD require_mut_def)

lemma demo_init_new:
  "init_accounts has_to demo_runtime demo_accounts demo_id (demo_unused n)
    = Inr (zero_wallet, 255, 255, demo_fresh n)"
proof -
  have "8 + INIT_SPACE = STATE_LEN" using INIT_SPACE_matches by simp
  moreover have "dec_wallet (replicate (STATE_LEN - 8) 0) = Some (zero_wallet, [])"
    using dec_zeros by (simp add: DISCRIMINATOR_LEN_def)
  moreover have "demo_unused n (wallet_key demo_accounts)
      = \<lparr>acc_lamports = 0, acc_owner = replicate 32 0, acc_data = []\<rparr>"
    by (simp add: demo_unused_def)
  moreover have "acc_data (demo_fresh n (wallet_key demo_accounts)) = replicate STATE_LEN 0"
    "acc_owner (demo_fresh n (vault_key demo_accounts)) = replicate 32 0"
    by (simp_all add: demo_fresh_def)
  ultimately show ?thesis
    using demo_checks demo_pda demo_init_fresh
    by (simp add: init_accounts_def load_or_init_wallet_def Let_def check_vault_def
      check_vault_system_def require_mut_def)
qed

section \<open>Instructions\<close>

lemma demo_auth_fold [simp]:
  "\<lparr>auth_wallet_id = demo_id, auth_nonce = n, auth_expires_at = 2000, auth_max_relayer_fee = 100000\<rparr>
     = demo_auth n"
  by (simp add: demo_auth_def)

lemma demo_refund:
  assumes "sw_wallet_id w = demo_id" "sw_vault_bump w = 255"
    and "acc_owner (b (vault_key demo_accounts)) = replicate 32 0"
    and "acc_data (b (vault_key demo_accounts)) = []"
  shows "refund_relayer demo_runtime w (vault_key demo_accounts) (relayer_key demo_accounts) 0 cap b
    = Inr (0, b)"
  using assms unsigned_less [of "lamports_of b (relayer_key demo_accounts)", where 'a = nat]
  by (simp add: refund_relayer_iff demo_runtime_contracts transfer_allowed_def demo_seeds)

definition first_wallet :: SmartWallet where
  "first_wallet = (created_wallet demo_id owner_key 255 255)\<lparr>sw_nonce := 1\<rparr>"

lemma demo_verify_new:
  assumes "wf_action action" "sint now < 2000"
  shows "verify_enclave_authorization demo_runtime (demo_env now owner_key (demo_auth 0) action)
    zero_wallet (demo_auth 0) action 255 255 = Inr (owner_key, first_wallet)"
proof -
  have "pad32 (rev owner_key) = demo_id" by (simp add: pad32_def owner_key_def demo_id_def)
  moreover have "length (auth_wallet_id (demo_auth 0)) = 32" by (simp add: demo_id_def)
  from demo_load [OF demo_keys(1) assms(1) this, of now] have
    "load_secp256r1_payload (env_previous (demo_env now owner_key (demo_auth 0) action))
      = Inr \<lparr>pl_pubkey = owner_key, pl_message = to_bytes (expected_preimage (demo_auth 0) action)\<rparr>" .
  ultimately show ?thesis
    using assms(2)
    by (simp add: verify_Inr_iff checked_wallet_def is_new_zero_wallet first_wallet_def)
      (simp add: created_wallet_def demo_env_def demo_runtime_def)
qed

text \<open>The owner sets the guardian: the wallet's first action.\<close>

definition demo_guardians :: "Guardian list" where
  "demo_guardians = [Guardian_P256 guardian_key, Guardian_None, Guardian_None]"

definition guarded_wallet :: SmartWallet where
  "guarded_wallet = first_wallet\<lparr>sw_guardians := map slot_of demo_guardians\<rparr>"

definition guardians_env :: env where
  "guardians_env = demo_env 1000 owner_key (demo_auth 0)
     (SetGuardians (map eguardian_of demo_guardians))"

lemma demo_guardians_wf:
  "wf_list wf_guardian MAX_GUARDIANS demo_guardians" "\<not> list_ex is_webauthn demo_guardians"
  by (simp_all add: demo_guardians_def wf_list_def MAX_GUARDIANS_def wf_guardian_def wf_array_def
      COMPRESSED_PUBKEY_LEN_def is_webauthn_def)

lemma guarded_wallet_fields [simp]:
  "sw_wallet_id guarded_wallet = demo_id" "sw_active_key guarded_wallet = owner_key"
  "sw_nonce guarded_wallet = 1" "sw_vault_bump guarded_wallet = 255"
  "sw_state_bump guarded_wallet = 255" "sw_rotation guarded_wallet = EMPTY_ROTATION"
  "sw_guardians guarded_wallet = [slot_of (Guardian_P256 guardian_key), EMPTY_SLOT, EMPTY_SLOT]"
  by (simp_all add: guarded_wallet_def first_wallet_def created_wallet_def demo_guardians_def)

lemma guarded_wallet_state: "demo_state guarded_wallet"
proof -
  have "wallet_inv first_wallet"
    by (simp add: first_wallet_def created_wallet_inv demo_id_def COMPRESSED_PUBKEY_LEN_def)
  from wallet_inv_guardians [OF this demo_guardians_wf] have "wallet_inv guarded_wallet"
    by (simp add: guarded_wallet_def first_wallet_def created_wallet_def)
  then show ?thesis by (simp add: demo_state_def stored_def demo_pda)
qed

lemma demo_set_guardians_run:
  "process demo_runtime guardians_env demo_accounts (Call_SetGuardians (demo_auth 0) demo_guardians 0)
     (demo_unused n)
   = Inr ([WalletCreated demo_id owner_key, GuardiansSet demo_id demo_guardians],
       demo_bank guarded_wallet n)"
proof -
  have "wf_action (SetGuardians (map eguardian_of demo_guardians))"
    using demo_guardians_wf(1)
    by (simp add: wf_list_def wf_guardian_def list_all_iff)
  from demo_verify_new [OF this, of 1000] have
    "verify_enclave_authorization demo_runtime guardians_env zero_wallet (demo_auth 0)
      (SetGuardians (map eguardian_of demo_guardians)) 255 255 = Inr (owner_key, first_wallet)"
    by (simp add: guardians_env_def)
  moreover have "guarded_wallet = first_wallet\<lparr>sw_guardians := map slot_of demo_guardians,
      sw_rotation := EMPTY_ROTATION\<rparr>"
    by (simp add: guarded_wallet_def first_wallet_def created_wallet_def)
  ultimately have "set_guardians demo_runtime guardians_env demo_accounts (demo_auth 0)
      demo_guardians 0 255 255 zero_wallet (demo_fresh n)
    = Inr (GuardiansSet demo_id demo_guardians, guarded_wallet, demo_fresh n)"
    using demo_guardians_wf(2)
    by (simp add: set_guardians_def require_active_key_def demo_refund demo_fresh_def first_wallet_def
        created_wallet_def)
  then show ?thesis
    using demo_store [OF demo_stateD(1) [OF guarded_wallet_state] demo_stateD(1) [OF guarded_wallet_state]]
    by (simp add: set_guardians_entry_def demo_init_new Let_def is_new_zero_wallet created_event_def)
qed

text \<open>The guardian proposes its device's key.\<close>

definition pending_wallet :: "i64 \<Rightarrow> SmartWallet" where
  "pending_wallet now = guarded_wallet\<lparr>sw_nonce := 2, sw_rotation := rotation_new
     \<lparr>pr_new_key = device_key, pr_proposed_at = now, pr_proposed_by = 0\<rparr>\<rparr>"

definition propose_env :: "i64 \<Rightarrow> env" where
  "propose_env now = demo_env now guardian_key (demo_auth 1) (ProposeRotation device_key)"

lemma guarded_wallet_guardian:
  "sw_guardians w = sw_guardians guarded_wallet \<Longrightarrow> p256_guardian w guardian_key = Some 0"
  by (simp add: p256_guardian_def EMPTY_SLOT_def)

lemma pending_wallet_state: "demo_state (pending_wallet now)"
proof -
  have inv: "wallet_inv guarded_wallet" using guarded_wallet_state by (simp add: demo_state_def stored_def)
  have "p256_guardian guarded_wallet guardian_key = Some 0"
    using guarded_wallet_guardian [of guarded_wallet] by simp
  from wallet_inv_propose [OF inv this, of device_key now]
  have "wallet_inv (guarded_wallet\<lparr>sw_rotation := rotation_new
     \<lparr>pr_new_key = device_key, pr_proposed_at = now, pr_proposed_by = 0\<rparr>\<rparr>)"
    by (simp add: COMPRESSED_PUBKEY_LEN_def)
  moreover have "pending_wallet now = (guarded_wallet\<lparr>sw_rotation := rotation_new
     \<lparr>pr_new_key = device_key, pr_proposed_at = now, pr_proposed_by = 0\<rparr>\<rparr>)\<lparr>sw_nonce := 2\<rparr>"
    by (simp add: pending_wallet_def)
  ultimately have "wallet_inv (pending_wallet now)" by (simp only: wallet_inv_nonce)
  then show ?thesis by (simp add: demo_state_def stored_def demo_pda pending_wallet_def)
qed

lemma demo_propose_run:
  assumes "sint now < 2000"
  shows "process demo_runtime (propose_env now) demo_accounts
      (Call_ProposeRotation (demo_auth 1) device_key 0) (demo_bank guarded_wallet n)
    = Inr ([RotationProposed demo_id device_key guardian_key (saturating_add now ROTATION_DELAY)],
        demo_bank (pending_wallet now) n)"
proof -
  have v: "verify_enclave_authorization demo_runtime (propose_env now) guarded_wallet (demo_auth 1)
      (ProposeRotation device_key) 255 255 = Inr (guardian_key, guarded_wallet\<lparr>sw_nonce := 2\<rparr>)"
    using demo_verify [of guardian_key "ProposeRotation device_key" "demo_auth 1" guarded_wallet now
        demo_runtime 255 255] assms demo_stateD(4) [OF guarded_wallet_state]
    by (simp add: propose_env_def wf_array_def COMPRESSED_PUBKEY_LEN_def)
  have p: "apply_proposal (propose_env now) device_key guardian_key (guarded_wallet\<lparr>sw_nonce := 2\<rparr>)
    = Inr (Pending (RotationProposed demo_id device_key guardian_key
        (saturating_add now ROTATION_DELAY)), pending_wallet now)"
    using guarded_wallet_guardian [of "guarded_wallet\<lparr>sw_nonce := 2\<rparr>"]
    by (simp add: apply_proposal_Inr_iff propose_by_guardian_Inr_iff propose_env_def demo_env_def
        slot_free_def pending_wallet_def not_sym [OF demo_keys(4)])
  have "propose demo_runtime (propose_env now) demo_accounts (demo_auth 1) device_key 0 guarded_wallet
      (demo_bank guarded_wallet n)
    = Inr (Pending (RotationProposed demo_id device_key guardian_key
        (saturating_add now ROTATION_DELAY)), pending_wallet now, demo_bank guarded_wallet n)"
    using v p by (simp add: propose_def demo_refund pending_wallet_def)
  then show ?thesis
    using demo_store(1) [OF demo_stateD(1) [OF guarded_wallet_state] demo_stateD(1) [OF pending_wallet_state]]
    by (simp add: propose_rotation_def demo_existing_accounts [OF guarded_wallet_state])
qed

text \<open>Anyone confirms it.\<close>

definition recovered_wallet :: "i64 \<Rightarrow> SmartWallet" where
  "recovered_wallet now = (pending_wallet now)\<lparr>sw_active_key := device_key, sw_attested := False,
     sw_rotation := EMPTY_ROTATION\<rparr>"

definition confirm_env :: "i64 \<Rightarrow> env" where
  "confirm_env now = \<lparr>env_clock = Inr now, env_rent = Inr (\<lambda>_. 890880), env_previous = Inl (External 0)\<rparr>"

lemma demo_confirm_run:
  assumes "259200 + sint now \<le> sint later" "sint later \<le> 864000 + sint now" "sint now < 2000"
  shows "process demo_runtime (confirm_env later) demo_accounts (Call_ConfirmRotation demo_id)
      (demo_bank (pending_wallet now) n)
    = Inr ([KeyRotated demo_id device_key True], demo_bank (recovered_wallet now) n)"
proof -
  have inv: "wallet_inv (pending_wallet now)"
    using pending_wallet_state by (simp add: demo_state_def stored_def)
  have run: "confirm (confirm_env later) (pending_wallet now)
      = Inr (KeyRotated demo_id device_key True, recovered_wallet now)"
    using assms by (simp add: confirm_Inr_iff confirm_env_def recovered_wallet_def pending_wallet_def
        sint_opens_at sint_closes_at I64_MAX_def)
  then show ?thesis
    using demo_store(1) [OF demo_stateD(1) [OF pending_wallet_state], of "recovered_wallet now"]
      confirm_inv [OF run inv]
    by (simp add: confirm_rotation_def demo_confirm_accounts [OF pending_wallet_state] wallet_inv_def)
qed

lemma recovered_wallet_state: "demo_state (recovered_wallet now)"
proof -
  have "wallet_inv (recovered_wallet now)"
    using pending_wallet_state [of now] unfolding recovered_wallet_def
    by (intro wallet_inv_rotate) (simp_all add: demo_state_def stored_def COMPRESSED_PUBKEY_LEN_def)
  then show ?thesis
    by (simp add: demo_state_def stored_def demo_pda recovered_wallet_def pending_wallet_def)
qed

section \<open>Closing and coming back\<close>

text \<open>The owner sweeps an empty vault (the wallet's first action), rotates to \<open>device_key\<close>, and
  \<open>device_key\<close> closes.\<close>

definition sweep_env :: env where
  "sweep_env = demo_env 1000 owner_key (demo_auth 0) (SweepVault (to_key demo_accounts))"

definition rotate_env :: env where
  "rotate_env = demo_env 1000 owner_key (demo_auth 1) (ProposeRotation device_key)"

definition close_env :: env where
  "close_env = demo_env 1000 device_key (demo_auth 2) (CloseWallet (to_key demo_accounts))"

definition rotated_wallet :: SmartWallet where
  "rotated_wallet = first_wallet\<lparr>sw_nonce := 2, sw_active_key := device_key\<rparr>"

lemma first_wallet_fields [simp]:
  "sw_wallet_id first_wallet = demo_id" "sw_active_key first_wallet = owner_key"
  "sw_nonce first_wallet = 1" "sw_vault_bump first_wallet = 255" "sw_state_bump first_wallet = 255"
  "sw_rotation first_wallet = EMPTY_ROTATION" "\<not> sw_attested first_wallet"
  by (simp_all add: first_wallet_def created_wallet_def)

lemma first_wallet_state: "demo_state first_wallet"
  by (simp add: demo_state_def stored_def demo_pda)
    (simp add: first_wallet_def created_wallet_inv demo_id_def COMPRESSED_PUBKEY_LEN_def)

lemma rotated_wallet_state: "demo_state rotated_wallet"
proof -
  have "wallet_inv (first_wallet\<lparr>sw_active_key := device_key, sw_attested := False,
      sw_rotation := EMPTY_ROTATION\<rparr>)"
    using first_wallet_state
    by (intro wallet_inv_rotate) (simp_all add: demo_state_def stored_def COMPRESSED_PUBKEY_LEN_def)
  moreover have "rotated_wallet = (first_wallet\<lparr>sw_active_key := device_key, sw_attested := False,
      sw_rotation := EMPTY_ROTATION\<rparr>)\<lparr>sw_nonce := 2\<rparr>"
    by (simp add: rotated_wallet_def first_wallet_def created_wallet_def)
  ultimately have "wallet_inv rotated_wallet" by (metis wallet_inv_nonce)
  then show ?thesis by (simp add: demo_state_def stored_def demo_pda rotated_wallet_def)
qed

text \<open>Nothing moves out of an empty vault.\<close>

lemma demo_pay_nothing:
  assumes "sw_wallet_id w = demo_id" "sw_vault_bump w = 255"
    and "acc_owner (b (vault_key demo_accounts)) = replicate 32 0"
    and "acc_data (b (vault_key demo_accounts)) = []"
  shows "transfer_from_vault demo_runtime w (vault_key demo_accounts) dst 0 b = Inr b"
  using assms unsigned_less [of "lamports_of b dst", where 'a = nat]
  by (simp add: transfer_from_vault_iff demo_runtime_contracts transfer_allowed_def demo_seeds)

lemma demo_sweep_run:
  "process demo_runtime sweep_env demo_accounts (Call_SweepVault (demo_auth 0) 0) (demo_unused 0)
   = Inr ([WalletCreated demo_id owner_key, VaultSwept demo_id (to_key demo_accounts) 0 0],
       demo_bank first_wallet 0)"
proof -
  have "verify_enclave_authorization demo_runtime sweep_env zero_wallet (demo_auth 0)
      (SweepVault (to_key demo_accounts)) 255 255 = Inr (owner_key, first_wallet)"
    unfolding sweep_env_def by (rule demo_verify_new) (simp_all add: wf_array_def)
  moreover have "demo_fresh 0 (vault_key demo_accounts)
      = \<lparr>acc_lamports = 0, acc_owner = replicate 32 0, acc_data = []\<rparr>"
    by (simp add: demo_fresh_def)
  ultimately have "sweep demo_runtime sweep_env demo_accounts (demo_auth 0) 0 255 255 zero_wallet
      (demo_fresh 0)
    = Inr (VaultSwept demo_id (to_key demo_accounts) 0 0, first_wallet, demo_fresh 0)"
    by (simp add: sweep_def require_active_key_def demo_refund demo_pay_nothing)
  then show ?thesis
    using demo_store(2) [OF demo_stateD(1) [OF first_wallet_state] demo_stateD(1) [OF first_wallet_state]]
    by (simp add: sweep_vault_def demo_init_new Let_def is_new_zero_wallet created_event_def)
qed

lemma demo_rotate_run:
  "process demo_runtime rotate_env demo_accounts (Call_ProposeRotation (demo_auth 1) device_key 0)
     (demo_bank first_wallet n)
   = Inr ([KeyRotated demo_id device_key False], demo_bank rotated_wallet n)"
proof -
  have v: "verify_enclave_authorization demo_runtime rotate_env first_wallet (demo_auth 1)
      (ProposeRotation device_key) 255 255 = Inr (owner_key, first_wallet\<lparr>sw_nonce := 2\<rparr>)"
    using demo_verify [of owner_key "ProposeRotation device_key" "demo_auth 1" first_wallet 1000
        demo_runtime 255 255] demo_stateD(4) [OF first_wallet_state]
    by (simp add: rotate_env_def wf_array_def COMPRESSED_PUBKEY_LEN_def)
  have p: "apply_proposal rotate_env device_key owner_key (first_wallet\<lparr>sw_nonce := 2\<rparr>)
      = Inr (Rotated (KeyRotated demo_id device_key False), rotated_wallet)"
    by (simp add: apply_proposal_def Let_def)
      (simp add: rotated_wallet_def first_wallet_def created_wallet_def)
  have "propose demo_runtime rotate_env demo_accounts (demo_auth 1) device_key 0 first_wallet
      (demo_bank first_wallet n)
    = Inr (Rotated (KeyRotated demo_id device_key False), rotated_wallet, demo_bank first_wallet n)"
    using v p by (simp add: propose_def demo_refund rotated_wallet_def)
  then show ?thesis
    using demo_store(1) [OF demo_stateD(1) [OF first_wallet_state] demo_stateD(1) [OF rotated_wallet_state]]
    by (simp add: propose_rotation_def demo_existing_accounts [OF first_wallet_state])
qed

lemma demo_close_account:
  "close_account demo_runtime (wallet_key demo_accounts) (relayer_key demo_accounts) (demo_bank w 0)
     = Inr (demo_unused 0)"
proof -
  have "(demo_bank w 0)(relayer_key demo_accounts :=
        \<lparr>acc_lamports = 1002301240, acc_owner = replicate 32 0, acc_data = []\<rparr>,
      wallet_key demo_accounts := \<lparr>acc_lamports = 0, acc_owner = replicate 32 0, acc_data = []\<rparr>)
    = demo_unused 0"
    by (rule ext) (simp add: demo_unused_def demo_bank_def)
  then show ?thesis by (simp add: close_account_def checked_add_def)
qed

lemma demo_close_run:
  "process demo_runtime close_env demo_accounts (Call_CloseWallet (demo_auth 2) 0)
     (demo_bank rotated_wallet 0)
   = Inr ([WalletClosed demo_id (to_key demo_accounts) 0 0], demo_unused 0)"
proof -
  have v: "verify_enclave_authorization demo_runtime close_env rotated_wallet (demo_auth 2)
      (CloseWallet (to_key demo_accounts)) 255 255 = Inr (device_key, rotated_wallet\<lparr>sw_nonce := 3\<rparr>)"
    using demo_verify [of device_key "CloseWallet (to_key demo_accounts)" "demo_auth 2" rotated_wallet
        1000 demo_runtime 255 255] demo_stateD(4) [OF rotated_wallet_state]
    by (simp add: close_env_def wf_array_def) (simp add: rotated_wallet_def)
  then have "close demo_runtime close_env demo_accounts (demo_auth 2) 0 rotated_wallet
      (demo_bank rotated_wallet 0)
    = Inr (WalletClosed demo_id (to_key demo_accounts) 0 0, rotated_wallet\<lparr>sw_nonce := 3\<rparr>,
        demo_bank rotated_wallet 0)"
    by (simp add: close_def require_active_key_def Let_def rotated_wallet_def demo_pay_nothing)
  then show ?thesis
    by (simp add: close_wallet_def demo_existing_accounts [OF rotated_wallet_state] demo_close_account)
qed

section \<open>As a run\<close>

lemma demo_good_env:
  assumes "length key = 33" "key \<noteq> zero_key" "wf_action action" "sint now < 2000"
  shows "good_env (demo_env now key (demo_auth n) action) now"
    "signer_of (demo_env now key (demo_auth n) action) = key"
proof -
  have "length (auth_wallet_id (demo_auth n)) = 32" by (simp add: demo_id_def)
  note load = demo_load [OF assms(1,3) this, of now]
  then show "good_env (demo_env now key (demo_auth n) action) now"
    using assms(2,4)
    by (simp add: good_env_def signer_key_set_def I64_MAX_def) (simp add: demo_env_def)
  show "signer_of (demo_env now key (demo_auth n) action) = key"
    by (simp add: signer_of_def load)
qed

lemma demo_envs:
  "good_env guardians_env 1000" "signer_of guardians_env = owner_key"
  "good_env (propose_env 1000) 1000" "signer_of (propose_env 1000) = guardian_key"
  "good_env (confirm_env 260200) 260200"
proof -
  have gs: "wf_action (SetGuardians (map eguardian_of demo_guardians))"
    using demo_guardians_wf(1) by (simp add: wf_list_def wf_guardian_def list_all_iff)
  show "good_env guardians_env 1000" "signer_of guardians_env = owner_key"
    unfolding guardians_env_def using gs by (intro demo_good_env; simp)+
  show "good_env (propose_env 1000) 1000" "signer_of (propose_env 1000) = guardian_key"
    unfolding propose_env_def
    by (intro demo_good_env; simp add: wf_array_def COMPRESSED_PUBKEY_LEN_def)+
  show "good_env (confirm_env 260200) 260200"
    by (simp add: good_env_def confirm_env_def I64_MAX_def signer_key_set_def load_payload_iff)
qed

lemma demo_calls:
  "good_call {demo_id} (Call_SetGuardians (demo_auth 0) demo_guardians 0)"
  "good_call {demo_id} (Call_ProposeRotation (demo_auth 1) device_key 0)"
  "good_call {demo_id} (Call_ConfirmRotation demo_id)"
  using demo_guardians_wf(1)
  by (simp_all add: good_call_def wf_call_def wf_array_def COMPRESSED_PUBKEY_LEN_def)

lemma demo_unused_ledger: "unused_ledger demo_runtime {demo_id} (demo_unused n)"
proof -
  have "acc_owner (demo_unused n a) \<noteq> PROGRAM_ID" for a
    using demo_zero_not_program by (simp add: demo_unused_def demo_bank_def)
  then show ?thesis by (simp add: unused_ledger_def)
qed

lemma demo_run_guardians:
  "ledger_run demo_runtime {demo_id} (demo_unused n) [(demo_id, 1000, label_of guardians_env
     (Call_SetGuardians (demo_auth 0) demo_guardians 0))] (demo_bank guarded_wallet n)"
  using ledger_run.instruction [OF ledger_run.start demo_envs(1) demo_calls(1) demo_set_guardians_run]
  by simp

lemma demo_run_propose:
  "ledger_run demo_runtime {demo_id} (demo_bank guarded_wallet n) [(demo_id, 1000, label_of (propose_env 1000)
     (Call_ProposeRotation (demo_auth 1) device_key 0))] (demo_bank (pending_wallet 1000) n)"
  using ledger_run.instruction [OF ledger_run.start demo_envs(3) demo_calls(2) demo_propose_run]
  by simp

lemma demo_run_both:
  "ledger_run demo_runtime {demo_id} (demo_unused n)
    [(demo_id, 1000, label_of guardians_env (Call_SetGuardians (demo_auth 0) demo_guardians 0)),
     (demo_id, 1000, label_of (propose_env 1000) (Call_ProposeRotation (demo_auth 1) device_key 0))]
    (demo_bank (pending_wallet 1000) n)"
  using ledger_run.instruction [OF demo_run_guardians demo_envs(3) demo_calls(2) demo_propose_run]
  by simp

lemma demo_ledger_inv:
  "ledger_inv demo_runtime {demo_id} (demo_bank guarded_wallet n)"
  "ledger_inv demo_runtime {demo_id} (demo_bank (pending_wallet 1000) n)"
  "ledger_inv demo_runtime {demo_id} (demo_unused n)"
  using used_ledger_run(1) [OF demo_run_guardians demo_contract demo_unused_ledger]
    used_ledger_run(1) [OF demo_run_both demo_contract demo_unused_ledger]
    unused_ledgerD(1) [OF demo_unused_ledger]
  by blast+

lemma demo_wallet_with_id:
  "demo_state w \<Longrightarrow> wallet_with_id demo_runtime (demo_bank w n) demo_id = Some w"
  "wallet_with_id demo_runtime (demo_unused n) demo_id = None"
proof -
  show "demo_state w \<Longrightarrow> wallet_with_id demo_runtime (demo_bank w n) demo_id = Some w"
    using wallet_of_account_data [of w "[]"]
    by (simp add: wallet_with_id_def wallet_at_def demo_pda demo_stateD)
  show "wallet_with_id demo_runtime (demo_unused n) demo_id = None"
    using demo_zero_not_program
    by (simp add: wallet_with_id_def wallet_at_def demo_pda demo_unused_def)
qed

end
