(* ===== verification/Instruction_Data.thy ===== *)
theory Instruction_Data
  imports Program
begin

text \<open>
  The wire format of the instructions: what \<open>#[program]\<close> and \<open>#[derive(Accounts)]\<close> generate from
  \<open>lib.rs\<close> and the instruction files, on both sides. A client serialises the arguments in their
  declared order after an eight byte discriminator and lists the accounts of the struct in order; the
  program picks the entry point by the discriminator, reads the arguments, ignores what follows them,
  and takes the accounts by position. The discriminators are the first bytes of a SHA-256; their values
  are the ones \<open>vectors/instructions.json\<close> commits.
\<close>

section \<open>Arguments\<close>

primrec enc_guardian :: "Guardian \<Rightarrow> bytes" where
  "enc_guardian Guardian_None = [0]"
| "enc_guardian (Guardian_P256 k) = 1 # enc_array k"
| "enc_guardian (Guardian_WebAuthn k) = 2 # enc_array k"

definition dec_guardian :: "bytes \<Rightarrow> (Guardian \<times> bytes) option" where
  "dec_guardian bs = Option.bind (dec_u8 bs) (\<lambda>(tag, r).
     if tag = 0 then Some (Guardian_None, r)
     else if tag = 1 then
       Option.bind (dec_array COMPRESSED_PUBKEY_LEN r) (\<lambda>(k, r). Some (Guardian_P256 k, r))
     else if tag = 2 then
       Option.bind (dec_array COMPRESSED_PUBKEY_LEN r) (\<lambda>(k, r). Some (Guardian_WebAuthn k, r))
     else None)"

text \<open>The four arguments every signed instruction begins with.\<close>

definition wf_auth :: "Authorization \<Rightarrow> bool" where
  "wf_auth auth \<longleftrightarrow> wf_array 32 (auth_wallet_id auth)"

definition enc_auth :: "Authorization \<Rightarrow> bytes" where
  "enc_auth auth = enc_array (auth_wallet_id auth) @ enc_u64 (auth_nonce auth)
     @ enc_u64 (auth_expires_at auth) @ enc_u64 (auth_max_relayer_fee auth)"

definition dec_auth :: "bytes \<Rightarrow> (Authorization \<times> bytes) option" where
  "dec_auth bs =
     Option.bind (dec_array 32 bs) (\<lambda>(wallet_id, r).
     Option.bind (dec_u64 r) (\<lambda>(nonce, r).
     Option.bind (dec_u64 r) (\<lambda>(expires_at, r).
     Option.bind (dec_u64 r) (\<lambda>(max_relayer_fee, r).
     Some (\<lparr>auth_wallet_id = wallet_id, auth_nonce = nonce, auth_expires_at = expires_at,
            auth_max_relayer_fee = max_relayer_fee\<rparr>, r)))))"

primrec enc_args :: "Call \<Rightarrow> bytes" where
  "enc_args (Call_TransferSol auth lamports fee) = enc_auth auth @ enc_u64 lamports @ enc_u64 fee"
| "enc_args (Call_SetGuardians auth guardians fee)
     = enc_auth auth @ enc_list enc_guardian guardians @ enc_u64 fee"
| "enc_args (Call_CancelRotation auth fee) = enc_auth auth @ enc_u64 fee"
| "enc_args (Call_ProposeRotation auth new_key fee) = enc_auth auth @ enc_array new_key @ enc_u64 fee"
| "enc_args (Call_ConfirmRotation wid) = enc_array wid"
| "enc_args (Call_SweepVault auth fee) = enc_auth auth @ enc_u64 fee"
| "enc_args (Call_CloseWallet auth fee) = enc_auth auth @ enc_u64 fee"

text \<open>The sizes of the arrays among the arguments.\<close>

primrec wf_args :: "Call \<Rightarrow> bool" where
  "wf_args (Call_TransferSol auth lamports fee) = wf_auth auth"
| "wf_args (Call_SetGuardians auth guardians fee)
     = (wf_auth auth \<and> wf_list wf_guardian MAX_GUARDIANS guardians)"
| "wf_args (Call_CancelRotation auth fee) = wf_auth auth"
| "wf_args (Call_ProposeRotation auth new_key fee)
     = (wf_auth auth \<and> wf_array COMPRESSED_PUBKEY_LEN new_key)"
| "wf_args (Call_ConfirmRotation wid) = wf_array 32 wid"
| "wf_args (Call_SweepVault auth fee) = wf_auth auth"
| "wf_args (Call_CloseWallet auth fee) = wf_auth auth"

text \<open>The argument struct of each entry point, as the program reads it.\<close>

definition dec_fee :: "(u64 \<Rightarrow> Call) \<Rightarrow> bytes \<Rightarrow> Call option" where
  "dec_fee mk r = Option.bind (dec_u64 r) (\<lambda>(fee, rest). Some (mk fee))"

definition dec_transfer_sol :: "bytes \<Rightarrow> Call option" where
  "dec_transfer_sol d = Option.bind (dec_auth d) (\<lambda>(auth, r).
     Option.bind (dec_u64 r) (\<lambda>(lamports, r). dec_fee (Call_TransferSol auth lamports) r))"

definition dec_set_guardians :: "bytes \<Rightarrow> Call option" where
  "dec_set_guardians d = Option.bind (dec_auth d) (\<lambda>(auth, r).
     Option.bind (dec_list dec_guardian MAX_GUARDIANS r) (\<lambda>(guardians, r).
     dec_fee (Call_SetGuardians auth guardians) r))"

definition dec_propose_rotation :: "bytes \<Rightarrow> Call option" where
  "dec_propose_rotation d = Option.bind (dec_auth d) (\<lambda>(auth, r).
     Option.bind (dec_array COMPRESSED_PUBKEY_LEN r) (\<lambda>(new_key, r).
     dec_fee (Call_ProposeRotation auth new_key) r))"

definition dec_only_fee :: "(Authorization \<Rightarrow> u64 \<Rightarrow> Call) \<Rightarrow> bytes \<Rightarrow> Call option" where
  "dec_only_fee mk d = Option.bind (dec_auth d) (\<lambda>(auth, r). dec_fee (mk auth) r)"

definition dec_confirm_rotation :: "bytes \<Rightarrow> Call option" where
  "dec_confirm_rotation d
     = Option.bind (dec_array 32 d) (\<lambda>(wid, rest). Some (Call_ConfirmRotation wid))"

section \<open>Discriminators\<close>

primrec discriminator_of :: "Call \<Rightarrow> bytes" where
  "discriminator_of (Call_TransferSol auth lamports fee)
     = [0x4e, 0x0a, 0xec, 0xf7, 0x6d, 0x75, 0x15, 0x4c]"
| "discriminator_of (Call_SetGuardians auth guardians fee)
     = [0xa6, 0x45, 0x8c, 0xb7, 0x9d, 0xa9, 0xfd, 0x28]"
| "discriminator_of (Call_CancelRotation auth fee)
     = [0x21, 0xb5, 0x19, 0x2b, 0x64, 0x22, 0x38, 0xfa]"
| "discriminator_of (Call_ProposeRotation auth new_key fee)
     = [0xc5, 0x2b, 0x9b, 0xa9, 0x9b, 0x4b, 0x5e, 0x7d]"
| "discriminator_of (Call_ConfirmRotation wid)
     = [0x81, 0x25, 0x66, 0x0f, 0x8f, 0x23, 0x71, 0xf6]"
| "discriminator_of (Call_SweepVault auth fee)
     = [0x89, 0x5c, 0x09, 0x01, 0x8c, 0xed, 0xd6, 0x8c]"
| "discriminator_of (Call_CloseWallet auth fee)
     = [0x23, 0xd4, 0xea, 0xe0, 0xf4, 0xd0, 0x1f, 0xcc]"

text \<open>\<open>InstructionData::data\<close>: what a client sends.\<close>

definition call_data :: "Call \<Rightarrow> bytes" where
  "call_data call = discriminator_of call @ enc_args call"

text \<open>The dispatcher: the entry points in the order of \<open>lib.rs\<close>.\<close>

definition entry_points :: "(bytes \<times> (bytes \<Rightarrow> Call option)) list" where
  "entry_points =
     [([0x4e, 0x0a, 0xec, 0xf7, 0x6d, 0x75, 0x15, 0x4c], dec_transfer_sol),
      ([0xa6, 0x45, 0x8c, 0xb7, 0x9d, 0xa9, 0xfd, 0x28], dec_set_guardians),
      ([0x21, 0xb5, 0x19, 0x2b, 0x64, 0x22, 0x38, 0xfa], dec_only_fee Call_CancelRotation),
      ([0xc5, 0x2b, 0x9b, 0xa9, 0x9b, 0x4b, 0x5e, 0x7d], dec_propose_rotation),
      ([0x81, 0x25, 0x66, 0x0f, 0x8f, 0x23, 0x71, 0xf6], dec_confirm_rotation),
      ([0x89, 0x5c, 0x09, 0x01, 0x8c, 0xed, 0xd6, 0x8c], dec_only_fee Call_SweepVault),
      ([0x23, 0xd4, 0xea, 0xe0, 0xf4, 0xd0, 0x1f, 0xcc], dec_only_fee Call_CloseWallet)]"

definition dispatch :: "bytes \<Rightarrow> error + Call" where
  "dispatch d =
     and_then (ok_or (map_of entry_points (take 8 d)) (Anchor InstructionFallbackNotFound)) (\<lambda>dec.
     ok_or (dec (drop 8 d)) (Anchor InstructionDidNotDeserialize))"

section \<open>The codecs\<close>

interpretation guardian: codec enc_guardian dec_guardian wf_guardian
proof
  fix x :: Guardian and r bs :: bytes
  show "wf_guardian x \<Longrightarrow> dec_guardian (enc_guardian x @ r) = Some (x, r)"
    by (cases x) (simp_all add: dec_guardian_def array.dec_enc wf_guardian_def)
  show "dec_guardian bs = Some (x, r) \<Longrightarrow> wf_guardian x \<and> bs = enc_guardian x @ r"
    by (auto simp: dec_guardian_def bind_eq_Some_conv dec_inv enc_u8_def wf_guardian_def split: if_splits)
qed

interpretation guardians:
  codec "enc_list enc_guardian" "dec_list dec_guardian n" "wf_list wf_guardian n" for n
  by (rule codec_list) (rule guardian.codec_axioms)

interpretation auth: fixed_codec enc_auth dec_auth wf_auth 56
proof
  fix x y :: Authorization and r bs :: bytes
  show "wf_auth x \<Longrightarrow> dec_auth (enc_auth x @ r) = Some (x, r)"
    by (cases x) (simp add: dec_auth_def enc_auth_def wf_auth_def dec_run wf_any_def)
  show "dec_auth bs = Some (x, r) \<Longrightarrow> wf_auth x \<and> bs = enc_auth x @ r"
    by (auto simp: dec_auth_def enc_auth_def wf_auth_def bind_eq_Some_conv dec_inv)
  show "wf_auth x \<Longrightarrow> length (enc_auth x) = 56"
    by (simp add: enc_auth_def wf_auth_def enc_array_def enc_u64_def wf_array_def)
qed

lemma dec_fee_iff: "dec_fee mk r = Some call \<longleftrightarrow>
    (\<exists>fee rest. r = enc_u64 fee @ rest \<and> call = mk fee)"
  by (auto simp: dec_fee_def bind_eq_Some_conv dec_inv wf_any_def)

lemmas dec_args_iff = dec_fee_iff auth.dec_iff guardians.dec_iff array.dec_iff u64.dec_iff
  bind_eq_Some_conv

lemma take_8_iff: "length k = 8 \<Longrightarrow> take 8 d = k \<longleftrightarrow> (\<exists>r. d = k @ r)"
  by (metis append_eq_conv_conj)


text \<open>What each entry point accepts: exactly its own calls, followed by anything.\<close>

definition reads :: "Call \<Rightarrow> bytes \<Rightarrow> bool" where
  "reads call r \<longleftrightarrow> wf_args call \<and> (\<exists>rest. r = enc_args call @ rest)"

lemma dec_transfer_sol_iff: "dec_transfer_sol r = Some call \<longleftrightarrow>
    (\<exists>auth lamports fee. call = Call_TransferSol auth lamports fee) \<and> reads call r"
  by (cases call) (auto simp: dec_transfer_sol_def dec_args_iff reads_def wf_any_def)

lemma dec_set_guardians_iff: "dec_set_guardians r = Some call \<longleftrightarrow>
    (\<exists>auth guardians fee. call = Call_SetGuardians auth guardians fee) \<and> reads call r"
  by (cases call) (auto simp: dec_set_guardians_def dec_args_iff reads_def, blast)

lemma dec_propose_rotation_iff: "dec_propose_rotation r = Some call \<longleftrightarrow>
    (\<exists>auth k fee. call = Call_ProposeRotation auth k fee) \<and> reads call r"
  by (cases call) (auto simp: dec_propose_rotation_def dec_args_iff reads_def, blast)

lemma dec_confirm_rotation_iff: "dec_confirm_rotation r = Some call \<longleftrightarrow>
    (\<exists>wid. call = Call_ConfirmRotation wid) \<and> reads call r"
  by (cases call) (auto simp: dec_confirm_rotation_def dec_args_iff reads_def)

lemma dec_only_fee_iff:
  "dec_only_fee Call_CancelRotation r = Some call \<longleftrightarrow>
    (\<exists>auth fee. call = Call_CancelRotation auth fee) \<and> reads call r"
  "dec_only_fee Call_SweepVault r = Some call \<longleftrightarrow>
    (\<exists>auth fee. call = Call_SweepVault auth fee) \<and> reads call r"
  "dec_only_fee Call_CloseWallet r = Some call \<longleftrightarrow>
    (\<exists>auth fee. call = Call_CloseWallet auth fee) \<and> reads call r"
  by (cases call; auto simp: dec_only_fee_def dec_args_iff reads_def)+

lemmas entry_point_iff = dec_transfer_sol_iff dec_set_guardians_iff dec_propose_rotation_iff
  dec_confirm_rotation_iff dec_only_fee_iff

lemma discriminator_length [simp]: "length (discriminator_of call) = 8"
  by (cases call) simp_all

lemma map_of_entry_point:
  "\<exists>dec. map_of entry_points (discriminator_of call) = Some dec \<and> (dec r = Some c \<and> c = call \<longleftrightarrow> c = call \<and> reads call r)"
  by (cases call) (auto simp: entry_points_def entry_point_iff)

lemma entry_point_sound:
  assumes "(k, dec) \<in> set entry_points" "dec r = Some call"
  shows "k = discriminator_of call \<and> reads call r"
  using assms by (auto simp: entry_points_def entry_point_iff)

lemma dispatch_iff: "dispatch d = Inr call \<longleftrightarrow> wf_args call \<and> (\<exists>rest. d = call_data call @ rest)"
proof
  assume "dispatch d = Inr call"
  then obtain dec where "map_of entry_points (take 8 d) = Some dec" and dec: "dec (drop 8 d) = Some call"
    by (auto simp: dispatch_def result_simps)
  from entry_point_sound [OF map_of_SomeD [OF this(1)] dec]
  have "take 8 d = discriminator_of call" "reads call (drop 8 d)" by simp_all
  then show "wf_args call \<and> (\<exists>rest. d = call_data call @ rest)"
    by (metis append.assoc append_take_drop_id call_data_def reads_def)
next
  assume "wf_args call \<and> (\<exists>rest. d = call_data call @ rest)"
  then obtain rest where "take 8 d = discriminator_of call" "reads call (drop 8 d)"
    by (auto simp: call_data_def reads_def)
  with map_of_entry_point [of call "drop 8 d" call] show "dispatch d = Inr call"
    by (auto simp: dispatch_def)
qed

section \<open>Accounts\<close>

text \<open>\<open>to_account_metas(None)\<close>: the flags are the ones the attributes of the struct declare.\<close>

definition writable :: "pubkey \<Rightarrow> AccountMeta" where
  "writable k = \<lparr>meta_pubkey = k, meta_is_signer = False, meta_is_writable = True\<rparr>"

definition readonly :: "pubkey \<Rightarrow> AccountMeta" where
  "readonly k = \<lparr>meta_pubkey = k, meta_is_signer = False, meta_is_writable = False\<rparr>"

definition paying_signer :: "pubkey \<Rightarrow> AccountMeta" where
  "paying_signer k = \<lparr>meta_pubkey = k, meta_is_signer = True, meta_is_writable = True\<rparr>"

text \<open>The accounts a client names: the pubkey of every field.\<close>

record AccountKeys =
  ak_wallet :: pubkey
  ak_vault :: pubkey
  ak_to :: pubkey
  ak_relayer :: pubkey
  ak_instructions_sysvar :: pubkey
  ak_system_program :: pubkey
  ak_event_authority :: pubkey
  ak_program :: pubkey

definition accounts_of_keys :: "AccountKeys \<Rightarrow> Accounts" where
  "accounts_of_keys k = \<lparr>ac_wallet = writable (ak_wallet k), ac_vault = writable (ak_vault k),
     ac_to = writable (ak_to k), ac_relayer = paying_signer (ak_relayer k),
     ac_instructions_sysvar = readonly (ak_instructions_sysvar k),
     ac_system_program = readonly (ak_system_program k),
     ac_event_authority = readonly (ak_event_authority k), ac_program = readonly (ak_program k)\<rparr>"

text \<open>The fields of each struct, in order: \<open>TransferSol\<close>, \<open>SweepVault\<close> and \<open>CloseWallet\<close> name the
  destination, \<open>ConfirmRotation\<close> has the wallet only, and \<open>#[event_cpi]\<close> adds the last two.\<close>

definition TransferSol_metas :: "Accounts \<Rightarrow> AccountMeta list" where
  [simp]: "TransferSol_metas ac =
    [ac_wallet ac, ac_vault ac, ac_to ac, ac_relayer ac, ac_instructions_sysvar ac,
     ac_system_program ac, ac_event_authority ac, ac_program ac]"

definition SweepVault_metas :: "Accounts \<Rightarrow> AccountMeta list" where
  [simp]: "SweepVault_metas ac =
    [ac_wallet ac, ac_vault ac, ac_to ac, ac_relayer ac, ac_instructions_sysvar ac,
     ac_system_program ac, ac_event_authority ac, ac_program ac]"

definition CloseWallet_metas :: "Accounts \<Rightarrow> AccountMeta list" where
  [simp]: "CloseWallet_metas ac =
    [ac_wallet ac, ac_vault ac, ac_to ac, ac_relayer ac, ac_instructions_sysvar ac,
     ac_system_program ac, ac_event_authority ac, ac_program ac]"

definition SetGuardians_metas :: "Accounts \<Rightarrow> AccountMeta list" where
  [simp]: "SetGuardians_metas ac =
    [ac_wallet ac, ac_vault ac, ac_relayer ac, ac_instructions_sysvar ac, ac_system_program ac,
     ac_event_authority ac, ac_program ac]"

definition ProposeRotation_metas :: "Accounts \<Rightarrow> AccountMeta list" where
  [simp]: "ProposeRotation_metas ac =
    [ac_wallet ac, ac_vault ac, ac_relayer ac, ac_instructions_sysvar ac, ac_system_program ac,
     ac_event_authority ac, ac_program ac]"

definition CancelRotation_metas :: "Accounts \<Rightarrow> AccountMeta list" where
  [simp]: "CancelRotation_metas ac =
    [ac_wallet ac, ac_vault ac, ac_relayer ac, ac_instructions_sysvar ac, ac_system_program ac,
     ac_event_authority ac, ac_program ac]"

definition ConfirmRotation_metas :: "Accounts \<Rightarrow> AccountMeta list" where
  [simp]: "ConfirmRotation_metas ac =
    [ac_wallet ac, ac_event_authority ac, ac_program ac]"

primrec metas_of :: "Call \<Rightarrow> Accounts \<Rightarrow> AccountMeta list" where
  "metas_of (Call_TransferSol auth lamports fee) = TransferSol_metas"
| "metas_of (Call_SetGuardians auth guardians fee) = SetGuardians_metas"
| "metas_of (Call_CancelRotation auth fee) = CancelRotation_metas"
| "metas_of (Call_ProposeRotation auth new_key fee) = ProposeRotation_metas"
| "metas_of (Call_ConfirmRotation wid) = ConfirmRotation_metas"
| "metas_of (Call_SweepVault auth fee) = SweepVault_metas"
| "metas_of (Call_CloseWallet auth fee) = CloseWallet_metas"

text \<open>The client's instruction: \<open>Instruction::new_with_bytes(id(), data(), to_account_metas(None))\<close>.\<close>

definition client_instruction :: "Call \<Rightarrow> AccountKeys \<Rightarrow> Instruction" where
  "client_instruction call keys = \<lparr>ix_program_id = PROGRAM_ID,
     ix_accounts = metas_of call (accounts_of_keys keys), ix_data = call_data call\<rparr>"

text \<open>The program takes its accounts by position; more than it needs is allowed, fewer is an error.
  A field the struct does not have is filled with an account that is neither signer nor writable.\<close>

definition no_account :: AccountMeta where
  "no_account = readonly (replicate 32 0)"

definition accounts_with_to :: "AccountMeta list \<Rightarrow> error + Accounts" where
  "accounts_with_to ms =
     and_then (require_that (length ms \<ge> 8) (Anchor AccountNotEnoughKeys)) (\<lambda>_.
     Inr \<lparr>ac_wallet = ms ! 0, ac_vault = ms ! 1, ac_to = ms ! 2, ac_relayer = ms ! 3,
       ac_instructions_sysvar = ms ! 4, ac_system_program = ms ! 5, ac_event_authority = ms ! 6,
       ac_program = ms ! 7\<rparr>)"

definition accounts_without_to :: "AccountMeta list \<Rightarrow> error + Accounts" where
  "accounts_without_to ms =
     and_then (require_that (length ms \<ge> 7) (Anchor AccountNotEnoughKeys)) (\<lambda>_.
     Inr \<lparr>ac_wallet = ms ! 0, ac_vault = ms ! 1, ac_to = no_account, ac_relayer = ms ! 2,
       ac_instructions_sysvar = ms ! 3, ac_system_program = ms ! 4, ac_event_authority = ms ! 5,
       ac_program = ms ! 6\<rparr>)"

definition accounts_of_confirm :: "AccountMeta list \<Rightarrow> error + Accounts" where
  "accounts_of_confirm ms =
     and_then (require_that (length ms \<ge> 3) (Anchor AccountNotEnoughKeys)) (\<lambda>_.
     Inr \<lparr>ac_wallet = ms ! 0, ac_vault = no_account, ac_to = no_account, ac_relayer = no_account,
       ac_instructions_sysvar = no_account, ac_system_program = no_account,
       ac_event_authority = ms ! 1, ac_program = ms ! 2\<rparr>)"

primrec take_accounts :: "Call \<Rightarrow> AccountMeta list \<Rightarrow> error + Accounts" where
  "take_accounts (Call_TransferSol auth lamports fee) = accounts_with_to"
| "take_accounts (Call_SetGuardians auth guardians fee) = accounts_without_to"
| "take_accounts (Call_CancelRotation auth fee) = accounts_without_to"
| "take_accounts (Call_ProposeRotation auth new_key fee) = accounts_without_to"
| "take_accounts (Call_ConfirmRotation wid) = accounts_of_confirm"
| "take_accounts (Call_SweepVault auth fee) = accounts_with_to"
| "take_accounts (Call_CloseWallet auth fee) = accounts_with_to"

section \<open>The program on a raw instruction\<close>

text \<open>\<open>#[event_cpi]\<close>: the self-CPI that carries an event comes back to the program, which only checks
  that the event authority signed it.\<close>

definition event_dispatch :: "runtime \<Rightarrow> AccountMeta list \<Rightarrow> error + unit" where
  "event_dispatch rt ms =
     and_then (require_that (ms \<noteq> []) (Anchor AccountNotEnoughKeys)) (\<lambda>_.
     and_then (require_that (meta_is_signer (hd ms)) (Anchor ConstraintSigner)) (\<lambda>_.
     require_that (meta_pubkey (hd ms) = fst (rt_find_program_address rt [ascii ''__event_authority'']))
       (Anchor ConstraintSeeds)))"

definition is_event_data :: "runtime \<Rightarrow> bytes \<Rightarrow> bool" where
  "is_event_data rt d \<longleftrightarrow> map_of entry_points (take 8 d) = None \<and> take 8 d = rt_event_tag rt"

definition process_instruction ::
  "runtime \<Rightarrow> env \<Rightarrow> Instruction \<Rightarrow> bank \<Rightarrow> error + Event list \<times> bank" where
  "process_instruction rt env ix b =
     and_then (require_that (ix_program_id ix = PROGRAM_ID) (Anchor DeclaredProgramIdMismatch)) (\<lambda>_.
     if is_event_data rt (ix_data ix)
     then and_then (event_dispatch rt (ix_accounts ix)) (\<lambda>_. Inr ([], b))
     else
     and_then (dispatch (ix_data ix)) (\<lambda>call.
     and_then (take_accounts call (ix_accounts ix)) (\<lambda>ac.
     process rt env ac call b)))"

lemma dispatched_not_event: "dispatch d = Inr call \<Longrightarrow> \<not> is_event_data rt d"
  by (auto simp: dispatch_def is_event_data_def result_simps)

lemma process_instruction_cases:
  assumes "process_instruction rt env ix b = Inr (evs, b')"
  obtains
    (event) "is_event_data rt (ix_data ix)" "event_dispatch rt (ix_accounts ix) = Inr ()"
      "evs = []" "b' = b"
  | (call) call ac where "dispatch (ix_data ix) = Inr call" "wf_args call"
    "take_accounts call (ix_accounts ix) = Inr ac" "process rt env ac call b = Inr (evs, b')"
  using assms by (auto simp: process_instruction_def result_simps dispatch_iff split: if_splits)

text \<open>Only the fields the struct has matter to an entry point.\<close>

lemmas check_defs = init_accounts_def existing_accounts_def confirm_accounts_def
  load_or_init_wallet_def load_wallet_def check_vault_def check_vault_stored_def
  check_vault_system_def check_relayer_and_programs_def check_event_cpi_def

lemma entries_without_to:
  "set_guardians_entry rt env (ac\<lparr>ac_to := x\<rparr>) = set_guardians_entry rt env ac"
  "cancel_rotation rt env (ac\<lparr>ac_to := x\<rparr>) = cancel_rotation rt env ac"
  "propose_rotation rt env (ac\<lparr>ac_to := x\<rparr>) = propose_rotation rt env ac"
  by (simp_all add: fun_eq_iff set_guardians_entry_def cancel_rotation_def propose_rotation_def
      check_defs set_guardians_def cancel_def propose_def cong: if_cong)

lemma confirm_fields:
  "confirm_rotation rt env (ac\<lparr>ac_vault := v, ac_to := x, ac_relayer := r,
     ac_instructions_sysvar := i, ac_system_program := s\<rparr>) = confirm_rotation rt env ac"
  by (simp add: fun_eq_iff confirm_rotation_def check_defs)

primrec own_accounts :: "Call \<Rightarrow> Accounts \<Rightarrow> Accounts" where
  "own_accounts (Call_TransferSol auth lamports fee) ac = ac"
| "own_accounts (Call_SetGuardians auth guardians fee) ac = ac\<lparr>ac_to := no_account\<rparr>"
| "own_accounts (Call_CancelRotation auth fee) ac = ac\<lparr>ac_to := no_account\<rparr>"
| "own_accounts (Call_ProposeRotation auth new_key fee) ac = ac\<lparr>ac_to := no_account\<rparr>"
| "own_accounts (Call_ConfirmRotation wid) ac = ac\<lparr>ac_vault := no_account, ac_to := no_account,
     ac_relayer := no_account, ac_instructions_sysvar := no_account,
     ac_system_program := no_account\<rparr>"
| "own_accounts (Call_SweepVault auth fee) ac = ac"
| "own_accounts (Call_CloseWallet auth fee) ac = ac"

lemma take_metas: "take_accounts call (metas_of call ac @ extra) = Inr (own_accounts call ac)"
  by (cases call)
    (simp_all add: accounts_with_to_def accounts_without_to_def accounts_of_confirm_def)

lemma process_own_accounts: "process rt env (own_accounts call ac) call b = process rt env ac call b"
  by (cases call) (simp_all add: entries_without_to confirm_fields)

lemma client_runs:
  assumes "wf_args call"
  shows "process_instruction rt env (client_instruction call keys) b
    = process rt env (accounts_of_keys keys) call b"
proof -
  have "dispatch (call_data call) = Inr call"
    using assms by (simp add: dispatch_iff)
  then show ?thesis
    using take_metas [of call "accounts_of_keys keys" "[]"] dispatched_not_event
    by (simp add: process_instruction_def client_instruction_def process_own_accounts)
qed

section \<open>Properties\<close>

text \<open>C21: the wire format of the instructions round-trips: bytes are dispatched as a call exactly when
  they begin with the data a client sends for it and its arrays have their sizes; whatever follows the
  arguments is ignored, and no bytes are dispatched as two different calls.\<close>

theorem dispatch_exact:
  "dispatch d = Inr call \<longleftrightarrow> wf_args call \<and> (\<exists>rest. d = call_data call @ rest)"
  by (rule dispatch_iff)

text \<open>C20: running the instruction a client builds, byte for byte and account for account, is the same
  as running the entry point on the values the client meant, errors included.\<close>

theorem client_instruction_runs:
  assumes "wf_args call"
  shows "process_instruction rt env (client_instruction call keys) b
    = process rt env (accounts_of_keys keys) call b"
  using assms by (rule client_runs)

end
