(* ===== verification/Raw_Instructions.thy ===== *)
theory Raw_Instructions
  imports Instruction_Data Scenario_Runs
begin

text \<open>
  The program on raw instructions: whatever bytes arrive, the arguments that reach an entry point are
  values of their Rust types, so the ledger invariant needs no assumption on what a client sends.
\<close>

lemma wf_args_call: "wf_args call \<Longrightarrow> wf_call call \<and> length (call_wallet call) = 32"
  by (cases call) (simp_all add: wf_call_def wf_auth_def wf_array_def)

text \<open>The wallet id sits in the same place in the data of every instruction.\<close>

lemma dispatch_wallet_id: "dispatch d = Inr call \<Longrightarrow> call_wallet call = slice 8 32 d"
  by (cases call) (auto simp: dispatch_iff call_data_def enc_auth_def enc_array_def wf_auth_def
      wf_array_def slice_simps)

text \<open>The accounts of the program's own run, with the flags its structs declare: an entry point only
  looks at the flags a struct constrains.\<close>

definition flagged :: "Accounts \<Rightarrow> bool" where
  "flagged ac \<longleftrightarrow> meta_is_writable (ac_wallet ac) \<and> meta_is_writable (ac_vault ac)
     \<and> meta_is_writable (ac_to ac) \<and> meta_is_signer (ac_relayer ac) \<and> meta_is_writable (ac_relayer ac)"

definition keys_of :: "Accounts \<Rightarrow> AccountKeys" where
  "keys_of ac = \<lparr>ak_wallet = wallet_key ac, ak_vault = vault_key ac, ak_to = to_key ac,
     ak_relayer = relayer_key ac, ak_instructions_sysvar = meta_pubkey (ac_instructions_sysvar ac),
     ak_system_program = meta_pubkey (ac_system_program ac),
     ak_event_authority = meta_pubkey (ac_event_authority ac), ak_program = meta_pubkey (ac_program ac)\<rparr>"

lemma process_keys:
  assumes "flagged ac"
  shows "process rt env (accounts_of_keys (keys_of ac)) call b = process rt env ac call b"
  using assms
  by (cases call) (simp_all add: flagged_def keys_of_def accounts_of_keys_def writable_def readonly_def
      paying_signer_def transfer_sol_def set_guardians_entry_def cancel_rotation_def
      propose_rotation_def confirm_rotation_def sweep_vault_def close_wallet_def check_defs
      transfer_def set_guardians_def cancel_def propose_def sweep_def close_def require_mut_def
      cong: if_cong)

section \<open>Properties\<close>

text \<open>C15: types are kept whatever is sent. An instruction of arbitrary bytes and accounts that the program
  accepts leaves a ledger in which every wallet is a well-typed one that satisfies the invariant, and
  can only have changed the wallet whose id the bytes 8 to 40 of its data spell.\<close>

theorem raw_instructions_keep_types:
  assumes "runtime_contract rt ids" "ledger_inv rt ids b" "good_env env now"
    and "slice 8 32 (ix_data ix) \<in> ids" "process_instruction rt env ix b = Inr (evs, b')"
  shows "ledger_inv rt ids b'
    \<and> (\<forall>wid \<in> ids. \<forall>w. wallet_with_id rt b' wid = Some w \<longrightarrow> wf_wallet w \<and> wallet_inv w)
    \<and> (\<forall>wid \<in> ids. wid \<noteq> slice 8 32 (ix_data ix) \<longrightarrow> wallet_with_id rt b' wid = wallet_with_id rt b wid)"
  using assms(5)
proof (cases rule: process_instruction_cases)
  case event
  with assms(2) show ?thesis
    using stored_wallet(1) [OF runtime_contractD(1) [OF assms(1)] assms(2)]
    by (auto simp: stored_def dest: wallet_invD(1))
next
  case run: (call call ac)
  note call = run(1,2) and run = run(4)
  have wid: "call_wallet call = slice 8 32 (ix_data ix)" by (rule dispatch_wallet_id [OF call(1)])
  have "refines_step rt ids (call_wallet call) now (label_of env call) b b'"
    using process_refines [OF assms(1,2) _ _ _ _ _ run, of now] assms(3,4) wid wf_args_call [OF call(2)]
    by (simp add: good_env_def)
  then have inv: "ledger_inv rt ids b'" and kept: "others_kept rt ids (call_wallet call) b b'"
    by (simp_all add: refines_step_def)
  have "wf_wallet w \<and> wallet_inv w" if "wid \<in> ids" "wallet_with_id rt b' wid = Some w" for wid w
    using stored_wallet(1) [OF runtime_contractD(1) [OF assms(1)] inv that]
    by (simp add: stored_def wallet_invD(1))
  with inv kept wid show ?thesis by (simp add: others_kept_def)
qed

section \<open>Witnesses\<close>

lemma demo_flagged: "flagged demo_accounts"
  by (simp add: flagged_def demo_accounts_def plain_meta_def)

lemma demo_raw_run:
  "process_instruction demo_runtime guardians_env
     (client_instruction (Call_SetGuardians (demo_auth 0) demo_guardians 0) (keys_of demo_accounts))
     (demo_unused n)
   = process demo_runtime guardians_env demo_accounts
       (Call_SetGuardians (demo_auth 0) demo_guardians 0) (demo_unused n)"
proof -
  have "wf_args (Call_SetGuardians (demo_auth 0) demo_guardians 0)"
    using demo_guardians_wf(1) by (simp add: wf_auth_def demo_id_def wf_array_def)
  from client_runs [OF this] show ?thesis by (simp only: process_keys [OF demo_flagged])
qed

theorem raw_instructions_keep_types_witness:
  "wallet_inv guarded_wallet \<and> slice 8 32 (ix_data (client_instruction
     (Call_SetGuardians (demo_auth 0) demo_guardians 0) (keys_of demo_accounts))) = demo_id"
proof -
  let ?ix = "client_instruction (Call_SetGuardians (demo_auth 0) demo_guardians 0) (keys_of demo_accounts)"
  have id: "slice 8 32 (ix_data ?ix) = demo_id"
    by (simp add: client_instruction_def call_data_def enc_auth_def enc_array_def slice_simps demo_id_def)
  have "\<forall>w. wallet_with_id demo_runtime (demo_bank guarded_wallet 0) demo_id = Some w \<longrightarrow> wallet_inv w"
    using raw_instructions_keep_types [OF demo_contract demo_ledger_inv(3) demo_envs(1) _
        demo_raw_run [of 0, unfolded demo_set_guardians_run]] id by simp
  with id show ?thesis using demo_wallet_with_id(1) [OF guarded_wallet_state] by blast
qed

text \<open>A client's instruction, byte for byte.\<close>

theorem client_instruction_runs_witness:
  "process_instruction demo_runtime guardians_env
     (client_instruction (Call_SetGuardians (demo_auth 0) demo_guardians 0) (keys_of demo_accounts))
     (demo_unused 0)
   = Inr ([WalletCreated demo_id owner_key, GuardiansSet demo_id demo_guardians],
       demo_bank guarded_wallet 0)"
proof -
  have "wf_args (Call_SetGuardians (demo_auth 0) demo_guardians 0)"
    using demo_guardians_wf(1) by (simp add: wf_auth_def demo_id_def wf_array_def)
  from client_instruction_runs [OF this, of demo_runtime guardians_env "keys_of demo_accounts"
      "demo_unused 0"]
  show ?thesis by (simp only: process_keys [OF demo_flagged] demo_set_guardians_run)
qed

end
