(* ===== verification/Event_Data.thy ===== *)
theory Event_Data
  imports Instruction_Data
begin

text \<open>
  The bytes of the events: \<open>emit_cpi!\<close> has the program call itself with an instruction whose data is
  Anchor's event tag, the discriminator of the event (the first eight bytes of the SHA-256 of its
  name) and the fields of the struct of \<open>events.rs\<close> in their order; an indexer strips the tag and
  reads the event back, as \<open>emitted\<close> and \<open>decode\<close> of \<open>tests/common/mod.rs\<close> do.
\<close>

section \<open>The fields\<close>

primrec event_name :: "Event \<Rightarrow> string" where
  "event_name (WalletCreated wid k) = ''WalletCreated''"
| "event_name (SolTransferred wid dest lamports fee) = ''SolTransferred''"
| "event_name (VaultSwept wid dest lamports fee) = ''VaultSwept''"
| "event_name (WalletClosed wid dest lamports fee) = ''WalletClosed''"
| "event_name (GuardiansSet wid gs) = ''GuardiansSet''"
| "event_name (RotationProposed wid k g opens) = ''RotationProposed''"
| "event_name (RotationCancelled wid k) = ''RotationCancelled''"
| "event_name (KeyRotated wid k recovery) = ''KeyRotated''"

primrec enc_event :: "Event \<Rightarrow> bytes" where
  "enc_event (WalletCreated wid k) = enc_array wid @ enc_array k"
| "enc_event (SolTransferred wid dest lamports fee)
     = enc_array wid @ enc_array dest @ enc_u64 lamports @ enc_u64 fee"
| "enc_event (VaultSwept wid dest lamports fee)
     = enc_array wid @ enc_array dest @ enc_u64 lamports @ enc_u64 fee"
| "enc_event (WalletClosed wid dest lamports fee)
     = enc_array wid @ enc_array dest @ enc_u64 lamports @ enc_u64 fee"
| "enc_event (GuardiansSet wid gs) = enc_array wid @ enc_list enc_guardian gs"
| "enc_event (RotationProposed wid k g opens)
     = enc_array wid @ enc_array k @ enc_array g @ enc_u64 opens"
| "enc_event (RotationCancelled wid k) = enc_array wid @ enc_array k"
| "enc_event (KeyRotated wid k recovery) = enc_array wid @ enc_array k @ enc_bool recovery"

abbreviation wf_key :: "bytes \<Rightarrow> bool" where
  "wf_key \<equiv> wf_array COMPRESSED_PUBKEY_LEN"

primrec wf_event :: "Event \<Rightarrow> bool" where
  "wf_event (WalletCreated wid k) = (wf_array 32 wid \<and> wf_key k)"
| "wf_event (SolTransferred wid dest lamports fee) = (wf_array 32 wid \<and> wf_array 32 dest)"
| "wf_event (VaultSwept wid dest lamports fee) = (wf_array 32 wid \<and> wf_array 32 dest)"
| "wf_event (WalletClosed wid dest lamports fee) = (wf_array 32 wid \<and> wf_array 32 dest)"
| "wf_event (GuardiansSet wid gs) = (wf_array 32 wid \<and> wf_list wf_guardian MAX_GUARDIANS gs)"
| "wf_event (RotationProposed wid k g opens) = (wf_array 32 wid \<and> wf_key k \<and> wf_key g)"
| "wf_event (RotationCancelled wid k) = (wf_array 32 wid \<and> wf_key k)"
| "wf_event (KeyRotated wid k recovery) = (wf_array 32 wid \<and> wf_key k)"

text \<open>The derived readers of the structs.\<close>

definition dec_amounts ::
  "(bytes \<Rightarrow> pubkey \<Rightarrow> u64 \<Rightarrow> u64 \<Rightarrow> Event) \<Rightarrow> bytes \<Rightarrow> (Event \<times> bytes) option" where
  "dec_amounts mk d = Option.bind (dec_array 32 d) (\<lambda>(wid, r).
     Option.bind (dec_array 32 r) (\<lambda>(dest, r).
     Option.bind (dec_u64 r) (\<lambda>(lamports, r).
     Option.bind (dec_u64 r) (\<lambda>(fee, r). Some (mk wid dest lamports fee, r)))))"

definition dec_id_key :: "(bytes \<Rightarrow> bytes \<Rightarrow> Event) \<Rightarrow> bytes \<Rightarrow> (Event \<times> bytes) option" where
  "dec_id_key mk d = Option.bind (dec_array 32 d) (\<lambda>(wid, r).
     Option.bind (dec_array COMPRESSED_PUBKEY_LEN r) (\<lambda>(k, r). Some (mk wid k, r)))"

definition dec_guardians_set :: "bytes \<Rightarrow> (Event \<times> bytes) option" where
  "dec_guardians_set d = Option.bind (dec_array 32 d) (\<lambda>(wid, r).
     Option.bind (dec_list dec_guardian MAX_GUARDIANS r) (\<lambda>(gs, r). Some (GuardiansSet wid gs, r)))"

definition dec_rotation_proposed :: "bytes \<Rightarrow> (Event \<times> bytes) option" where
  "dec_rotation_proposed d = Option.bind (dec_array 32 d) (\<lambda>(wid, r).
     Option.bind (dec_array COMPRESSED_PUBKEY_LEN r) (\<lambda>(k, r).
     Option.bind (dec_array COMPRESSED_PUBKEY_LEN r) (\<lambda>(g, r).
     Option.bind (dec_u64 r) (\<lambda>(opens, r). Some (RotationProposed wid k g opens, r)))))"

definition dec_key_rotated :: "bytes \<Rightarrow> (Event \<times> bytes) option" where
  "dec_key_rotated d = Option.bind (dec_array 32 d) (\<lambda>(wid, r).
     Option.bind (dec_array COMPRESSED_PUBKEY_LEN r) (\<lambda>(k, r).
     Option.bind (dec_bool r) (\<lambda>(recovery, r). Some (KeyRotated wid k recovery, r))))"

definition event_types :: "(string \<times> (bytes \<Rightarrow> (Event \<times> bytes) option)) list" where
  "event_types =
     [(''WalletCreated'', dec_id_key WalletCreated),
      (''SolTransferred'', dec_amounts SolTransferred),
      (''VaultSwept'', dec_amounts VaultSwept),
      (''WalletClosed'', dec_amounts WalletClosed),
      (''GuardiansSet'', dec_guardians_set),
      (''RotationProposed'', dec_rotation_proposed),
      (''RotationCancelled'', dec_id_key RotationCancelled),
      (''KeyRotated'', dec_key_rotated)]"

lemma dec_amounts_iff: "dec_amounts mk d = Some (e, r) \<longleftrightarrow>
    (\<exists>wid dest lamports fee. e = mk wid dest lamports fee \<and> wf_array 32 wid \<and> wf_array 32 dest
      \<and> d = enc_array wid @ enc_array dest @ enc_u64 lamports @ enc_u64 fee @ r)"
  by (auto simp: dec_amounts_def dec_args_iff wf_any_def, blast)

lemma dec_id_key_iff: "dec_id_key mk d = Some (e, r) \<longleftrightarrow>
    (\<exists>wid k. e = mk wid k \<and> wf_array 32 wid \<and> wf_key k \<and> d = enc_array wid @ enc_array k @ r)"
  by (auto simp: dec_id_key_def dec_args_iff)

lemma dec_guardians_set_iff: "dec_guardians_set d = Some (e, r) \<longleftrightarrow>
    (\<exists>wid gs. e = GuardiansSet wid gs \<and> wf_array 32 wid \<and> wf_list wf_guardian MAX_GUARDIANS gs
      \<and> d = enc_array wid @ enc_list enc_guardian gs @ r)"
  by (auto simp: dec_guardians_set_def dec_args_iff)

lemma dec_rotation_proposed_iff: "dec_rotation_proposed d = Some (e, r) \<longleftrightarrow>
    (\<exists>wid k g opens. e = RotationProposed wid k g opens \<and> wf_array 32 wid \<and> wf_key k \<and> wf_key g
      \<and> d = enc_array wid @ enc_array k @ enc_array g @ enc_u64 opens @ r)"
  by (auto simp: dec_rotation_proposed_def dec_args_iff wf_any_def)

lemma dec_key_rotated_iff: "dec_key_rotated d = Some (e, r) \<longleftrightarrow>
    (\<exists>wid k recovery. e = KeyRotated wid k recovery \<and> wf_array 32 wid \<and> wf_key k
      \<and> d = enc_array wid @ enc_array k @ enc_bool recovery @ r)"
  by (auto simp: dec_key_rotated_def dec_args_iff bool.dec_iff wf_any_def)

lemmas dec_event_iff = dec_amounts_iff dec_id_key_iff dec_guardians_set_iff dec_rotation_proposed_iff
  dec_key_rotated_iff

lemma event_type_exact:
  assumes "(n, dec) \<in> set event_types"
  shows "dec r = Some (e, rest) \<longleftrightarrow> event_name e = n \<and> wf_event e \<and> r = enc_event e @ rest"
proof (cases "event_name e = n")
  case True
  with assms show ?thesis
    by (cases e) (auto simp: event_types_def dec_event_iff)
next
  case False
  with assms show ?thesis
    unfolding event_types_def by (auto simp: dec_event_iff)
qed

lemma event_typed: "\<exists>dec. (event_name e, dec) \<in> set event_types"
  by (cases e) (auto simp: event_types_def)

section \<open>On the wire\<close>

definition event_discriminator :: "runtime \<Rightarrow> string \<Rightarrow> bytes" where
  "event_discriminator rt n = take 8 (rt_sha256 rt (ascii (''event:'' @ n)))"

definition event_data :: "runtime \<Rightarrow> Event \<Rightarrow> bytes" where
  "event_data rt e = event_discriminator rt (event_name e) @ enc_event e"

text \<open>\<open>decode\<close>, tried with every event; bytes with a discriminator that do not decode in full, where the
  source panics, are no event either.\<close>

definition decode_event :: "runtime \<Rightarrow> bytes \<Rightarrow> Event option" where
  "decode_event rt bs =
     (case find (\<lambda>t. take 8 bs = event_discriminator rt (fst t)) event_types of
        None \<Rightarrow> None
      | Some t \<Rightarrow> (case snd t (drop 8 bs) of Some (e, []) \<Rightarrow> Some e | _ \<Rightarrow> None))"

text \<open>\<open>emit_cpi!\<close>, signed with the seeds of the event authority.\<close>

definition emit_data :: "runtime \<Rightarrow> Event \<Rightarrow> bytes" where
  "emit_data rt e = rt_event_tag rt @ event_data rt e"

definition event_instruction :: "runtime \<Rightarrow> Event \<Rightarrow> Instruction" where
  "event_instruction rt e = \<lparr>ix_program_id = PROGRAM_ID,
     ix_accounts = [\<lparr>meta_pubkey = fst (rt_find_program_address rt [ascii ''__event_authority'']),
       meta_is_signer = True, meta_is_writable = False\<rparr>],
     ix_data = emit_data rt e\<rparr>"

definition strip_prefix :: "bytes \<Rightarrow> bytes \<Rightarrow> bytes option" where
  "strip_prefix p bs = (if take (length p) bs = p then Some (drop (length p) bs) else None)"

definition emitted :: "runtime \<Rightarrow> bytes list \<Rightarrow> bytes list" where
  "emitted rt datas = List.map_filter (strip_prefix (rt_event_tag rt)) datas"

definition indexed :: "runtime \<Rightarrow> bytes list \<Rightarrow> Event list" where
  "indexed rt datas = List.map_filter (decode_event rt) (emitted rt datas)"

text \<open>No two of the names, the tag and the instructions share a discriminator.\<close>

definition event_contract :: "runtime \<Rightarrow> bool" where
  "event_contract rt \<longleftrightarrow> length (rt_event_tag rt) = 8
     \<and> rt_event_tag rt \<notin> set (map fst entry_points)
     \<and> (\<forall>t \<in> set event_types. length (event_discriminator rt (fst t)) = 8)
     \<and> distinct (map (event_discriminator rt \<circ> fst) event_types)"

lemma find_unique:
  "distinct (map (f \<circ> g) xs) \<Longrightarrow> find (\<lambda>t. k = f (g t)) xs = Some t \<longleftrightarrow> t \<in> set xs \<and> k = f (g t)"
  by (induction xs) (auto simp: image_iff)

lemma decode_event_iff:
  assumes "event_contract rt"
  shows "decode_event rt bs = Some e \<longleftrightarrow> wf_event e \<and> bs = event_data rt e"
proof -
  have "distinct (map (event_discriminator rt \<circ> fst) event_types)"
    using assms by (simp add: event_contract_def)
  then have unique: "find (\<lambda>t. take 8 bs = event_discriminator rt (fst t)) event_types = Some t
      \<longleftrightarrow> t \<in> set event_types \<and> take 8 bs = event_discriminator rt (fst t)" for t
    by (rule find_unique)
  have "decode_event rt bs = Some e \<longleftrightarrow> (\<exists>t. find (\<lambda>t. take 8 bs = event_discriminator rt (fst t))
      event_types = Some t \<and> snd t (drop 8 bs) = Some (e, []))"
    by (auto simp: decode_event_def split: option.splits list.splits)
  also have "\<dots> \<longleftrightarrow> (\<exists>t \<in> set event_types. take 8 bs = event_discriminator rt (fst t)
      \<and> snd t (drop 8 bs) = Some (e, []))"
    unfolding unique by blast
  also have "\<dots> \<longleftrightarrow> wf_event e \<and> take 8 bs = event_discriminator rt (event_name e) \<and> drop 8 bs = enc_event e"
  proof -
    obtain dec where "(event_name e, dec) \<in> set event_types" using event_typed by blast
    moreover have "snd t (drop 8 bs) = Some (e, [])
        \<longleftrightarrow> event_name e = fst t \<and> wf_event e \<and> drop 8 bs = enc_event e" if "t \<in> set event_types" for t
      using event_type_exact [of "fst t" "snd t" "drop 8 bs" e "[]"] that by simp
    ultimately show ?thesis by (metis fst_conv)
  qed
  also have "\<dots> \<longleftrightarrow> wf_event e \<and> bs = event_data rt e"
    using assms event_typed [of e]
    by (auto simp: event_contract_def event_data_def) (metis append_take_drop_id)
  finally show ?thesis .
qed

lemma emit_kept:
  "filter (\<lambda>d. strip_prefix (rt_event_tag rt) d \<noteq> None) (map (emit_data rt) log) = map (emit_data rt) log"
  by (simp add: filter_id_conv emit_data_def strip_prefix_def)

lemma emit_between:
  assumes "strip_prefix (rt_event_tag rt) x = None" "strip_prefix (rt_event_tag rt) y = None"
  shows "filter (\<lambda>d. strip_prefix (rt_event_tag rt) d \<noteq> None) (x # map (emit_data rt) log @ [y])
    = map (emit_data rt) log"
  using assms emit_kept [of rt log] by simp

lemma indexed_log:
  assumes "event_contract rt" "\<forall>e \<in> set log. wf_event e"
    and "filter (\<lambda>d. strip_prefix (rt_event_tag rt) d \<noteq> None) datas = map (emit_data rt) log"
  shows "indexed rt datas = log"
proof -
  have "emitted rt datas = emitted rt (filter (\<lambda>d. strip_prefix (rt_event_tag rt) d \<noteq> None) datas)"
    unfolding emitted_def by (induction datas) (auto simp: List.map_filter_def)
  also have "\<dots> = map (event_data rt) log"
    unfolding assms(3) emitted_def
    by (induction log) (auto simp: List.map_filter_def emit_data_def strip_prefix_def)
  finally have "indexed rt datas = List.map_filter (decode_event rt) (map (event_data rt) log)"
    by (simp add: indexed_def)
  also have "\<dots> = log"
    using assms(2) decode_event_iff [OF assms(1), THEN iffD2]
    by (induction log) (simp_all add: map_filter_simps)
  finally show ?thesis .
qed

section \<open>Who can emit\<close>

lemma emit_is_event:
  assumes "event_contract rt"
  shows "is_event_data rt (emit_data rt e)"
  using assms by (auto simp: event_contract_def is_event_data_def emit_data_def map_of_eq_None_iff)

lemma program_emits:
  assumes "event_contract rt"
  shows "process_instruction rt env (event_instruction rt e) b = Inr ([], b)"
  using emit_is_event [OF assms, of e]
  by (simp add: process_instruction_def event_instruction_def event_dispatch_def)

text \<open>Without the signature of the event authority, which only the program can give.\<close>

lemma forged_event_fails:
  assumes "is_event_data rt (ix_data ix)" "ix_program_id ix = PROGRAM_ID"
    and "\<forall>m \<in> set (ix_accounts ix). meta_is_signer m \<longrightarrow>
      meta_pubkey m \<noteq> fst (rt_find_program_address rt [ascii ''__event_authority''])"
  shows "\<exists>e \<in> {AccountNotEnoughKeys, ConstraintSigner, ConstraintSeeds}.
    process_instruction rt env ix b = Inl (Anchor e)"
  using assms by (cases "ix_accounts ix")
    (auto simp: process_instruction_def event_dispatch_def require_that_def)

end
