(* ===== verification/Event_Log.thy ===== *)
theory Event_Log
  imports Scenario_Runs Event_Data
begin

text \<open>
  \<open>programs/enclavekit/src/events.rs\<close> as an indexer uses it: the events the instructions emit are
  replayed, with no access to the accounts, into what a device shows of a wallet: its active key, its
  guardians and the pending rotation. The lemmas show, instruction by instruction, that the replay
  agrees with the stored wallet; the property lifts it to runs.
\<close>

section \<open>What a device shows of a wallet\<close>

record Wallet_View =
  vw_key :: bytes
  vw_guardians :: "bytes option list"
  vw_pending :: "(bytes \<times> bytes \<times> i64) option" \<comment> \<open>new key, guardian, \<open>opens_at\<close>\<close>

definition view_of :: "SmartWallet \<Rightarrow> Wallet_View" where
  "view_of w = \<lparr>vw_key = sw_active_key w, vw_guardians = map slot_guardian (sw_guardians w),
     vw_pending = map_option (\<lambda>p. (pr_new_key p,
       slot_key (sw_guardians w ! unat (pr_proposed_by p)), opens_at p)) (rotation_get (sw_rotation w))\<rparr>"

definition view_at :: "runtime \<Rightarrow> bank \<Rightarrow> bytes \<Rightarrow> Wallet_View option" where
  "view_at rt b wid = map_option view_of (wallet_with_id rt b wid)"

section \<open>Replaying events\<close>

primrec event_wallet :: "Event \<Rightarrow> bytes" where
  "event_wallet (WalletCreated wid k) = wid"
| "event_wallet (SolTransferred wid dest lamports fee) = wid"
| "event_wallet (VaultSwept wid dest lamports fee) = wid"
| "event_wallet (WalletClosed wid dest lamports fee) = wid"
| "event_wallet (GuardiansSet wid gs) = wid"
| "event_wallet (RotationProposed wid k g opens) = wid"
| "event_wallet (RotationCancelled wid k) = wid"
| "event_wallet (KeyRotated wid k recovery) = wid"

primrec apply_event :: "Event \<Rightarrow> Wallet_View option \<Rightarrow> Wallet_View option" where
  "apply_event (WalletCreated wid k) v
     = Some \<lparr>vw_key = k, vw_guardians = replicate MAX_GUARDIANS None, vw_pending = None\<rparr>"
| "apply_event (SolTransferred wid dest lamports fee) v = v"
| "apply_event (VaultSwept wid dest lamports fee) v = v"
| "apply_event (WalletClosed wid dest lamports fee) v = None"
| "apply_event (GuardiansSet wid gs) v
     = map_option (\<lambda>v. v\<lparr>vw_guardians := map guardian_key_of gs, vw_pending := None\<rparr>) v"
| "apply_event (RotationProposed wid k g opens) v
     = map_option (\<lambda>v. v\<lparr>vw_pending := Some (k, g, opens)\<rparr>) v"
| "apply_event (RotationCancelled wid k) v = map_option (\<lambda>v. v\<lparr>vw_pending := None\<rparr>) v"
| "apply_event (KeyRotated wid k recovery) v
     = map_option (\<lambda>v. v\<lparr>vw_key := k, vw_pending := None\<rparr>) v"

definition replay :: "bytes \<Rightarrow> Event list \<Rightarrow> Wallet_View option \<Rightarrow> Wallet_View option" where
  "replay wid evs = fold apply_event (filter (\<lambda>e. event_wallet e = wid) evs)"

lemma replay_simps [simp]:
  "replay wid [] v = v"
  "replay wid (e # evs) v = replay wid evs (if event_wallet e = wid then apply_event e v else v)"
  "replay wid (evs @ evs') v = replay wid evs' (replay wid evs v)"
  by (simp_all add: replay_def)

lemma replay_others: "\<forall>e \<in> set evs. event_wallet e \<noteq> wid \<Longrightarrow> replay wid evs v = v"
  by (induction evs) simp_all

section \<open>The view after an instruction\<close>

lemma view_of_simps [simp]:
  "vw_key (view_of w) = sw_active_key w"
  "view_of (w\<lparr>sw_rotation := EMPTY_ROTATION\<rparr>) = (view_of w)\<lparr>vw_pending := None\<rparr>"
  "view_of (w\<lparr>sw_attested := a\<rparr>) = view_of w"
  "view_of (w\<lparr>sw_active_key := k\<rparr>) = (view_of w)\<lparr>vw_key := k\<rparr>"
  by (simp_all add: view_of_def)

lemma view_of_guardians:
  "w' = w\<lparr>sw_guardians := map slot_of gs, sw_rotation := EMPTY_ROTATION\<rparr> \<Longrightarrow>
   view_of w' = (view_of w)\<lparr>vw_guardians := map guardian_key_of gs, vw_pending := None\<rparr>"
  by (simp add: view_of_def slot_guardian_of)

lemma view_of_proposed:
  assumes "p256_guardian w g = Some slot" "length (sw_guardians w) = MAX_GUARDIANS"
  shows "view_of (w\<lparr>sw_rotation := rotation_new
      \<lparr>pr_new_key = k, pr_proposed_at = now, pr_proposed_by = of_nat slot\<rparr>\<rparr>)
    = (view_of w)\<lparr>vw_pending := Some (k, g, saturating_add now ROTATION_DELAY)\<rparr>"
proof -
  have slot: "slot < MAX_GUARDIANS" "slot_key (sw_guardians w ! slot) = g"
    using assms by (auto simp: p256_guardian_def position_Some_iff)
  then have "unat (of_nat slot :: byte) = slot"
    by (simp add: unsigned_of_nat take_bit_nat_eq_self MAX_GUARDIANS_def)
  with slot show ?thesis by (simp add: view_of_def opens_at_def)
qed

lemma verify_view:
  assumes "verify_enclave_authorization rt env w auth action sb vb = Inr (signer, w1)"
    and "before = None \<and> is_new w \<or> before = Some w \<and> \<not> is_new w"
    and "sw_active_key w' = sw_active_key w1"
  shows "replay (auth_wallet_id auth) (created_event (is_new w) (auth_wallet_id auth) w')
      (map_option view_of before) = Some (view_of w1)"
  using assms by (auto simp: verify_Inr_iff checked_wallet_def created_event_def created_wallet_def
      view_of_def slot_guardian_def EMPTY_SLOT_def)

lemma leaves_wallet:
  assumes "address_contract rt ids" "wid \<in> ids" "leaves rt ids wid b b' (Some w')"
  shows "stored rt wid w'" "view_at rt b' wid = Some (view_of w')"
  using assms stored_wallet(1) [OF assms(1) _ assms(2)] by (auto simp: leaves_def view_at_def)

lemma stored_fields:
  assumes "stored rt wid w"
  shows "sw_wallet_id w = wid" "length (sw_guardians w) = MAX_GUARDIANS" "wf_key (sw_active_key w)"
  using assms by (auto simp: stored_def wf_wallet_def dest: wallet_invD(1,4))

lemma wf_wallet_keys:
  assumes "wf_wallet w"
  shows "rotation_get (sw_rotation w) = Some p \<Longrightarrow> wf_key (pr_new_key p)"
    "p256_guardian w k = Some slot \<Longrightarrow> wf_key k"
  using assms by (auto simp: wf_wallet_def wf_rotation_def wf_pending_def rotation_get_def
      p256_guardian_def position_Some_iff wf_list_def list_all_length wf_slot_def split: if_splits)

context signed_handler
begin

lemma init_view:
  assumes "runtime_contract rt ids" "ledger_inv rt ids b" "auth_wallet_id auth \<in> ids"
    and "signer_key_set env" "wf_arg arg"
    and "init_accounts has_to rt ac (auth_wallet_id auth) b = Inr (w, sb, vb, b1)"
    and "bumps_of arg w = (sb, vb)" "handle rt env ac auth arg w b1 = Inr (ev, w', b2)"
  obtains signer w1 where
    "stored rt (auth_wallet_id auth) w'"
    "view_at rt (store_wallet (wallet_key ac) w' b2) (auth_wallet_id auth) = Some (view_of w')"
    "verify_enclave_authorization rt env w auth (action_of ac arg) sb vb = Inr (signer, w1)"
    "sw_active_key w' = sw_active_key w1 \<Longrightarrow>
     replay (auth_wallet_id auth) (created_event (is_new w) (auth_wallet_id auth) w')
       (view_at rt b (auth_wallet_id auth)) = Some (view_of w1)"
proof -
  let ?wid = "auth_wallet_id auth"
  note contract = runtime_contractD [OF assms(1)]
  have "load_or_init_wallet rt ac ?wid b = Inr (w, sb, b1)"
    using assms(6) by (auto simp: init_accounts_def result_simps)
  from load_or_init_stored(6) [OF contract(1,2) assms(2,3) this]
  have before: "wallet_with_id rt b ?wid = None \<and> is_new w
      \<or> wallet_with_id rt b ?wid = Some w \<and> \<not> is_new w"
    using stored_wallet(1) [OF contract(1) assms(2,3)] stored_not_new by blast
  from init_entry [OF assms] obtain signer w1 where
    "leaves rt ids ?wid b (store_wallet (wallet_key ac) w' b2) (Some w')"
    and v: "verify_enclave_authorization rt env w auth (action_of ac arg) sb vb = Inr (signer, w1)"
    by metis
  from leaves_wallet [OF contract(1) assms(3) this(1)] verify_view [OF v before, folded view_at_def]
  show ?thesis by (intro that [OF _ _ v]) simp_all
qed

lemma existing_view:
  assumes "runtime_contract rt ids" "ledger_inv rt ids b" "auth_wallet_id auth \<in> ids"
    and "signer_key_set env" "wf_arg arg"
    and "existing_accounts has_to rt ac (auth_wallet_id auth) b = Inr w"
    and "bumps_of arg w = (sw_state_bump w, sw_vault_bump w)"
    and "handle rt env ac auth arg w b = Inr (ev, w', b2)"
  obtains signer w1 where
    "stored rt (auth_wallet_id auth) w'" "wf_wallet w1"
    "view_at rt (store_wallet (wallet_key ac) w' b2) (auth_wallet_id auth) = Some (view_of w')"
    "verify_enclave_authorization rt env w auth (action_of ac arg) (sw_state_bump w)
       (sw_vault_bump w) = Inr (signer, w1)"
    "view_at rt b (auth_wallet_id auth) = Some (view_of w1)"
proof -
  let ?wid = "auth_wallet_id auth"
  note contract = runtime_contractD [OF assms(1)]
  have "load_wallet rt ac ?wid b = Inr w"
    using assms(6) by (auto simp: existing_accounts_def result_simps)
  note w = load_wallet_stored(2) [OF contract(1) assms(2,3) this]
  have st: "stored rt ?wid w" by (rule stored_wallet(1) [OF contract(1) assms(2,3) w])
  note old = stored_not_new [OF st]
  from existing_entry [OF assms] obtain signer w1 where
    "leaves rt ids ?wid b (store_wallet (wallet_key ac) w' b2) (Some w')"
    and v: "verify_enclave_authorization rt env w auth (action_of ac arg) (sw_state_bump w)
       (sw_vault_bump w) = Inr (signer, w1)"
    by metis
  moreover have "wf_wallet w1"
    using v old stored_wf [OF st] by (auto simp: verify_Inr_iff checked_wallet_def wf_wallet_def)
  ultimately show ?thesis
    using leaves_wallet [OF contract(1) assms(3)] verify_view [OF v, of "Some w", where w' = w1] old w
    by (intro that [OF _ _ _ v]) (auto simp: created_event_def view_at_def)
qed

end

section \<open>Every instruction's events replay its effect\<close>

definition replays ::
  "runtime \<Rightarrow> bytes \<Rightarrow> bank \<Rightarrow> Event list \<Rightarrow> bank \<Rightarrow> bool" where
  "replays rt wid b evs b' \<longleftrightarrow> (\<forall>e \<in> set evs. event_wallet e = wid \<and> wf_event e)
     \<and> view_at rt b' wid = replay wid evs (view_at rt b wid)"

lemma init_replays:
  assumes "replay wid (created_event c wid w) (view_at rt b wid) = Some v"
    and "length wid = 32" "stored rt wid w"
    and "event_wallet e = wid" "wf_event e" "apply_event e (Some v) = Some v'" "view_at rt b' wid = Some v'"
  shows "replays rt wid b (created_event c wid w @ [e]) b'"
  using assms stored_fields(3) [OF assms(3)]
  by (auto simp: replays_def created_event_def wf_array_def)

lemma transfer_replays:
  assumes "runtime_contract rt ids" "ledger_inv rt ids b" "auth_wallet_id auth \<in> ids"
    and "signer_key_set env"
    and to: "length (to_key ac) = 32"
    and run0: "process rt env ac (Call_TransferSol auth lamports fee) b = Inr (evs, b')"
  shows "replays rt (auth_wallet_id auth) b evs b'"
proof -
  note wid = runtime_contractD(4) [OF assms(1,3)]
  from run0 obtain w sb vb b1 ev w' b2 where
    load: "init_accounts True rt ac (auth_wallet_id auth) b = Inr (w, sb, vb, b1)"
    and run: "transfer rt env ac auth lamports fee sb vb w b1 = Inr (ev, w', b2)"
    and r: "b' = store_wallet (wallet_key ac) w' b2"
      "evs = created_event (is_new w) (auth_wallet_id auth) w' @ [ev]"
    by (auto simp: transfer_sol_def result_simps Let_def)
  then have h: "transfer_handle rt env ac auth (lamports, fee, sb, vb) w b1 = Inr (ev, w', b2)"
    and bumps: "transfer_bumps (lamports, fee, sb, vb) w = (sb, vb)"
    and wf: "wf_any (lamports, fee, sb, vb)"
    by (simp_all add: transfer_handle_def transfer_bumps_def wf_any_def)
  from run have ev: "ev = SolTransferred (sw_wallet_id w') (to_key ac) lamports
      (min fee (auth_max_relayer_fee auth))"
    by (auto simp: transfer_Inr_iff [OF runtime_contractD(3) [OF assms(1)]] Let_def)
  show ?thesis
  proof (rule transfer.init_view [OF assms(1-4) wf load bumps h])
    fix signer w1
    assume st: "stored rt (auth_wallet_id auth) w'"
      and view: "view_at rt (store_wallet (wallet_key ac) w' b2) (auth_wallet_id auth) = Some (view_of w')"
      and v: "verify_enclave_authorization rt env w auth (transfer_action ac (lamports, fee, sb, vb))
        sb vb = Inr (signer, w1)"
      and made: "sw_active_key w' = sw_active_key w1 \<Longrightarrow>
        replay (auth_wallet_id auth) (created_event (is_new w) (auth_wallet_id auth) w')
          (view_at rt b (auth_wallet_id auth)) = Some (view_of w1)"
    from transfer_authorized [OF run] v have "w1 = w'" by (simp add: transfer_action_def)
    with init_replays [OF made wid st _ _ _ view] st to show ?thesis
      unfolding r ev by (simp add: stored_fields wid wf_array_def)
  qed
qed

lemma sweep_replays:
  assumes "runtime_contract rt ids" "ledger_inv rt ids b" "auth_wallet_id auth \<in> ids"
    and "signer_key_set env"
    and to: "length (to_key ac) = 32"
    and run0: "process rt env ac (Call_SweepVault auth fee) b = Inr (evs, b')"
  shows "replays rt (auth_wallet_id auth) b evs b'"
proof -
  note wid = runtime_contractD(4) [OF assms(1,3)]
  from run0 obtain w sb vb b1 ev w' b2 where
    load: "init_accounts True rt ac (auth_wallet_id auth) b = Inr (w, sb, vb, b1)"
    and run: "sweep rt env ac auth fee sb vb w b1 = Inr (ev, w', b2)"
    and r: "b' = store_wallet (wallet_key ac) w' b2"
      "evs = created_event (is_new w) (auth_wallet_id auth) w' @ [ev]"
    by (auto simp: sweep_vault_def result_simps Let_def)
  then have h: "sweep_handle rt env ac auth (fee, sb, vb) w b1 = Inr (ev, w', b2)"
    and bumps: "sweep_bumps (fee, sb, vb) w = (sb, vb)" and wf: "wf_any (fee, sb, vb)"
    by (simp_all add: sweep_handle_def sweep_bumps_def wf_any_def)
  from run obtain n where ev: "ev = VaultSwept (sw_wallet_id w') (to_key ac) n
      (min fee (auth_max_relayer_fee auth))"
    by (auto simp: sweep_Inr_iff [OF runtime_contractD(3) [OF assms(1)]] Let_def)
  show ?thesis
  proof (rule sweep.init_view [OF assms(1-4) wf load bumps h])
    fix signer w1
    assume st: "stored rt (auth_wallet_id auth) w'"
      and view: "view_at rt (store_wallet (wallet_key ac) w' b2) (auth_wallet_id auth) = Some (view_of w')"
      and v: "verify_enclave_authorization rt env w auth (sweep_action ac (fee, sb, vb)) sb vb
        = Inr (signer, w1)"
      and made: "sw_active_key w' = sw_active_key w1 \<Longrightarrow>
        replay (auth_wallet_id auth) (created_event (is_new w) (auth_wallet_id auth) w')
          (view_at rt b (auth_wallet_id auth)) = Some (view_of w1)"
    from sweep_authorized [OF run] v have "w1 = w'" by (simp add: sweep_action_def)
    with init_replays [OF made wid st _ _ _ view] st to show ?thesis
      unfolding r ev by (simp add: stored_fields wid wf_array_def)
  qed
qed

lemma set_guardians_replays:
  assumes "runtime_contract rt ids" "ledger_inv rt ids b" "auth_wallet_id auth \<in> ids"
    and "signer_key_set env" "wf_call (Call_SetGuardians auth gs fee)"
    and "process rt env ac (Call_SetGuardians auth gs fee) b = Inr (evs, b')"
  shows "replays rt (auth_wallet_id auth) b evs b'"
proof -
  note wid = runtime_contractD(4) [OF assms(1,3)]
  from assms(6) obtain w sb vb b1 ev w' b2 where
    load: "init_accounts False rt ac (auth_wallet_id auth) b = Inr (w, sb, vb, b1)"
    and run: "set_guardians rt env ac auth gs fee sb vb w b1 = Inr (ev, w', b2)"
    and r: "b' = store_wallet (wallet_key ac) w' b2"
      "evs = created_event (is_new w) (auth_wallet_id auth) w' @ [ev]"
    by (auto simp: set_guardians_entry_def result_simps Let_def)
  then have h: "set_guardians_handle rt env ac auth (gs, fee, sb, vb) w b1 = Inr (ev, w', b2)"
    and bumps: "set_guardians_bumps (gs, fee, sb, vb) w = (sb, vb)"
    by (simp_all add: set_guardians_handle_def set_guardians_bumps_def)
  have wf: "wf_guardians_arg (gs, fee, sb, vb)"
    using assms(5) by (simp add: wf_call_def wf_guardians_arg_def)
  from run have ev: "ev = GuardiansSet (sw_wallet_id w') gs"
    by (auto simp: set_guardians_Inr_iff [OF runtime_contractD(3) [OF assms(1)]] Let_def)
  show ?thesis
  proof (rule set_guardians.init_view [OF assms(1-4) wf load bumps h])
    fix signer w1
    assume st: "stored rt (auth_wallet_id auth) w'"
      and view: "view_at rt (store_wallet (wallet_key ac) w' b2) (auth_wallet_id auth) = Some (view_of w')"
      and v: "verify_enclave_authorization rt env w auth
        (set_guardians_action ac (gs, fee, sb, vb)) sb vb = Inr (signer, w1)"
      and made: "sw_active_key w' = sw_active_key w1 \<Longrightarrow>
        replay (auth_wallet_id auth) (created_event (is_new w) (auth_wallet_id auth) w')
          (view_at rt b (auth_wallet_id auth)) = Some (view_of w1)"
    from set_guardians_authorized [OF run] v
    have w': "w' = w1\<lparr>sw_guardians := map slot_of gs, sw_rotation := EMPTY_ROTATION\<rparr>"
      by (simp add: set_guardians_action_def)
    then have "sw_active_key w' = sw_active_key w1" by simp
    from init_replays [OF made [OF this] wid st _ _ _ view] assms(5) show ?thesis
      unfolding r ev by (simp add: view_of_guardians [OF w'] stored_fields [OF st] wid wf_array_def wf_call_def)
  qed
qed

lemma cancel_replays:
  assumes "runtime_contract rt ids" "ledger_inv rt ids b" "auth_wallet_id auth \<in> ids"
    and "signer_key_set env"
    and "process rt env ac (Call_CancelRotation auth fee) b = Inr (evs, b')"
  shows "replays rt (auth_wallet_id auth) b evs b'"
proof -
  from assms(5) obtain w ev w' b2 where
    load: "existing_accounts False rt ac (auth_wallet_id auth) b = Inr w"
    and run: "cancel rt env ac auth fee w b = Inr (ev, w', b2)"
    and r: "b' = store_wallet (wallet_key ac) w' b2" "evs = [ev]"
    by (auto simp: cancel_rotation_def result_simps Let_def)
  have bumps: "stored_bumps fee w = (sw_state_bump w, sw_vault_bump w)" and wf: "wf_any fee"
    by (simp_all add: stored_bumps_def wf_any_def)
  show ?thesis
  proof (rule cancel.existing_view [OF assms(1-4) wf load bumps run])
    fix signer w1
    assume st: "stored rt (auth_wallet_id auth) w'" and wf1: "wf_wallet w1"
      and view: "view_at rt (store_wallet (wallet_key ac) w' b2) (auth_wallet_id auth) = Some (view_of w')"
        "view_at rt b (auth_wallet_id auth) = Some (view_of w1)"
      and v: "verify_enclave_authorization rt env w auth (cancel_action ac fee) (sw_state_bump w)
        (sw_vault_bump w) = Inr (signer, w1)"
    from run v obtain p where "w' = w1\<lparr>sw_rotation := EMPTY_ROTATION\<rparr>"
      "rotation_get (sw_rotation w1) = Some p" "ev = RotationCancelled (sw_wallet_id w') (pr_new_key p)"
      by (auto simp: cancel_Inr_iff [OF runtime_contractD(3) [OF assms(1)]] Let_def cancel_action_def)
    with view show ?thesis
      using stored_fields(1) [OF st] wf_wallet_keys(1) [OF wf1]
      by (simp add: replays_def r wf_array_def runtime_contractD(4) [OF assms(1,3)])
  qed
qed

lemma propose_replays:
  assumes "runtime_contract rt ids" "ledger_inv rt ids b" "auth_wallet_id auth \<in> ids"
    and "signer_key_set env" "wf_call (Call_ProposeRotation auth k fee)"
    and "process rt env ac (Call_ProposeRotation auth k fee) b = Inr (evs, b')"
  shows "replays rt (auth_wallet_id auth) b evs b'"
proof -
  from assms(6) obtain w p w' b2 where
    load: "existing_accounts False rt ac (auth_wallet_id auth) b = Inr w"
    and run: "propose rt env ac auth k fee w b = Inr (p, w', b2)"
    and r: "b' = store_wallet (wallet_key ac) w' b2" "evs = [proposal_event p]"
    by (auto simp: propose_rotation_def result_simps Let_def proposal_event_def)
  then have h: "propose_handle rt env ac auth (k, fee) w b = Inr (proposal_event p, w', b2)"
    and bumps: "stored_bumps (k, fee) w = (sw_state_bump w, sw_vault_bump w)"
    by (simp_all add: propose_handle_def stored_bumps_def)
  have wf: "wf_propose_arg (k, fee)"
    using assms(5) by (simp add: wf_call_def wf_propose_arg_def)
  show ?thesis
  proof (rule propose.existing_view [OF assms(1-4) wf load bumps h])
    fix signer w1
    assume st: "stored rt (auth_wallet_id auth) w'" and wf1: "wf_wallet w1"
      and view: "view_at rt (store_wallet (wallet_key ac) w' b2) (auth_wallet_id auth) = Some (view_of w')"
        "view_at rt b (auth_wallet_id auth) = Some (view_of w1)"
      and v: "verify_enclave_authorization rt env w auth (propose_action ac (k, fee))
        (sw_state_bump w) (sw_vault_bump w) = Inr (signer, w1)"
    from propose_authorized [OF run] v have "apply_proposal env k signer w1 = Inr (p, w')"
      by (auto simp: propose_action_def)
    with view stored_fields(1,2) [OF st] show ?thesis
      using wf_wallet_keys(2) [OF wf1] wf runtime_contractD(4) [OF assms(1,3)]
      by (auto simp: replays_def r apply_proposal_Inr_iff propose_by_guardian_Inr_iff wf_array_def
          wf_propose_arg_def proposal_event_def view_of_proposed split: if_splits)
  qed
qed

lemma confirm_replays:
  assumes "runtime_contract rt ids" "ledger_inv rt ids b" "wid \<in> ids"
    and "process rt env ac (Call_ConfirmRotation wid) b = Inr (evs, b')"
  shows "replays rt wid b evs b'"
proof -
  note contract = runtime_contractD(1) [OF assms(1)]
  from confirm_leaves [OF assms] obtain w w' ev where
    w: "wallet_with_id rt b wid = Some w" "confirm env w = Inr (ev, w')" "evs = [ev]"
    and leaves: "leaves rt ids wid b b' (Some w')" .
  note st = stored_wallet(1) [OF contract assms(2,3) w(1)]
  from w leaves_wallet(2) [OF contract assms(3) leaves] show ?thesis
    using stored_fields(1) [OF st] wf_wallet_keys(1) [OF stored_wf [OF st]]
      runtime_contractD(4) [OF assms(1,3)]
    by (auto simp: replays_def confirm_Inr_iff view_at_def wf_array_def)
qed

lemma close_replays:
  assumes "runtime_contract rt ids" "ledger_inv rt ids b" "auth_wallet_id auth \<in> ids"
    and "signer_key_set env"
    and to: "length (to_key ac) = 32"
    and run0: "process rt env ac (Call_CloseWallet auth fee) b = Inr (evs, b')"
  shows "replays rt (auth_wallet_id auth) b evs b'"
proof -
  from run0 obtain w ev w' b2 where
    load: "existing_accounts True rt ac (auth_wallet_id auth) b = Inr w"
    and run: "close rt env ac auth fee w b = Inr (ev, w', b2)" and evs: "evs = [ev]"
    by (auto simp: close_wallet_def result_simps Let_def)
  have bumps: "stored_bumps fee w = (sw_state_bump w, sw_vault_bump w)" and wf: "wf_any fee"
    by (simp_all add: stored_bumps_def wf_any_def)
  from close.existing_view [OF assms(1-4) wf load bumps run]
  have "sw_wallet_id w' = auth_wallet_id auth" by (metis stored_fields(1))
  moreover obtain n fee' where "ev = WalletClosed (sw_wallet_id w') (to_key ac) n fee'"
    using run by (auto simp: close_def result_simps Let_def)
  moreover have "wallet_with_id rt b' (auth_wallet_id auth) = None"
    using close_refines [OF assms(1-4) run0, of 0] by (auto simp: refines_step_def spec_step_close spec_at_def)
  ultimately show ?thesis
    using to by (simp add: replays_def evs view_at_def wf_array_def runtime_contractD(4) [OF assms(1,3)])
qed

lemma process_replays:
  assumes "runtime_contract rt ids" "ledger_inv rt ids b" "good_call ids call" "good_env env now"
    and "length (to_key ac) = 32" "process rt env ac call b = Inr (evs, b')"
  shows "replays rt (call_wallet call) b evs b'"
proof (cases call)
  case (Call_TransferSol auth lamports fee)
  with assms show ?thesis
    by (auto simp del: process.simps simp: good_call_def good_env_def intro: transfer_replays)
next
  case (Call_SetGuardians auth gs fee)
  with assms show ?thesis
    by (auto simp del: process.simps simp: good_call_def good_env_def intro: set_guardians_replays)
next
  case (Call_CancelRotation auth fee)
  with assms show ?thesis
    by (auto simp del: process.simps simp: good_call_def good_env_def intro: cancel_replays)
next
  case (Call_ProposeRotation auth k fee)
  with assms show ?thesis
    by (auto simp del: process.simps simp: good_call_def good_env_def intro: propose_replays)
next
  case (Call_ConfirmRotation wid)
  with assms show ?thesis
    by (auto simp del: process.simps simp: good_call_def intro: confirm_replays)
next
  case (Call_SweepVault auth fee)
  with assms show ?thesis
    by (auto simp del: process.simps simp: good_call_def good_env_def intro: sweep_replays)
next
  case (Call_CloseWallet auth fee)
  with assms show ?thesis
    by (auto simp del: process.simps simp: good_call_def good_env_def intro: close_replays)
qed

section \<open>The log of a run\<close>

text \<open>As \<open>ledger_run\<close>, recording the events.\<close>

inductive logged_run :: "runtime \<Rightarrow> bytes set \<Rightarrow> bank \<Rightarrow> Event list \<Rightarrow> bank \<Rightarrow> bool"
  for rt :: runtime and ids :: "bytes set" and b :: bank where
  logged_start: "logged_run rt ids b [] b"
| logged_instruction: "logged_run rt ids b log b1 \<Longrightarrow> good_env env now \<Longrightarrow> good_call ids call \<Longrightarrow>
    length (to_key ac) = 32 \<Longrightarrow> process rt env ac call b1 = Inr (evs, b2) \<Longrightarrow> logged_run rt ids b (log @ evs) b2"
| logged_external: "logged_run rt ids b log b1 \<Longrightarrow> external_step rt ids b1 b2 \<Longrightarrow>
    logged_run rt ids b log b2"

lemma logged_run_replays:
  assumes "logged_run rt ids b log b'" "runtime_contract rt ids" "ledger_inv rt ids b"
  shows "ledger_inv rt ids b' \<and> (\<forall>e \<in> set log. wf_event e)
    \<and> (\<forall>wid \<in> ids. view_at rt b' wid = replay wid log (view_at rt b wid))"
  using assms(1)
proof induction
  case logged_start
  then show ?case using assms(3) by simp
next
  case (logged_instruction log b1 env now call ac evs b2)
  then have inv: "ledger_inv rt ids b1" by blast
  note step = process_refines [OF assms(2) inv _ _ _ _ _ logged_instruction.hyps(5), of now]
    process_replays [OF assms(2) inv logged_instruction.hyps(3,2,4,5)]
  have kept: "ledger_inv rt ids b2" "others_kept rt ids (call_wallet call) b1 b2"
    using step(1) logged_instruction.hyps(2,3)
    by (simp_all add: good_env_def good_call_def refines_step_def)
  have "view_at rt b2 wid = replay wid evs (view_at rt b1 wid)" if "wid \<in> ids" for wid
  proof (cases "wid = call_wallet call")
    case True
    with step(2) show ?thesis by (simp add: replays_def)
  next
    case False
    with step(2) kept(2) that show ?thesis
      by (simp add: replays_def others_kept_def view_at_def replay_others)
  qed
  with kept(1) step(2) logged_instruction.IH show ?case by (auto simp: replays_def)
next
  case (logged_external log b1 b2)
  have "view_at rt b2 wid = view_at rt b1 wid" if "wid \<in> ids" for wid
    using external_same_wallet [OF runtime_contractD(1) [OF assms(2)] logged_external.hyps(2) that]
    by (simp add: view_at_def)
  then show ?case
    using external_inv [OF logged_external.hyps(2)] logged_external.IH by simp
qed

section \<open>Properties\<close>

text \<open>C13: the event log is complete. Whatever instructions succeed, on any wallets and interleaved with
  everything else on the chain: decode the data of the instructions the transactions ran, in their
  order, that carry Anchor's tag (if only the program's events do), and replay the events with a
  wallet's id. The result is exactly the wallet's stored key, guardians and pending rotation with the
  time it opens, and whether the wallet exists: an indexer needs no account data.\<close>

theorem event_log_complete:
  assumes "runtime_contract rt ids" "ledger_inv rt ids b" "logged_run rt ids b log b'" "wid \<in> ids"
    and "event_contract rt"
    and "filter (\<lambda>d. strip_prefix (rt_event_tag rt) d \<noteq> None) datas = map (emit_data rt) log"
  shows "view_at rt b' wid = replay wid (indexed rt datas) (view_at rt b wid)"
  using logged_run_replays [OF assms(3,1,2)] indexed_log [OF assms(5) _ assms(6)] assms(4) by auto

lemma demo_event_contract: "event_contract demo_runtime"
proof -
  have "rt_event_tag demo_runtime = [0xEE, 0xEE, 0xEE, 0xEE, 0xEE, 0xEE, 0xEE, 0xEE]" by code_simp
  then have "length (rt_event_tag demo_runtime) = 8"
    "rt_event_tag demo_runtime \<notin> set (map fst entry_points)"
    by (simp_all add: entry_points_def)
  moreover have "map (event_discriminator demo_runtime \<circ> fst) event_types
    = [ascii ''detaerCt'', ascii ''derrefsn'', ascii ''tpewStlu'', ascii ''desolCte'',
       ascii ''teSsnaid'', ascii ''desoporP'', ascii ''dellecna'', ascii ''detatoRy'']"
    by code_simp
  moreover have "distinct [ascii ''detaerCt'', ascii ''derrefsn'', ascii ''tpewStlu'', ascii ''desolCte'',
       ascii ''teSsnaid'', ascii ''desoporP'', ascii ''dellecna'', ascii ''detatoRy'']"
    by code_simp
  moreover have "\<forall>t \<in> set event_types. length (event_discriminator demo_runtime (fst t)) = 8"
    by code_simp
  ultimately show ?thesis unfolding event_contract_def by metis
qed

theorem event_log_complete_witness:
  "view_at demo_runtime (demo_bank (pending_wallet 1000) 0) demo_id
   = Some \<lparr>vw_key = owner_key, vw_guardians = [Some guardian_key, None, None],
       vw_pending = Some (device_key, guardian_key, saturating_add 1000 ROTATION_DELAY)\<rparr>"
proof -
  have propose: "process demo_runtime (propose_env 1000) demo_accounts
       (Call_ProposeRotation (demo_auth 1) device_key 0) (demo_bank guarded_wallet 0)
    = Inr ([RotationProposed demo_id device_key guardian_key (saturating_add 1000 ROTATION_DELAY)],
        demo_bank (pending_wallet 1000) 0)" by (rule demo_propose_run) simp
  note log = logged_instruction [OF logged_instruction [OF logged_start demo_envs(1) demo_calls(1)
      demo_address_lengths(1) demo_set_guardians_run [of 0]] demo_envs(3) demo_calls(2)
      demo_address_lengths(1) propose]
  let ?log = "([] @ [WalletCreated demo_id owner_key, GuardiansSet demo_id demo_guardians])
    @ [RotationProposed demo_id device_key guardian_key (saturating_add 1000 ROTATION_DELAY)]"
  let ?datas = "[2, 0] # map (emit_data demo_runtime) ?log @ [[]]"
  have "strip_prefix (rt_event_tag demo_runtime) [2, 0] = None"
    "strip_prefix (rt_event_tag demo_runtime) [] = None"
    by code_simp+
  then have datas: "filter (\<lambda>d. strip_prefix (rt_event_tag demo_runtime) d \<noteq> None) ?datas
      = map (emit_data demo_runtime) ?log"
    by (rule emit_between)
  have "indexed demo_runtime ?datas = ?log"
    using logged_run_replays [OF log demo_contract demo_ledger_inv(3)]
    by (intro indexed_log [OF demo_event_contract _ datas]) blast
  moreover have "view_at demo_runtime (demo_unused 0) demo_id = None"
    using demo_wallet_with_id(2) [of 0] by (simp add: view_at_def)
  ultimately show ?thesis
    using event_log_complete [OF demo_contract demo_ledger_inv(3) log _ demo_event_contract datas]
    by (simp add: demo_guardians_def guardian_key_of_def)
qed

end
