(* ===== verification/Lamports.thy ===== *)
theory Lamports
  imports Scenario_Runs
begin

text \<open>
  The lamports of a whole instruction: none is made and none is lost. They only move between the
  wallet's state account, its vault, the destination and the relayer. Creating the state account is
  third-party code, whose payer pays what the account receives (\<open>init_pays_contract\<close>).
\<close>

definition total_lamports :: "pubkey set \<Rightarrow> bank \<Rightarrow> nat" where
  "total_lamports S b = (\<Sum>a \<in> S. unat (lamports_of b a))"

definition init_pays_contract :: "runtime \<Rightarrow> bool" where
  "init_pays_contract rt \<longleftrightarrow>
     (\<forall>payer seeds addr space b b'. rt_init rt payer seeds addr space b = Inr b' \<longrightarrow>
        addr \<noteq> payer \<and> unat (lamports_of b' addr) + unat (lamports_of b' payer)
          = unat (lamports_of b addr) + unat (lamports_of b payer))"

definition instruction_accounts :: "Accounts \<Rightarrow> pubkey set" where
  "instruction_accounts ac = {wallet_key ac, vault_key ac, to_key ac, relayer_key ac}"

text \<open>Two accounts that exchange lamports, the rest unchanged.\<close>

lemma total_exchange:
  assumes "finite S" "x \<in> S" "y \<in> S" "x \<noteq> y"
    and "\<And>a. a \<noteq> x \<Longrightarrow> a \<noteq> y \<Longrightarrow> lamports_of b' a = lamports_of b a"
    and "unat (lamports_of b' x) + unat (lamports_of b' y)
      = unat (lamports_of b x) + unat (lamports_of b y)"
  shows "total_lamports S b' = total_lamports S b"
proof -
  have split: "total_lamports S c = unat (lamports_of c x) + unat (lamports_of c y)
      + (\<Sum>a \<in> S - {x} - {y}. unat (lamports_of c a))" for c
    using assms(1-4) by (simp add: total_lamports_def sum.remove [of S x] sum.remove [of "S - {x}" y])
  have "(\<Sum>a \<in> S - {x} - {y}. unat (lamports_of b' a)) = (\<Sum>a \<in> S - {x} - {y}. unat (lamports_of b a))"
    using assms(5) by (intro sum.cong) auto
  with assms(6) show ?thesis by (simp add: split)
qed

lemma total_move:
  assumes "finite S" "src \<in> S" "dst \<in> S" "transfer_allowed rt seeds src dst n b"
  shows "total_lamports S (move_lamports src dst n b) = total_lamports S b"
proof (cases "src = dst")
  case True
  then show ?thesis by (simp add: move_lamports_self)
next
  case False
  with assms move_unat [OF assms(4) False] show ?thesis
    by (intro total_exchange [of S src dst]) (auto simp: move_lamports_other)
qed

lemma total_store [simp]: "total_lamports S (store_wallet a w b) = total_lamports S b"
  by (simp add: total_lamports_def)

lemma total_close:
  assumes "finite S" "a \<in> S" "dst \<in> S" "a \<noteq> dst" "close_account rt a dst b = Inr b'"
  shows "total_lamports S b' = total_lamports S b"
  using assms
  by (intro total_exchange [of S a dst])
    (auto simp: close_account_def result_simps Let_def checked_add_Some_iff)

lemma total_init:
  assumes "init_contract rt" "init_pays_contract rt" "finite S" "addr \<in> S" "payer \<in> S"
    and "rt_init rt payer seeds addr space b = Inr b'"
  shows "total_lamports S b' = total_lamports S b"
proof -
  from assms(2,6) have "addr \<noteq> payer" "unat (lamports_of b' addr) + unat (lamports_of b' payer)
      = unat (lamports_of b addr) + unat (lamports_of b payer)"
    unfolding init_pays_contract_def by blast+
  moreover from assms(1,6) have "\<forall>a. a \<noteq> addr \<longrightarrow> a \<noteq> payer \<longrightarrow> lamports_of b' a = lamports_of b a"
    unfolding init_contract_def by blast
  ultimately show ?thesis
    using assms(3-5) by (intro total_exchange [of S addr payer]) auto
qed

lemma total_init_accounts:
  assumes "init_contract rt" "init_pays_contract rt" "finite S" "wallet_key ac \<in> S" "relayer_key ac \<in> S"
    and "init_accounts has_to rt ac wid b = Inr (w, sb, vb, b1)"
  shows "total_lamports S b1 = total_lamports S b"
proof -
  from assms(6) have "load_or_init_wallet rt ac wid b = Inr (w, sb, b1)"
    by (auto simp: init_accounts_def result_simps)
  then show ?thesis
    using total_init [OF assms(1-5)] by (auto simp: load_or_init_Inr_iff split: if_splits)
qed

lemma process_total:
  assumes "transfer_contract rt" "init_contract rt" "init_pays_contract rt"
    and "process rt env ac call b = Inr (evs, b')" "wallet_key ac \<noteq> relayer_key ac"
    and "finite S" "instruction_accounts ac \<subseteq> S"
  shows "total_lamports S b' = total_lamports S b"
proof -
  from assms(7) have S: "wallet_key ac \<in> S" "vault_key ac \<in> S" "to_key ac \<in> S" "relayer_key ac \<in> S"
    by (simp_all add: instruction_accounts_def)
  note init = total_init_accounts [OF assms(2,3,6) S(1,4)]
  note move = total_move [OF assms(6) S(2,3)] total_move [OF assms(6) S(2,4)]
  show ?thesis
  proof (cases call)
    case (Call_TransferSol auth lamports fee)
    with assms(4) show ?thesis
      by (auto simp: transfer_sol_def result_simps Let_def transfer_Inr_iff [OF assms(1)] init move)
  next
    case (Call_SetGuardians auth gs fee)
    with assms(4) show ?thesis
      by (auto simp: set_guardians_entry_def result_simps Let_def set_guardians_Inr_iff [OF assms(1)]
          init move)
  next
    case (Call_CancelRotation auth fee)
    with assms(4) show ?thesis
      by (auto simp: cancel_rotation_def result_simps Let_def cancel_Inr_iff [OF assms(1)] move)
  next
    case (Call_ProposeRotation auth k fee)
    with assms(4) show ?thesis
      by (auto simp: propose_rotation_def result_simps Let_def propose_Inr_iff [OF assms(1)] move)
  next
    case (Call_ConfirmRotation wid)
    with assms(4) show ?thesis by (auto simp: confirm_rotation_def result_simps)
  next
    case (Call_SweepVault auth fee)
    with assms(4) show ?thesis
      by (auto simp: sweep_vault_def result_simps Let_def sweep_Inr_iff [OF assms(1)] init move)
  next
    case (Call_CloseWallet auth fee)
    with assms(4) show ?thesis
      by (auto simp: close_wallet_def result_simps Let_def close_Inr_iff [OF assms(1)] move
          dest!: total_close [OF assms(6) S(1,4) assms(5)])
  qed
qed

section \<open>Properties\<close>

text \<open>C14: no instruction makes or loses lamports. Over the state account, the vault, the destination and
  the relayer together the sum stays the same, rent of a new state and of a closed one included, and no
  other account gains or loses any, whichever of the four accounts coincide. (A state account has no
  key to sign with, so it is not the relayer.)\<close>

theorem lamports_conserved:
  assumes "transfer_contract rt" "init_contract rt" "init_pays_contract rt"
    and "process rt env ac call b = Inr (evs, b')" "wallet_key ac \<noteq> relayer_key ac"
  shows "total_lamports (instruction_accounts ac) b' = total_lamports (instruction_accounts ac) b
    \<and> (\<forall>a. a \<notin> instruction_accounts ac \<longrightarrow> lamports_of b' a = lamports_of b a)"
proof (intro conjI allI impI)
  have fin: "finite (instruction_accounts ac)" by (simp add: instruction_accounts_def)
  note total = process_total [OF assms]
  show four: "total_lamports (instruction_accounts ac) b' = total_lamports (instruction_accounts ac) b"
    by (rule total [OF fin subset_refl])
  fix a assume a: "a \<notin> instruction_accounts ac"
  have "total_lamports (insert a (instruction_accounts ac)) b'
      = total_lamports (insert a (instruction_accounts ac)) b"
    by (rule total) (use fin in auto)
  with four a fin show "lamports_of b' a = lamports_of b a"
    by (simp add: total_lamports_def word_unat_eq_iff)
qed

lemma demo_init_pays: "init_pays_contract demo_runtime"
  unfolding init_pays_contract_def
proof (intro allI impI)
  fix payer seeds addr space b b'
  assume "rt_init demo_runtime payer seeds addr space b = Inr b'"
  then have ok: "addr \<noteq> payer" "2301240 \<le> lamports_of b payer" "lamports_of b addr = 0"
    and b': "b' = (move_lamports payer addr 2301240 b)
      (addr := \<lparr>acc_lamports = 2301240, acc_owner = PROGRAM_ID, acc_data = replicate space 0\<rparr>)"
    by (auto simp: demo_runtime_def demo_init_def split: if_splits)
  have "unat (2301240 :: u64) \<le> unat (lamports_of b payer)" using ok(2) by (simp only: word_le_nat_alt)
  then show "addr \<noteq> payer \<and> unat (lamports_of b' addr) + unat (lamports_of b' payer)
      = unat (lamports_of b addr) + unat (lamports_of b payer)"
    using ok unat_sub [OF ok(2)] by (simp add: b' move_lamports_lamports)
qed

theorem lamports_conserved_witness:
  "total_lamports (instruction_accounts demo_accounts) (demo_bank first_wallet 0)
     = total_lamports (instruction_accounts demo_accounts) (demo_unused 0)"
  using lamports_conserved [OF demo_runtime_contracts(1,3) demo_init_pays demo_sweep_run] by simp

end
