(* ===== verification/Transaction.thy ===== *)
theory Transaction
  imports Raw_Instructions Event_Log
begin

text \<open>
  The program inside transactions. A transaction is a list of top-level instructions that commits as a
  whole or not at all; all of them read the same clock, and each, with every call made inside it, reads
  through the Instructions sysvar the top-level instruction before it. Of the other programs a transaction
  runs, only two things matter here: the ledger they leave and the invocations of this program they make,
  so an instruction is given with the steps it took. What is assumed of the runtime is \<open>wf_tx\<close>: an
  instruction that names the program runs it, once; an outside step cannot write a wallet's account; the
  precompile accepted every secp256r1 instruction (\<open>valid\<close> says which signatures are good).
\<close>

datatype tx_step = Invoke Instruction | Outside "bank \<Rightarrow> error + bank"

record Transaction =
  tx_clock :: "error + i64"
  tx_rent :: "error + (nat \<Rightarrow> u64)"
  tx_instructions :: "(Instruction \<times> tx_step list) list"

text \<open>The sysvars during the top-level instruction \<open>i\<close>: \<open>get_instruction_relative(-1, ..)\<close> fails at the
  first one.\<close>

definition tx_env :: "Transaction \<Rightarrow> nat \<Rightarrow> env" where
  "tx_env tx i = \<lparr>env_clock = tx_clock tx, env_rent = tx_rent tx,
     env_previous = (if i = 0 then Inl (External 2) else Inr (fst (tx_instructions tx ! (i - 1))))\<rparr>"

definition tx_steps :: "Transaction \<Rightarrow> (nat \<times> tx_step) list" where
  "tx_steps tx = concat (map (\<lambda>i. map (Pair i) (snd (tx_instructions tx ! i)))
     [0..<length (tx_instructions tx)])"

fun run_step :: "runtime \<Rightarrow> Transaction \<Rightarrow> nat \<times> tx_step \<Rightarrow> bank \<Rightarrow> error + Event list \<times> bank" where
  "run_step rt tx (i, Invoke ix) b = process_instruction rt (tx_env tx i) ix b"
| "run_step rt tx (i, Outside f) b = and_then (f b) (\<lambda>b. Inr ([], b))"

primrec run_steps ::
  "runtime \<Rightarrow> Transaction \<Rightarrow> (nat \<times> tx_step) list \<Rightarrow> bank \<Rightarrow> error + Event list \<times> bank" where
  "run_steps rt tx [] b = Inr ([], b)"
| "run_steps rt tx (s # ss) b =
     and_then (run_step rt tx s b) (\<lambda>(evs, b).
     and_then (run_steps rt tx ss b) (\<lambda>(evs', b). Inr (evs @ evs', b)))"

definition run_transaction :: "runtime \<Rightarrow> Transaction \<Rightarrow> bank \<Rightarrow> error + Event list \<times> bank" where
  "run_transaction rt tx b = run_steps rt tx (tx_steps tx) b"

lemma run_steps_append:
  "run_steps rt tx (ss @ ss') b = Inr (evs, b') \<longleftrightarrow>
     (\<exists>evs1 evs2 b1. run_steps rt tx ss b = Inr (evs1, b1) \<and> run_steps rt tx ss' b1 = Inr (evs2, b')
       \<and> evs = evs1 @ evs2)"
  by (induction ss arbitrary: b evs) (auto simp: result_simps)

text \<open>The calls of a transaction, and its part of the history.\<close>

definition step_call :: "tx_step \<Rightarrow> Call option" where
  "step_call s = (case s of
       Invoke ix \<Rightarrow> (case dispatch (ix_data ix) of Inr call \<Rightarrow> Some call | Inl e \<Rightarrow> None)
     | Outside f \<Rightarrow> None)"

lemma step_call_iff: "step_call s = Some call \<longleftrightarrow> (\<exists>ix. s = Invoke ix \<and> dispatch (ix_data ix) = Inr call)"
  by (auto simp: step_call_def split: tx_step.splits sum.splits)

definition signed_step :: "tx_step \<Rightarrow> bool" where
  "signed_step s \<longleftrightarrow> (case step_call s of None \<Rightarrow> False | Some call \<Rightarrow> call_authorization call \<noteq> None)"

definition tx_time :: "Transaction \<Rightarrow> int" where
  "tx_time tx = (case tx_clock tx of Inr now \<Rightarrow> sint now | Inl e \<Rightarrow> 0)"

definition step_history :: "Transaction \<Rightarrow> nat \<times> tx_step \<Rightarrow> history" where
  "step_history tx s = (case step_call (snd s) of
       Some call \<Rightarrow> [(call_wallet call, tx_time tx, label_of (tx_env tx (fst s)) call)]
     | None \<Rightarrow> [])"

definition steps_history :: "Transaction \<Rightarrow> (nat \<times> tx_step) list \<Rightarrow> history" where
  "steps_history tx ss = concat (map (step_history tx) ss)"

section \<open>What the runtime guarantees\<close>

definition precompile_passes :: "(bytes \<Rightarrow> bytes \<Rightarrow> bytes \<Rightarrow> bool) \<Rightarrow> Instruction \<Rightarrow> bool" where
  "precompile_passes valid ix \<longleftrightarrow> (ix_program_id ix = SECP256R1_PROGRAM_ID \<longrightarrow>
     (\<forall>pad pk sig msg. length pk = COMPRESSED_PUBKEY_LEN \<longrightarrow> length sig = P256_SIGNATURE_LEN \<longrightarrow>
        length msg < 2 ^ 16 \<longrightarrow> ix_data ix = precompile_data pad pk sig msg \<longrightarrow> valid pk sig msg))"

definition wf_step :: "runtime \<Rightarrow> bytes set \<Rightarrow> tx_step \<Rightarrow> bool" where
  "wf_step rt ids s \<longleftrightarrow> (case s of
       Invoke ix \<Rightarrow> (\<forall>m \<in> set (ix_accounts ix). length (meta_pubkey m) = 32)
         \<and> (\<forall>call. dispatch (ix_data ix) = Inr call \<longrightarrow> call_wallet call \<in> ids)
     | Outside f \<Rightarrow> (\<forall>b b'. f b = Inr b' \<longrightarrow> external_step rt ids b b'))"

definition wf_tx ::
  "runtime \<Rightarrow> bytes set \<Rightarrow> (bytes \<Rightarrow> bytes \<Rightarrow> bytes \<Rightarrow> bool) \<Rightarrow> Transaction \<Rightarrow> bool" where
  "wf_tx rt ids valid tx \<longleftrightarrow>
     (\<exists>now. tx_clock tx = Inr now \<and> sint now < I64_MAX)
     \<and> (\<forall>(ix, steps) \<in> set (tx_instructions tx). precompile_passes valid ix
         \<and> (ix_program_id ix = PROGRAM_ID \<longrightarrow> steps = [Invoke ix])
         \<and> (\<forall>s \<in> set steps. wf_step rt ids s))"

text \<open>The all-zero array is no curve point.\<close>

definition zero_key_signs_nothing :: "(bytes \<Rightarrow> bytes \<Rightarrow> bytes \<Rightarrow> bool) \<Rightarrow> bool" where
  "zero_key_signs_nothing valid \<longleftrightarrow> (\<forall>sig msg. \<not> valid zero_key sig msg)"

lemma tx_step_place:
  assumes "(i, s) \<in> set (tx_steps tx)"
  shows "i < length (tx_instructions tx)" "s \<in> set (snd (tx_instructions tx ! i))"
  using assms by (auto simp: tx_steps_def)

lemma wf_tx_instruction:
  assumes "wf_tx rt ids valid tx" "i < length (tx_instructions tx)"
  shows "precompile_passes valid (fst (tx_instructions tx ! i))"
    "s \<in> set (snd (tx_instructions tx ! i)) \<Longrightarrow> wf_step rt ids s"
  using assms(1) nth_mem [OF assms(2)]
  by (cases "tx_instructions tx ! i"; fastforce simp: wf_tx_def)+

lemma tx_previous_signed:
  assumes "wf_tx rt ids valid tx" "i < length (tx_instructions tx)"
    and "load_secp256r1_payload (env_previous (tx_env tx i)) = Inr pl"
  obtains pad sig where "0 < i"
    "ix_data (fst (tx_instructions tx ! (i - 1))) = precompile_data pad (pl_pubkey pl) sig (pl_message pl)"
    "valid (pl_pubkey pl) sig (pl_message pl)"
proof -
  from assms(3) obtain pad sig where i: "0 < i" and
    ix: "ix_program_id (fst (tx_instructions tx ! (i - 1))) = SECP256R1_PROGRAM_ID"
      "ix_data (fst (tx_instructions tx ! (i - 1))) = precompile_data pad (pl_pubkey pl) sig (pl_message pl)"
    and len: "length (pl_pubkey pl) = COMPRESSED_PUBKEY_LEN" "length sig = P256_SIGNATURE_LEN"
      "length (pl_message pl) < 2 ^ 16"
    by (auto simp: load_payload_iff tx_env_def split: if_splits)
  from i assms(2) have "precompile_passes valid (fst (tx_instructions tx ! (i - 1)))"
    by (intro wf_tx_instruction(1) [OF assms(1)]) simp
  with ix len have "valid (pl_pubkey pl) sig (pl_message pl)"
    unfolding precompile_passes_def by blast
  with i ix(2) that show thesis by blast
qed

lemma tx_good_env:
  assumes "wf_tx rt ids valid tx" "zero_key_signs_nothing valid" "i < length (tx_instructions tx)"
  obtains now where "good_env (tx_env tx i) now" "tx_time tx = sint now"
proof -
  from assms(1) obtain now where now: "tx_clock tx = Inr now" "sint now < I64_MAX"
    by (auto simp: wf_tx_def)
  have "pl_pubkey pl \<noteq> zero_key" if "load_secp256r1_payload (env_previous (tx_env tx i)) = Inr pl" for pl
    using tx_previous_signed [OF assms(1,3) that] assms(2) unfolding zero_key_signs_nothing_def by metis
  with now have "good_env (tx_env tx i) now"
    by (simp add: good_env_def signer_key_set_def tx_env_def)
  with now(1) that show thesis by (simp add: tx_time_def)
qed

section \<open>A transaction is a run\<close>

lemma take_accounts_to:
  assumes "take_accounts call ms = Inr ac" "\<forall>m \<in> set ms. length (meta_pubkey m) = 32"
  shows "length (to_key ac) = 32"
  using assms
  by (cases call) (auto simp: accounts_with_to_def accounts_without_to_def accounts_of_confirm_def
      result_simps no_account_def readonly_def dest: nth_mem)

lemma call_action_wf:
  assumes "wf_args call" "length (to_key ac) = 32" "call_action ac call = Some action"
  shows "wf_action action"
proof -
  have "wf_eguardian (eguardian_of g)" if "wf_guardian g" for g
    using that by (cases g) (simp_all add: wf_guardian_def)
  with assms show ?thesis
    by (cases call) (auto simp: wf_array_def wf_list_def list_all_iff)
qed

text \<open>What an accepted invocation ran.\<close>

lemma invoked_call:
  assumes "wf_tx rt ids valid tx" "zero_key_signs_nothing valid" "i < length (tx_instructions tx)"
    and "s \<in> set (snd (tx_instructions tx ! i))" "step_call s = Some call"
    and "run_step rt tx (i, s) b = Inr (evs, b')"
  obtains ix ac now where "s = Invoke ix" "take_accounts call (ix_accounts ix) = Inr ac"
    "process rt (tx_env tx i) ac call b = Inr (evs, b')" "wf_args call" "length (to_key ac) = 32"
    "good_call ids call" "good_env (tx_env tx i) now" "tx_time tx = sint now"
proof -
  from assms(5) obtain ix where s: "s = Invoke ix" "dispatch (ix_data ix) = Inr call"
    by (auto simp: step_call_iff)
  from assms(6) s obtain ac where run: "take_accounts call (ix_accounts ix) = Inr ac"
      "process rt (tx_env tx i) ac call b = Inr (evs, b')"
    using dispatched_not_event [OF s(2), of rt] by (auto simp: process_instruction_def result_simps)
  have "wf_step rt ids (Invoke ix)"
    using wf_tx_instruction(2) [OF assms(1,3,4)] s(1) by simp
  then have "length (to_key ac) = 32" "call_wallet call \<in> ids"
    using take_accounts_to [OF run(1)] s(2) by (auto simp: wf_step_def)
  moreover have "wf_args call" using s(2) by (simp add: dispatch_iff)
  moreover from this have "wf_call call" using wf_args_call by blast
  moreover obtain now where "good_env (tx_env tx i) now" "tx_time tx = sint now"
    using tx_good_env [OF assms(1-3)] .
  ultimately show thesis using that s(1) run by (simp add: good_call_def)
qed

lemma run_step_runs:
  assumes "wf_tx rt ids valid tx" "zero_key_signs_nothing valid" "i < length (tx_instructions tx)"
    and "s \<in> set (snd (tx_instructions tx ! i))" "run_step rt tx (i, s) b1 = Inr (evs, b2)"
    and "ledger_run rt ids b tr b1" "logged_run rt ids b log b1"
  shows "ledger_run rt ids b (tr @ step_history tx (i, s)) b2 \<and> logged_run rt ids b (log @ evs) b2"
proof (cases "step_call s")
  case None
  then have none: "step_history tx (i, s) = []" by (simp add: step_history_def)
  show ?thesis
  proof (cases s)
    case (Invoke ix)
    with None have "dispatch (ix_data ix) \<noteq> Inr call" for call using step_call_iff [of s call] by simp
    with assms(5) Invoke have "evs = []" "b2 = b1"
      by (auto elim!: process_instruction_cases)
    with none assms(6,7) show ?thesis by simp
  next
    case (Outside f)
    with assms(5) have f: "f b1 = Inr b2" "evs = []" by (auto simp: result_simps)
    with wf_tx_instruction(2) [OF assms(1,3,4)] Outside have "external_step rt ids b1 b2"
      by (auto simp: wf_step_def)
    with none f(2) assms(6,7) show ?thesis
      by (auto intro: ledger_run.external logged_external)
  qed
next
  case (Some call)
  from invoked_call [OF assms(1-4) Some assms(5)] obtain ix ac now
    where run: "process rt (tx_env tx i) ac call b1 = Inr (evs, b2)" "length (to_key ac) = 32"
      "good_call ids call" "good_env (tx_env tx i) now" and now: "tx_time tx = sint now" by metis
  have "step_history tx (i, s) = [(call_wallet call, sint now, label_of (tx_env tx i) call)]"
    by (simp add: step_history_def Some now)
  with ledger_run.instruction [OF assms(6) run(4,3,1)]
    logged_instruction [OF assms(7) run(4,3,2,1)] show ?thesis by simp
qed

lemma run_steps_runs:
  assumes "wf_tx rt ids valid tx" "zero_key_signs_nothing valid" "set ss \<subseteq> set (tx_steps tx)"
    and "run_steps rt tx ss b1 = Inr (evs, b2)"
    and "ledger_run rt ids b tr b1" "logged_run rt ids b log b1"
  shows "ledger_run rt ids b (tr @ steps_history tx ss) b2 \<and> logged_run rt ids b (log @ evs) b2"
  using assms(3-6)
proof (induction ss arbitrary: b1 evs tr log)
  case Nil
  then show ?case by (simp add: steps_history_def)
next
  case (Cons s ss)
  obtain i t where s: "s = (i, t)" by (cases s)
  from Cons.prems(2) obtain evs1 evs2 b3 where run: "run_step rt tx s b1 = Inr (evs1, b3)"
      "run_steps rt tx ss b3 = Inr (evs2, b2)" "evs = evs1 @ evs2"
    by (auto simp: result_simps)
  have "ledger_run rt ids b (tr @ step_history tx s) b3 \<and> logged_run rt ids b (log @ evs1) b3"
    unfolding s using Cons.prems(1) run(1) s tx_step_place [of i t tx]
    by (intro run_step_runs [OF assms(1,2) _ _ _ Cons.prems(3,4)]) auto
  with Cons.IH [OF _ run(2), of "tr @ step_history tx s" "log @ evs1"] Cons.prems(1)
  have "ledger_run rt ids b ((tr @ step_history tx s) @ steps_history tx ss) b2
      \<and> logged_run rt ids b ((log @ evs1) @ evs2) b2" by simp
  then show ?case by (simp add: steps_history_def run(3))
qed

text \<open>A chain of transactions: one that fails leaves the ledger as it was.\<close>

fun run_chain :: "runtime \<Rightarrow> Transaction list \<Rightarrow> bank \<Rightarrow> Event list \<times> history \<times> bank" where
  "run_chain rt [] b = ([], [], b)"
| "run_chain rt (tx # txs) b =
     (case run_transaction rt tx b of
        Inl e \<Rightarrow> run_chain rt txs b
      | Inr (evs, b1) \<Rightarrow> (case run_chain rt txs b1 of
          (evs', tr, b2) \<Rightarrow> (evs @ evs', steps_history tx (tx_steps tx) @ tr, b2)))"

lemma run_chain_runs:
  assumes "zero_key_signs_nothing valid" "\<forall>tx \<in> set txs. wf_tx rt ids valid tx"
    and "run_chain rt txs b1 = (evs, tr', b2)" "ledger_run rt ids b tr b1" "logged_run rt ids b log b1"
  shows "ledger_run rt ids b (tr @ tr') b2 \<and> logged_run rt ids b (log @ evs) b2"
  using assms(2-5)
proof (induction txs arbitrary: b1 evs tr tr' log)
  case Nil
  then show ?case by simp
next
  case (Cons tx txs)
  show ?case
  proof (cases "run_transaction rt tx b1")
    case (Inl e)
    with Cons.prems show ?thesis by (intro Cons.IH [of b1]) simp_all
  next
    case (Inr r)
    obtain evs1 b3 evs2 tr2 where run: "run_transaction rt tx b1 = Inr (evs1, b3)"
      "run_chain rt txs b3 = (evs2, tr2, b2)"
      and r: "evs = evs1 @ evs2" "tr' = steps_history tx (tx_steps tx) @ tr2"
      using Cons.prems(2) Inr by (auto split: prod.splits)
    from run_steps_runs [OF _ assms(1) order_refl run(1) [unfolded run_transaction_def]] Cons.prems
    have "ledger_run rt ids b (tr @ steps_history tx (tx_steps tx)) b3" "logged_run rt ids b (log @ evs1) b3"
      by auto
    with Cons.IH [OF _ run(2), of "tr @ steps_history tx (tx_steps tx)" "log @ evs1"] Cons.prems(1)
    show ?thesis by (simp add: r)
  qed
qed

section \<open>Signatures in a transaction\<close>

lemma two_adjacent:
  assumes "\<not> length (filter P xs) \<le> 1"
  obtains us x vs y ws where "xs = us @ x # vs @ y # ws" "P x" "P y" "\<forall>v \<in> set vs. \<not> P v"
proof -
  from assms obtain x y zs where "filter P xs = x # y # zs"
    by (cases "filter P xs"; cases "tl (filter P xs)") auto
  then obtain us rest where "xs = us @ x # rest" "P x" "filter P rest = y # zs"
    unfolding filter_eq_Cons_iff [of P xs] by metis
  moreover from this(3) obtain vs ws where "rest = vs @ y # ws" "P y" "\<forall>v \<in> set vs. \<not> P v"
    unfolding filter_eq_Cons_iff by metis
  ultimately show thesis using that by simp
qed

lemma tx_steps_at:
  assumes "k < length (tx_instructions tx)"
  obtains before after where "tx_steps tx = before @ map (Pair k) (snd (tx_instructions tx ! k)) @ after"
proof -
  have "[0..<length (tx_instructions tx)] = [0..<k] @ k # [Suc k..<length (tx_instructions tx)]"
    using assms by (metis le0 less_imp_le_nat upt_add_eq_append upt_conv_Cons le_add_diff_inverse)
  then show thesis using that by (simp add: tx_steps_def)
qed

text \<open>Without a signed call, a run of a transaction's steps only confirms.\<close>

lemma unsigned_steps_confirm:
  assumes "\<forall>s \<in> set ss. \<not> signed_step (snd s)" "e \<in> set (steps_history tx ss)"
  shows "snd (snd e) = Confirmed"
proof -
  from assms(2) obtain s where s: "s \<in> set ss" and e: "e \<in> set (step_history tx s)"
    by (auto simp: steps_history_def)
  then obtain call where call: "step_call (snd s) = Some call"
    and e: "snd (snd e) = label_of (tx_env tx (fst s)) call"
    by (cases "step_call (snd s)") (auto simp: step_history_def)
  with s assms(1) have "call_authorization call = None" by (auto simp: signed_step_def)
  with e show ?thesis by (cases call) simp_all
qed

lemma confirmed_none:
  assumes "spec_run sha wid slots a tr a'" "\<forall>e \<in> set tr. snd e = Confirmed" "a = None"
  shows "a' = None"
  using assms
proof induction
  case start
  then show ?case by simp
next
  case (step tr a1 now l a2)
  from step.prems(1) have "l = Confirmed" by simp
  with step show ?case by (auto simp: spec_step_confirmed)
qed

text \<open>Two calls on the same signature, with only unsigned steps between: the second one fails.\<close>

lemma same_signature_twice_fails:
  assumes "runtime_contract rt ids" "ledger_inv rt ids b"
    and "good_call ids call" "good_env env now" "process rt env ac call b = Inr (evs, b1)"
    and "call_authorization call = Some auth" "wf_args call" "length (to_key ac) = 32"
    and "ledger_run rt ids b1 tr b2" "\<forall>e \<in> set tr. snd (snd e) = Confirmed"
    and "good_call ids call2" "process rt env ac2 call2 b2 = Inr (evs2, b3)"
    and "call_authorization call2 = Some auth2" "wf_args call2" "length (to_key ac2) = 32"
  shows False
proof -
  let ?wid = "auth_wallet_id auth"
  obtain action action2 where action: "call_action ac call = Some action" "call_action ac2 call2 = Some action2"
    using assms(6,13) by (cases call; cases call2) auto
  have len: "length ?wid = 32" "length (auth_wallet_id auth2) = 32"
    using wf_args_call [OF assms(7)] wf_args_call [OF assms(14)]
      call_wallet_authorization [OF assms(6)] call_wallet_authorization [OF assms(13)] by simp_all
  have same: "auth = auth2 \<and> action = action2"
    by (rule same_signature_same_call [OF assms(5,12) refl assms(6) action(1) assms(13) action(2)
        len(1) call_action_wf [OF assms(7,8) action(1)] len(2) call_action_wf [OF assms(14,15) action(2)]])
  have wid: "?wid \<in> ids" using assms(3,6) by (simp add: good_call_def call_wallet_authorization)
  have confirmed: "\<forall>e \<in> set (history_of ?wid tr). snd e = Confirmed"
    using assms(10) by (auto simp: history_of_def)
  show False
  proof (cases "wallet_with_id rt b1 ?wid")
    case (Some w)
    then have still_open: "wallet_with_id rt b1 ?wid \<noteq> None" by simp
    have no_close: "\<not> list_ex closes (map snd (history_of ?wid tr))"
      using confirmed by (auto simp: list_ex_iff closes_def)
    have auths: "auth_wallet_id auth2 = ?wid" "auth_nonce auth2 = auth_nonce auth"
      using same by simp_all
    show False
      using spent_authorization_fails [OF assms(1-6) still_open assms(9) no_close assms(11,4,13) auths]
        assms(12) by blast
  next
    case None
    have one: "refines_step rt ids ?wid now (label_of env call) b b1"
      using process_refines [OF assms(1,2) _ _ _ _ _ assms(5), of now] assms(3,4)
        call_wallet_authorization [OF assms(6)] by (simp add: good_env_def good_call_def)
    then have run: "ledger_inv rt ids b2" "spec_run (rt_sha256 rt) ?wid MAX_GUARDIANS (spec_at rt b1 ?wid)
        (history_of ?wid tr) (spec_at rt b2 ?wid)"
      using run_refines [OF assms(9,1)] wid by (auto simp: refines_step_def)
    have none: "spec_at rt b1 ?wid = None" using None by (simp add: spec_at_def)
    then have "spec_at rt b2 ?wid = None" using confirmed_none [OF run(2) confirmed] by simp
    moreover have "refines_step rt ids ?wid now (label_of env call2) b2 b3"
      using process_refines [OF assms(1) run(1) _ _ _ _ _ assms(12), of now] assms(4,11) same
        call_wallet_authorization [OF assms(13)] by (simp add: good_env_def good_call_def)
    moreover have "closes (label_of env call)"
      using spec_step_stays_open one none unfolding refines_step_def by blast
    then have "closes (label_of env call2)"
      using action same by (cases call; cases call2) (auto simp: closes_def)
    ultimately show False
      using first_step [of "rt_sha256 rt" ?wid MAX_GUARDIANS "sint now" "label_of env call2"]
      by (auto simp: refines_step_def closes_def)
  qed
qed

text \<open>The ledger before a step of an accepted transaction.\<close>

lemma step_prefix:
  assumes "runtime_contract rt ids" "ledger_inv rt ids b" "zero_key_signs_nothing valid" "wf_tx rt ids valid tx"
    and "run_transaction rt tx b = Inr (evs, b')" "tx_steps tx = pre @ s # post"
  obtains evs1 b1 evs2 b2 where "run_steps rt tx pre b = Inr (evs1, b1)" "ledger_inv rt ids b1"
    "run_step rt tx s b1 = Inr (evs2, b2)" "\<exists>evs3. run_steps rt tx post b2 = Inr (evs3, b')"
proof -
  from assms(5,6) obtain evs1 b1 evs2 b2 evs3 where run: "run_steps rt tx pre b = Inr (evs1, b1)"
      "run_step rt tx s b1 = Inr (evs2, b2)" "run_steps rt tx post b2 = Inr (evs3, b')"
    by (auto simp: run_transaction_def run_steps_append result_simps)
  have "ledger_run rt ids b ([] @ steps_history tx pre) b1"
    using run_steps_runs [OF assms(4,3) _ run(1) ledger_run.start logged_start] assms(6) by auto
  with run_refines [OF _ assms(1,2)] run that show thesis by blast
qed

text \<open>Who may sign, on the wallet as it is when the call runs.\<close>

lemma signer_entitled:
  assumes "spec_step (rt_sha256 rt) wid MAX_GUARDIANS now (spec_at rt b wid) (Signed pk (unat n) c) a'"
    and "label_of env call = Signed pk (unat n) c" "call_action ac call = Some action"
  shows "case wallet_with_id rt b wid of
         None \<Rightarrow> rt_sha256 rt pk = wid \<and> n = 0
       | Some w \<Rightarrow> n = sw_nonce w
           \<and> (pk = sw_active_key w
              \<or> (\<exists>new. action = ProposeRotation new) \<and> Some pk \<in> slot_guardian ` set (sw_guardians w))"
proof (cases "wallet_with_id rt b wid")
  case None
  with first_step [of _ wid] assms(1) show ?thesis by (fastforce simp: spec_at_def unat_eq_0)
next
  case (Some w)
  note open_step = assms(1) [unfolded spec_at_def Some option.map]
  have "n = sw_nonce w" using signed_step_nonce(1) [OF open_step refl] by (simp add: word_unat_eq_iff)
  moreover have "(\<exists>new. action = ProposeRotation new) \<and> Some pk \<in> slot_guardian ` set (sw_guardians w)"
    if "pk \<noteq> sw_active_key w"
  proof -
    from that have "pk \<noteq> sp_key (spec_of w)" by simp
    with open_step obtain k j where k: "c = Op_Propose k" "j < length (sp_guardians (spec_of w))"
        "sp_guardians (spec_of w) ! j = Some pk"
      by (rule other_signer_proposes)
    from assms(2) k(1) label_of_propose obtain auth fee where "call = Call_ProposeRotation auth k fee" by blast
    with assms(3) have "action = ProposeRotation k" by simp
    moreover have "Some pk \<in> set (sp_guardians (spec_of w))" using k(2,3) by (metis nth_mem)
    ultimately show ?thesis by (simp add: spec_of_def)
  qed
  ultimately show ?thesis by (auto simp: Some)
qed

section \<open>Properties\<close>

text \<open>C12: transactions are runs. Whatever transactions the chain takes, accepted or failed, with whatever
  programs in them that may call this one any number of times: together they are a run of the ledger
  and of the event log, with the calls and the events of the accepted ones in their order. So the
  invariant holds after them, every wallet took the steps of its abstract machine, and replaying the
  events gives what it stores.\<close>

theorem transactions_are_runs:
  assumes "runtime_contract rt ids" "ledger_inv rt ids b" "zero_key_signs_nothing valid"
    and "\<forall>tx \<in> set txs. wf_tx rt ids valid tx" "run_chain rt txs b = (evs, tr, b')"
  shows "ledger_run rt ids b tr b' \<and> logged_run rt ids b evs b' \<and> ledger_inv rt ids b'
    \<and> (\<forall>wid \<in> ids. view_at rt b' wid = replay wid evs (view_at rt b wid)
        \<and> spec_run (rt_sha256 rt) wid MAX_GUARDIANS (spec_at rt b wid) (history_of wid tr) (spec_at rt b' wid))"
proof -
  have "ledger_run rt ids b ([] @ tr) b'" "logged_run rt ids b ([] @ evs) b'"
    using run_chain_runs [OF assms(3-5) ledger_run.start logged_start] by blast+
  with run_refines [OF _ assms(1,2)] logged_run_replays [OF _ assms(1,2)] show ?thesis by simp
qed

text \<open>C6: one execution per signature. In one top-level instruction of an accepted transaction at most one
  call that needs a signature was executed, however often a program in between invoked this one: every
  such call reads the same precompile instruction, so a second one would be the same call again, with a
  nonce that is spent or on a wallet that was just closed.\<close>

theorem one_execution_per_signature:
  assumes "runtime_contract rt ids" "ledger_inv rt ids b" "zero_key_signs_nothing valid" "wf_tx rt ids valid tx"
    and "run_transaction rt tx b = Inr (evs, b')" "k < length (tx_instructions tx)"
  shows "length (filter signed_step (snd (tx_instructions tx ! k))) \<le> 1"
proof (rule ccontr)
  assume "\<not> ?thesis"
  then obtain us x vs y ws where steps: "snd (tx_instructions tx ! k) = us @ x # vs @ y # ws"
    and xy: "signed_step x" "signed_step y" and vs: "\<forall>v \<in> set vs. \<not> signed_step v"
    by (rule two_adjacent)
  obtain before after where all: "tx_steps tx = before @ map (Pair k) (us @ x # vs @ y # ws) @ after"
    using tx_steps_at [OF assms(6)] steps by metis
  then have "tx_steps tx = (before @ map (Pair k) us) @ (k, x) # (map (Pair k) vs @ (k, y) # map (Pair k) ws @ after)"
    by simp
  from step_prefix [OF assms(1-5) this] obtain b1 evs1 b2 evs0 where inv: "ledger_inv rt ids b1"
    and one: "run_step rt tx (k, x) b1 = Inr (evs1, b2)"
    and rest: "run_steps rt tx (map (Pair k) vs @ (k, y) # map (Pair k) ws @ after) b2 = Inr (evs0, b')"
    by metis
  from rest obtain evs2 b3 evs3 b4 where mid: "run_steps rt tx (map (Pair k) vs) b2 = Inr (evs2, b3)"
    and two: "run_step rt tx (k, y) b3 = Inr (evs3, b4)"
    by (auto simp: run_steps_append result_simps)
  have "ledger_run rt ids b2 ([] @ steps_history tx (map (Pair k) vs)) b3"
    using run_steps_runs [OF assms(4,3) _ mid ledger_run.start logged_start] all by auto
  moreover have "\<forall>e \<in> set ([] @ steps_history tx (map (Pair k) vs)). snd (snd e) = Confirmed"
    using vs unsigned_steps_confirm [of "map (Pair k) vs"] by auto
  moreover from xy obtain cx ax cy ay where c: "step_call x = Some cx" "call_authorization cx = Some ax"
      "step_call y = Some cy" "call_authorization cy = Some ay"
    by (auto simp: signed_step_def split: option.splits)
  moreover obtain acx now where "process rt (tx_env tx k) acx cx b1 = Inr (evs1, b2)" "wf_args cx"
      "length (to_key acx) = 32" "good_call ids cx" "good_env (tx_env tx k) now"
    using invoked_call [OF assms(4,3,6) _ c(1) one] steps by (metis in_set_conv_decomp)
  moreover obtain acy where "process rt (tx_env tx k) acy cy b3 = Inr (evs3, b4)" "wf_args cy"
      "length (to_key acy) = 32" "good_call ids cy"
    using invoked_call [OF assms(4,3,6) _ c(3) two] steps by (metis append.assoc append_Cons in_set_conv_decomp)
  ultimately show False using same_signature_twice_fails [OF assms(1) inv] by metis
qed

text \<open>C3: every call a transaction executed was signed for. The precompile instruction just before the
  top-level instruction holds a valid signature over exactly the preimage of the call, with all its
  arguments, and the authorization had not expired; the key is, when the call runs, the active key of
  the wallet, or the key of one of its guardians and the call a proposal, or the key whose hash is the
  id of the wallet that does not exist yet; and the nonce is the one the wallet stores.\<close>

theorem executed_calls_are_signed:
  assumes "runtime_contract rt ids" "ledger_inv rt ids b" "zero_key_signs_nothing valid" "wf_tx rt ids valid tx"
    and "run_transaction rt tx b = Inr (evs, b')" "tx_steps tx = pre @ (i, Invoke ix) # post"
    and "dispatch (ix_data ix) = Inr call" "take_accounts call (ix_accounts ix) = Inr ac"
    and "call_authorization call = Some auth" "call_action ac call = Some action"
  shows "\<exists>pad pk sig evs1 b1. 0 < i
    \<and> ix_data (fst (tx_instructions tx ! (i - 1)))
        = precompile_data pad pk sig (to_bytes (expected_preimage auth action))
    \<and> valid pk sig (to_bytes (expected_preimage auth action))
    \<and> tx_time tx < sint (auth_expires_at auth)
    \<and> run_steps rt tx pre b = Inr (evs1, b1)
    \<and> (case wallet_with_id rt b1 (auth_wallet_id auth) of
         None \<Rightarrow> rt_sha256 rt pk = auth_wallet_id auth \<and> auth_nonce auth = 0
       | Some w \<Rightarrow> auth_nonce auth = sw_nonce w
           \<and> (pk = sw_active_key w
              \<or> (\<exists>new. action = ProposeRotation new) \<and> Some pk \<in> slot_guardian ` set (sw_guardians w)))"
proof -
  let ?wid = "auth_wallet_id auth" and ?env = "tx_env tx i"
  from step_prefix [OF assms(1-6)] obtain evs1 b1 evs2 b2 where pre: "run_steps rt tx pre b = Inr (evs1, b1)"
    and inv: "ledger_inv rt ids b1" and step: "run_step rt tx (i, Invoke ix) b1 = Inr (evs2, b2)" by metis
  have place: "i < length (tx_instructions tx)" "Invoke ix \<in> set (snd (tx_instructions tx ! i))"
    using tx_step_place [of i "Invoke ix" tx] assms(6) by simp_all
  have called: "step_call (Invoke ix) = Some call" using assms(7) by (simp add: step_call_iff)
  from invoked_call [OF assms(4,3) place called step] assms(8) obtain now
    where run: "process rt ?env ac call b1 = Inr (evs2, b2)" and good: "good_call ids call" "good_env ?env now"
      and now: "tx_time tx = sint now" by (metis sum.inject(2) tx_step.inject(1))
  from process_signed [OF run assms(9,10)] obtain pl t where pl: "load_secp256r1_payload (env_previous ?env) = Inr pl"
      "pl_message pl = to_bytes (expected_preimage auth action)"
    and t: "env_clock ?env = Inr t" "sint t < sint (auth_expires_at auth)" .
  from t good(2) now have time: "tx_time tx < sint (auth_expires_at auth)" by (simp add: good_env_def)
  from tx_previous_signed [OF assms(4) place(1) pl(1)] obtain pad sig where i: "0 < i"
    and data: "ix_data (fst (tx_instructions tx ! (i - 1))) = precompile_data pad (pl_pubkey pl) sig (pl_message pl)"
    and valid: "valid (pl_pubkey pl) sig (pl_message pl)" .
  have signer: "signer_of ?env = pl_pubkey pl" by (simp add: signer_of_def pl(1))
  obtain c where c: "label_of ?env call = Signed (pl_pubkey pl) (unat (auth_nonce auth)) c"
    using label_of_signed [OF assms(9), of ?env] signer by auto
  have spec: "spec_step (rt_sha256 rt) ?wid MAX_GUARDIANS (sint now) (spec_at rt b1 ?wid)
      (Signed (pl_pubkey pl) (unat (auth_nonce auth)) c) (spec_at rt b2 ?wid)"
    using process_refines [OF assms(1) inv _ _ _ _ _ run, of now] good c
      call_wallet_authorization [OF assms(9)] by (simp add: refines_step_def good_env_def good_call_def)
  have who: "case wallet_with_id rt b1 ?wid of
         None \<Rightarrow> rt_sha256 rt (pl_pubkey pl) = ?wid \<and> auth_nonce auth = 0
       | Some w \<Rightarrow> auth_nonce auth = sw_nonce w
           \<and> (pl_pubkey pl = sw_active_key w
              \<or> (\<exists>new. action = ProposeRotation new)
                \<and> Some (pl_pubkey pl) \<in> slot_guardian ` set (sw_guardians w))"
    by (rule signer_entitled [OF spec c assms(10)])
  show ?thesis
    using i data valid time pre who unfolding pl(2) by blast
qed

section \<open>Witnesses\<close>

text \<open>The owner's first call, relayed: the precompile, the call, and another program that leaves the
  ledger alone. Signatures of anything but the zero key count as good.\<close>

definition demo_ix :: Instruction where
  "demo_ix = client_instruction (Call_SetGuardians (demo_auth 0) demo_guardians 0) (keys_of demo_accounts)"

definition demo_tx :: Transaction where
  "demo_tx = \<lparr>tx_clock = Inr 1000, tx_rent = Inr (\<lambda>_. 890880), tx_instructions =
     [(signed_instruction owner_key (replicate 64 7)
        (to_bytes (expected_preimage (demo_auth 0) (SetGuardians (map eguardian_of demo_guardians)))), []), (demo_ix, [Invoke demo_ix]),
      (\<lparr>ix_program_id = replicate 32 1, ix_accounts = [], ix_data = []\<rparr>, [Outside Inr])]\<rparr>"

definition demo_valid :: "bytes \<Rightarrow> bytes \<Rightarrow> bytes \<Rightarrow> bool" where
  "demo_valid pk sig msg \<longleftrightarrow> pk \<noteq> zero_key"

lemma demo_zero_key: "zero_key_signs_nothing demo_valid"
  by (simp add: zero_key_signs_nothing_def demo_valid_def)

lemma demo_tx_env: "tx_env demo_tx 1 = guardians_env"
  by (simp add: tx_env_def demo_tx_def guardians_env_def demo_env_def)

lemma demo_tx_steps: "tx_steps demo_tx = [(1, Invoke demo_ix), (2, Outside Inr)]"
  by (simp add: tx_steps_def demo_tx_def upt_rec)

lemma demo_dispatch: "dispatch (ix_data demo_ix) = Inr (Call_SetGuardians (demo_auth 0) demo_guardians 0)"
proof -
  have "wf_args (Call_SetGuardians (demo_auth 0) demo_guardians 0)"
    using demo_guardians_wf(1) by (simp add: wf_auth_def demo_id_def wf_array_def)
  then show ?thesis by (simp add: demo_ix_def client_instruction_def dispatch_iff)
qed

lemma demo_program_ids:
  "PROGRAM_ID \<noteq> SECP256R1_PROGRAM_ID" "replicate 32 1 \<noteq> SECP256R1_PROGRAM_ID"
  "replicate 32 1 \<noteq> PROGRAM_ID"
  by code_simp+

lemma demo_signed_passes:
  assumes "length sig = 64"
  shows "precompile_passes demo_valid (signed_instruction owner_key sig msg)"
proof -
  have "pk \<noteq> zero_key" if "length pk = 33" "length sig' = 64"
    "precompile_data 0 owner_key sig msg = precompile_data pad pk sig' msg'" for pk sig' pad msg'
    using that assms precompile_data_parts(1) [of pk sig' pad msg']
      precompile_data_parts(1) [of owner_key sig 0 msg] demo_keys(7) by simp
  then show ?thesis
    unfolding precompile_passes_def signed_instruction_def demo_valid_def layout_simps Instruction.simps
    by blast
qed

lemma demo_program_passes:
  "ix_program_id ix = PROGRAM_ID \<Longrightarrow> precompile_passes valid ix"
  "ix_program_id (signed_instruction pk sig msg) \<noteq> PROGRAM_ID"
  using demo_program_ids by (simp_all add: precompile_passes_def signed_instruction_def)

lemma demo_wf_tx: "wf_tx demo_runtime {demo_id} demo_valid demo_tx"
proof -
  have "\<forall>m \<in> set (ix_accounts demo_ix). length (meta_pubkey m) = 32" by code_simp
  then have "wf_step demo_runtime {demo_id} (Invoke demo_ix)"
    using demo_dispatch by (simp add: wf_step_def)
  moreover have "ix_program_id demo_ix = PROGRAM_ID" by (simp add: demo_ix_def client_instruction_def)
  ultimately show ?thesis
    using demo_program_ids demo_program_passes demo_signed_passes
    by (simp add: wf_tx_def demo_tx_def I64_MAX_def)
      (simp add: wf_step_def external_step_def same_state_def precompile_passes_def)
qed

lemma demo_tx_run:
  "run_transaction demo_runtime demo_tx (demo_unused 0)
    = Inr ([WalletCreated demo_id owner_key, GuardiansSet demo_id demo_guardians], demo_bank guarded_wallet 0)"
  using demo_raw_run [of 0] demo_set_guardians_run [of 0]
  by (simp add: run_transaction_def demo_tx_steps demo_tx_env [simplified] demo_ix_def)

theorem transactions_are_runs_witness:
  "logged_run demo_runtime {demo_id} (demo_unused 0)
     [WalletCreated demo_id owner_key, GuardiansSet demo_id demo_guardians] (demo_bank guarded_wallet 0)"
proof -
  have "run_chain demo_runtime [demo_tx] (demo_unused 0)
    = ([WalletCreated demo_id owner_key, GuardiansSet demo_id demo_guardians],
       steps_history demo_tx (tx_steps demo_tx), demo_bank guarded_wallet 0)"
    by (simp add: demo_tx_run)
  from transactions_are_runs [OF demo_contract demo_ledger_inv(3) demo_zero_key _ this] show ?thesis
    using demo_wf_tx by simp
qed

theorem one_execution_per_signature_witness:
  "length (filter signed_step (snd (tx_instructions demo_tx ! 1))) \<le> 1 \<and> signed_step (Invoke demo_ix)"
proof -
  have "1 < length (tx_instructions demo_tx)" by (simp add: demo_tx_def)
  from one_execution_per_signature [OF demo_contract demo_ledger_inv(3) demo_zero_key demo_wf_tx demo_tx_run this]
  show ?thesis using demo_dispatch by (simp add: signed_step_def step_call_def)
qed

theorem executed_calls_are_signed_witness:
  "\<exists>pk sig. rt_sha256 demo_runtime pk = demo_id \<and> demo_valid pk sig (to_bytes (expected_preimage (demo_auth 0)
     (SetGuardians (map eguardian_of demo_guardians))))"
proof -
  obtain ac where ac: "take_accounts (Call_SetGuardians (demo_auth 0) demo_guardians 0) (ix_accounts demo_ix)
      = Inr ac"
    using take_metas [of "Call_SetGuardians (demo_auth 0) demo_guardians 0" _ "[]"]
    by (simp add: demo_ix_def client_instruction_def)
  have "tx_steps demo_tx = [] @ (1, Invoke demo_ix) # [(2, Outside Inr)]" by (simp add: demo_tx_steps)
  from executed_calls_are_signed [OF demo_contract demo_ledger_inv(3) demo_zero_key demo_wf_tx demo_tx_run this
      demo_dispatch ac call_authorization.simps(2) call_action.simps(2)]
  show ?thesis by (auto simp: demo_wallet_with_id(2))
qed

end
