(* ===== verification/Recovery.thy ===== *)
theory Recovery
  imports History Scenario_Runs
begin

text \<open>
  That a recovery can be finished: a proposal of a guardian, left alone by the owner, is confirmed by
  anyone who asks inside its window. The converse, that nothing else recovers a wallet, is in the root
  theory.
\<close>

text \<open>Transfers and sweeps leave the key and the pending rotation of a machine.\<close>

lemma spends_keep_pending:
  assumes "spec_run sha wid slots (Some w) tr a" "only_spends tr"
  shows "\<exists>w'. a = Some w' \<and> sp_pending w' = sp_pending w \<and> sp_key w' = sp_key w"
  using assms
proof induction
  case start
  then show ?case by simp
next
  case (step tr a1 now l a2)
  then obtain w1 s n where w1: "a1 = Some w1" "sp_pending w1 = sp_pending w" "sp_key w1 = sp_key w"
    and l: "l = Signed s n Op_Spend" by (auto simp: only_spends_def)
  with step.hyps(2) show ?case by (auto simp: spec_step_spend)
qed

text \<open>What a transaction that confirms has to name: the wallet, writable, and the accounts of the event.\<close>

definition confirm_names :: "runtime \<Rightarrow> bytes \<Rightarrow> Accounts \<Rightarrow> bool" where
  "confirm_names rt wid ac \<longleftrightarrow> wallet_key ac = wallet_address rt wid \<and> meta_is_writable (ac_wallet ac)
     \<and> check_event_cpi rt ac = Inr ()"

lemma confirm_loads:
  assumes "address_contract rt ids" "ledger_inv rt ids b" "wid \<in> ids" "wallet_with_id rt b wid = Some w"
    and "confirm_names rt wid ac"
  shows "confirm_accounts rt ac wid b = Inr w"
proof -
  note state = stored_wallet [OF assms(1-4)]
  have "wallet_of_data (account_data w) = Some w"
    using wallet_of_account_data [OF stored_wf [OF state(1)], of "[]"] by simp
  moreover have "rt_create_program_address rt [WALLET_SEED, wid, [sw_state_bump w]]
      = Some (wallet_address rt wid)"
    using state(1) canonical_address [OF assms(1)] by (simp add: stored_def wallet_seeds_def)
  moreover have "rt_system_program rt \<noteq> PROGRAM_ID" using assms(1) by (simp add: address_contract_def)
  ultimately show ?thesis
    using assms(5) state(2,3)
    by (simp add: confirm_accounts_def load_wallet_def read_wallet_def confirm_names_def require_mut_def
        require_that_def ok_or_def)
qed

lemma confirm_in_window:
  assumes "rotation_get (sw_rotation w) = Some p" "env_clock env = Inr now"
    and "sint (pr_proposed_at p) + spec_delay \<le> sint now"
    and "sint now \<le> sint (pr_proposed_at p) + spec_delay + spec_window"
  shows "\<exists>w'. confirm env w = Inr (KeyRotated (sw_wallet_id w) (pr_new_key p) True, w')"
  using assms sint_i64_bounds(2) [of now]
  by (simp add: confirm_Inr_iff sint_opens_at sint_closes_at spec_delay_def spec_window_def)

text \<open>C11: recovery completes. After a guardian's proposal succeeded, if nothing but transfers and sweeps
  succeeded on the wallet since, then from 72 hours after the proposal and for 7 days any transaction that
  confirms and names the right accounts succeeds, needs no signature, makes the proposed key the active
  one and says so in its event.\<close>

theorem recovery_completes:
  assumes "runtime_contract rt ids" "ledger_inv rt ids b"
    and "good_call ids (Call_ProposeRotation auth k fee)" "good_env env now"
    and "process rt env ac (Call_ProposeRotation auth k fee) b = Inr (evs, b1)"
    and "wallet_with_id rt b (auth_wallet_id auth) = Some w" "signer_of env \<noteq> sw_active_key w"
    and "ledger_run rt ids b1 tr b2" "only_spends (history_of (auth_wallet_id auth) tr)"
    and "good_env env2 now2" "confirm_names rt (auth_wallet_id auth) ac2"
    and "sint now + 72 * 60 * 60 \<le> sint now2" "sint now2 \<le> sint now + 72 * 60 * 60 + 7 * 24 * 60 * 60"
  shows "\<exists>b3 w'. process rt env2 ac2 (Call_ConfirmRotation (auth_wallet_id auth)) b2
      = Inr ([KeyRotated (auth_wallet_id auth) k True], b3)
    \<and> wallet_with_id rt b3 (auth_wallet_id auth) = Some w' \<and> sw_active_key w' = k"
proof -
  let ?wid = "auth_wallet_id auth"
  note contract = runtime_contractD(1) [OF assms(1)]
  have wid: "?wid \<in> ids" using assms(3) by (simp add: good_call_def)
  have proposed: "refines_step rt ids ?wid now (label_of env (Call_ProposeRotation auth k fee)) b b1"
    using process_refines [OF assms(1,2) _ _ _ _ _ assms(5), of now] assms(3,4)
    by (simp add: good_env_def good_call_def)
  then obtain s1 i where s1: "spec_at rt b1 ?wid = Some s1" "sp_pending s1 = Some (k, sint now, i)"
    using assms(6,7) by (auto simp: refines_step_def spec_at_def spec_step_propose)
  from proposed have inv1: "ledger_inv rt ids b1" by (simp add: refines_step_def)
  note run = run_refines [OF assms(8,1) inv1]
  from run wid s1(1) have "spec_run (rt_sha256 rt) ?wid MAX_GUARDIANS (Some s1) (history_of ?wid tr)
      (spec_at rt b2 ?wid)" by metis
  from spends_keep_pending [OF this assms(9)] s1(2) obtain w2 where
    w2: "wallet_with_id rt b2 ?wid = Some w2" "sp_pending (spec_of w2) = Some (k, sint now, i)"
    by (auto simp: spec_at_def)
  then obtain p where p: "rotation_get (sw_rotation w2) = Some p" "pr_new_key p = k"
    "sint (pr_proposed_at p) = sint now" by (auto simp: spec_of_def)
  have clock: "env_clock env2 = Inr now2" using assms(10) by (simp add: good_env_def)
  have id: "sw_wallet_id w2 = ?wid"
    using stored_wallet(1) [OF contract _ wid w2(1)] run by (auto simp: stored_def)
  from confirm_in_window [OF p(1) clock] p(2,3) id assms(12,13) obtain w3
    where "confirm env2 w2 = Inr (KeyRotated ?wid k True, w3)"
    by (auto simp: spec_delay_def spec_window_def)
  then have confirmed: "process rt env2 ac2 (Call_ConfirmRotation ?wid) b2
      = Inr ([KeyRotated ?wid k True], store_wallet (wallet_key ac2) w3 b2)"
    using confirm_loads [OF contract _ wid w2(1) assms(11)] run by (simp add: confirm_rotation_def)
  then have "refines_step rt ids ?wid now2 Confirmed b2 (store_wallet (wallet_key ac2) w3 b2)"
    using process_refines [OF assms(1) _ _ _ _ _ _ confirmed, of now2] assms(10) wid run
    by (simp add: good_env_def wf_call_def)
  then obtain w' where "wallet_with_id rt (store_wallet (wallet_key ac2) w3 b2) ?wid = Some w'"
    "sw_active_key w' = k"
    using w2 by (auto simp: refines_step_def spec_step_confirmed spec_at_def) (auto simp: spec_of_def)
  with confirmed show ?thesis by blast
qed

theorem recovery_completes_witness:
  "\<exists>b w. process demo_runtime (confirm_env 260200) demo_accounts (Call_ConfirmRotation demo_id)
       (demo_bank (pending_wallet 1000) 0) = Inr ([KeyRotated demo_id device_key True], b)
     \<and> wallet_with_id demo_runtime b demo_id = Some w \<and> sw_active_key w = device_key"
proof -
  have run: "process demo_runtime (propose_env 1000) demo_accounts
       (Call_ProposeRotation (demo_auth 1) device_key 0) (demo_bank guarded_wallet 0)
    = Inr ([RotationProposed demo_id device_key guardian_key (saturating_add 1000 ROTATION_DELAY)],
        demo_bank (pending_wallet 1000) 0)" by (rule demo_propose_run) simp
  have wallet: "wallet_with_id demo_runtime (demo_bank guarded_wallet 0) (auth_wallet_id (demo_auth 1))
      = Some guarded_wallet"
    using demo_wallet_with_id(1) [OF guarded_wallet_state] by simp
  have signer: "signer_of (propose_env 1000) \<noteq> sw_active_key guarded_wallet"
    using demo_envs(4) demo_keys(4) [THEN not_sym] by simp
  have accounts: "confirm_names demo_runtime (auth_wallet_id (demo_auth 1)) demo_accounts"
    by code_simp
  from recovery_completes [OF demo_contract demo_ledger_inv(1) demo_calls(2) demo_envs(3) run
      wallet signer ledger_run.start _ demo_envs(5) accounts]
  show ?thesis by simp
qed

end
