(* ===== verification/Encoding_Tests.thy ===== *)
theory Encoding_Tests
  imports Preimage Layout
begin

text \<open>
  The unit tests of the crate \<open>enclavekit-encoding\<close> (\<open>mod tests\<close> of \<open>action.rs\<close>, \<open>preimage.rs\<close> and
  \<open>state.rs\<close>), as booleans on the model: each holds, by evaluation, so the model gives the results the
  authors check of the code. An \<open>assert_eq!\<close> is an equation, \<open>unwrap()\<close> a \<open>Some\<close>. The tests of
  \<open>wallet.rs\<close> check SHA-256, which is a parameter here.
\<close>

section \<open>action.rs\<close>

definition unit_variant_is_its_index_only :: bool where
  "unit_variant_is_its_index_only \<longleftrightarrow> enc_action CancelRotation = [3]"

definition transfer_sol_is_index_then_fields_in_order :: bool where
  "transfer_sol_is_index_then_fields_in_order \<longleftrightarrow>
     enc_action (TransferSol (replicate 32 0x11) 500000000)
       = [0] @ replicate 32 0x11 @ word_to_le 8 (500000000 :: u64)"

definition test_actions :: "Action list" where
  "test_actions =
     [TransferSol (replicate 32 0x11) 1,
      TransferToken (replicate 32 0x22) (replicate 32 0x33) 2,
      ProposeRotation (replicate 33 0x44),
      CancelRotation,
      SetGuardians [EGuardian_P256 (replicate 33 0x55), EGuardian_None, EGuardian_None],
      SweepVault (replicate 32 0x66),
      CloseWallet (replicate 32 0x67)]"

definition every_variant_round_trips :: bool where
  "every_variant_round_trips \<longleftrightarrow>
     list_all (\<lambda>(index, action). let bytes = enc_action action in
       unat (hd bytes) = index \<and> try_from_slice bytes = Some action) (enumerate 0 test_actions)"

section \<open>preimage.rs\<close>

definition sample_action :: Action where
  "sample_action = TransferSol (replicate 32 0x11) 500000000"

definition sample :: "Action \<Rightarrow> Preimage" where
  "sample action = \<lparr>
     pre_program_id = replicate 32 0xAA,
     pre_wallet_id = replicate 32 0xBB,
     pre_nonce = 7,
     pre_expires_at = 1700000000,
     pre_max_relayer_fee = 10000,
     pre_action = action\<rparr>"

text \<open>\<open>&bytes[a..b]\<close>.\<close>

definition between :: "nat \<Rightarrow> nat \<Rightarrow> bytes \<Rightarrow> bytes" where
  "between a b bs = slice a (b - a) bs"

definition header_offsets_match_layout :: bool where
  "header_offsets_match_layout \<longleftrightarrow> (let bytes = to_bytes (sample sample_action) in
     take 16 bytes = DOMAIN_TAG
     \<and> between PROGRAM_ID_OFFSET PREIMAGE_WALLET_ID_OFFSET bytes = replicate 32 0xAA
     \<and> between PREIMAGE_WALLET_ID_OFFSET PREIMAGE_NONCE_OFFSET bytes = replicate 32 0xBB
     \<and> between PREIMAGE_NONCE_OFFSET EXPIRES_AT_OFFSET bytes = word_to_le 8 (7 :: u64)
     \<and> between EXPIRES_AT_OFFSET MAX_RELAYER_FEE_OFFSET bytes = word_to_le 8 (1700000000 :: i64)
     \<and> between MAX_RELAYER_FEE_OFFSET ACTION_OFFSET bytes = word_to_le 8 (10000 :: u64)
     \<and> drop ACTION_OFFSET bytes = enc_action sample_action)"

definition transfer_sol_preimage_has_expected_length :: bool where
  "transfer_sol_preimage_has_expected_length \<longleftrightarrow>
     length (to_bytes (sample sample_action)) = HEADER_LEN + 1 + 32 + 8"

definition changing_any_field_changes_the_bytes :: bool where
  "changing_any_field_changes_the_bytes \<longleftrightarrow>
     (let base = sample sample_action; reference = to_bytes base;
          flipped = (pre_wallet_id base)[0 := pre_wallet_id base ! 0 XOR 1] in
      to_bytes (base\<lparr>pre_nonce := pre_nonce base + 1\<rparr>) \<noteq> reference
      \<and> to_bytes (base\<lparr>pre_max_relayer_fee := pre_max_relayer_fee base + 1\<rparr>) \<noteq> reference
      \<and> to_bytes (base\<lparr>pre_wallet_id := flipped\<rparr>) \<noteq> reference
      \<and> to_bytes (sample (TransferSol (replicate 32 0x11) 500000001)) \<noteq> reference)"

section \<open>state.rs\<close>

definition offsets_match_the_documented_layout :: bool where
  "offsets_match_the_documented_layout \<longleftrightarrow>
     ACTIVE_KEY_OFFSET = 40 \<and> GUARDIANS_OFFSET = 82 \<and> GUARDIAN_SLOT_LEN = 66
     \<and> map guardian_key_offset [0, 1, 2] = [83, 149, 215]
     \<and> guardian_rp_id_hash_offset 0 = 116
     \<and> ROTATION_OFFSET = 280 \<and> ROTATION_NEW_KEY_OFFSET = 281
     \<and> ROTATION_PROPOSED_AT_OFFSET = 314 \<and> ROTATION_PROPOSED_BY_OFFSET = 322
     \<and> STATE_BUMP_OFFSET = 323 \<and> VAULT_BUMP_OFFSET = 324 \<and> STATE_LEN = 325"

section \<open>The tests pass\<close>

lemma action_tests_pass:
  "unit_variant_is_its_index_only" "transfer_sol_is_index_then_fields_in_order"
  "every_variant_round_trips"
  by (code_simp, code_simp, code_simp)

lemma preimage_tests_pass:
  "header_offsets_match_layout" "transfer_sol_preimage_has_expected_length"
  "changing_any_field_changes_the_bytes"
  by (code_simp, code_simp, code_simp)

lemma layout_tests_pass: "offsets_match_the_documented_layout"
  by code_simp

end
