(* ===== verification/Hex.thy ===== *)
theory Hex
  imports Prelude
begin

text \<open>
  Hexadecimal text, as \<open>gen-vectors\<close> and the example \<open>kora_transfer_sol\<close> write it (\<open>hex\<close>: two
  lowercase digits per byte) and as the example reads it (\<open>u8::from_str_radix(.., 16)\<close>, which takes
  either case and a leading plus sign). A Rust string is the list of its UTF-8 bytes, as characters.
\<close>

definition hex_digit :: "int \<Rightarrow> char" where
  "hex_digit d = ''0123456789abcdef'' ! nat d"

definition hex_byte :: "byte \<Rightarrow> string" where
  "hex_byte b = [hex_digit (uint b div 16), hex_digit (uint b mod 16)]"

definition hex :: "bytes \<Rightarrow> string" where
  "hex bs = concat (map hex_byte bs)"

text \<open>\<open>char::to_digit(16)\<close>\<close>

definition hex_value :: "char \<Rightarrow> int option" where
  "hex_value c = map_of (zip ''0123456789abcdefABCDEF'' [0, 1, 2, 3, 4, 5, 6, 7, 8, 9, 10, 11, 12,
     13, 14, 15, 10, 11, 12, 13, 14, 15]) c"

text \<open>\<open>u8::from_str_radix(s, 16)\<close>: no digit and an overflow are errors.\<close>

fun radix16_digits :: "int \<Rightarrow> string \<Rightarrow> int option" where
  "radix16_digits n [] = Some n"
| "radix16_digits n (c # cs) =
     (case hex_value c of None \<Rightarrow> None
      | Some d \<Rightarrow> if 16 * n + d < 256 then radix16_digits (16 * n + d) cs else None)"

definition u8_from_radix16 :: "string \<Rightarrow> byte option" where
  "u8_from_radix16 s =
     (if s = [] \<or> s = ''+'' \<or> s = ''-'' then None
      else map_option word_of_int
        (radix16_digits 0 (if hd s = CHR ''+'' then tl s else s)))"

text \<open>The bytes of a literal, to state what the committed files hold.\<close>

fun hex_literal :: "string \<Rightarrow> bytes" where
  "hex_literal (a # b # r) = the (u8_from_radix16 [a, b]) # hex_literal r"
| "hex_literal s = []"

lemma length_hex [simp]: "length (hex bs) = 2 * length bs"
  by (induction bs) (simp_all add: hex_def hex_byte_def)

lemma hex_simps [simp]: "hex [] = []" "hex (b # bs) = hex_byte b @ hex bs"
  by (simp_all add: hex_def)

text \<open>All sixteen digits, by evaluation.\<close>

lemma hex_digits:
  "list_all (\<lambda>d. hex_value (hex_digit d) = Some d \<and> hex_digit d \<noteq> CHR ''+''
     \<and> hex_digit d \<noteq> CHR ''-'' \<and> \<not> digit7 (hex_digit d)) [0..15]"
  by code_simp

lemma hex_digit_props:
  assumes "0 \<le> d" "d < 16"
  shows "hex_value (hex_digit d) = Some d" "hex_digit d \<noteq> CHR ''+''" "hex_digit d \<noteq> CHR ''-''"
    "\<not> digit7 (hex_digit d)"
proof -
  have "d \<in> set [0..15]" using assms by simp
  with hex_digits show "hex_value (hex_digit d) = Some d" "hex_digit d \<noteq> CHR ''+''"
    "hex_digit d \<noteq> CHR ''-''" "\<not> digit7 (hex_digit d)"
    unfolding list_all_iff by blast+
qed

lemma u8_from_two_digits:
  assumes "0 \<le> h" "h < 16" "0 \<le> l" "l < 16"
  shows "u8_from_radix16 [hex_digit h, hex_digit l] = Some (word_of_int (16 * h + l))"
  using assms by (simp add: u8_from_radix16_def hex_digit_props)

lemma u8_from_hex_byte: "u8_from_radix16 (hex_byte b) = Some b"
proof -
  have "0 \<le> uint b" "uint b < 256" using uint_bounded [of b] by simp_all
  then have "0 \<le> uint b div 16" "uint b div 16 < 16" by linarith+
  then show ?thesis
    unfolding hex_byte_def by (subst u8_from_two_digits) (simp_all only: pos_mod_sign pos_mod_bound
        mult_div_mod_eq word_of_int_uint)
qed

lemma hex_literal_hex: "hex_literal (hex bs) = bs"
proof (induction bs)
  case (Cons b bs)
  then show ?case
    using u8_from_hex_byte [of b] by (simp add: hex_byte_def)
qed simp

lemma hex_inject: "hex a = hex b \<longleftrightarrow> a = b"
  by (metis hex_literal_hex)

end
