(* ===== verification/Json.thy ===== *)
theory Json
  imports Prelude
begin

text \<open>
  JSON values, as \<open>serde_json::Value\<close> holds them, and the accessors the example
  \<open>kora_transfer_sol\<close> reads replies with: indexing never fails, it gives \<open>null\<close> for what is not
  there. An object is the list of its entries in order. A number that is no integer keeps its text.
\<close>

datatype json =
    JNull
  | JBool bool
  | JNumber int
  | JReal string
  | JString string
  | JArray "json list"
  | JObject "(string \<times> json) list"

text \<open>\<open>value.get(field)\<close>\<close>

fun json_get :: "json \<Rightarrow> string \<Rightarrow> json option" where
  "json_get (JObject kvs) field = map_of kvs field"
| "json_get v field = None"

text \<open>\<open>&value[field]\<close> and \<open>&value[index]\<close>\<close>

definition json_field :: "json \<Rightarrow> string \<Rightarrow> json" where
  "json_field v field = (case json_get v field of None \<Rightarrow> JNull | Some x \<Rightarrow> x)"

fun json_element :: "json \<Rightarrow> nat \<Rightarrow> json" where
  "json_element (JArray vs) i = (if i < length vs then vs ! i else JNull)"
| "json_element v i = JNull"

fun json_as_str :: "json \<Rightarrow> string option" where
  "json_as_str (JString s) = Some s"
| "json_as_str v = None"

fun json_as_u64 :: "json \<Rightarrow> u64 option" where
  "json_as_u64 (JNumber n) = (if 0 \<le> n \<and> n < 2 ^ 64 then Some (word_of_int n) else None)"
| "json_as_u64 v = None"

definition json_is_null :: "json \<Rightarrow> bool" where
  "json_is_null v \<longleftrightarrow> v = JNull"

definition json_of_u64 :: "u64 \<Rightarrow> json" where
  "json_of_u64 n = JNumber (uint n)"

lemma json_as_u64_of [simp]: "json_as_u64 (json_of_u64 n) = Some n"
  using uint_bounded [of n] by (simp add: json_of_u64_def)

end
