(* ===== verification/Gen_Vectors.thy ===== *)
theory Gen_Vectors
  imports Instruction_Data Hex Json
begin

text \<open>
  \<open>crates/gen-vectors/src/main.rs\<close>: the tool that writes the conformance vectors of \<open>vectors/\<close>, which
  the Swift SDK is tested against. What it takes from other crates is a parameter: the P-256 key and
  its signatures, the builder of the precompile instruction, base58 and base64, the compilation and
  serialisation of transactions, the text of JSON (\<open>toolkit\<close>), and SHA-256 and the derivation of
  addresses (\<open>runtime\<close>). A function that panics returns \<open>None\<close>. A struct that derives \<open>Serialize\<close> is a
  record and a function to JSON, with the fields in declaration order.
\<close>

section \<open>Third-party code\<close>

text \<open>\<open>'k\<close> is a signing key, \<open>'m\<close> a transaction message; a signature is its scalars \<open>r\<close> and \<open>s\<close>.\<close>

type_synonym signature = "bytes \<times> bytes"

record ('k, 'm) toolkit =
  tk_signing_key :: "bytes \<Rightarrow> 'k option"
  tk_sec1_point :: "'k \<Rightarrow> bytes"
  tk_sign :: "'k \<Rightarrow> bytes \<Rightarrow> signature"
  tk_normalize_s :: "signature \<Rightarrow> signature"
  tk_negate :: "bytes \<Rightarrow> bytes"
  tk_from_scalars :: "bytes \<Rightarrow> bytes \<Rightarrow> signature option"
  tk_secp256r1_instruction :: "bytes \<Rightarrow> bytes \<Rightarrow> bytes \<Rightarrow> Instruction"
  tk_base58 :: "bytes \<Rightarrow> string"
  tk_base64 :: "bytes \<Rightarrow> string"
  tk_message :: "Instruction list \<Rightarrow> pubkey option \<Rightarrow> bytes \<Rightarrow> 'm"
  tk_message_bytes :: "'m \<Rightarrow> bytes"
  tk_transaction_bytes :: "bytes list \<Rightarrow> 'm \<Rightarrow> bytes"
  tk_json_pretty :: "json \<Rightarrow> string"

text \<open>The builder of the precompile instruction, as \<open>constants.rs\<close> documents its layout.\<close>

definition secp256r1_contract :: "('k, 'm) toolkit \<Rightarrow> bool" where
  "secp256r1_contract tk \<longleftrightarrow>
     (\<forall>message signature pubkey. length signature = 64 \<longrightarrow> length pubkey = 33 \<longrightarrow>
        tk_secp256r1_instruction tk message signature pubkey
          = signed_instruction pubkey signature message)"

section \<open>Constants\<close>

definition PRIVATE_KEY :: bytes where
  "PRIVATE_KEY = [0x01, 0x02, 0x03, 0x04, 0x05, 0x06, 0x07, 0x08, 0x09, 0x0a, 0x0b, 0x0c, 0x0d, 0x0e,
     0x0f, 0x10, 0x11, 0x12, 0x13, 0x14, 0x15, 0x16, 0x17, 0x18, 0x19, 0x1a, 0x1b, 0x1c, 0x1d, 0x1e,
     0x1f, 0x20]"

definition NONCE :: u64 where
  "NONCE = 7"

definition EXPIRES_AT :: i64 where
  "EXPIRES_AT = 1700000000"

definition MAX_RELAYER_FEE :: u64 where
  "MAX_RELAYER_FEE = 10000"

definition TO :: bytes where
  "TO = replicate 32 0x11"

definition LAMPORTS :: u64 where
  "LAMPORTS = 10000000"

definition NEW_KEY_SEED :: bytes where
  "NEW_KEY_SEED = replicate 32 0x44"

definition GUARDIAN_SEED :: bytes where
  "GUARDIAN_SEED = replicate 32 0x55"

definition EVENT_AUTHORITY_SEED :: bytes where
  "EVENT_AUTHORITY_SEED = ascii ''__event_authority''"

definition RELAYER :: bytes where
  "RELAYER = replicate 32 0x77"

definition BLOCKHASH :: bytes where
  "BLOCKHASH = replicate 32 0x88"

definition RELAYER_FEE :: u64 where
  "RELAYER_FEE = MAX_RELAYER_FEE"

definition PASSKEY_SEED :: bytes where
  "PASSKEY_SEED = replicate 32 0x66"

definition RP_ID :: string where
  "RP_ID = ''example.com''"

definition PROPOSED_AT :: i64 where
  "PROPOSED_AT = 1699000000"

section \<open>The test key\<close>

datatype 'k EnclaveKey = EnclaveKey (signing_key: 'k)

definition from_seed :: "('k, 'm) toolkit \<Rightarrow> bytes \<Rightarrow> 'k EnclaveKey option" where
  "from_seed tk seed = map_option EnclaveKey (tk_signing_key tk seed)"

definition compressed_pubkey :: "('k, 'm) toolkit \<Rightarrow> 'k EnclaveKey \<Rightarrow> bytes option" where
  "compressed_pubkey tk key =
     (let point = tk_sec1_point tk (signing_key key) in
      if length point = 33 then Some point else None)"

definition key_wallet_id :: "runtime \<Rightarrow> ('k, 'm) toolkit \<Rightarrow> 'k EnclaveKey \<Rightarrow> bytes option" where
  "key_wallet_id rt tk key = map_option (wallet_id_of (rt_sha256 rt)) (compressed_pubkey tk key)"

definition key_sign :: "('k, 'm) toolkit \<Rightarrow> 'k EnclaveKey \<Rightarrow> bytes \<Rightarrow> bytes" where
  "key_sign tk key message =
     (let (r, s) = tk_normalize_s tk (tk_sign tk (signing_key key) message) in r @ s)"

definition key_sign_high_s :: "('k, 'm) toolkit \<Rightarrow> 'k EnclaveKey \<Rightarrow> bytes \<Rightarrow> bytes option" where
  "key_sign_high_s tk key message =
     (let (r, s) = tk_normalize_s tk (tk_sign tk (signing_key key) message) in
      map_option (\<lambda>(r, s). r @ s) (tk_from_scalars tk r (tk_negate tk s)))"

text \<open>\<open>Hex\<close> and \<open>render\<close>.\<close>

definition json_hex :: "bytes \<Rightarrow> json" where
  "json_hex bs = JString (hex bs)"

definition render :: "('k, 'm) toolkit \<Rightarrow> json \<Rightarrow> string" where
  "render tk v = tk_json_pretty tk v @ [CHR 10]"

section \<open>key.json\<close>

record Pda =
  pda_address :: string
  pda_bump :: byte

record KeyVector =
  kv_private_key :: bytes
  kv_compressed_pubkey :: bytes
  kv_wallet_id :: bytes
  kv_program_id :: string
  kv_wallet :: Pda
  kv_vault :: Pda
  kv_event_authority :: Pda

definition pda_find :: "runtime \<Rightarrow> ('k, 'm) toolkit \<Rightarrow> bytes list \<Rightarrow> Pda" where
  "pda_find rt tk seeds =
     (let (address, bump) = rt_find_program_address rt seeds in
      \<lparr>pda_address = tk_base58 tk address, pda_bump = bump\<rparr>)"

definition key_vector :: "runtime \<Rightarrow> ('k, 'm) toolkit \<Rightarrow> 'k EnclaveKey \<Rightarrow> KeyVector option" where
  "key_vector rt tk key =
     Option.bind (key_wallet_id rt tk key) (\<lambda>wallet_id.
     Option.bind (compressed_pubkey tk key) (\<lambda>pubkey.
     Some \<lparr>kv_private_key = PRIVATE_KEY,
       kv_compressed_pubkey = pubkey,
       kv_wallet_id = wallet_id,
       kv_program_id = tk_base58 tk PROGRAM_ID,
       kv_wallet = pda_find rt tk [WALLET_SEED, wallet_id],
       kv_vault = pda_find rt tk [VAULT_SEED, wallet_id],
       kv_event_authority = pda_find rt tk [EVENT_AUTHORITY_SEED]\<rparr>))"

definition pda_json :: "Pda \<Rightarrow> json" where
  "pda_json v = JObject [(''address'', JString (pda_address v)), (''bump'', JNumber (uint (pda_bump v)))]"

definition key_vector_json :: "KeyVector \<Rightarrow> json" where
  "key_vector_json v = JObject
     [(''private_key'', json_hex (kv_private_key v)),
      (''compressed_pubkey'', json_hex (kv_compressed_pubkey v)),
      (''wallet_id'', json_hex (kv_wallet_id v)),
      (''program_id'', JString (kv_program_id v)),
      (''wallet'', pda_json (kv_wallet v)),
      (''vault'', pda_json (kv_vault v)),
      (''event_authority'', pda_json (kv_event_authority v))]"

section \<open>actions.json\<close>

record InstructionVector =
  iv_program_id :: string
  iv_data :: bytes

record ActionVector =
  av_name :: string
  av_fields :: json
  av_borsh :: bytes
  av_preimage :: bytes
  av_signature :: bytes
  av_secp256r1_instruction :: InstructionVector

record ActionsVector =
  asv_nonce :: u64
  asv_expires_at :: i64
  asv_max_relayer_fee :: u64
  asv_actions :: "ActionVector list"

text \<open>The public key of a seed.\<close>

definition seed_pubkey :: "('k, 'm) toolkit \<Rightarrow> bytes \<Rightarrow> bytes option" where
  "seed_pubkey tk seed = Option.bind (from_seed tk seed) (compressed_pubkey tk)"

definition cases_list :: "('k, 'm) toolkit \<Rightarrow> (string \<times> Action) list option" where
  "cases_list tk =
     Option.bind (seed_pubkey tk NEW_KEY_SEED) (\<lambda>new_key.
     Option.bind (seed_pubkey tk GUARDIAN_SEED) (\<lambda>guardian.
     Some
       [(''transfer_sol'', TransferSol TO LAMPORTS),
        (''propose_rotation'', ProposeRotation new_key),
        (''cancel_rotation'', CancelRotation),
        (''set_guardians'', SetGuardians [EGuardian_P256 guardian, EGuardian_None, EGuardian_None]),
        (''sweep_vault'', SweepVault TO),
        (''close_wallet'', CloseWallet TO)]))"

primrec guardian_json :: "EGuardian \<Rightarrow> json" where
  "guardian_json EGuardian_None = JString ''None''"
| "guardian_json (EGuardian_P256 key) = JObject [(''P256'', json_hex key)]"
| "guardian_json (EGuardian_WebAuthn key) = JObject [(''WebAuthn'', json_hex key)]"

text \<open>The map of a \<open>Value\<close> is ordered by key. \<open>TransferToken\<close> is a \<open>todo!\<close>.\<close>

primrec fields_json :: "Action \<Rightarrow> json option" where
  "fields_json (TransferSol dest lamports)
     = Some (JObject [(''lamports'', json_of_u64 lamports), (''to'', json_hex dest)])"
| "fields_json (TransferToken mint dest amount) = None"
| "fields_json (ProposeRotation new_key) = Some (JObject [(''new_key'', json_hex new_key)])"
| "fields_json CancelRotation = Some (JObject [])"
| "fields_json (SetGuardians guardians)
     = Some (JObject [(''guardians'', JArray (map guardian_json guardians))])"
| "fields_json (SweepVault dest) = Some (JObject [(''to'', json_hex dest)])"
| "fields_json (CloseWallet dest) = Some (JObject [(''to'', json_hex dest)])"

text \<open>The preimage of an action under the header all vectors share.\<close>

definition vector_preimage :: "bytes \<Rightarrow> Action \<Rightarrow> bytes" where
  "vector_preimage wallet_id action = to_bytes
     \<lparr>pre_program_id = PROGRAM_ID, pre_wallet_id = wallet_id, pre_nonce = NONCE,
      pre_expires_at = EXPIRES_AT, pre_max_relayer_fee = MAX_RELAYER_FEE, pre_action = action\<rparr>"

definition action_vector ::
  "('k, 'm) toolkit \<Rightarrow> 'k EnclaveKey \<Rightarrow> bytes \<Rightarrow> string \<times> Action \<Rightarrow> ActionVector option" where
  "action_vector tk key wallet_id = (\<lambda>(name, action).
     let preimage = vector_preimage wallet_id action;
         signature = key_sign tk key preimage in
     Option.bind (compressed_pubkey tk key) (\<lambda>pubkey.
     let instruction = tk_secp256r1_instruction tk preimage signature pubkey in
     Option.bind (fields_json action) (\<lambda>fields.
     Some \<lparr>av_name = name, av_fields = fields, av_borsh = enc_action action, av_preimage = preimage,
       av_signature = signature,
       av_secp256r1_instruction = \<lparr>iv_program_id = tk_base58 tk (ix_program_id instruction),
         iv_data = ix_data instruction\<rparr>\<rparr>)))"

text \<open>\<open>iter().map(..).collect()\<close>, where an element may panic.\<close>

fun collect :: "('a \<Rightarrow> 'b option) \<Rightarrow> 'a list \<Rightarrow> 'b list option" where
  "collect f [] = Some []"
| "collect f (x # xs) = Option.bind (f x) (\<lambda>y. map_option ((#) y) (collect f xs))"

definition actions_vector :: "runtime \<Rightarrow> ('k, 'm) toolkit \<Rightarrow> 'k EnclaveKey \<Rightarrow> ActionsVector option" where
  "actions_vector rt tk key =
     Option.bind (key_wallet_id rt tk key) (\<lambda>wallet_id.
     Option.bind (cases_list tk) (\<lambda>cases.
     Option.bind (collect (action_vector tk key wallet_id) cases) (\<lambda>actions.
     Some \<lparr>asv_nonce = NONCE, asv_expires_at = EXPIRES_AT, asv_max_relayer_fee = MAX_RELAYER_FEE,
       asv_actions = actions\<rparr>)))"

definition instruction_vector_json :: "InstructionVector \<Rightarrow> json" where
  "instruction_vector_json v
     = JObject [(''program_id'', JString (iv_program_id v)), (''data'', json_hex (iv_data v))]"

definition action_vector_json :: "ActionVector \<Rightarrow> json" where
  "action_vector_json v = JObject
     [(''name'', JString (av_name v)),
      (''fields'', av_fields v),
      (''borsh'', json_hex (av_borsh v)),
      (''preimage'', json_hex (av_preimage v)),
      (''signature'', json_hex (av_signature v)),
      (''secp256r1_instruction'', instruction_vector_json (av_secp256r1_instruction v))]"

definition actions_vector_json :: "ActionsVector \<Rightarrow> json" where
  "actions_vector_json v = JObject
     [(''nonce'', json_of_u64 (asv_nonce v)),
      (''expires_at'', JNumber (sint (asv_expires_at v))),
      (''max_relayer_fee'', json_of_u64 (asv_max_relayer_fee v)),
      (''actions'', JArray (map action_vector_json (asv_actions v)))]"

section \<open>high\_s.json\<close>

record HighSVector =
  hs_message :: bytes
  hs_high_s :: bytes
  hs_low_s :: bytes

definition high_s_vector :: "('k, 'm) toolkit \<Rightarrow> 'k EnclaveKey \<Rightarrow> HighSVector option" where
  "high_s_vector tk key =
     (let message = ascii ''enclavekit high-S vector'' in
      Option.bind (key_sign_high_s tk key message) (\<lambda>high_s.
      Some \<lparr>hs_message = message, hs_high_s = high_s, hs_low_s = key_sign tk key message\<rparr>))"

definition high_s_vector_json :: "HighSVector \<Rightarrow> json" where
  "high_s_vector_json v = JObject
     [(''message'', json_hex (hs_message v)),
      (''high_s'', json_hex (hs_high_s v)),
      (''low_s'', json_hex (hs_low_s v))]"

end
