(* ===== verification/Gen_Transactions.thy ===== *)
theory Gen_Transactions
  imports Gen_Vectors
begin

text \<open>
  \<open>crates/gen-vectors/src/main.rs\<close>, the sections \<open>instructions.json\<close> and \<open>transaction.json\<close>: the
  program instruction of every case, encoded by Anchor's client side (\<open>client_instruction\<close>), and the
  transaction around the first one. An action without an instruction is a \<open>todo!\<close>, hence \<open>None\<close>.
\<close>

section \<open>The program instruction of an action\<close>

text \<open>The header of the arguments, under the values all vectors share.\<close>

definition vector_authorization :: "bytes \<Rightarrow> Authorization" where
  "vector_authorization wallet_id = \<lparr>auth_wallet_id = wallet_id, auth_nonce = NONCE,
     auth_expires_at = EXPIRES_AT, auth_max_relayer_fee = MAX_RELAYER_FEE\<rparr>"

primrec program_guardian :: "EGuardian \<Rightarrow> Guardian" where
  "program_guardian EGuardian_None = Guardian_None"
| "program_guardian (EGuardian_P256 key) = Guardian_P256 key"
| "program_guardian (EGuardian_WebAuthn key) = Guardian_WebAuthn key"

text \<open>The accounts; \<open>dest\<close> is the field \<open>to\<close>, which only three of the structs have.\<close>

definition vector_accounts :: "runtime \<Rightarrow> bytes \<Rightarrow> pubkey \<Rightarrow> AccountKeys" where
  "vector_accounts rt wallet_id dest =
     \<lparr>ak_wallet = fst (rt_find_program_address rt [WALLET_SEED, wallet_id]),
      ak_vault = fst (rt_find_program_address rt [VAULT_SEED, wallet_id]),
      ak_to = dest,
      ak_relayer = RELAYER,
      ak_instructions_sysvar = rt_instructions_sysvar rt,
      ak_system_program = rt_system_program rt,
      ak_event_authority = fst (rt_find_program_address rt [EVENT_AUTHORITY_SEED]),
      ak_program = PROGRAM_ID\<rparr>"

primrec program_instruction :: "runtime \<Rightarrow> Action \<Rightarrow> bytes \<Rightarrow> Instruction option" where
  "program_instruction rt (TransferSol dest lamports) wallet_id = Some (client_instruction
     (Call_TransferSol (vector_authorization wallet_id) lamports RELAYER_FEE)
     (vector_accounts rt wallet_id dest))"
| "program_instruction rt (TransferToken mint dest amount) wallet_id = None"
| "program_instruction rt (ProposeRotation new_key) wallet_id = Some (client_instruction
     (Call_ProposeRotation (vector_authorization wallet_id) new_key RELAYER_FEE)
     (vector_accounts rt wallet_id []))"
| "program_instruction rt CancelRotation wallet_id = Some (client_instruction
     (Call_CancelRotation (vector_authorization wallet_id) RELAYER_FEE)
     (vector_accounts rt wallet_id []))"
| "program_instruction rt (SetGuardians guardians) wallet_id = Some (client_instruction
     (Call_SetGuardians (vector_authorization wallet_id) (map program_guardian guardians) RELAYER_FEE)
     (vector_accounts rt wallet_id []))"
| "program_instruction rt (SweepVault dest) wallet_id = Some (client_instruction
     (Call_SweepVault (vector_authorization wallet_id) RELAYER_FEE)
     (vector_accounts rt wallet_id dest))"
| "program_instruction rt (CloseWallet dest) wallet_id = Some (client_instruction
     (Call_CloseWallet (vector_authorization wallet_id) RELAYER_FEE)
     (vector_accounts rt wallet_id dest))"

definition confirm_rotation_instruction :: "runtime \<Rightarrow> bytes \<Rightarrow> Instruction" where
  "confirm_rotation_instruction rt wallet_id =
     client_instruction (Call_ConfirmRotation wallet_id) (vector_accounts rt wallet_id [])"

section \<open>transaction.json\<close>

record AccountMetaVector =
  amv_pubkey :: string
  amv_is_signer :: bool
  amv_is_writable :: bool

record ProgramInstructionVector =
  piv_program_id :: string
  piv_accounts :: "AccountMetaVector list"
  piv_discriminator :: bytes
  piv_data :: bytes

record TransactionVector =
  tv_relayer :: string
  tv_relayer_fee :: u64
  tv_blockhash :: string
  tv_program_instruction :: ProgramInstructionVector
  tv_message :: bytes
  tv_transaction :: string

definition account_meta_vector :: "('k, 'm) toolkit \<Rightarrow> AccountMeta \<Rightarrow> AccountMetaVector" where
  "account_meta_vector tk m = \<lparr>amv_pubkey = tk_base58 tk (meta_pubkey m),
     amv_is_signer = meta_is_signer m, amv_is_writable = meta_is_writable m\<rparr>"

text \<open>\<open>data[..8]\<close> panics on shorter data.\<close>

definition program_instruction_vector ::
  "('k, 'm) toolkit \<Rightarrow> Instruction \<Rightarrow> ProgramInstructionVector option" where
  "program_instruction_vector tk ix =
     (if length (ix_data ix) < 8 then None
      else Some \<lparr>piv_program_id = tk_base58 tk (ix_program_id ix),
        piv_accounts = map (account_meta_vector tk) (ix_accounts ix),
        piv_discriminator = take 8 (ix_data ix),
        piv_data = ix_data ix\<rparr>)"

definition transaction_vector ::
  "runtime \<Rightarrow> ('k, 'm) toolkit \<Rightarrow> 'k EnclaveKey \<Rightarrow> TransactionVector option" where
  "transaction_vector rt tk key =
     Option.bind (key_wallet_id rt tk key) (\<lambda>wallet_id.
     let action = TransferSol TO LAMPORTS;
         preimage = vector_preimage wallet_id action in
     Option.bind (compressed_pubkey tk key) (\<lambda>pubkey.
     let precompile = tk_secp256r1_instruction tk preimage (key_sign tk key preimage) pubkey in
     Option.bind (program_instruction rt action wallet_id) (\<lambda>program.
     Option.bind (program_instruction_vector tk program) (\<lambda>vector.
     let message = tk_message tk [precompile, program] (Some RELAYER) BLOCKHASH in
     Some \<lparr>tv_relayer = tk_base58 tk RELAYER,
       tv_relayer_fee = RELAYER_FEE,
       tv_blockhash = tk_base58 tk BLOCKHASH,
       tv_program_instruction = vector,
       tv_message = tk_message_bytes tk message,
       tv_transaction = tk_base64 tk (tk_transaction_bytes tk [replicate 64 0] message)\<rparr>))))"

definition account_meta_vector_json :: "AccountMetaVector \<Rightarrow> json" where
  "account_meta_vector_json v = JObject
     [(''pubkey'', JString (amv_pubkey v)),
      (''is_signer'', JBool (amv_is_signer v)),
      (''is_writable'', JBool (amv_is_writable v))]"

definition program_instruction_vector_json :: "ProgramInstructionVector \<Rightarrow> json" where
  "program_instruction_vector_json v = JObject
     [(''program_id'', JString (piv_program_id v)),
      (''accounts'', JArray (map account_meta_vector_json (piv_accounts v))),
      (''discriminator'', json_hex (piv_discriminator v)),
      (''data'', json_hex (piv_data v))]"

definition transaction_vector_json :: "TransactionVector \<Rightarrow> json" where
  "transaction_vector_json v = JObject
     [(''relayer'', JString (tv_relayer v)),
      (''relayer_fee'', json_of_u64 (tv_relayer_fee v)),
      (''blockhash'', JString (tv_blockhash v)),
      (''program_instruction'', program_instruction_vector_json (tv_program_instruction v)),
      (''message'', json_hex (tv_message v)),
      (''transaction'', JString (tv_transaction v))]"

section \<open>instructions.json\<close>

record NamedInstructionVector =
  niv_name :: string
  niv_program_instruction :: ProgramInstructionVector

record InstructionsVector =
  isv_relayer :: string
  isv_relayer_fee :: u64
  isv_instructions :: "NamedInstructionVector list"

definition named_instruction_vector ::
  "('k, 'm) toolkit \<Rightarrow> string \<Rightarrow> Instruction \<Rightarrow> NamedInstructionVector option" where
  "named_instruction_vector tk name ix =
     map_option (\<lambda>vector. \<lparr>niv_name = name, niv_program_instruction = vector\<rparr>)
       (program_instruction_vector tk ix)"

definition instructions_vector ::
  "runtime \<Rightarrow> ('k, 'm) toolkit \<Rightarrow> 'k EnclaveKey \<Rightarrow> InstructionsVector option" where
  "instructions_vector rt tk key =
     Option.bind (key_wallet_id rt tk key) (\<lambda>wallet_id.
     Option.bind (cases_list tk) (\<lambda>cases.
     Option.bind (collect (\<lambda>(name, action).
         Option.bind (program_instruction rt action wallet_id) (named_instruction_vector tk name)) cases)
       (\<lambda>instructions.
     Option.bind (named_instruction_vector tk ''confirm_rotation''
         (confirm_rotation_instruction rt wallet_id)) (\<lambda>confirm.
     Some \<lparr>isv_relayer = tk_base58 tk RELAYER,
       isv_relayer_fee = RELAYER_FEE,
       isv_instructions = instructions @ [confirm]\<rparr>))))"

definition named_instruction_vector_json :: "NamedInstructionVector \<Rightarrow> json" where
  "named_instruction_vector_json v = JObject
     [(''name'', JString (niv_name v)),
      (''program_instruction'', program_instruction_vector_json (niv_program_instruction v))]"

definition instructions_vector_json :: "InstructionsVector \<Rightarrow> json" where
  "instructions_vector_json v = JObject
     [(''relayer'', JString (isv_relayer v)),
      (''relayer_fee'', json_of_u64 (isv_relayer_fee v)),
      (''instructions'', JArray (map named_instruction_vector_json (isv_instructions v)))]"

end
