(* ===== verification/Gen_State.thy ===== *)
theory Gen_State
  imports Gen_Transactions
begin

text \<open>
  \<open>crates/gen-vectors/src/main.rs\<close>, the section \<open>state.json\<close>, and the list of all files: two wallets of
  the test key as Anchor stores them, every field as stored, and the offsets devices filter on.
\<close>

section \<open>state.json\<close>

record GuardianSlotFields =
  gsf_kind :: string
  gsf_key :: bytes
  gsf_rp_id_hash :: bytes

record RotationFields =
  rf_pending :: bool
  rf_new_key :: bytes
  rf_proposed_at :: i64
  rf_proposed_by :: byte

record StateFields =
  sf_wallet_id :: bytes
  sf_active_key :: bytes
  sf_nonce :: u64
  sf_attested :: bool
  sf_guardians :: "GuardianSlotFields list"
  sf_rotation :: RotationFields
  sf_state_bump :: byte
  sf_vault_bump :: byte

record GuardianSlotOffsets =
  gso_kind :: nat
  gso_key :: nat
  gso_rp_id_hash :: nat

record RotationOffsets =
  ro_pending :: nat
  ro_new_key :: nat
  ro_proposed_at :: nat
  ro_proposed_by :: nat

record StateOffsets =
  so_wallet_id :: nat
  so_active_key :: nat
  so_nonce :: nat
  so_attested :: nat
  so_guardians :: "GuardianSlotOffsets list"
  so_rotation :: RotationOffsets
  so_state_bump :: nat
  so_vault_bump :: nat

record NamedStateVector =
  nsv_name :: string
  nsv_fields :: StateFields
  nsv_data :: bytes

record StateVector =
  sv_discriminator :: bytes
  sv_size :: nat
  sv_offsets :: StateOffsets
  sv_rp_id :: string
  sv_states :: "NamedStateVector list"

primrec kind_name :: "GuardianKind \<Rightarrow> string" where
  "kind_name Kind_None = ''None''"
| "kind_name Kind_P256 = ''P256''"
| "kind_name Kind_WebAuthn = ''WebAuthn''"

definition state_fields :: "SmartWallet \<Rightarrow> StateFields" where
  "state_fields wallet =
     (let rotation = sw_rotation wallet in
      \<lparr>sf_wallet_id = sw_wallet_id wallet,
       sf_active_key = sw_active_key wallet,
       sf_nonce = sw_nonce wallet,
       sf_attested = sw_attested wallet,
       sf_guardians = map (\<lambda>slot. \<lparr>gsf_kind = kind_name (slot_kind slot), gsf_key = slot_key slot,
         gsf_rp_id_hash = slot_rp_id_hash slot\<rparr>) (sw_guardians wallet),
       sf_rotation = \<lparr>rf_pending = rs_pending rotation,
         rf_new_key = pr_new_key (rs_proposal rotation),
         rf_proposed_at = pr_proposed_at (rs_proposal rotation),
         rf_proposed_by = pr_proposed_by (rs_proposal rotation)\<rparr>,
       sf_state_bump = sw_state_bump wallet,
       sf_vault_bump = sw_vault_bump wallet\<rparr>)"

definition named_state :: "string \<Rightarrow> SmartWallet \<Rightarrow> NamedStateVector" where
  "named_state name wallet
     = \<lparr>nsv_name = name, nsv_fields = state_fields wallet, nsv_data = account_data wallet\<rparr>"

text \<open>The two wallets.\<close>

definition created_state :: "runtime \<Rightarrow> bytes \<Rightarrow> bytes \<Rightarrow> SmartWallet" where
  "created_state rt wallet_id pubkey =
     \<lparr>sw_wallet_id = wallet_id,
      sw_active_key = pubkey,
      sw_nonce = 1,
      sw_attested = False,
      sw_guardians = replicate MAX_GUARDIANS EMPTY_SLOT,
      sw_rotation = EMPTY_ROTATION,
      sw_state_bump = snd (rt_find_program_address rt [WALLET_SEED, wallet_id]),
      sw_vault_bump = snd (rt_find_program_address rt [VAULT_SEED, wallet_id])\<rparr>"

definition recovering_state ::
  "runtime \<Rightarrow> ('k, 'm) toolkit \<Rightarrow> SmartWallet \<Rightarrow> SmartWallet option" where
  "recovering_state rt tk created =
     Option.bind (seed_pubkey tk GUARDIAN_SEED) (\<lambda>guardian.
     Option.bind (seed_pubkey tk PASSKEY_SEED) (\<lambda>passkey.
     Option.bind (seed_pubkey tk NEW_KEY_SEED) (\<lambda>new_key.
     Some (created\<lparr>
       sw_nonce := NONCE,
       sw_attested := True,
       sw_guardians := [EMPTY_SLOT, slot_of (Guardian_P256 guardian),
         \<lparr>slot_kind = Kind_WebAuthn, slot_key = passkey,
          slot_rp_id_hash = rt_sha256 rt (ascii RP_ID)\<rparr>],
       sw_rotation := rotation_new \<lparr>pr_new_key = new_key, pr_proposed_at = PROPOSED_AT,
         pr_proposed_by = 1\<rparr>\<rparr>))))"

definition state_offsets :: StateOffsets where
  "state_offsets =
     \<lparr>so_wallet_id = WALLET_ID_OFFSET,
      so_active_key = ACTIVE_KEY_OFFSET,
      so_nonce = NONCE_OFFSET,
      so_attested = ATTESTED_OFFSET,
      so_guardians = map (\<lambda>i. \<lparr>gso_kind = guardian_kind_offset i, gso_key = guardian_key_offset i,
        gso_rp_id_hash = guardian_rp_id_hash_offset i\<rparr>) [0..<MAX_GUARDIANS],
      so_rotation = \<lparr>ro_pending = ROTATION_OFFSET, ro_new_key = ROTATION_NEW_KEY_OFFSET,
        ro_proposed_at = ROTATION_PROPOSED_AT_OFFSET, ro_proposed_by = ROTATION_PROPOSED_BY_OFFSET\<rparr>,
      so_state_bump = STATE_BUMP_OFFSET,
      so_vault_bump = VAULT_BUMP_OFFSET\<rparr>"

definition state_vector :: "runtime \<Rightarrow> ('k, 'm) toolkit \<Rightarrow> 'k EnclaveKey \<Rightarrow> StateVector option" where
  "state_vector rt tk key =
     Option.bind (key_wallet_id rt tk key) (\<lambda>wallet_id.
     Option.bind (compressed_pubkey tk key) (\<lambda>pubkey.
     let created = created_state rt wallet_id pubkey in
     Option.bind (recovering_state rt tk created) (\<lambda>recovering.
     Some \<lparr>sv_discriminator = DISCRIMINATOR,
       sv_size = STATE_LEN,
       sv_offsets = state_offsets,
       sv_rp_id = RP_ID,
       sv_states = [named_state ''created'' created, named_state ''recovering'' recovering]\<rparr>)))"

section \<open>Serialisation\<close>

definition json_usize :: "nat \<Rightarrow> json" where
  "json_usize n = JNumber (int n)"

definition json_u8 :: "byte \<Rightarrow> json" where
  "json_u8 b = JNumber (uint b)"

definition guardian_slot_fields_json :: "GuardianSlotFields \<Rightarrow> json" where
  "guardian_slot_fields_json v = JObject
     [(''kind'', JString (gsf_kind v)),
      (''key'', json_hex (gsf_key v)),
      (''rp_id_hash'', json_hex (gsf_rp_id_hash v))]"

definition rotation_fields_json :: "RotationFields \<Rightarrow> json" where
  "rotation_fields_json v = JObject
     [(''pending'', JBool (rf_pending v)),
      (''new_key'', json_hex (rf_new_key v)),
      (''proposed_at'', JNumber (sint (rf_proposed_at v))),
      (''proposed_by'', json_u8 (rf_proposed_by v))]"

definition state_fields_json :: "StateFields \<Rightarrow> json" where
  "state_fields_json v = JObject
     [(''wallet_id'', json_hex (sf_wallet_id v)),
      (''active_key'', json_hex (sf_active_key v)),
      (''nonce'', json_of_u64 (sf_nonce v)),
      (''attested'', JBool (sf_attested v)),
      (''guardians'', JArray (map guardian_slot_fields_json (sf_guardians v))),
      (''rotation'', rotation_fields_json (sf_rotation v)),
      (''state_bump'', json_u8 (sf_state_bump v)),
      (''vault_bump'', json_u8 (sf_vault_bump v))]"

definition guardian_slot_offsets_json :: "GuardianSlotOffsets \<Rightarrow> json" where
  "guardian_slot_offsets_json v = JObject
     [(''kind'', json_usize (gso_kind v)),
      (''key'', json_usize (gso_key v)),
      (''rp_id_hash'', json_usize (gso_rp_id_hash v))]"

definition rotation_offsets_json :: "RotationOffsets \<Rightarrow> json" where
  "rotation_offsets_json v = JObject
     [(''pending'', json_usize (ro_pending v)),
      (''new_key'', json_usize (ro_new_key v)),
      (''proposed_at'', json_usize (ro_proposed_at v)),
      (''proposed_by'', json_usize (ro_proposed_by v))]"

definition state_offsets_json :: "StateOffsets \<Rightarrow> json" where
  "state_offsets_json v = JObject
     [(''wallet_id'', json_usize (so_wallet_id v)),
      (''active_key'', json_usize (so_active_key v)),
      (''nonce'', json_usize (so_nonce v)),
      (''attested'', json_usize (so_attested v)),
      (''guardians'', JArray (map guardian_slot_offsets_json (so_guardians v))),
      (''rotation'', rotation_offsets_json (so_rotation v)),
      (''state_bump'', json_usize (so_state_bump v)),
      (''vault_bump'', json_usize (so_vault_bump v))]"

definition named_state_json :: "NamedStateVector \<Rightarrow> json" where
  "named_state_json v = JObject
     [(''name'', JString (nsv_name v)),
      (''fields'', state_fields_json (nsv_fields v)),
      (''data'', json_hex (nsv_data v))]"

definition state_vector_json :: "StateVector \<Rightarrow> json" where
  "state_vector_json v = JObject
     [(''discriminator'', json_hex (sv_discriminator v)),
      (''size'', json_usize (sv_size v)),
      (''offsets'', state_offsets_json (sv_offsets v)),
      (''rp_id'', JString (sv_rp_id v)),
      (''states'', JArray (map named_state_json (sv_states v)))]"

section \<open>Every file\<close>

definition vectors :: "runtime \<Rightarrow> ('k, 'm) toolkit \<Rightarrow> (string \<times> string) list option" where
  "vectors rt tk =
     Option.bind (from_seed tk PRIVATE_KEY) (\<lambda>key.
     Option.bind (key_vector rt tk key) (\<lambda>kv.
     Option.bind (actions_vector rt tk key) (\<lambda>av.
     Option.bind (high_s_vector tk key) (\<lambda>hv.
     Option.bind (transaction_vector rt tk key) (\<lambda>tv.
     Option.bind (instructions_vector rt tk key) (\<lambda>iv.
     Option.bind (state_vector rt tk key) (\<lambda>sv.
     Some
       [(''key.json'', render tk (key_vector_json kv)),
        (''actions.json'', render tk (actions_vector_json av)),
        (''high_s.json'', render tk (high_s_vector_json hv)),
        (''transaction.json'', render tk (transaction_vector_json tv)),
        (''instructions.json'', render tk (instructions_vector_json iv)),
        (''state.json'', render tk (state_vector_json sv))])))))))"

end
