(* ===== verification/Vectors_Execute.thy ===== *)
theory Vectors_Execute
  imports Gen_State Scenario_Runs
begin

text \<open>
  What the vectors mean to the program: the instruction the generator writes for an action runs the
  entry point that rebuilds that action, the signature it writes for it passes the program's check, the
  state \<open>created\<close> is what a first transfer or sweep stores, and the state \<open>recovering\<close> is never stored.
\<close>

section \<open>Instructions\<close>

text \<open>The call an action's instruction carries.\<close>

primrec vector_call :: "bytes \<Rightarrow> Action \<Rightarrow> Call option" where
  "vector_call wid (TransferSol dest lamports)
     = Some (Call_TransferSol (vector_authorization wid) lamports RELAYER_FEE)"
| "vector_call wid (TransferToken mint dest amount) = None"
| "vector_call wid (ProposeRotation new_key)
     = Some (Call_ProposeRotation (vector_authorization wid) new_key RELAYER_FEE)"
| "vector_call wid CancelRotation = Some (Call_CancelRotation (vector_authorization wid) RELAYER_FEE)"
| "vector_call wid (SetGuardians guardians) = Some (Call_SetGuardians (vector_authorization wid)
     (map program_guardian guardians) RELAYER_FEE)"
| "vector_call wid (SweepVault dest) = Some (Call_SweepVault (vector_authorization wid) RELAYER_FEE)"
| "vector_call wid (CloseWallet dest) = Some (Call_CloseWallet (vector_authorization wid) RELAYER_FEE)"

lemma program_guardian_inverse [simp]: "eguardian_of (program_guardian g) = g"
  by (cases g) simp_all

lemma eguardians_inverse [simp]: "map (eguardian_of \<circ> program_guardian) gs = gs"
  by (induction gs) simp_all

lemma vector_call_props:
  assumes "program_instruction rt action wid = Some ix" "wf_action action" "length wid = 32"
  obtains call keys where "vector_call wid action = Some call" "ix = client_instruction call keys"
    "wf_args call" "call_action (accounts_of_keys keys) call = Some action"
    "call_authorization call = Some (vector_authorization wid)"
    "ak_wallet keys = fst (wallet_pda rt wid)" "ak_vault keys = fst (vault_pda rt wid)"
    "ak_relayer keys = RELAYER"
proof -
  have auth: "wf_auth (vector_authorization wid)"
    using assms(3) by (simp add: wf_auth_def vector_authorization_def wf_array_def)
  have "wf_list wf_guardian MAX_GUARDIANS (map program_guardian gs)"
    if "action = SetGuardians gs" for gs
    using assms(2) that by (simp add: wf_list_def list_all_iff wf_guardian_def)
  with assms auth show ?thesis
    by (cases action) (auto intro!: that simp: vector_accounts_def wallet_pda_def vault_pda_def
        accounts_of_keys_def writable_def)
qed

section \<open>Signatures\<close>

lemma vector_preimage_expected:
  "vector_preimage wid action = to_bytes (expected_preimage (vector_authorization wid) action)"
  by (simp add: vector_preimage_def expected_preimage_def vector_authorization_def)

lemma vector_preimage_length:
  assumes "wf_action action" "length wid = 32"
  shows "length (vector_preimage wid action) < 2 ^ 16"
proof -
  have "wf_preimage (expected_preimage (vector_authorization wid) action)"
    using assms by (intro expected_preimage_wf) (simp_all add: vector_authorization_def)
  from to_bytes_length [OF this] show ?thesis
    by (simp add: vector_preimage_expected layout_simps)
qed

lemma vector_payload:
  assumes "secp256r1_contract tk" "compressed_pubkey tk key = Some pubkey"
    and "length (key_sign tk key (vector_preimage wid action)) = 64" "wf_action action" "length wid = 32"
  shows "load_secp256r1_payload (Inr (tk_secp256r1_instruction tk (vector_preimage wid action)
      (key_sign tk key (vector_preimage wid action)) pubkey))
    = Inr \<lparr>pl_pubkey = pubkey, pl_message = vector_preimage wid action\<rparr>"
proof -
  have "length pubkey = 33"
    using assms(2) by (auto simp: compressed_pubkey_def Let_def split: if_splits)
  with assms vector_preimage_length [OF assms(4,5)] show ?thesis
    by (simp add: secp256r1_contract_def load_signed_instruction)
qed

section \<open>States\<close>

lemma stored_fresh:
  assumes "stored rt wid w" "spec_of w = \<lparr>sp_key = k, sp_nonce = 1,
    sp_guardians = replicate MAX_GUARDIANS None, sp_pending = None\<rparr>"
  shows "w = created_state rt wid k"
proof -
  have inv: "wallet_inv w" and id: "sw_wallet_id w = wid" and bumps:
    "sw_state_bump w = snd (wallet_pda rt wid)" "sw_vault_bump w = snd (vault_pda rt wid)"
    using assms(1) by (simp_all add: stored_def)
  have key: "sw_active_key w = k" and nonce: "sw_nonce w = 1"
    and slots: "map slot_guardian (sw_guardians w) = replicate MAX_GUARDIANS None"
    and rot: "rotation_get (sw_rotation w) = None"
    using assms(2) by (simp_all add: spec_of_def word_unat_eq_iff)
  have "s = EMPTY_SLOT" if "s \<in> set (sw_guardians w)" for s
  proof -
    have "good_slot s" using inv that by (simp add: wallet_inv_def list_all_iff)
    have "slot_guardian s \<in> set (replicate MAX_GUARDIANS None)"
      using that unfolding slots [symmetric] by simp
    then have kind: "slot_kind s \<noteq> Kind_P256"
      by (auto simp: slot_guardian_def split: if_splits)
    have "slot_kind s = Kind_P256" if "s = EMPTY_SLOT\<lparr>slot_kind := Kind_P256, slot_key := slot_key s\<rparr>"
      using arg_cong [OF that, of slot_kind] by simp
    with kind \<open>good_slot s\<close> show ?thesis unfolding good_slot_def by blast
  qed
  then have gs: "sw_guardians w = replicate MAX_GUARDIANS EMPTY_SLOT"
    using wallet_invD(4) [OF inv] by (intro replicate_eqI) auto
  have "sw_rotation w = EMPTY_ROTATION"
    using inv rot by (auto simp: wallet_inv_def good_rotation_def rotation_get_def split: if_splits)
  with gs id bumps key nonce wallet_invD(3) [OF inv] show ?thesis
    by (cases w) (simp add: created_state_def wallet_pda_def vault_pda_def)
qed

section \<open>Properties\<close>

text \<open>C25: the instruction the generator writes for an action carries that action. It is addressed to the
  wallet's state and vault, carries the header that was signed and runs, on any ledger and with any
  sysvars, the entry point that rebuilds exactly the signed action from its arguments and accounts.\<close>

theorem vector_instruction_runs_its_action:
  assumes "program_instruction rt action wid = Some ix" "wf_action action" "length wid = 32"
  shows "\<exists>call keys. vector_call wid action = Some call
    \<and> call_authorization call = Some (vector_authorization wid)
    \<and> call_action (accounts_of_keys keys) call = Some action
    \<and> ak_wallet keys = fst (wallet_pda rt wid) \<and> ak_vault keys = fst (vault_pda rt wid)
    \<and> (\<forall>env b. process_instruction rt env ix b = process rt env (accounts_of_keys keys) call b)"
proof -
  obtain call keys where c: "vector_call wid action = Some call" "ix = client_instruction call keys"
    "wf_args call" "call_action (accounts_of_keys keys) call = Some action"
    "call_authorization call = Some (vector_authorization wid)"
    "ak_wallet keys = fst (wallet_pda rt wid)" "ak_vault keys = fst (vault_pda rt wid)"
    using vector_call_props [OF assms] by blast
  have "process_instruction rt env ix b = process rt env (accounts_of_keys keys) call b" for env b
    unfolding c(2) by (rule client_runs [OF c(3)])
  with c show ?thesis by blast
qed

text \<open>C26: the signature the generator writes for an action authorises it. On a wallet of the test key at
  the shared nonce, with the precompile instruction of the vector just before and the clock before the
  shared expiry, the program's check accepts the action with the key of the vector, and the nonce moves
  on by one.\<close>

theorem vector_signature_authorizes:
  assumes "secp256r1_contract tk" "compressed_pubkey tk key = Some pubkey"
    and "length (key_sign tk key (vector_preimage wid action)) = 64" "wf_action action" "length wid = 32"
    and "env_previous env = Inr (tk_secp256r1_instruction tk (vector_preimage wid action)
      (key_sign tk key (vector_preimage wid action)) pubkey)"
    and "env_clock env = Inr now" "sint now < 1700000000"
    and "sw_active_key w = pubkey" "sw_nonce w = NONCE" "\<not> is_new w"
  shows "verify_enclave_authorization rt env w (vector_authorization wid) action sb vb
    = Inr (sw_active_key w, w\<lparr>sw_nonce := 8\<rparr>)"
  using vector_payload [OF assms(1-5)] assms(6-11)
  by (simp add: verify_Inr_iff checked_wallet_def vector_preimage_expected)
    (simp add: vector_authorization_def NONCE_def EXPIRES_AT_def)

text \<open>The state \<open>created\<close> of the vectors is what the program stores for a wallet after its first
  transfer or sweep, for any wallet and signer: the fields, the bumps, no guardian and no rotation.\<close>

theorem created_vector_is_first_state:
  assumes "runtime_contract rt ids" "ledger_inv rt ids b"
    and "good_call ids call" "good_env env now" "process rt env ac call b = Inr (evs, b')"
    and "wallet_with_id rt b (call_wallet call) = None"
    and "\<And>auth gs fee. call \<noteq> Call_SetGuardians auth gs fee"
  shows "wallet_with_id rt b' (call_wallet call)
    = Some (created_state rt (call_wallet call) (signer_of env))"
proof -
  let ?wid = "call_wallet call"
  have wid: "?wid \<in> ids" using assms(3) by (simp add: good_call_def)
  have step: "refines_step rt ids ?wid now (label_of env call) b b'"
    using process_refines [OF assms(1,2) _ _ _ _ _ assms(5), of now] assms(3,4)
    by (simp add: good_env_def good_call_def)
  then have spec: "spec_step (rt_sha256 rt) ?wid MAX_GUARDIANS (sint now) None (label_of env call)
      (spec_at rt b' ?wid)"
    using assms(6) by (simp add: refines_step_def spec_at_def)
  from first_step [OF this] obtain s c where "label_of env call = Signed s 0 c"
    "c = Op_Spend \<or> (\<exists>gs. c = Op_Guardians gs)" by blast
  with assms(7) have "label_of env call = Signed (signer_of env) 0 Op_Spend"
    by (cases call) auto
  with spec have "spec_at rt b' ?wid = Some \<lparr>sp_key = signer_of env, sp_nonce = 1,
      sp_guardians = replicate MAX_GUARDIANS None, sp_pending = None\<rparr>"
    by (auto simp: spec_step_spend split: if_splits)
  then obtain w where w: "wallet_with_id rt b' ?wid = Some w" "spec_of w = \<lparr>sp_key = signer_of env,
      sp_nonce = 1, sp_guardians = replicate MAX_GUARDIANS None, sp_pending = None\<rparr>"
    by (auto simp: spec_at_def)
  have "stored rt ?wid w"
    using step w(1) wid stored_wallet(1) [OF runtime_contractD(1) [OF assms(1)]]
    unfolding refines_step_def by blast
  from stored_fresh [OF this w(2)] w(1) show ?thesis by simp
qed

text \<open>The state \<open>recovering\<close> of the vectors, which holds a passkey guardian and the attested flag, is
  stored in no ledger the program can reach.\<close>

theorem recovering_vector_unreachable:
  assumes "runtime_contract rt ids" "unused_ledger rt ids b" "ledger_run rt ids b tr b'" "wid \<in> ids"
    and "recovering_state rt tk (created_state rt wid' pubkey) = Some w"
  shows "wallet_with_id rt b' wid \<noteq> Some w"
proof
  assume "wallet_with_id rt b' wid = Some w"
  with used_ledger_run(1) [OF assms(3,1,2,4)] stored_wallet(1) [OF runtime_contractD(1) [OF assms(1)]]
  have "\<not> sw_attested w" using assms(4) by (simp add: stored_def wallet_inv_def)
  with assms(5) show False by (auto simp: recovering_state_def bind_eq_Some_conv)
qed

section \<open>Witnesses\<close>

definition demo_toolkit :: "(unit, unit) toolkit" where
  "demo_toolkit = \<lparr>tk_signing_key = (\<lambda>seed. Some ()), tk_sec1_point = (\<lambda>k. owner_key),
     tk_sign = (\<lambda>k m. (replicate 32 1, replicate 32 2)), tk_normalize_s = (\<lambda>s. s),
     tk_negate = (\<lambda>s. s), tk_from_scalars = (\<lambda>r s. Some (r, s)),
     tk_secp256r1_instruction = (\<lambda>m s p. signed_instruction p s m),
     tk_base58 = hex, tk_base64 = hex, tk_message = (\<lambda>ixs payer h. ()),
     tk_message_bytes = (\<lambda>m. []), tk_transaction_bytes = (\<lambda>ss m. []), tk_json_pretty = (\<lambda>v. [])\<rparr>"

theorem vector_instruction_runs_its_action_witness:
  "\<exists>ix keys. program_instruction demo_runtime (SweepVault TO) demo_id = Some ix
     \<and> (\<forall>env b. process_instruction demo_runtime env ix b = process demo_runtime env
         (accounts_of_keys keys) (Call_SweepVault (vector_authorization demo_id) RELAYER_FEE) b)"
proof -
  obtain ix where ix: "program_instruction demo_runtime (SweepVault TO) demo_id = Some ix" by simp
  from vector_instruction_runs_its_action [OF ix] show ?thesis
    using ix by (auto simp: wf_array_def TO_def demo_id_def)
qed

theorem vector_signature_authorizes_witness:
  "verify_enclave_authorization demo_runtime
     \<lparr>env_clock = Inr 1000, env_rent = Inr (\<lambda>_. 0), env_previous = Inr (signed_instruction owner_key
        (replicate 32 1 @ replicate 32 2) (vector_preimage demo_id CancelRotation))\<rparr>
     (demo_wallet\<lparr>sw_nonce := NONCE\<rparr>) (vector_authorization demo_id) CancelRotation 255 255
   = Inr (owner_key, demo_wallet\<lparr>sw_nonce := 8\<rparr>)"
  using vector_signature_authorizes [where tk = demo_toolkit and key = "EnclaveKey ()"
      and pubkey = owner_key and wid = demo_id and action = CancelRotation and now = 1000
      and w = "demo_wallet\<lparr>sw_nonce := NONCE\<rparr>" and rt = demo_runtime and sb = 255 and vb = 255
      and env = "\<lparr>env_clock = Inr 1000, env_rent = Inr (\<lambda>_. 0), env_previous = Inr (signed_instruction
        owner_key (replicate 32 1 @ replicate 32 2) (vector_preimage demo_id CancelRotation))\<rparr>"]
  by (simp add: secp256r1_contract_def demo_toolkit_def compressed_pubkey_def key_sign_def demo_id_def
      is_new_def)

theorem created_vector_is_first_state_witness:
  "wallet_with_id demo_runtime (demo_bank first_wallet 0) demo_id
     = Some (created_state demo_runtime demo_id owner_key)"
proof -
  have env: "good_env sweep_env 1000" "signer_of sweep_env = owner_key"
    unfolding sweep_env_def by (intro demo_good_env; simp add: wf_array_def)+
  have "good_call {demo_id} (Call_SweepVault (demo_auth 0) 0)"
    by (simp add: good_call_def wf_call_def)
  from created_vector_is_first_state [OF demo_contract demo_ledger_inv(3) this env(1) demo_sweep_run]
  show ?thesis using env(2) demo_wallet_with_id(2) [of 0] by simp
qed

theorem recovering_vector_unreachable_witness:
  "\<exists>w. recovering_state demo_runtime demo_toolkit (created_state demo_runtime demo_id owner_key) = Some w
     \<and> wallet_with_id demo_runtime (demo_bank guarded_wallet 0) demo_id \<noteq> Some w"
proof -
  obtain w where w: "recovering_state demo_runtime demo_toolkit
      (created_state demo_runtime demo_id owner_key) = Some w"
    by (simp add: recovering_state_def seed_pubkey_def from_seed_def compressed_pubkey_def
        demo_toolkit_def)
  from recovering_vector_unreachable [OF demo_contract demo_unused_ledger [of 0] demo_run_guardians _ w]
  show ?thesis using w by auto
qed

end
