(* ===== verification/Committed.thy ===== *)
theory Committed
  imports Hex Json
begin

text \<open>
  The six files of \<open>vectors/\<close>, as JSON values: what the repository commits. They are data, read off
  the files, for the theorem that the model of the generator produces them.
\<close>

definition committed_meta :: "string \<Rightarrow> bool \<Rightarrow> bool \<Rightarrow> json" where
  "committed_meta pubkey is_signer is_writable = JObject
     [(''pubkey'', JString pubkey), (''is_signer'', JBool is_signer), (''is_writable'', JBool is_writable)]"

definition committed_slot :: "string \<Rightarrow> string \<Rightarrow> string \<Rightarrow> json" where
  "committed_slot kind key rp_id_hash = JObject
     [(''kind'', JString kind), (''key'', JString key), (''rp_id_hash'', JString rp_id_hash)]"

definition committed_key :: json where
  "committed_key = JObject [
    (''private_key'', JString ''0102030405060708090a0b0c0d0e0f101112131415161718191a1b1c1d1e1f20''),
    (''compressed_pubkey'', JString ''02515c3d6eb9e396b904d3feca7f54fdcd0cc1e997bf375dca515ad0a6c3b4035f''),
    (''wallet_id'', JString ''d284f0626fd0836ce4b1731793fa69059e02668600519365b33c55bd94512735''),
    (''program_id'', JString ''dG4h3aizVEW1bKjzkGsfk6zqcfa2MVn2DjavPniesSY''),
    (''wallet'', JObject [
      (''address'', JString ''EKyNGE7ecVLS8GYLf13LypzugwLbRQuRVNvNQdu9jQxF''),
      (''bump'', JNumber 255)]),
    (''vault'', JObject [
      (''address'', JString ''hYEjxsHxt6UeiMra3eqTxzuWKTWMbC7Q4qjZLV5NpZK''),
      (''bump'', JNumber 255)]),
    (''event_authority'', JObject [
      (''address'', JString ''379q2cQ1cdxigVA1Cs27XxcBKiiNExU2RQGCCNcxYJMW''),
      (''bump'', JNumber 252)])]"

definition committed_actions :: json where
  "committed_actions = JObject [
    (''nonce'', JNumber 7),
    (''expires_at'', JNumber 1700000000),
    (''max_relayer_fee'', JNumber 10000),
    (''actions'', JArray [
      JObject [
        (''name'', JString ''transfer_sol''),
        (''fields'', JObject [
          (''lamports'', JNumber 10000000),
          (''to'', JString ''1111111111111111111111111111111111111111111111111111111111111111'')]),
        (''borsh'', JString (concat [''00111111111111111111111111111111111111111111111111111111111111111180969800000000'',
          ''00''])),
        (''preimage'', JString (concat [''656e636c6176656b69743a76310000000949f10e589643e6e69b0123745a5151bf9c87c5582240b2'',
          ''01c03b5b4ed4e649d284f0626fd0836ce4b1731793fa69059e02668600519365b33c55bd94512735'',
          ''070000000000000000f1536500000000102700000000000000111111111111111111111111111111'',
          ''11111111111111111111111111111111118096980000000000''])),
        (''signature'', JString (concat [''2b179f5aade3fc5d14850d5c2fa0baf147a07c2242ea0bf210e76b7c68c038d3680b7438618cd0b2'',
          ''b211dd0753403badeec65d880349550b03f89d7eb18bd901''])),
        (''secp256r1_instruction'', JObject [
          (''program_id'', JString ''Secp256r1SigVerify1111111111111111111111111''),
          (''data'', JString (concat [''01003100ffff1000ffff71009100ffff02515c3d6eb9e396b904d3feca7f54fdcd0cc1e997bf375d'',
            ''ca515ad0a6c3b4035f2b179f5aade3fc5d14850d5c2fa0baf147a07c2242ea0bf210e76b7c68c038'',
            ''d3680b7438618cd0b2b211dd0753403badeec65d880349550b03f89d7eb18bd901656e636c617665'',
            ''6b69743a76310000000949f10e589643e6e69b0123745a5151bf9c87c5582240b201c03b5b4ed4e6'',
            ''49d284f0626fd0836ce4b1731793fa69059e02668600519365b33c55bd9451273507000000000000'',
            ''0000f153650000000010270000000000000011111111111111111111111111111111111111111111'',
            ''111111111111111111118096980000000000'']))])],
      JObject [
        (''name'', JString ''propose_rotation''),
        (''fields'', JObject [
          (''new_key'', JString ''025b36890dacbd7c9a96bb74a1ee28b3d2d75b72e09a20ef25cf8e6fd8a9f0350d'')]),
        (''borsh'', JString ''02025b36890dacbd7c9a96bb74a1ee28b3d2d75b72e09a20ef25cf8e6fd8a9f0350d''),
        (''preimage'', JString (concat [''656e636c6176656b69743a76310000000949f10e589643e6e69b0123745a5151bf9c87c5582240b2'',
          ''01c03b5b4ed4e649d284f0626fd0836ce4b1731793fa69059e02668600519365b33c55bd94512735'',
          ''070000000000000000f1536500000000102700000000000002025b36890dacbd7c9a96bb74a1ee28'',
          ''b3d2d75b72e09a20ef25cf8e6fd8a9f0350d''])),
        (''signature'', JString (concat [''7391f3119157bfd0dea06148e30ad8fca9d4ac88c60f5397c9e268c6fbc1d7f94ca7bd43fba13b25'',
          ''0483aa87fea69665c494694b421a3f8428cd57c13788b9af''])),
        (''secp256r1_instruction'', JObject [
          (''program_id'', JString ''Secp256r1SigVerify1111111111111111111111111''),
          (''data'', JString (concat [''01003100ffff1000ffff71008a00ffff02515c3d6eb9e396b904d3feca7f54fdcd0cc1e997bf375d'',
            ''ca515ad0a6c3b4035f7391f3119157bfd0dea06148e30ad8fca9d4ac88c60f5397c9e268c6fbc1d7'',
            ''f94ca7bd43fba13b250483aa87fea69665c494694b421a3f8428cd57c13788b9af656e636c617665'',
            ''6b69743a76310000000949f10e589643e6e69b0123745a5151bf9c87c5582240b201c03b5b4ed4e6'',
            ''49d284f0626fd0836ce4b1731793fa69059e02668600519365b33c55bd9451273507000000000000'',
            ''0000f1536500000000102700000000000002025b36890dacbd7c9a96bb74a1ee28b3d2d75b72e09a'',
            ''20ef25cf8e6fd8a9f0350d'']))])],
      JObject [
        (''name'', JString ''cancel_rotation''),
        (''fields'', JObject []),
        (''borsh'', JString ''03''),
        (''preimage'', JString (concat [''656e636c6176656b69743a76310000000949f10e589643e6e69b0123745a5151bf9c87c5582240b2'',
          ''01c03b5b4ed4e649d284f0626fd0836ce4b1731793fa69059e02668600519365b33c55bd94512735'',
          ''070000000000000000f1536500000000102700000000000003''])),
        (''signature'', JString (concat [''ea94e83f788fde58a1dd9a9eea862b0c414b48ba1907f96449fd892049501d926e6b33246750e81f'',
          ''5b2b7f2226e39893dd88adfe62432694cc2abed467ff368f''])),
        (''secp256r1_instruction'', JObject [
          (''program_id'', JString ''Secp256r1SigVerify1111111111111111111111111''),
          (''data'', JString (concat [''01003100ffff1000ffff71006900ffff02515c3d6eb9e396b904d3feca7f54fdcd0cc1e997bf375d'',
            ''ca515ad0a6c3b4035fea94e83f788fde58a1dd9a9eea862b0c414b48ba1907f96449fd892049501d'',
            ''926e6b33246750e81f5b2b7f2226e39893dd88adfe62432694cc2abed467ff368f656e636c617665'',
            ''6b69743a76310000000949f10e589643e6e69b0123745a5151bf9c87c5582240b201c03b5b4ed4e6'',
            ''49d284f0626fd0836ce4b1731793fa69059e02668600519365b33c55bd9451273507000000000000'',
            ''0000f1536500000000102700000000000003'']))])],
      JObject [
        (''name'', JString ''set_guardians''),
        (''fields'', JObject [
          (''guardians'', JArray [
            JObject [
              (''P256'', JString ''0257e977f6db7e33c3fe7acf2842ed987009caf56d458682fca447b7d3d762ab34'')],
            JString ''None'',
            JString ''None''])]),
        (''borsh'', JString ''04010257e977f6db7e33c3fe7acf2842ed987009caf56d458682fca447b7d3d762ab340000''),
        (''preimage'', JString (concat [''656e636c6176656b69743a76310000000949f10e589643e6e69b0123745a5151bf9c87c5582240b2'',
          ''01c03b5b4ed4e649d284f0626fd0836ce4b1731793fa69059e02668600519365b33c55bd94512735'',
          ''070000000000000000f1536500000000102700000000000004010257e977f6db7e33c3fe7acf2842'',
          ''ed987009caf56d458682fca447b7d3d762ab340000''])),
        (''signature'', JString (concat [''dd9e697bdebcaa291ad85de639a4f792430284ec51fda868fd4a14c40e3805fe4400fa7a29c8f8a5'',
          ''51565c0b587caacd636f5b2fe8853b858bde74ef4f5fd1d9''])),
        (''secp256r1_instruction'', JObject [
          (''program_id'', JString ''Secp256r1SigVerify1111111111111111111111111''),
          (''data'', JString (concat [''01003100ffff1000ffff71008d00ffff02515c3d6eb9e396b904d3feca7f54fdcd0cc1e997bf375d'',
            ''ca515ad0a6c3b4035fdd9e697bdebcaa291ad85de639a4f792430284ec51fda868fd4a14c40e3805'',
            ''fe4400fa7a29c8f8a551565c0b587caacd636f5b2fe8853b858bde74ef4f5fd1d9656e636c617665'',
            ''6b69743a76310000000949f10e589643e6e69b0123745a5151bf9c87c5582240b201c03b5b4ed4e6'',
            ''49d284f0626fd0836ce4b1731793fa69059e02668600519365b33c55bd9451273507000000000000'',
            ''0000f1536500000000102700000000000004010257e977f6db7e33c3fe7acf2842ed987009caf56d'',
            ''458682fca447b7d3d762ab340000'']))])],
      JObject [
        (''name'', JString ''sweep_vault''),
        (''fields'', JObject [
          (''to'', JString ''1111111111111111111111111111111111111111111111111111111111111111'')]),
        (''borsh'', JString ''051111111111111111111111111111111111111111111111111111111111111111''),
        (''preimage'', JString (concat [''656e636c6176656b69743a76310000000949f10e589643e6e69b0123745a5151bf9c87c5582240b2'',
          ''01c03b5b4ed4e649d284f0626fd0836ce4b1731793fa69059e02668600519365b33c55bd94512735'',
          ''070000000000000000f1536500000000102700000000000005111111111111111111111111111111'',
          ''1111111111111111111111111111111111''])),
        (''signature'', JString (concat [''00fca4e8285097c9b164cd74e3975a34031a1cc60415e0e8e89df33f3a423ea574bf0f32cee77f52'',
          ''ac684ee75fba04532ca2813e5333014ee4082cb297fb79e5''])),
        (''secp256r1_instruction'', JObject [
          (''program_id'', JString ''Secp256r1SigVerify1111111111111111111111111''),
          (''data'', JString (concat [''01003100ffff1000ffff71008900ffff02515c3d6eb9e396b904d3feca7f54fdcd0cc1e997bf375d'',
            ''ca515ad0a6c3b4035f00fca4e8285097c9b164cd74e3975a34031a1cc60415e0e8e89df33f3a423e'',
            ''a574bf0f32cee77f52ac684ee75fba04532ca2813e5333014ee4082cb297fb79e5656e636c617665'',
            ''6b69743a76310000000949f10e589643e6e69b0123745a5151bf9c87c5582240b201c03b5b4ed4e6'',
            ''49d284f0626fd0836ce4b1731793fa69059e02668600519365b33c55bd9451273507000000000000'',
            ''0000f153650000000010270000000000000511111111111111111111111111111111111111111111'',
            ''11111111111111111111'']))])],
      JObject [
        (''name'', JString ''close_wallet''),
        (''fields'', JObject [
          (''to'', JString ''1111111111111111111111111111111111111111111111111111111111111111'')]),
        (''borsh'', JString ''061111111111111111111111111111111111111111111111111111111111111111''),
        (''preimage'', JString (concat [''656e636c6176656b69743a76310000000949f10e589643e6e69b0123745a5151bf9c87c5582240b2'',
          ''01c03b5b4ed4e649d284f0626fd0836ce4b1731793fa69059e02668600519365b33c55bd94512735'',
          ''070000000000000000f1536500000000102700000000000006111111111111111111111111111111'',
          ''1111111111111111111111111111111111''])),
        (''signature'', JString (concat [''ffabd1425c75fe82f1c9e06ef59129a27b428d4a9b8054cbde0b3a68fe88fe454bf2d8dbbae33c14'',
          ''de9f45cbfaf0fc930bc1c38b093b4f324d9e6b077d536350''])),
        (''secp256r1_instruction'', JObject [
          (''program_id'', JString ''Secp256r1SigVerify1111111111111111111111111''),
          (''data'', JString (concat [''01003100ffff1000ffff71008900ffff02515c3d6eb9e396b904d3feca7f54fdcd0cc1e997bf375d'',
            ''ca515ad0a6c3b4035fffabd1425c75fe82f1c9e06ef59129a27b428d4a9b8054cbde0b3a68fe88fe'',
            ''454bf2d8dbbae33c14de9f45cbfaf0fc930bc1c38b093b4f324d9e6b077d536350656e636c617665'',
            ''6b69743a76310000000949f10e589643e6e69b0123745a5151bf9c87c5582240b201c03b5b4ed4e6'',
            ''49d284f0626fd0836ce4b1731793fa69059e02668600519365b33c55bd9451273507000000000000'',
            ''0000f153650000000010270000000000000611111111111111111111111111111111111111111111'',
            ''11111111111111111111'']))])]])]"

definition committed_high_s :: json where
  "committed_high_s = JObject [
    (''message'', JString ''656e636c6176656b697420686967682d5320766563746f72''),
    (''high_s'', JString (concat [''53b36afb9b8fb6d17c064096b9cb12fb09887f2321ed1b339850043368b19e41df863cff3517d973'',
      ''cffc771c38b15799acbeebfc2980e38568529e1abf719c97''])),
    (''low_s'', JString (concat [''53b36afb9b8fb6d17c064096b9cb12fb09887f2321ed1b339850043368b19e412079c2ffcae8268d'',
      ''300388e3c74ea86610280eb17d96baff8b672ca83cf188ba'']))]"

definition committed_transaction :: json where
  "committed_transaction = JObject [
    (''relayer'', JString ''93MB2qRDNVLxbmmPuYpLdAqn3u2x9ZhaVZK5wELHueP8''),
    (''relayer_fee'', JNumber 10000),
    (''blockhash'', JString ''AByCTxLPRZPoyK22KdMxa3xkCbcNbeNWzVeEvh6UcJs9''),
    (''program_instruction'', JObject [
      (''program_id'', JString ''dG4h3aizVEW1bKjzkGsfk6zqcfa2MVn2DjavPniesSY''),
      (''accounts'', JArray [
        committed_meta ''EKyNGE7ecVLS8GYLf13LypzugwLbRQuRVNvNQdu9jQxF'' False True,
        committed_meta ''hYEjxsHxt6UeiMra3eqTxzuWKTWMbC7Q4qjZLV5NpZK'' False True,
        committed_meta ''29d2S7vB453rNYFdR5Ycwt7y9haRT5fwVwL9zTmBhfV2'' False True,
        committed_meta ''93MB2qRDNVLxbmmPuYpLdAqn3u2x9ZhaVZK5wELHueP8'' True True,
        committed_meta ''Sysvar1nstructions1111111111111111111111111'' False False,
        committed_meta ''11111111111111111111111111111111'' False False,
        committed_meta ''379q2cQ1cdxigVA1Cs27XxcBKiiNExU2RQGCCNcxYJMW'' False False,
        committed_meta ''dG4h3aizVEW1bKjzkGsfk6zqcfa2MVn2DjavPniesSY'' False False]),
      (''discriminator'', JString ''4e0aecf76d75154c''),
      (''data'', JString (concat [''4e0aecf76d75154cd284f0626fd0836ce4b1731793fa69059e02668600519365b33c55bd94512735'',
        ''070000000000000000f1536500000000102700000000000080969800000000001027000000000000'']))]),
    (''message'', JString (concat [''0100050977777777777777777777777777777777777777777777777777777777777777770a628d53'',
      ''165e2be45133b4c975a3dfd028519eed534c3a0a6c88074fe8503cb6111111111111111111111111'',
      ''1111111111111111111111111111111111111111c6041e57368711c5420ee6234ee217d462012d26'',
      ''6e7d43bccb2516df22264fd000000000000000000000000000000000000000000000000000000000'',
      ''0000000006920dec2fea71b5b723814d742da9031c83e75fdb795d568e7547802000000006a7d517'',
      ''187bd16635dad40455fdc2c0c124c68f215675a5dbbacb5f080000000949f10e589643e6e69b0123'',
      ''745a5151bf9c87c5582240b201c03b5b4ed4e6491f4ad733a7c6ee27d99b9933643b14079d91d0a5'',
      ''0e49821b8505987a1028e5f188888888888888888888888888888888888888888888888888888888'',
      ''88888888020500820201003100ffff1000ffff71009100ffff02515c3d6eb9e396b904d3feca7f54'',
      ''fdcd0cc1e997bf375dca515ad0a6c3b4035f2b179f5aade3fc5d14850d5c2fa0baf147a07c2242ea'',
      ''0bf210e76b7c68c038d3680b7438618cd0b2b211dd0753403badeec65d880349550b03f89d7eb18b'',
      ''d901656e636c6176656b69743a76310000000949f10e589643e6e69b0123745a5151bf9c87c55822'',
      ''40b201c03b5b4ed4e649d284f0626fd0836ce4b1731793fa69059e02668600519365b33c55bd9451'',
      ''2735070000000000000000f153650000000010270000000000000011111111111111111111111111'',
      ''11111111111111111111111111111111111111809698000000000007080301020006040807504e0a'',
      ''ecf76d75154cd284f0626fd0836ce4b1731793fa69059e02668600519365b33c55bd945127350700'',
      ''00000000000000f1536500000000102700000000000080969800000000001027000000000000''])),
    (''transaction'', JString (concat [''AQAAAAAAAAAAAAAAAAAAAAAAAAAAAAAAAAAAAAAAAAAAAAAAAAAAAAAAAAAAAAAAAAAAAAAAAAAAAAAA'',
      ''AAAAAAABAAUJd3d3d3d3d3d3d3d3d3d3d3d3d3d3d3d3d3d3d3d3d3cKYo1TFl4r5FEztMl1o9/QKFGe'',
      ''7VNMOgpsiAdP6FA8thERERERERERERERERERERERERERERERERERERERERERxgQeVzaHEcVCDuYjTuIX'',
      ''1GIBLSZufUO8yyUW3yImT9AAAAAAAAAAAAAAAAAAAAAAAAAAAAAAAAAAAAAAAAAAAAaSDewv6nG1tyOB'',
      ''TXQtqQMcg+df23ldVo51R4AgAAAABqfVFxh70WY12tQEVf3CwMEkxo8hVnWl27rLXwgAAAAJSfEOWJZD'',
      ''5uabASN0WlFRv5yHxVgiQLIBwDtbTtTmSR9K1zOnxu4n2ZuZM2Q7FAedkdClDkmCG4UFmHoQKOXxiIiI'',
      ''iIiIiIiIiIiIiIiIiIiIiIiIiIiIiIiIiIiIiIgCBQCCAgEAMQD//xAA//9xAJEA//8CUVw9brnjlrkE'',
      ''0/7Kf1T9zQzB6Ze/N13KUVrQpsO0A18rF59areP8XRSFDVwvoLrxR6B8IkLqC/IQ52t8aMA402gLdDhh'',
      ''jNCyshHdB1NAO63uxl2IA0lVCwP4nX6xi9kBZW5jbGF2ZWtpdDp2MQAAAAlJ8Q5YlkPm5psBI3RaUVG/'',
      ''nIfFWCJAsgHAO1tO1OZJ0oTwYm/Qg2zksXMXk/ppBZ4CZoYAUZNlszxVvZRRJzUHAAAAAAAAAADxU2UA'',
      ''AAAAECcAAAAAAAAAERERERERERERERERERERERERERERERERERERERERERGAlpgAAAAAAAcIAwECAAYE'',
      ''CAdQTgrs9211FUzShPBib9CDbOSxcxeT+mkFngJmhgBRk2WzPFW9lFEnNQcAAAAAAAAAAPFTZQAAAAAQ'',
      ''JwAAAAAAAICWmAAAAAAAECcAAAAAAAA='']))]"

definition committed_instructions :: json where
  "committed_instructions = JObject [
    (''relayer'', JString ''93MB2qRDNVLxbmmPuYpLdAqn3u2x9ZhaVZK5wELHueP8''),
    (''relayer_fee'', JNumber 10000),
    (''instructions'', JArray [
      JObject [
        (''name'', JString ''transfer_sol''),
        (''program_instruction'', JObject [
          (''program_id'', JString ''dG4h3aizVEW1bKjzkGsfk6zqcfa2MVn2DjavPniesSY''),
          (''accounts'', JArray [
            committed_meta ''EKyNGE7ecVLS8GYLf13LypzugwLbRQuRVNvNQdu9jQxF'' False True,
            committed_meta ''hYEjxsHxt6UeiMra3eqTxzuWKTWMbC7Q4qjZLV5NpZK'' False True,
            committed_meta ''29d2S7vB453rNYFdR5Ycwt7y9haRT5fwVwL9zTmBhfV2'' False True,
            committed_meta ''93MB2qRDNVLxbmmPuYpLdAqn3u2x9ZhaVZK5wELHueP8'' True True,
            committed_meta ''Sysvar1nstructions1111111111111111111111111'' False False,
            committed_meta ''11111111111111111111111111111111'' False False,
            committed_meta ''379q2cQ1cdxigVA1Cs27XxcBKiiNExU2RQGCCNcxYJMW'' False False,
            committed_meta ''dG4h3aizVEW1bKjzkGsfk6zqcfa2MVn2DjavPniesSY'' False False]),
          (''discriminator'', JString ''4e0aecf76d75154c''),
          (''data'', JString (concat [''4e0aecf76d75154cd284f0626fd0836ce4b1731793fa69059e02668600519365b33c55bd94512735'',
            ''070000000000000000f1536500000000102700000000000080969800000000001027000000000000'']))])],
      JObject [
        (''name'', JString ''propose_rotation''),
        (''program_instruction'', JObject [
          (''program_id'', JString ''dG4h3aizVEW1bKjzkGsfk6zqcfa2MVn2DjavPniesSY''),
          (''accounts'', JArray [
            committed_meta ''EKyNGE7ecVLS8GYLf13LypzugwLbRQuRVNvNQdu9jQxF'' False True,
            committed_meta ''hYEjxsHxt6UeiMra3eqTxzuWKTWMbC7Q4qjZLV5NpZK'' False True,
            committed_meta ''93MB2qRDNVLxbmmPuYpLdAqn3u2x9ZhaVZK5wELHueP8'' True True,
            committed_meta ''Sysvar1nstructions1111111111111111111111111'' False False,
            committed_meta ''11111111111111111111111111111111'' False False,
            committed_meta ''379q2cQ1cdxigVA1Cs27XxcBKiiNExU2RQGCCNcxYJMW'' False False,
            committed_meta ''dG4h3aizVEW1bKjzkGsfk6zqcfa2MVn2DjavPniesSY'' False False]),
          (''discriminator'', JString ''c52b9ba99b4b5e7d''),
          (''data'', JString (concat [''c52b9ba99b4b5e7dd284f0626fd0836ce4b1731793fa69059e02668600519365b33c55bd94512735'',
            ''070000000000000000f15365000000001027000000000000025b36890dacbd7c9a96bb74a1ee28b3'',
            ''d2d75b72e09a20ef25cf8e6fd8a9f0350d1027000000000000'']))])],
      JObject [
        (''name'', JString ''cancel_rotation''),
        (''program_instruction'', JObject [
          (''program_id'', JString ''dG4h3aizVEW1bKjzkGsfk6zqcfa2MVn2DjavPniesSY''),
          (''accounts'', JArray [
            committed_meta ''EKyNGE7ecVLS8GYLf13LypzugwLbRQuRVNvNQdu9jQxF'' False True,
            committed_meta ''hYEjxsHxt6UeiMra3eqTxzuWKTWMbC7Q4qjZLV5NpZK'' False True,
            committed_meta ''93MB2qRDNVLxbmmPuYpLdAqn3u2x9ZhaVZK5wELHueP8'' True True,
            committed_meta ''Sysvar1nstructions1111111111111111111111111'' False False,
            committed_meta ''11111111111111111111111111111111'' False False,
            committed_meta ''379q2cQ1cdxigVA1Cs27XxcBKiiNExU2RQGCCNcxYJMW'' False False,
            committed_meta ''dG4h3aizVEW1bKjzkGsfk6zqcfa2MVn2DjavPniesSY'' False False]),
          (''discriminator'', JString ''21b5192b642238fa''),
          (''data'', JString (concat [''21b5192b642238fad284f0626fd0836ce4b1731793fa69059e02668600519365b33c55bd94512735'',
            ''070000000000000000f153650000000010270000000000001027000000000000'']))])],
      JObject [
        (''name'', JString ''set_guardians''),
        (''program_instruction'', JObject [
          (''program_id'', JString ''dG4h3aizVEW1bKjzkGsfk6zqcfa2MVn2DjavPniesSY''),
          (''accounts'', JArray [
            committed_meta ''EKyNGE7ecVLS8GYLf13LypzugwLbRQuRVNvNQdu9jQxF'' False True,
            committed_meta ''hYEjxsHxt6UeiMra3eqTxzuWKTWMbC7Q4qjZLV5NpZK'' False True,
            committed_meta ''93MB2qRDNVLxbmmPuYpLdAqn3u2x9ZhaVZK5wELHueP8'' True True,
            committed_meta ''Sysvar1nstructions1111111111111111111111111'' False False,
            committed_meta ''11111111111111111111111111111111'' False False,
            committed_meta ''379q2cQ1cdxigVA1Cs27XxcBKiiNExU2RQGCCNcxYJMW'' False False,
            committed_meta ''dG4h3aizVEW1bKjzkGsfk6zqcfa2MVn2DjavPniesSY'' False False]),
          (''discriminator'', JString ''a6458cb79da9fd28''),
          (''data'', JString (concat [''a6458cb79da9fd28d284f0626fd0836ce4b1731793fa69059e02668600519365b33c55bd94512735'',
            ''070000000000000000f15365000000001027000000000000010257e977f6db7e33c3fe7acf2842ed'',
            ''987009caf56d458682fca447b7d3d762ab3400001027000000000000'']))])],
      JObject [
        (''name'', JString ''sweep_vault''),
        (''program_instruction'', JObject [
          (''program_id'', JString ''dG4h3aizVEW1bKjzkGsfk6zqcfa2MVn2DjavPniesSY''),
          (''accounts'', JArray [
            committed_meta ''EKyNGE7ecVLS8GYLf13LypzugwLbRQuRVNvNQdu9jQxF'' False True,
            committed_meta ''hYEjxsHxt6UeiMra3eqTxzuWKTWMbC7Q4qjZLV5NpZK'' False True,
            committed_meta ''29d2S7vB453rNYFdR5Ycwt7y9haRT5fwVwL9zTmBhfV2'' False True,
            committed_meta ''93MB2qRDNVLxbmmPuYpLdAqn3u2x9ZhaVZK5wELHueP8'' True True,
            committed_meta ''Sysvar1nstructions1111111111111111111111111'' False False,
            committed_meta ''11111111111111111111111111111111'' False False,
            committed_meta ''379q2cQ1cdxigVA1Cs27XxcBKiiNExU2RQGCCNcxYJMW'' False False,
            committed_meta ''dG4h3aizVEW1bKjzkGsfk6zqcfa2MVn2DjavPniesSY'' False False]),
          (''discriminator'', JString ''895c09018cedd68c''),
          (''data'', JString (concat [''895c09018cedd68cd284f0626fd0836ce4b1731793fa69059e02668600519365b33c55bd94512735'',
            ''070000000000000000f153650000000010270000000000001027000000000000'']))])],
      JObject [
        (''name'', JString ''close_wallet''),
        (''program_instruction'', JObject [
          (''program_id'', JString ''dG4h3aizVEW1bKjzkGsfk6zqcfa2MVn2DjavPniesSY''),
          (''accounts'', JArray [
            committed_meta ''EKyNGE7ecVLS8GYLf13LypzugwLbRQuRVNvNQdu9jQxF'' False True,
            committed_meta ''hYEjxsHxt6UeiMra3eqTxzuWKTWMbC7Q4qjZLV5NpZK'' False True,
            committed_meta ''29d2S7vB453rNYFdR5Ycwt7y9haRT5fwVwL9zTmBhfV2'' False True,
            committed_meta ''93MB2qRDNVLxbmmPuYpLdAqn3u2x9ZhaVZK5wELHueP8'' True True,
            committed_meta ''Sysvar1nstructions1111111111111111111111111'' False False,
            committed_meta ''11111111111111111111111111111111'' False False,
            committed_meta ''379q2cQ1cdxigVA1Cs27XxcBKiiNExU2RQGCCNcxYJMW'' False False,
            committed_meta ''dG4h3aizVEW1bKjzkGsfk6zqcfa2MVn2DjavPniesSY'' False False]),
          (''discriminator'', JString ''23d4eae0f4d01fcc''),
          (''data'', JString (concat [''23d4eae0f4d01fccd284f0626fd0836ce4b1731793fa69059e02668600519365b33c55bd94512735'',
            ''070000000000000000f153650000000010270000000000001027000000000000'']))])],
      JObject [
        (''name'', JString ''confirm_rotation''),
        (''program_instruction'', JObject [
          (''program_id'', JString ''dG4h3aizVEW1bKjzkGsfk6zqcfa2MVn2DjavPniesSY''),
          (''accounts'', JArray [
            committed_meta ''EKyNGE7ecVLS8GYLf13LypzugwLbRQuRVNvNQdu9jQxF'' False True,
            committed_meta ''379q2cQ1cdxigVA1Cs27XxcBKiiNExU2RQGCCNcxYJMW'' False False,
            committed_meta ''dG4h3aizVEW1bKjzkGsfk6zqcfa2MVn2DjavPniesSY'' False False]),
          (''discriminator'', JString ''8125660f8f2371f6''),
          (''data'', JString ''8125660f8f2371f6d284f0626fd0836ce4b1731793fa69059e02668600519365b33c55bd94512735'')])]])]"

definition committed_state :: json where
  "committed_state = JObject [
    (''discriminator'', JString ''433bdcb3290a3cb1''),
    (''size'', JNumber 325),
    (''offsets'', JObject [
      (''wallet_id'', JNumber 8),
      (''active_key'', JNumber 40),
      (''nonce'', JNumber 73),
      (''attested'', JNumber 81),
      (''guardians'', JArray [
        JObject [
          (''kind'', JNumber 82),
          (''key'', JNumber 83),
          (''rp_id_hash'', JNumber 116)],
        JObject [
          (''kind'', JNumber 148),
          (''key'', JNumber 149),
          (''rp_id_hash'', JNumber 182)],
        JObject [
          (''kind'', JNumber 214),
          (''key'', JNumber 215),
          (''rp_id_hash'', JNumber 248)]]),
      (''rotation'', JObject [
        (''pending'', JNumber 280),
        (''new_key'', JNumber 281),
        (''proposed_at'', JNumber 314),
        (''proposed_by'', JNumber 322)]),
      (''state_bump'', JNumber 323),
      (''vault_bump'', JNumber 324)]),
    (''rp_id'', JString ''example.com''),
    (''states'', JArray [
      JObject [
        (''name'', JString ''created''),
        (''fields'', JObject [
          (''wallet_id'', JString ''d284f0626fd0836ce4b1731793fa69059e02668600519365b33c55bd94512735''),
          (''active_key'', JString ''02515c3d6eb9e396b904d3feca7f54fdcd0cc1e997bf375dca515ad0a6c3b4035f''),
          (''nonce'', JNumber 1),
          (''attested'', JBool False),
          (''guardians'', JArray [
            committed_slot ''None'' ''000000000000000000000000000000000000000000000000000000000000000000''
            ''0000000000000000000000000000000000000000000000000000000000000000'',
            committed_slot ''None'' ''000000000000000000000000000000000000000000000000000000000000000000''
            ''0000000000000000000000000000000000000000000000000000000000000000'',
            committed_slot ''None'' ''000000000000000000000000000000000000000000000000000000000000000000''
            ''0000000000000000000000000000000000000000000000000000000000000000'']),
          (''rotation'', JObject [
            (''pending'', JBool False),
            (''new_key'', JString ''000000000000000000000000000000000000000000000000000000000000000000''),
            (''proposed_at'', JNumber 0),
            (''proposed_by'', JNumber 0)]),
          (''state_bump'', JNumber 255),
          (''vault_bump'', JNumber 255)]),
        (''data'', JString (concat [''433bdcb3290a3cb1d284f0626fd0836ce4b1731793fa69059e02668600519365b33c55bd94512735'',
          ''02515c3d6eb9e396b904d3feca7f54fdcd0cc1e997bf375dca515ad0a6c3b4035f01000000000000'',
          ''00000000000000000000000000000000000000000000000000000000000000000000000000000000'',
          ''00000000000000000000000000000000000000000000000000000000000000000000000000000000'',
          ''00000000000000000000000000000000000000000000000000000000000000000000000000000000'',
          ''00000000000000000000000000000000000000000000000000000000000000000000000000000000'',
          ''00000000000000000000000000000000000000000000000000000000000000000000000000000000'',
          ''00000000000000000000000000000000000000000000000000000000000000000000000000000000'',
          ''000000ffff'']))],
      JObject [
        (''name'', JString ''recovering''),
        (''fields'', JObject [
          (''wallet_id'', JString ''d284f0626fd0836ce4b1731793fa69059e02668600519365b33c55bd94512735''),
          (''active_key'', JString ''02515c3d6eb9e396b904d3feca7f54fdcd0cc1e997bf375dca515ad0a6c3b4035f''),
          (''nonce'', JNumber 7),
          (''attested'', JBool True),
          (''guardians'', JArray [
            committed_slot ''None'' ''000000000000000000000000000000000000000000000000000000000000000000''
            ''0000000000000000000000000000000000000000000000000000000000000000'',
            committed_slot ''P256'' ''0257e977f6db7e33c3fe7acf2842ed987009caf56d458682fca447b7d3d762ab34''
            ''0000000000000000000000000000000000000000000000000000000000000000'',
            committed_slot ''WebAuthn'' ''030bbbc5e8bc84bd33d1d3ce03ffac9a747f4c1993fddb2ec93a4116a86f022a77''
            ''a379a6f6eeafb9a55e378c118034e2751e682fab9f2d30ab13d2125586ce1947'']),
          (''rotation'', JObject [
            (''pending'', JBool True),
            (''new_key'', JString ''025b36890dacbd7c9a96bb74a1ee28b3d2d75b72e09a20ef25cf8e6fd8a9f0350d''),
            (''proposed_at'', JNumber 1699000000),
            (''proposed_by'', JNumber 1)]),
          (''state_bump'', JNumber 255),
          (''vault_bump'', JNumber 255)]),
        (''data'', JString (concat [''433bdcb3290a3cb1d284f0626fd0836ce4b1731793fa69059e02668600519365b33c55bd94512735'',
          ''02515c3d6eb9e396b904d3feca7f54fdcd0cc1e997bf375dca515ad0a6c3b4035f07000000000000'',
          ''00010000000000000000000000000000000000000000000000000000000000000000000000000000'',
          ''00000000000000000000000000000000000000000000000000000000010257e977f6db7e33c3fe7a'',
          ''cf2842ed987009caf56d458682fca447b7d3d762ab34000000000000000000000000000000000000'',
          ''000000000000000000000000000002030bbbc5e8bc84bd33d1d3ce03ffac9a747f4c1993fddb2ec9'',
          ''3a4116a86f022a77a379a6f6eeafb9a55e378c118034e2751e682fab9f2d30ab13d2125586ce1947'',
          ''01025b36890dacbd7c9a96bb74a1ee28b3d2d75b72e09a20ef25cf8e6fd8a9f0350dc0ae44650000'',
          ''000001ffff'']))]])]"

end
