(* ===== verification/Vectors_Conform.thy ===== *)
theory Vectors_Conform
  imports Gen_State Committed
begin

text \<open>
  The committed files against the generator. Third-party code enters a file in two ways: as names (the
  public keys of the four seeds, the hash of the key, the derived addresses, their base58), which
  \<open>vector_toolkit\<close> fixes, and as results over what the generator built (signatures, the compiled
  message, its base64), which are left open: the theorems say of which results the committed files are
  made. Everything else in the files (actions, preimages, precompile instructions, instruction data,
  account lists, the state account and its offsets) is computed here.
\<close>

section \<open>Names and results of third-party code\<close>

definition TEST_KEY :: bytes where
  "TEST_KEY = hex_literal ''02515c3d6eb9e396b904d3feca7f54fdcd0cc1e997bf375dca515ad0a6c3b4035f''"

definition TEST_WALLET_ID :: bytes where
  "TEST_WALLET_ID = hex_literal ''d284f0626fd0836ce4b1731793fa69059e02668600519365b33c55bd94512735''"

definition NEW_KEY :: bytes where
  "NEW_KEY = hex_literal ''025b36890dacbd7c9a96bb74a1ee28b3d2d75b72e09a20ef25cf8e6fd8a9f0350d''"

definition GUARDIAN_KEY :: bytes where
  "GUARDIAN_KEY = hex_literal ''0257e977f6db7e33c3fe7acf2842ed987009caf56d458682fca447b7d3d762ab34''"

definition PASSKEY_KEY :: bytes where
  "PASSKEY_KEY = hex_literal ''030bbbc5e8bc84bd33d1d3ce03ffac9a747f4c1993fddb2ec93a4116a86f022a77''"

definition RP_ID_HASH :: bytes where
  "RP_ID_HASH = hex_literal ''a379a6f6eeafb9a55e378c118034e2751e682fab9f2d30ab13d2125586ce1947''"

definition committed_cases :: "(string \<times> Action) list" where
  "committed_cases =
     [(''transfer_sol'', TransferSol TO LAMPORTS),
      (''propose_rotation'', ProposeRotation NEW_KEY),
      (''cancel_rotation'', CancelRotation),
      (''set_guardians'', SetGuardians [EGuardian_P256 GUARDIAN_KEY, EGuardian_None, EGuardian_None]),
      (''sweep_vault'', SweepVault TO),
      (''close_wallet'', CloseWallet TO)]"

text \<open>The signature of each case of \<open>actions.json\<close>.\<close>

primrec committed_signature :: "Action \<Rightarrow> bytes" where
  "committed_signature (TransferSol dest lamports) = hex_literal (concat [
     ''2b179f5aade3fc5d14850d5c2fa0baf147a07c2242ea0bf210e76b7c68c038d3'',
     ''680b7438618cd0b2b211dd0753403badeec65d880349550b03f89d7eb18bd901''])"
| "committed_signature (TransferToken mint dest amount) = []"
| "committed_signature (ProposeRotation new_key) = hex_literal (concat [
     ''7391f3119157bfd0dea06148e30ad8fca9d4ac88c60f5397c9e268c6fbc1d7f9'',
     ''4ca7bd43fba13b250483aa87fea69665c494694b421a3f8428cd57c13788b9af''])"
| "committed_signature CancelRotation = hex_literal (concat [
     ''ea94e83f788fde58a1dd9a9eea862b0c414b48ba1907f96449fd892049501d92'',
     ''6e6b33246750e81f5b2b7f2226e39893dd88adfe62432694cc2abed467ff368f''])"
| "committed_signature (SetGuardians guardians) = hex_literal (concat [
     ''dd9e697bdebcaa291ad85de639a4f792430284ec51fda868fd4a14c40e3805fe'',
     ''4400fa7a29c8f8a551565c0b587caacd636f5b2fe8853b858bde74ef4f5fd1d9''])"
| "committed_signature (SweepVault dest) = hex_literal (concat [
     ''00fca4e8285097c9b164cd74e3975a34031a1cc60415e0e8e89df33f3a423ea5'',
     ''74bf0f32cee77f52ac684ee75fba04532ca2813e5333014ee4082cb297fb79e5''])"
| "committed_signature (CloseWallet dest) = hex_literal (concat [
     ''ffabd1425c75fe82f1c9e06ef59129a27b428d4a9b8054cbde0b3a68fe88fe45'',
     ''4bf2d8dbbae33c14de9f45cbfaf0fc930bc1c38b093b4f324d9e6b077d536350''])"

text \<open>The signature in \<open>high_s.json\<close>: \<open>r\<close>, \<open>s\<close> and \<open>n - s\<close>.\<close>

definition HIGH_S :: bytes where
  "HIGH_S = hex_literal ''df863cff3517d973cffc771c38b15799acbeebfc2980e38568529e1abf719c97''"

definition LOW_R :: bytes where
  "LOW_R = hex_literal ''53b36afb9b8fb6d17c064096b9cb12fb09887f2321ed1b339850043368b19e41''"

definition LOW_S :: bytes where
  "LOW_S = hex_literal ''2079c2ffcae8268d300388e3c74ea86610280eb17d96baff8b672ca83cf188ba''"

definition pubkey_of_seed :: "('k, 'm) toolkit \<Rightarrow> bytes \<Rightarrow> bytes \<Rightarrow> bool" where
  "pubkey_of_seed tk seed pubkey \<longleftrightarrow>
     (\<exists>k. tk_signing_key tk seed = Some k \<and> tk_sec1_point tk k = pubkey)"

definition committed_keys :: "('k, 'm) toolkit \<Rightarrow> bool" where
  "committed_keys tk \<longleftrightarrow>
     pubkey_of_seed tk PRIVATE_KEY TEST_KEY \<and> pubkey_of_seed tk NEW_KEY_SEED NEW_KEY
     \<and> pubkey_of_seed tk GUARDIAN_SEED GUARDIAN_KEY \<and> pubkey_of_seed tk PASSKEY_SEED PASSKEY_KEY"

text \<open>A signature is 64 bytes, and has a twin with a high \<open>s\<close>.\<close>

definition signature_contract :: "('k, 'm) toolkit \<Rightarrow> bool" where
  "signature_contract tk \<longleftrightarrow>
     (\<forall>key m. length (key_sign tk key m) = 64 \<and> key_sign_high_s tk key m \<noteq> None)"

definition WALLET_ADDRESS :: string where
  "WALLET_ADDRESS = ''EKyNGE7ecVLS8GYLf13LypzugwLbRQuRVNvNQdu9jQxF''"

definition VAULT_ADDRESS :: string where
  "VAULT_ADDRESS = ''hYEjxsHxt6UeiMra3eqTxzuWKTWMbC7Q4qjZLV5NpZK''"

definition EVENT_AUTHORITY_ADDRESS :: string where
  "EVENT_AUTHORITY_ADDRESS = ''379q2cQ1cdxigVA1Cs27XxcBKiiNExU2RQGCCNcxYJMW''"

definition committed_runtime :: "runtime \<Rightarrow> bool" where
  "committed_runtime rt \<longleftrightarrow>
     rt_sha256 rt TEST_KEY = TEST_WALLET_ID \<and> rt_sha256 rt (ascii RP_ID) = RP_ID_HASH
     \<and> rt_find_program_address rt [WALLET_SEED, TEST_WALLET_ID] = (pubkey_literal WALLET_ADDRESS, 255)
     \<and> rt_find_program_address rt [VAULT_SEED, TEST_WALLET_ID] = (pubkey_literal VAULT_ADDRESS, 255)
     \<and> rt_find_program_address rt [EVENT_AUTHORITY_SEED]
         = (pubkey_literal EVENT_AUTHORITY_ADDRESS, 252)
     \<and> rt_system_program rt = replicate 32 0
     \<and> rt_instructions_sysvar rt = pubkey_literal ''Sysvar1nstructions1111111111111111111111111''"

text \<open>base58 of the addresses that occur: the text whose value is the address.\<close>

definition committed_texts :: "string list" where
  "committed_texts = [WALLET_ADDRESS, VAULT_ADDRESS, EVENT_AUTHORITY_ADDRESS,
     ''dG4h3aizVEW1bKjzkGsfk6zqcfa2MVn2DjavPniesSY'',
     ''Secp256r1SigVerify1111111111111111111111111'',
     ''Sysvar1nstructions1111111111111111111111111'',
     ''11111111111111111111111111111111'',
     ''29d2S7vB453rNYFdR5Ycwt7y9haRT5fwVwL9zTmBhfV2'',
     ''93MB2qRDNVLxbmmPuYpLdAqn3u2x9ZhaVZK5wELHueP8'',
     ''AByCTxLPRZPoyK22KdMxa3xkCbcNbeNWzVeEvh6UcJs9'']"

definition base58_contract :: "('k, 'm) toolkit \<Rightarrow> bool" where
  "base58_contract tk \<longleftrightarrow> list_all (\<lambda>s. tk_base58 tk (pubkey_literal s) = s) committed_texts"

section \<open>The vectors of the committed inputs\<close>

text \<open>The vector of each case, for the signatures \<open>sign\<close>.\<close>

definition vector_of_case :: "(Action \<Rightarrow> bytes) \<Rightarrow> string \<times> Action \<Rightarrow> ActionVector" where
  "vector_of_case sign = (\<lambda>(name, action). \<lparr>av_name = name,
     av_fields = the (fields_json action), av_borsh = enc_action action,
     av_preimage = vector_preimage TEST_WALLET_ID action,
     av_signature = sign action,
     av_secp256r1_instruction = \<lparr>iv_program_id = ''Secp256r1SigVerify1111111111111111111111111'',
       iv_data = precompile_data 0 TEST_KEY (sign action) (vector_preimage TEST_WALLET_ID action)\<rparr>\<rparr>)"

definition vector_of_actions :: "(Action \<Rightarrow> bytes) \<Rightarrow> ActionsVector" where
  "vector_of_actions sign = \<lparr>asv_nonce = NONCE, asv_expires_at = EXPIRES_AT,
     asv_max_relayer_fee = MAX_RELAYER_FEE, asv_actions = map (vector_of_case sign) committed_cases\<rparr>"

lemma actions_json: "actions_vector_json (vector_of_actions committed_signature) = committed_actions"
  by code_simp

text \<open>The file is the committed one for the committed signatures, and for no others.\<close>

lemma actions_json_iff:
  "actions_vector_json (vector_of_actions sign) = committed_actions \<longleftrightarrow>
     list_all (\<lambda>(name, action). sign action = committed_signature action) committed_cases"
proof -
  have "action_vector_json (vector_of_case sign v) = action_vector_json (vector_of_case committed_signature v)
      \<longleftrightarrow> sign (snd v) = committed_signature (snd v)" for v
    by (cases v) (auto simp: action_vector_json_def instruction_vector_json_def vector_of_case_def
        json_hex_def hex_inject)
  then show ?thesis
    unfolding actions_json [symmetric]
    by (simp add: actions_vector_json_def vector_of_actions_def list_all_iff case_prod_unfold)
qed

definition committed_key_vector :: KeyVector where
  "committed_key_vector = \<lparr>kv_private_key = PRIVATE_KEY, kv_compressed_pubkey = TEST_KEY,
     kv_wallet_id = TEST_WALLET_ID, kv_program_id = ''dG4h3aizVEW1bKjzkGsfk6zqcfa2MVn2DjavPniesSY'',
     kv_wallet = \<lparr>pda_address = WALLET_ADDRESS, pda_bump = 255\<rparr>,
     kv_vault = \<lparr>pda_address = VAULT_ADDRESS, pda_bump = 255\<rparr>,
     kv_event_authority = \<lparr>pda_address = EVENT_AUTHORITY_ADDRESS, pda_bump = 252\<rparr>\<rparr>"

lemma key_json: "key_vector_json committed_key_vector = committed_key"
  by code_simp

lemma high_s_json:
  "high_s_vector_json \<lparr>hs_message = ascii ''enclavekit high-S vector'', hs_high_s = LOW_R @ HIGH_S,
     hs_low_s = LOW_R @ LOW_S\<rparr> = committed_high_s"
  by code_simp

lemma high_s_json_iff:
  "high_s_vector_json \<lparr>hs_message = ascii ''enclavekit high-S vector'', hs_high_s = high,
     hs_low_s = low\<rparr> = committed_high_s \<longleftrightarrow> high = LOW_R @ HIGH_S \<and> low = LOW_R @ LOW_S"
  unfolding high_s_json [symmetric] by (simp add: high_s_vector_json_def json_hex_def hex_inject)

text \<open>The accounts of the instructions, as text.\<close>

definition shown_meta :: "AccountMeta \<Rightarrow> string \<Rightarrow> AccountMetaVector" where
  "shown_meta m s = \<lparr>amv_pubkey = s, amv_is_signer = meta_is_signer m,
     amv_is_writable = meta_is_writable m\<rparr>"

definition shown_texts :: "Call \<Rightarrow> string list" where
  "shown_texts call =
     (let t = ''29d2S7vB453rNYFdR5Ycwt7y9haRT5fwVwL9zTmBhfV2'';
          relayer = ''93MB2qRDNVLxbmmPuYpLdAqn3u2x9ZhaVZK5wELHueP8'';
          rest = [relayer, ''Sysvar1nstructions1111111111111111111111111'',
            ''11111111111111111111111111111111'', EVENT_AUTHORITY_ADDRESS,
            ''dG4h3aizVEW1bKjzkGsfk6zqcfa2MVn2DjavPniesSY''] in
      case call of
        Call_TransferSol _ _ _ \<Rightarrow> WALLET_ADDRESS # VAULT_ADDRESS # t # rest
      | Call_SweepVault _ _ \<Rightarrow> WALLET_ADDRESS # VAULT_ADDRESS # t # rest
      | Call_CloseWallet _ _ \<Rightarrow> WALLET_ADDRESS # VAULT_ADDRESS # t # rest
      | Call_ConfirmRotation _ \<Rightarrow> WALLET_ADDRESS # drop 3 rest
      | _ \<Rightarrow> WALLET_ADDRESS # VAULT_ADDRESS # rest)"

definition shown_instruction :: "Call \<Rightarrow> ProgramInstructionVector" where
  "shown_instruction call =
     \<lparr>piv_program_id = ''dG4h3aizVEW1bKjzkGsfk6zqcfa2MVn2DjavPniesSY'',
      piv_accounts = map2 shown_meta (metas_of call (accounts_of_keys
        \<lparr>ak_wallet = [], ak_vault = [], ak_to = [], ak_relayer = [], ak_instructions_sysvar = [],
         ak_system_program = [], ak_event_authority = [], ak_program = []\<rparr>)) (shown_texts call),
      piv_discriminator = discriminator_of call,
      piv_data = call_data call\<rparr>"

text \<open>The call of each case.\<close>

definition committed_calls :: "(string \<times> Call) list" where
  "committed_calls =
     (let auth = vector_authorization TEST_WALLET_ID in
      [(''transfer_sol'', Call_TransferSol auth LAMPORTS RELAYER_FEE),
       (''propose_rotation'', Call_ProposeRotation auth NEW_KEY RELAYER_FEE),
       (''cancel_rotation'', Call_CancelRotation auth RELAYER_FEE),
       (''set_guardians'', Call_SetGuardians auth
          [Guardian_P256 GUARDIAN_KEY, Guardian_None, Guardian_None] RELAYER_FEE),
       (''sweep_vault'', Call_SweepVault auth RELAYER_FEE),
       (''close_wallet'', Call_CloseWallet auth RELAYER_FEE),
       (''confirm_rotation'', Call_ConfirmRotation TEST_WALLET_ID)])"

lemma instructions_json:
  "instructions_vector_json \<lparr>isv_relayer = ''93MB2qRDNVLxbmmPuYpLdAqn3u2x9ZhaVZK5wELHueP8'',
     isv_relayer_fee = RELAYER_FEE,
     isv_instructions = map (\<lambda>(name, call). \<lparr>niv_name = name,
       niv_program_instruction = shown_instruction call\<rparr>) committed_calls\<rparr> = committed_instructions"
  by code_simp

definition committed_created :: SmartWallet where
  "committed_created = \<lparr>sw_wallet_id = TEST_WALLET_ID, sw_active_key = TEST_KEY, sw_nonce = 1,
     sw_attested = False, sw_guardians = replicate MAX_GUARDIANS EMPTY_SLOT,
     sw_rotation = EMPTY_ROTATION, sw_state_bump = 255, sw_vault_bump = 255\<rparr>"

definition committed_recovering :: SmartWallet where
  "committed_recovering = committed_created\<lparr>sw_nonce := NONCE, sw_attested := True,
     sw_guardians := [EMPTY_SLOT, slot_of (Guardian_P256 GUARDIAN_KEY),
       \<lparr>slot_kind = Kind_WebAuthn, slot_key = PASSKEY_KEY, slot_rp_id_hash = RP_ID_HASH\<rparr>],
     sw_rotation := rotation_new \<lparr>pr_new_key = NEW_KEY, pr_proposed_at = PROPOSED_AT,
       pr_proposed_by = 1\<rparr>\<rparr>"

lemma state_json:
  "state_vector_json \<lparr>sv_discriminator = DISCRIMINATOR, sv_size = STATE_LEN,
     sv_offsets = state_offsets, sv_rp_id = RP_ID,
     sv_states = [named_state ''created'' committed_created,
       named_state ''recovering'' committed_recovering]\<rparr> = committed_state"
  by code_simp

section \<open>The transaction\<close>

text \<open>The compiled message and the encoded transaction, both made by third-party code.\<close>

definition COMPILED_MESSAGE :: bytes where
  "COMPILED_MESSAGE = hex_literal (concat [''0100050977777777777777777777777777777777777777777777777777777777777777770a628d53'',
     ''165e2be45133b4c975a3dfd028519eed534c3a0a6c88074fe8503cb6111111111111111111111111'',
     ''1111111111111111111111111111111111111111c6041e57368711c5420ee6234ee217d462012d26'',
     ''6e7d43bccb2516df22264fd000000000000000000000000000000000000000000000000000000000'',
     ''0000000006920dec2fea71b5b723814d742da9031c83e75fdb795d568e7547802000000006a7d517'',
     ''187bd16635dad40455fdc2c0c124c68f215675a5dbbacb5f080000000949f10e589643e6e69b0123'',
     ''745a5151bf9c87c5582240b201c03b5b4ed4e6491f4ad733a7c6ee27d99b9933643b14079d91d0a5'',
     ''0e49821b8505987a1028e5f188888888888888888888888888888888888888888888888888888888'',
     ''88888888020500820201003100ffff1000ffff71009100ffff02515c3d6eb9e396b904d3feca7f54'',
     ''fdcd0cc1e997bf375dca515ad0a6c3b4035f2b179f5aade3fc5d14850d5c2fa0baf147a07c2242ea'',
     ''0bf210e76b7c68c038d3680b7438618cd0b2b211dd0753403badeec65d880349550b03f89d7eb18b'',
     ''d901656e636c6176656b69743a76310000000949f10e589643e6e69b0123745a5151bf9c87c55822'',
     ''40b201c03b5b4ed4e649d284f0626fd0836ce4b1731793fa69059e02668600519365b33c55bd9451'',
     ''2735070000000000000000f153650000000010270000000000000011111111111111111111111111'',
     ''11111111111111111111111111111111111111809698000000000007080301020006040807504e0a'',
     ''ecf76d75154cd284f0626fd0836ce4b1731793fa69059e02668600519365b33c55bd945127350700'',
     ''00000000000000f1536500000000102700000000000080969800000000001027000000000000''])"

definition TRANSACTION_TEXT :: string where
  "TRANSACTION_TEXT = concat [''AQAAAAAAAAAAAAAAAAAAAAAAAAAAAAAAAAAAAAAAAAAAAAAAAAAAAAAAAAAAAAAAAAAAAAAAAAAAAAAA'',
     ''AAAAAAABAAUJd3d3d3d3d3d3d3d3d3d3d3d3d3d3d3d3d3d3d3d3d3cKYo1TFl4r5FEztMl1o9/QKFGe'',
     ''7VNMOgpsiAdP6FA8thERERERERERERERERERERERERERERERERERERERERERxgQeVzaHEcVCDuYjTuIX'',
     ''1GIBLSZufUO8yyUW3yImT9AAAAAAAAAAAAAAAAAAAAAAAAAAAAAAAAAAAAAAAAAAAAaSDewv6nG1tyOB'',
     ''TXQtqQMcg+df23ldVo51R4AgAAAABqfVFxh70WY12tQEVf3CwMEkxo8hVnWl27rLXwgAAAAJSfEOWJZD'',
     ''5uabASN0WlFRv5yHxVgiQLIBwDtbTtTmSR9K1zOnxu4n2ZuZM2Q7FAedkdClDkmCG4UFmHoQKOXxiIiI'',
     ''iIiIiIiIiIiIiIiIiIiIiIiIiIiIiIiIiIiIiIgCBQCCAgEAMQD//xAA//9xAJEA//8CUVw9brnjlrkE'',
     ''0/7Kf1T9zQzB6Ze/N13KUVrQpsO0A18rF59areP8XRSFDVwvoLrxR6B8IkLqC/IQ52t8aMA402gLdDhh'',
     ''jNCyshHdB1NAO63uxl2IA0lVCwP4nX6xi9kBZW5jbGF2ZWtpdDp2MQAAAAlJ8Q5YlkPm5psBI3RaUVG/'',
     ''nIfFWCJAsgHAO1tO1OZJ0oTwYm/Qg2zksXMXk/ppBZ4CZoYAUZNlszxVvZRRJzUHAAAAAAAAAADxU2UA'',
     ''AAAAECcAAAAAAAAAERERERERERERERERERERERERERERERERERERERERERGAlpgAAAAAAAcIAwECAAYE'',
     ''CAdQTgrs9211FUzShPBib9CDbOSxcxeT+mkFngJmhgBRk2WzPFW9lFEnNQcAAAAAAAAAAPFTZQAAAAAQ'',
     ''JwAAAAAAAICWmAAAAAAAECcAAAAAAAA='']"

definition transfer_case :: Action where
  "transfer_case = TransferSol TO LAMPORTS"

text \<open>The transaction's message: the precompile's instruction over the preimage of the transfer, signed
  by \<open>key\<close>, and the program's.\<close>

definition vector_message :: "runtime \<Rightarrow> ('k, 'm) toolkit \<Rightarrow> 'k EnclaveKey \<Rightarrow> 'm" where
  "vector_message rt tk key =
     (let preimage = vector_preimage TEST_WALLET_ID transfer_case in
      tk_message tk [signed_instruction TEST_KEY (key_sign tk key preimage) preimage,
        client_instruction (Call_TransferSol (vector_authorization TEST_WALLET_ID) LAMPORTS RELAYER_FEE)
          (vector_accounts rt TEST_WALLET_ID TO)] (Some RELAYER) BLOCKHASH)"

text \<open>What the files take from the names.\<close>

definition vector_toolkit :: "runtime \<Rightarrow> ('k, 'm) toolkit \<Rightarrow> bool" where
  "vector_toolkit rt tk \<longleftrightarrow> committed_runtime rt \<and> committed_keys tk \<and> base58_contract tk
     \<and> signature_contract tk \<and> secp256r1_contract tk"

definition vector_of_transaction :: "bytes \<Rightarrow> string \<Rightarrow> TransactionVector" where
  "vector_of_transaction message transaction =
     \<lparr>tv_relayer = ''93MB2qRDNVLxbmmPuYpLdAqn3u2x9ZhaVZK5wELHueP8'',
      tv_relayer_fee = RELAYER_FEE, tv_blockhash = ''AByCTxLPRZPoyK22KdMxa3xkCbcNbeNWzVeEvh6UcJs9'',
      tv_program_instruction = shown_instruction
        (Call_TransferSol (vector_authorization TEST_WALLET_ID) LAMPORTS RELAYER_FEE),
      tv_message = message, tv_transaction = transaction\<rparr>"

lemma transaction_json:
  "transaction_vector_json (vector_of_transaction COMPILED_MESSAGE TRANSACTION_TEXT) = committed_transaction"
  by code_simp

lemma transaction_json_iff:
  "transaction_vector_json (vector_of_transaction message transaction) = committed_transaction \<longleftrightarrow>
     message = COMPILED_MESSAGE \<and> transaction = TRANSACTION_TEXT"
  unfolding transaction_json [symmetric]
  by (simp add: transaction_vector_json_def vector_of_transaction_def json_hex_def hex_inject)

end
