(* ===== verification/Vectors_Current.thy ===== *)
theory Vectors_Current
  imports Vectors_Conform
begin

text \<open>
  The generator of \<open>Gen_Vectors\<close>, \<open>Gen_Transactions\<close> and \<open>Gen_State\<close> run on third-party code that satisfies
  \<open>vector_toolkit\<close>, against the committed files.
\<close>

section \<open>Running the generator\<close>

lemma committed_lengths:
  "length TEST_KEY = 33" "length NEW_KEY = 33" "length GUARDIAN_KEY = 33" "length PASSKEY_KEY = 33"
  "length TEST_WALLET_ID = 32"
  by code_simp+

lemma committed_cases_ok:
  "list_all (\<lambda>(name, action). length (committed_signature action) = 64 \<and> fields_json action \<noteq> None)
     committed_cases"
  by code_simp

lemma literals:
  "pubkey_literal ''29d2S7vB453rNYFdR5Ycwt7y9haRT5fwVwL9zTmBhfV2'' = TO"
  "pubkey_literal ''93MB2qRDNVLxbmmPuYpLdAqn3u2x9ZhaVZK5wELHueP8'' = RELAYER"
  "pubkey_literal ''AByCTxLPRZPoyK22KdMxa3xkCbcNbeNWzVeEvh6UcJs9'' = BLOCKHASH"
  "pubkey_literal ''11111111111111111111111111111111'' = replicate 32 0"
  "pubkey_literal ''dG4h3aizVEW1bKjzkGsfk6zqcfa2MVn2DjavPniesSY'' = PROGRAM_ID"
  "pubkey_literal ''Secp256r1SigVerify1111111111111111111111111'' = SECP256R1_PROGRAM_ID"
  by (code_simp, code_simp, code_simp, code_simp, simp_all only: PROGRAM_ID_def SECP256R1_PROGRAM_ID_def)

lemma collect_map: "list_all (\<lambda>x. f x = Some (g x)) xs \<Longrightarrow> collect f xs = Some (map g xs)"
  by (induction xs) simp_all

lemma seed_pubkey_of: "pubkey_of_seed tk seed pubkey \<Longrightarrow> length pubkey = 33 \<Longrightarrow>
   seed_pubkey tk seed = Some pubkey"
  by (auto simp: pubkey_of_seed_def seed_pubkey_def from_seed_def compressed_pubkey_def)

lemma base58_texts:
  assumes "base58_contract tk"
  shows "tk_base58 tk (pubkey_literal WALLET_ADDRESS) = WALLET_ADDRESS"
    "tk_base58 tk (pubkey_literal VAULT_ADDRESS) = VAULT_ADDRESS"
    "tk_base58 tk (pubkey_literal EVENT_AUTHORITY_ADDRESS) = EVENT_AUTHORITY_ADDRESS"
    "tk_base58 tk PROGRAM_ID = ''dG4h3aizVEW1bKjzkGsfk6zqcfa2MVn2DjavPniesSY''"
    "tk_base58 tk SECP256R1_PROGRAM_ID = ''Secp256r1SigVerify1111111111111111111111111''"
    "tk_base58 tk (pubkey_literal ''Sysvar1nstructions1111111111111111111111111'')
       = ''Sysvar1nstructions1111111111111111111111111''"
    "tk_base58 tk (replicate 32 0) = ''11111111111111111111111111111111''"
    "tk_base58 tk TO = ''29d2S7vB453rNYFdR5Ycwt7y9haRT5fwVwL9zTmBhfV2''"
    "tk_base58 tk RELAYER = ''93MB2qRDNVLxbmmPuYpLdAqn3u2x9ZhaVZK5wELHueP8''"
    "tk_base58 tk BLOCKHASH = ''AByCTxLPRZPoyK22KdMxa3xkCbcNbeNWzVeEvh6UcJs9''"
  using assms unfolding base58_contract_def committed_texts_def list.pred_inject literals by blast+

text \<open>The test key.\<close>

lemma committed_key_facts:
  assumes "vector_toolkit rt tk"
  obtains key where "from_seed tk PRIVATE_KEY = Some key"
    "compressed_pubkey tk key = Some TEST_KEY" "key_wallet_id rt tk key = Some TEST_WALLET_ID"
proof -
  from assms obtain k where k: "tk_signing_key tk PRIVATE_KEY = Some k" "tk_sec1_point tk k = TEST_KEY"
    and sha: "rt_sha256 rt TEST_KEY = TEST_WALLET_ID"
    unfolding vector_toolkit_def committed_keys_def pubkey_of_seed_def committed_runtime_def by blast
  have pk: "compressed_pubkey tk (EnclaveKey k) = Some TEST_KEY"
    by (simp add: compressed_pubkey_def k committed_lengths)
  show ?thesis
    by (rule that [of "EnclaveKey k"]) (simp_all add: from_seed_def k pk key_wallet_id_def wallet_id_of_def sha)
qed

lemma committed_cases_list:
  assumes "vector_toolkit rt tk"
  shows "cases_list tk = Some committed_cases" "seed_pubkey tk GUARDIAN_SEED = Some GUARDIAN_KEY"
    "seed_pubkey tk PASSKEY_SEED = Some PASSKEY_KEY" "seed_pubkey tk NEW_KEY_SEED = Some NEW_KEY"
proof -
  from assms show seeds: "seed_pubkey tk GUARDIAN_SEED = Some GUARDIAN_KEY"
    "seed_pubkey tk PASSKEY_SEED = Some PASSKEY_KEY" "seed_pubkey tk NEW_KEY_SEED = Some NEW_KEY"
    by (auto simp: vector_toolkit_def committed_keys_def intro!: seed_pubkey_of committed_lengths)
  then show "cases_list tk = Some committed_cases"
    by (simp add: cases_list_def committed_cases_def)
qed

lemma committed_actions_vector:
  assumes "vector_toolkit rt tk" "compressed_pubkey tk key = Some TEST_KEY"
    and "key_wallet_id rt tk key = Some TEST_WALLET_ID"
  shows "actions_vector rt tk key = Some (vector_of_actions
    (\<lambda>action. key_sign tk key (vector_preimage TEST_WALLET_ID action)))"
proof -
  let ?sign = "\<lambda>action. key_sign tk key (vector_preimage TEST_WALLET_ID action)"
  from assms(1) have b58: "base58_contract tk" and secp: "secp256r1_contract tk"
    and size: "signature_contract tk" by (simp_all add: vector_toolkit_def)
  have "action_vector tk key TEST_WALLET_ID (name, action) = Some (vector_of_case ?sign (name, action))"
    if "(name, action) \<in> set committed_cases" for name action
  proof -
    from that committed_cases_ok obtain fields where "fields_json action = Some fields"
      by (auto simp: list_all_iff)
    then show ?thesis
      using secp size base58_texts(5) [OF b58]
      by (simp add: action_vector_def vector_of_case_def assms(2) Let_def signature_contract_def
          secp256r1_contract_def committed_lengths signed_instruction_def)
  qed
  then have "collect (action_vector tk key TEST_WALLET_ID) committed_cases
      = Some (map (vector_of_case ?sign) committed_cases)"
    by (intro collect_map) (auto simp: list_all_iff)
  then show ?thesis
    by (simp add: actions_vector_def vector_of_actions_def assms(3) committed_cases_list [OF assms(1)])
qed

text \<open>The instructions whose struct has the field \<open>to\<close>.\<close>

definition call_has_to :: "Call \<Rightarrow> bool" where
  "call_has_to call \<longleftrightarrow> (case call of Call_TransferSol _ _ _ \<Rightarrow> True | Call_SweepVault _ _ \<Rightarrow> True
     | Call_CloseWallet _ _ \<Rightarrow> True | _ \<Rightarrow> False)"

lemma committed_addresses:
  assumes "vector_toolkit rt tk"
  shows "vector_accounts rt TEST_WALLET_ID dest =
     \<lparr>ak_wallet = pubkey_literal WALLET_ADDRESS, ak_vault = pubkey_literal VAULT_ADDRESS, ak_to = dest,
      ak_relayer = RELAYER,
      ak_instructions_sysvar = pubkey_literal ''Sysvar1nstructions1111111111111111111111111'',
      ak_system_program = replicate 32 0,
      ak_event_authority = pubkey_literal EVENT_AUTHORITY_ADDRESS, ak_program = PROGRAM_ID\<rparr>"
    "pda_find rt tk [WALLET_SEED, TEST_WALLET_ID] = \<lparr>pda_address = WALLET_ADDRESS, pda_bump = 255\<rparr>"
    "pda_find rt tk [VAULT_SEED, TEST_WALLET_ID] = \<lparr>pda_address = VAULT_ADDRESS, pda_bump = 255\<rparr>"
    "pda_find rt tk [EVENT_AUTHORITY_SEED] = \<lparr>pda_address = EVENT_AUTHORITY_ADDRESS, pda_bump = 252\<rparr>"
    "created_state rt TEST_WALLET_ID TEST_KEY = committed_created"
    "rt_sha256 rt (ascii RP_ID) = RP_ID_HASH"
proof -
  from assms have rt: "committed_runtime rt" and b58: "base58_contract tk"
    by (simp_all add: vector_toolkit_def)
  show "rt_sha256 rt (ascii RP_ID) = RP_ID_HASH" using rt by (simp add: committed_runtime_def)
  show "created_state rt TEST_WALLET_ID TEST_KEY = committed_created"
    using rt by (simp add: created_state_def committed_created_def committed_runtime_def)
  show "pda_find rt tk [WALLET_SEED, TEST_WALLET_ID] = \<lparr>pda_address = WALLET_ADDRESS, pda_bump = 255\<rparr>"
    "pda_find rt tk [VAULT_SEED, TEST_WALLET_ID] = \<lparr>pda_address = VAULT_ADDRESS, pda_bump = 255\<rparr>"
    "pda_find rt tk [EVENT_AUTHORITY_SEED] = \<lparr>pda_address = EVENT_AUTHORITY_ADDRESS, pda_bump = 252\<rparr>"
    using rt base58_texts(1-3) [OF b58] by (simp_all add: pda_find_def committed_runtime_def)
qed (use assms in \<open>simp add: vector_accounts_def vector_toolkit_def committed_runtime_def\<close>)

lemma shown_instructions:
  assumes "vector_toolkit rt tk"
  shows "list_all (\<lambda>call. program_instruction_vector tk (client_instruction call
      (vector_accounts rt TEST_WALLET_ID (if call_has_to call then TO else [])))
    = Some (shown_instruction call)) (map snd committed_calls)"
proof -
  from assms have b58: "base58_contract tk" by (simp add: vector_toolkit_def)
  show ?thesis
    unfolding committed_calls_def Let_def list.map list.pred_inject snd_conv
    by (simp add: program_instruction_vector_def client_instruction_def call_data_def
        committed_addresses(1) [OF assms] shown_instruction_def shown_texts_def shown_meta_def
        accounts_of_keys_def writable_def readonly_def paying_signer_def account_meta_vector_def
        base58_texts [OF b58] call_has_to_def Let_def)
qed

lemma committed_instructions_vector:
  assumes "vector_toolkit rt tk" "key_wallet_id rt tk key = Some TEST_WALLET_ID"
  shows "instructions_vector rt tk key = Some
    \<lparr>isv_relayer = ''93MB2qRDNVLxbmmPuYpLdAqn3u2x9ZhaVZK5wELHueP8'', isv_relayer_fee = RELAYER_FEE,
     isv_instructions = map (\<lambda>(name, call). \<lparr>niv_name = name,
       niv_program_instruction = shown_instruction call\<rparr>) committed_calls\<rparr>"
proof -
  from assms(1) have b58: "base58_contract tk" by (simp add: vector_toolkit_def)
  note shown = shown_instructions [OF assms(1), unfolded committed_calls_def Let_def list.map
    list.pred_inject snd_conv call_has_to_def, simplified]
  show ?thesis
    by (simp add: instructions_vector_def assms(2) committed_cases_list [OF assms(1)]
        committed_cases_def named_instruction_vector_def confirm_rotation_instruction_def shown
        committed_calls_def Let_def base58_texts [OF b58])
qed

lemma committed_transaction_vector:
  assumes "vector_toolkit rt tk" "compressed_pubkey tk key = Some TEST_KEY"
    and "key_wallet_id rt tk key = Some TEST_WALLET_ID"
  shows "transaction_vector rt tk key = Some (vector_of_transaction
    (tk_message_bytes tk (vector_message rt tk key))
    (tk_base64 tk (tk_transaction_bytes tk [replicate 64 0] (vector_message rt tk key))))"
proof -
  from assms(1) have b58: "base58_contract tk" and secp: "secp256r1_contract tk"
    and size: "signature_contract tk" by (simp_all add: vector_toolkit_def)
  have pre: "tk_secp256r1_instruction tk m (key_sign tk key m) TEST_KEY
      = signed_instruction TEST_KEY (key_sign tk key m) m" for m
    using secp size by (simp add: secp256r1_contract_def signature_contract_def committed_lengths)
  have shown: "program_instruction_vector tk (client_instruction
      (Call_TransferSol (vector_authorization TEST_WALLET_ID) LAMPORTS RELAYER_FEE)
      (vector_accounts rt TEST_WALLET_ID TO)) = Some (shown_instruction
      (Call_TransferSol (vector_authorization TEST_WALLET_ID) LAMPORTS RELAYER_FEE))"
    using shown_instructions [OF assms(1)] by (simp add: committed_calls_def call_has_to_def Let_def)
  show ?thesis
    by (simp add: transaction_vector_def assms(2,3) Let_def pre)
      (simp add: shown vector_message_def vector_of_transaction_def transfer_case_def base58_texts [OF b58] Let_def)
qed

lemma committed_state_vector:
  assumes "vector_toolkit rt tk" "compressed_pubkey tk key = Some TEST_KEY"
    and "key_wallet_id rt tk key = Some TEST_WALLET_ID"
  shows "state_vector rt tk key = Some \<lparr>sv_discriminator = DISCRIMINATOR, sv_size = STATE_LEN,
     sv_offsets = state_offsets, sv_rp_id = RP_ID,
     sv_states = [named_state ''created'' committed_created,
       named_state ''recovering'' committed_recovering]\<rparr>"
  by (simp add: state_vector_def assms(2,3) committed_addresses(5,6) [OF assms(1)] Let_def
      recovering_state_def committed_cases_list [OF assms(1)] committed_recovering_def)

lemma committed_key_vector:
  assumes "vector_toolkit rt tk" "compressed_pubkey tk key = Some TEST_KEY"
    and "key_wallet_id rt tk key = Some TEST_WALLET_ID"
  shows "key_vector rt tk key = Some committed_key_vector"
proof -
  from assms(1) have b58: "base58_contract tk" by (simp add: vector_toolkit_def)
  show ?thesis
    by (simp add: key_vector_def assms(2,3) committed_addresses [OF assms(1)] base58_texts [OF b58]
        committed_key_vector_def)
qed

text \<open>All six files.\<close>

lemma vectors_generated:
  assumes "vector_toolkit rt tk"
  obtains key actions high_s transaction where "from_seed tk PRIVATE_KEY = Some key"
    "actions_vector rt tk key = Some actions" "high_s_vector tk key = Some high_s"
    "transaction_vector rt tk key = Some transaction"
    "vectors rt tk = Some
       [(''key.json'', render tk committed_key),
        (''actions.json'', render tk (actions_vector_json actions)),
        (''high_s.json'', render tk (high_s_vector_json high_s)),
        (''transaction.json'', render tk (transaction_vector_json transaction)),
        (''instructions.json'', render tk committed_instructions),
        (''state.json'', render tk committed_state)]"
    "actions_vector_json actions = committed_actions \<longleftrightarrow>
       list_all (\<lambda>(name, action). key_sign tk key (vector_preimage TEST_WALLET_ID action)
         = committed_signature action) committed_cases"
    "high_s_vector_json high_s = committed_high_s \<longleftrightarrow>
       key_sign_high_s tk key (ascii ''enclavekit high-S vector'') = Some (LOW_R @ HIGH_S)
       \<and> key_sign tk key (ascii ''enclavekit high-S vector'') = LOW_R @ LOW_S"
    "transaction_vector_json transaction = committed_transaction \<longleftrightarrow>
       tk_message_bytes tk (vector_message rt tk key) = COMPILED_MESSAGE
       \<and> tk_base64 tk (tk_transaction_bytes tk [replicate 64 0] (vector_message rt tk key)) = TRANSACTION_TEXT"
proof -
  obtain key where key: "from_seed tk PRIVATE_KEY = Some key"
    "compressed_pubkey tk key = Some TEST_KEY" "key_wallet_id rt tk key = Some TEST_WALLET_ID"
    using committed_key_facts [OF assms] .
  from assms have "key_sign_high_s tk key (ascii ''enclavekit high-S vector'') \<noteq> None"
    by (simp add: vector_toolkit_def signature_contract_def)
  then obtain high where high: "key_sign_high_s tk key (ascii ''enclavekit high-S vector'') = Some high"
    by blast
  note parts = committed_actions_vector [OF assms key(2,3)] committed_transaction_vector [OF assms key(2,3)]
  have high_s: "high_s_vector tk key = Some \<lparr>hs_message = ascii ''enclavekit high-S vector'',
      hs_high_s = high, hs_low_s = key_sign tk key (ascii ''enclavekit high-S vector'')\<rparr>"
    by (simp add: high_s_vector_def high Let_def)
  show ?thesis
  proof (rule that [OF key(1) parts(1) high_s parts(2)])
    show "vectors rt tk = Some
       [(''key.json'', render tk committed_key),
        (''actions.json'', render tk (actions_vector_json (vector_of_actions
           (\<lambda>action. key_sign tk key (vector_preimage TEST_WALLET_ID action))))),
        (''high_s.json'', render tk (high_s_vector_json \<lparr>hs_message = ascii ''enclavekit high-S vector'',
           hs_high_s = high, hs_low_s = key_sign tk key (ascii ''enclavekit high-S vector'')\<rparr>)),
        (''transaction.json'', render tk (transaction_vector_json (vector_of_transaction
           (tk_message_bytes tk (vector_message rt tk key))
           (tk_base64 tk (tk_transaction_bytes tk [replicate 64 0] (vector_message rt tk key)))))),
        (''instructions.json'', render tk committed_instructions),
        (''state.json'', render tk committed_state)]"
      by (simp add: vectors_def key(1) committed_key_vector [OF assms key(2,3)] parts high_s
          committed_instructions_vector [OF assms key(3)] committed_state_vector [OF assms key(2,3)]
          key_json instructions_json state_json)
  qed (simp_all only: actions_json_iff high_s_json_iff transaction_json_iff high option.inject)
qed

section \<open>A toolkit that satisfies the contract\<close>

definition lookup :: "('a \<times> 'b list) list \<Rightarrow> 'a \<Rightarrow> 'b list" where
  "lookup table x = (case map_of table x of None \<Rightarrow> [] | Some y \<Rightarrow> y)"

definition sample_signature :: "bytes \<Rightarrow> bytes" where
  "sample_signature message =
     (case map_of (map (\<lambda>(name, action). (vector_preimage TEST_WALLET_ID action,
             committed_signature action)) committed_cases) message of
        None \<Rightarrow> LOW_R @ LOW_S | Some signature \<Rightarrow> signature)"

text \<open>Its printer has the documented format of \<open>serde_json::to_string_pretty\<close>: two spaces of indentation per
  level, one entry per line. It escapes nothing, as the vectors have nothing to escape.\<close>

fun decimal :: "nat \<Rightarrow> string" where
  "decimal n = (if n < 10 then [] else decimal (n div 10)) @ [''0123456789'' ! (n mod 10)]"

declare decimal.simps [simp del]

definition quoted :: "string \<Rightarrow> string" where
  "quoted s = CHR 0x22 # s @ [CHR 0x22]"

definition new_line :: "nat \<Rightarrow> string" where
  "new_line level = CHR 0x0A # replicate (2 * level) CHR 0x20"

fun entries :: "nat \<Rightarrow> string list \<Rightarrow> string" where
  "entries level [] = []"
| "entries level [s] = new_line level @ s"
| "entries level (s # t # ss) = new_line level @ s @ CHR 0x2C # entries level (t # ss)"

definition enclosed :: "char \<Rightarrow> char \<Rightarrow> nat \<Rightarrow> string list \<Rightarrow> string" where
  "enclosed l r level ss =
     (if ss = [] then [l, r] else l # entries (Suc level) ss @ new_line level @ [r])"

fun pretty :: "nat \<Rightarrow> json \<Rightarrow> string" where
  "pretty level JNull = ''null''"
| "pretty level (JBool b) = (if b then ''true'' else ''false'')"
| "pretty level (JNumber i) = (if i < 0 then CHR 0x2D # decimal (nat (- i)) else decimal (nat i))"
| "pretty level (JReal s) = s"
| "pretty level (JString s) = quoted s"
| "pretty level (JArray vs) = enclosed CHR 0x5B CHR 0x5D level (map (pretty (Suc level)) vs)"
| "pretty level (JObject kvs) = enclosed CHR 0x7B CHR 0x7D level
     (map (\<lambda>(k, v). quoted k @ CHR 0x3A # CHR 0x20 # pretty (Suc level) v) kvs)"

definition sample_toolkit :: "(bytes, Instruction list) toolkit" where
  "sample_toolkit = \<lparr>
     tk_signing_key = Some,
     tk_sec1_point = (\<lambda>seed. if seed = PRIVATE_KEY then TEST_KEY else if seed = NEW_KEY_SEED then NEW_KEY
       else if seed = GUARDIAN_SEED then GUARDIAN_KEY else PASSKEY_KEY),
     tk_sign = (\<lambda>k m. (take 32 (sample_signature m), drop 32 (sample_signature m))),
     tk_normalize_s = (\<lambda>s. s),
     tk_negate = (\<lambda>s. HIGH_S),
     tk_from_scalars = (\<lambda>r s. Some (r, s)),
     tk_secp256r1_instruction = (\<lambda>m s p. signed_instruction p s m),
     tk_base58 = lookup (map (\<lambda>s. (pubkey_literal s, s)) committed_texts),
     tk_base64 = (\<lambda>bs. TRANSACTION_TEXT),
     tk_message = (\<lambda>ixs payer hash. ixs),
     tk_message_bytes = (\<lambda>m. COMPILED_MESSAGE),
     tk_transaction_bytes = (\<lambda>ss m. concat ss),
     tk_json_pretty = pretty 0\<rparr>"

definition sample_runtime :: runtime where
  "sample_runtime = demo_runtime\<lparr>
     rt_sha256 := (\<lambda>bs. if bs = TEST_KEY then TEST_WALLET_ID else RP_ID_HASH),
     rt_find_program_address := (\<lambda>seeds.
       if seeds = [WALLET_SEED, TEST_WALLET_ID] then (pubkey_literal WALLET_ADDRESS, 255)
       else if seeds = [VAULT_SEED, TEST_WALLET_ID] then (pubkey_literal VAULT_ADDRESS, 255)
       else (pubkey_literal EVENT_AUTHORITY_ADDRESS, 252)),
     rt_instructions_sysvar := pubkey_literal ''Sysvar1nstructions1111111111111111111111111''\<rparr>"

lemma sample_distinct:
  "distinct (map pubkey_literal committed_texts)"
  "distinct (map (\<lambda>(name, action). vector_preimage TEST_WALLET_ID action) committed_cases)"
  by code_simp+

lemma sample_seeds:
  "NEW_KEY_SEED \<noteq> PRIVATE_KEY" "GUARDIAN_SEED \<noteq> PRIVATE_KEY" "PASSKEY_SEED \<noteq> PRIVATE_KEY"
  "GUARDIAN_SEED \<noteq> NEW_KEY_SEED" "PASSKEY_SEED \<noteq> NEW_KEY_SEED" "PASSKEY_SEED \<noteq> GUARDIAN_SEED"
  "ascii RP_ID \<noteq> TEST_KEY" "length LOW_R = 32" "length HIGH_S = 32"
  "list_all (\<lambda>(name, action). vector_preimage TEST_WALLET_ID action
     \<noteq> ascii ''enclavekit high-S vector'') committed_cases"
  "length LOW_S = 32"
  by code_simp+

lemma map_of_mapped:
  assumes "distinct (map f xs)" "x \<in> set xs"
  shows "map_of (map (\<lambda>x. (f x, g x)) xs) (f x) = Some (g x)"
  using assms by (intro map_of_is_SomeI) (auto simp: comp_def)

lemma lookup_map:
  assumes "distinct (map f xs)" "x \<in> set xs"
  shows "lookup (map (\<lambda>x. (f x, g x)) xs) (f x) = g x"
  by (simp add: lookup_def map_of_mapped [OF assms])

lemma sample_signatures:
  assumes "(name, action) \<in> set committed_cases"
  shows "sample_signature (vector_preimage TEST_WALLET_ID action) = committed_signature action"
  using map_of_mapped [OF sample_distinct(2) assms, of "\<lambda>(name, action). committed_signature action"]
  by (simp add: sample_signature_def case_prod_unfold)

lemma sample_signature_length: "length (sample_signature m) = 64"
proof (cases "map_of (map (\<lambda>(name, action). (vector_preimage TEST_WALLET_ID action,
    committed_signature action)) committed_cases) m")
  case None
  then show ?thesis using sample_seeds by (simp add: sample_signature_def)
next
  case (Some s)
  then have "s \<in> (\<lambda>(name, action). committed_signature action) ` set committed_cases"
    by (auto dest!: map_of_SomeD)
  with committed_cases_ok have "length s = 64" by (auto simp: list_all_iff)
  with Some show ?thesis by (simp add: sample_signature_def)
qed

lemma sample_high_s: "sample_signature (ascii ''enclavekit high-S vector'') = LOW_R @ LOW_S"
proof -
  have "ascii ''enclavekit high-S vector'' \<notin> fst ` set (map (\<lambda>(name, action).
      (vector_preimage TEST_WALLET_ID action, committed_signature action)) committed_cases)"
    using sample_seeds(10) by (auto simp: list_all_iff)
  then have "map_of (map (\<lambda>(name, action). (vector_preimage TEST_WALLET_ID action,
      committed_signature action)) committed_cases) (ascii ''enclavekit high-S vector'') = None"
    by (simp add: map_of_eq_None_iff)
  then show ?thesis by (simp add: sample_signature_def)
qed

lemma sample_key_sign: "key_sign sample_toolkit key m = sample_signature m"
  by (simp add: key_sign_def sample_toolkit_def)

lemma sample_vectors: "vector_toolkit sample_runtime sample_toolkit"
proof -
  have "committed_runtime sample_runtime"
    using sample_seeds(7) seeds_differ [of "[]" "[]"]
    by (auto simp: committed_runtime_def sample_runtime_def demo_runtime_def)
  moreover have "committed_keys sample_toolkit"
    using sample_seeds(1-6) by (auto simp: committed_keys_def pubkey_of_seed_def sample_toolkit_def)
  moreover have "signature_contract sample_toolkit"
    unfolding signature_contract_def sample_key_sign sample_signature_length
    by (simp add: key_sign_high_s_def sample_toolkit_def)
  moreover have "base58_contract sample_toolkit"
    using lookup_map [OF sample_distinct(1), of _ "\<lambda>s. s"]
    by (simp add: base58_contract_def sample_toolkit_def list_all_iff)
  moreover have "secp256r1_contract sample_toolkit"
    by (simp add: secp256r1_contract_def sample_toolkit_def)
  ultimately show ?thesis by (simp add: vector_toolkit_def)
qed

section \<open>Properties\<close>

text \<open>C19: the committed vectors are what the generator computes. For third-party code with the committed
  names (the keys of the seeds, the derived addresses, their base58) and any signing and compiling, the
  generator ends, the JSON values of \<open>key.json\<close>, \<open>instructions.json\<close> and \<open>state.json\<close> are the committed
  ones, and the other three are the committed ones exactly when the third-party results in them are: the
  six signatures over the preimages the generator built, the two signatures of the high-\<open>s\<close> vector,
  the compiled message of the two instructions and the base64 of its transaction. So every other value
  in the files is the generator's own: fields, borsh, preimages, precompile instructions, accounts,
  discriminators, instruction data, the state accounts and their offsets.\<close>

theorem committed_vectors_are_generated:
  assumes "vector_toolkit rt tk"
  shows "\<exists>key actions high_s transaction. from_seed tk PRIVATE_KEY = Some key
    \<and> actions_vector rt tk key = Some actions \<and> high_s_vector tk key = Some high_s
    \<and> transaction_vector rt tk key = Some transaction
    \<and> vectors rt tk = Some
       [(''key.json'', render tk committed_key),
        (''actions.json'', render tk (actions_vector_json actions)),
        (''high_s.json'', render tk (high_s_vector_json high_s)),
        (''transaction.json'', render tk (transaction_vector_json transaction)),
        (''instructions.json'', render tk committed_instructions),
        (''state.json'', render tk committed_state)]
    \<and> (actions_vector_json actions = committed_actions \<longleftrightarrow>
       list_all (\<lambda>(name, action). key_sign tk key (vector_preimage TEST_WALLET_ID action)
         = committed_signature action) committed_cases)
    \<and> (high_s_vector_json high_s = committed_high_s \<longleftrightarrow>
       key_sign_high_s tk key (ascii ''enclavekit high-S vector'') = Some (LOW_R @ HIGH_S)
       \<and> key_sign tk key (ascii ''enclavekit high-S vector'') = LOW_R @ LOW_S)
    \<and> (transaction_vector_json transaction = committed_transaction \<longleftrightarrow>
       tk_message_bytes tk (vector_message rt tk key) = COMPILED_MESSAGE
       \<and> tk_base64 tk (tk_transaction_bytes tk [replicate 64 0] (vector_message rt tk key))
           = TRANSACTION_TEXT)"
  by (rule vectors_generated [OF assms], intro exI conjI, assumption+)

theorem committed_vectors_are_generated_witness:
  "vectors sample_runtime sample_toolkit = Some
    [(''key.json'', render sample_toolkit committed_key),
     (''actions.json'', render sample_toolkit committed_actions),
     (''high_s.json'', render sample_toolkit committed_high_s),
     (''transaction.json'', render sample_toolkit committed_transaction),
     (''instructions.json'', render sample_toolkit committed_instructions),
     (''state.json'', render sample_toolkit committed_state)]"
proof -
  have signed: "list_all (\<lambda>(name, action). key_sign sample_toolkit key (vector_preimage TEST_WALLET_ID action)
      = committed_signature action) committed_cases" for key
    using sample_signatures by (auto simp: list_all_iff sample_key_sign)
  have high: "key_sign_high_s sample_toolkit key (ascii ''enclavekit high-S vector'') = Some (LOW_R @ HIGH_S)"
    "key_sign sample_toolkit key (ascii ''enclavekit high-S vector'') = LOW_R @ LOW_S" for key
    using sample_seeds(8) by (simp_all add: sample_key_sign sample_high_s)
      (simp add: key_sign_high_s_def sample_toolkit_def sample_high_s)
  have compiled: "tk_message_bytes sample_toolkit m = COMPILED_MESSAGE"
    "tk_base64 sample_toolkit bs = TRANSACTION_TEXT" for m bs
    by (simp_all add: sample_toolkit_def)
  from committed_vectors_are_generated [OF sample_vectors] show ?thesis
  proof (elim exE conjE)
    fix key actions high_s transaction
    assume vs: "vectors sample_runtime sample_toolkit = Some
       [(''key.json'', render sample_toolkit committed_key),
        (''actions.json'', render sample_toolkit (actions_vector_json actions)),
        (''high_s.json'', render sample_toolkit (high_s_vector_json high_s)),
        (''transaction.json'', render sample_toolkit (transaction_vector_json transaction)),
        (''instructions.json'', render sample_toolkit committed_instructions),
        (''state.json'', render sample_toolkit committed_state)]"
      and "actions_vector_json actions = committed_actions \<longleftrightarrow>
       list_all (\<lambda>(name, action). key_sign sample_toolkit key (vector_preimage TEST_WALLET_ID action)
         = committed_signature action) committed_cases"
      and "high_s_vector_json high_s = committed_high_s \<longleftrightarrow>
       key_sign_high_s sample_toolkit key (ascii ''enclavekit high-S vector'') = Some (LOW_R @ HIGH_S)
       \<and> key_sign sample_toolkit key (ascii ''enclavekit high-S vector'') = LOW_R @ LOW_S"
      and "transaction_vector_json transaction = committed_transaction \<longleftrightarrow>
       tk_message_bytes sample_toolkit (vector_message sample_runtime sample_toolkit key) = COMPILED_MESSAGE
       \<and> tk_base64 sample_toolkit (tk_transaction_bytes sample_toolkit [replicate 64 0]
           (vector_message sample_runtime sample_toolkit key)) = TRANSACTION_TEXT"
    then have "actions_vector_json actions = committed_actions" "high_s_vector_json high_s = committed_high_s"
      "transaction_vector_json transaction = committed_transaction"
      by (simp_all only: signed high compiled simp_thms)
    with vs show ?thesis by (simp only:)
  qed
qed

end
