(* ===== verification/World.thy ===== *)
theory World
  imports Prelude
begin

text \<open>
  Operations on the world outside a program (the network, the clock, the files, the console): a state
  \<open>'w\<close> that an operation takes and returns. An operation that returns \<open>Result\<close>, or may panic, gives
  an error or a value beside the new world.
\<close>

type_synonym ('w, 'e, 'a) operation = "'w \<Rightarrow> ('e + 'a) \<times> 'w"

definition io_return :: "'a \<Rightarrow> ('w, 'e, 'a) operation" where
  "io_return x w = (Inr x, w)"

definition io_fail :: "'e \<Rightarrow> ('w, 'e, 'a) operation" where
  "io_fail e w = (Inl e, w)"

definition io_then :: "('w, 'e, 'a) operation \<Rightarrow> ('a \<Rightarrow> ('w, 'e, 'b) operation) \<Rightarrow> ('w, 'e, 'b) operation" where
  "io_then m f w = (case m w of (Inl e, w') \<Rightarrow> (Inl e, w') | (Inr x, w') \<Rightarrow> f x w')"

text \<open>The question mark on a pure result, and on an option whose absence is the error \<open>e\<close>.\<close>

definition io_lift :: "'e + 'a \<Rightarrow> ('w, 'e, 'a) operation" where
  "io_lift r w = (r, w)"

definition io_some :: "'a option \<Rightarrow> 'e \<Rightarrow> ('w, 'e, 'a) operation" where
  "io_some v e = io_lift (ok_or v e)"

lemma io_then_Inr_iff [result_simps]:
  "io_then m f w = (Inr y, w') \<longleftrightarrow> (\<exists>x w1. m w = (Inr x, w1) \<and> f x w1 = (Inr y, w'))"
  by (auto simp: io_then_def split: prod.splits sum.splits)

lemma io_then_run: "m w = (Inr x, w') \<Longrightarrow> io_then m f w = f x w'"
  by (simp add: io_then_def)

lemma io_Inr_iff [result_simps]:
  "io_return x w = (Inr y, w') \<longleftrightarrow> y = x \<and> w' = w"
  "io_fail e w = (Inr y, w') \<longleftrightarrow> False"
  "io_lift r w = (Inr y, w') \<longleftrightarrow> r = Inr y \<and> w' = w"
  "io_some v e w = (Inr y, w') \<longleftrightarrow> v = Some y \<and> w' = w"
  by (auto simp: io_return_def io_fail_def io_lift_def io_some_def result_simps)

text \<open>\<open>expect\<close> and \<open>unwrap_or_else(panic)\<close>: the error of the system becomes the panic's.\<close>

definition io_expect :: "('e \<Rightarrow> 'f) \<Rightarrow> ('w, 'e, 'a) operation \<Rightarrow> ('w, 'f, 'a) operation" where
  "io_expect f m w = (case m w of (Inl e, w') \<Rightarrow> (Inl (f e), w') | (Inr x, w') \<Rightarrow> (Inr x, w'))"

lemma io_expect_Inr_iff [result_simps]: "io_expect f m w = (Inr x, w') \<longleftrightarrow> m w = (Inr x, w')"
  by (auto simp: io_expect_def split: prod.splits sum.splits)

end
