(* ===== verification/Gen_Main.thy ===== *)
theory Gen_Main
  imports Vectors_Current World
begin

text \<open>
  \<open>crates/gen-vectors/src/main.rs\<close>: \<open>main\<close>, which writes the vectors, and the test
  \<open>committed_vectors_are_up_to_date\<close>, which compares them with the files. The file system and the
  console are the record \<open>disk\<close>; \<open>disk_contract\<close> says what a file system does.
\<close>

section \<open>The file system\<close>

text \<open>\<open>Path::join\<close>: an absolute path replaces the first one.\<close>

definition path_join :: "string \<Rightarrow> string \<Rightarrow> string" where
  "path_join p n =
     (if take 1 n = ''/'' then n
      else if p = [] \<or> last p = CHR ''/'' then p @ n else p @ ''/'' @ n)"

record ('w, 'e) disk =
  d_create_dir_all :: "string \<Rightarrow> ('w, 'e, unit) operation"
  d_canonicalize :: "string \<Rightarrow> ('w, 'e, string) operation"
  d_write :: "string \<Rightarrow> string \<Rightarrow> ('w, 'e, unit) operation"
  d_read_to_string :: "string \<Rightarrow> ('w, 'e, string) operation"
  d_println :: "string \<Rightarrow> ('w, 'e, unit) operation"

datatype 'e gen_panic =
    CreateVectors 'e
  | VectorsExist 'e
  | WriteFailed string 'e
  | PrintFailed 'e
  | ReadFailed string 'e
  | Stale string
  | NoVectors \<comment> \<open>the generator itself panicked\<close>

section \<open>main\<close>

definition vectors_dir :: "string \<Rightarrow> string" where
  "vectors_dir manifest = path_join manifest ''../../vectors''"

fun write_all :: "('w, 'e) disk \<Rightarrow> string \<Rightarrow> (string \<times> string) list \<Rightarrow> ('w, 'e gen_panic, unit) operation" where
  "write_all d out [] = io_return ()"
| "write_all d out ((name, json) # rest) =
     (let path = path_join out name in
      io_then (io_expect (WriteFailed path) (d_write d path json)) (\<lambda>_.
      io_then (io_expect PrintFailed (d_println d (''wrote '' @ path))) (\<lambda>_.
      write_all d out rest)))"

definition gen_main ::
  "runtime \<Rightarrow> ('k, 'm) toolkit \<Rightarrow> ('w, 'e) disk \<Rightarrow> string \<Rightarrow> ('w, 'e gen_panic, unit) operation" where
  "gen_main rt tk d manifest =
     (let out = vectors_dir manifest in
      io_then (io_expect CreateVectors (d_create_dir_all d out)) (\<lambda>_.
      io_then (io_expect VectorsExist (d_canonicalize d out)) (\<lambda>out.
      io_then (io_some (vectors rt tk) NoVectors) (\<lambda>files. write_all d out files))))"

section \<open>The test\<close>

fun check_all :: "('w, 'e) disk \<Rightarrow> string \<Rightarrow> (string \<times> string) list \<Rightarrow> ('w, 'e gen_panic, unit) operation" where
  "check_all d dir [] = io_return ()"
| "check_all d dir ((name, expected) # rest) =
     (let path = path_join dir name in
      io_then (io_expect (ReadFailed path) (d_read_to_string d path)) (\<lambda>committed.
      if committed = expected then check_all d dir rest else io_fail (Stale name)))"

definition committed_vectors_test ::
  "runtime \<Rightarrow> ('k, 'm) toolkit \<Rightarrow> ('w, 'e) disk \<Rightarrow> string \<Rightarrow> ('w, 'e gen_panic, unit) operation" where
  "committed_vectors_test rt tk d manifest =
     (let dir = vectors_dir manifest in
      io_then (io_some (vectors rt tk) NoVectors) (\<lambda>files. check_all d dir files))"

section \<open>What a file system does\<close>

text \<open>\<open>place\<close> says which file a path names, \<open>files\<close> what the files hold. A write replaces one file and
  moves none; printing and reading change nothing; two names in a directory are two files, and are the
  same files in the directory's canonical path.\<close>

definition file_name :: "string \<Rightarrow> bool" where
  "file_name n \<longleftrightarrow> n \<notin> {[], ''.'', ''..''} \<and> CHR ''/'' \<notin> set n"

definition disk_contract ::
  "('w, 'e) disk \<Rightarrow> ('w \<Rightarrow> string \<Rightarrow> string) \<Rightarrow> ('w \<Rightarrow> string \<Rightarrow> string option) \<Rightarrow> bool" where
  "disk_contract d place files \<longleftrightarrow>
     (\<forall>p c w w'. d_write d p c w = (Inr (), w') \<longrightarrow>
        place w' = place w \<and> files w' = (files w)(place w p \<mapsto> c))
     \<and> (\<forall>s w w'. d_println d s w = (Inr (), w') \<longrightarrow> place w' = place w \<and> files w' = files w)
     \<and> (\<forall>p c w. files w (place w p) = Some c \<longrightarrow>
          (\<exists>w'. d_read_to_string d p w = (Inr c, w') \<and> place w' = place w \<and> files w' = files w))
     \<and> (\<forall>p q w w'. d_canonicalize d p w = (Inr q, w') \<longrightarrow> place w' = place w
          \<and> (\<forall>n. file_name n \<longrightarrow> place w (path_join q n) = place w (path_join p n)))
     \<and> (\<forall>p n n' w. file_name n \<longrightarrow> file_name n' \<longrightarrow>
          place w (path_join p n) = place w (path_join p n') \<longrightarrow> n = n')"

lemma disk_contractD:
  assumes "disk_contract d place files"
  shows "d_write d p c w = (Inr (), w') \<Longrightarrow> place w' = place w \<and> files w' = (files w)(place w p \<mapsto> c)"
    and "d_println d s w = (Inr (), w') \<Longrightarrow> place w' = place w \<and> files w' = files w"
    and "files w (place w p) = Some c \<Longrightarrow>
      \<exists>w'. d_read_to_string d p w = (Inr c, w') \<and> place w' = place w \<and> files w' = files w"
    and "d_canonicalize d p w = (Inr q, w') \<Longrightarrow> place w' = place w
      \<and> (\<forall>n. file_name n \<longrightarrow> place w (path_join q n) = place w (path_join p n))"
    and "place w (path_join p n) = place w (path_join p n') \<Longrightarrow> file_name n \<Longrightarrow> file_name n' \<Longrightarrow> n = n'"
  using assms unfolding disk_contract_def by blast+

lemma vectors_names:
  "vectors rt tk = Some vs \<Longrightarrow> map fst vs = [''key.json'', ''actions.json'', ''high_s.json'',
     ''transaction.json'', ''instructions.json'', ''state.json'']"
  by (auto simp: vectors_def bind_eq_Some_conv)

lemma vectors_files:
  assumes "vectors rt tk = Some vs"
  shows "distinct (map fst vs)" "\<forall>n \<in> set (map fst vs). file_name n"
  unfolding vectors_names [OF assms] by (code_simp, code_simp)

lemma write_all_files:
  assumes "disk_contract d place files" "distinct (map fst vs)" "\<forall>n \<in> set (map fst vs). file_name n"
    and "write_all d out vs w = (Inr (), w')"
  shows "place w' = place w
    \<and> (\<forall>(n, c) \<in> set vs. files w' (place w (path_join out n)) = Some c)
    \<and> (\<forall>x. (\<forall>n \<in> set (map fst vs). x \<noteq> place w (path_join out n)) \<longrightarrow> files w' x = files w x)"
  using assms(2-4)
proof (induction vs arbitrary: w)
  case Nil
  then show ?case by (simp add: result_simps)
next
  case (Cons v vs)
  obtain n c where v: "v = (n, c)" by (cases v)
  from Cons.prems(3) v obtain w1 w2 where "d_write d (path_join out n) c w = (Inr (), w1)"
      "d_println d (''wrote '' @ path_join out n) w1 = (Inr (), w2)"
    and rest: "write_all d out vs w2 = (Inr (), w')"
    by (auto simp: result_simps Let_def)
  then have w2: "place w2 = place w" "files w2 = (files w)(place w (path_join out n) \<mapsto> c)"
    using disk_contractD(1,2) [OF assms(1)] by simp_all
  have other: "place w (path_join out n) \<noteq> place w (path_join out n')" if "n' \<in> set (map fst vs)" for n'
  proof -
    from that Cons.prems(1,2) v have "n \<noteq> n'" "file_name n" "file_name n'" by auto
    with disk_contractD(5) [OF assms(1), of w out n n'] show ?thesis by blast
  qed
  from Cons.IH [OF _ _ rest] Cons.prems(1,2) w2(1)
  have IH: "place w' = place w" "\<forall>(n, c) \<in> set vs. files w' (place w (path_join out n)) = Some c"
    "\<And>x. \<forall>n \<in> set (map fst vs). x \<noteq> place w (path_join out n) \<Longrightarrow> files w' x = files w2 x" by simp_all
  with IH(3) [of "place w (path_join out n)"] other show ?case by (auto simp: v w2(2))
qed

lemma check_all_passes:
  assumes "disk_contract d place files" "\<forall>(n, c) \<in> set vs. files w (place w (path_join dir n)) = Some c"
  shows "\<exists>w'. check_all d dir vs w = (Inr (), w')"
  using assms(2)
proof (induction vs arbitrary: w)
  case Nil
  then show ?case by (simp add: io_return_def)
next
  case (Cons v vs)
  obtain n c where v: "v = (n, c)" by (cases v)
  with Cons.prems have "files w (place w (path_join dir n)) = Some c" by simp
  with disk_contractD(3) [OF assms(1)] obtain w1 where "d_read_to_string d (path_join dir n) w = (Inr c, w1)"
    "place w1 = place w" "files w1 = files w" by blast
  with Cons.IH [of w1] Cons.prems v show ?case
    by (simp add: io_then_def io_expect_def Let_def)
qed

section \<open>Properties\<close>

text \<open>C40: regenerating makes the test pass. After a run of the generator that ends without a panic, on a
  file system that keeps what is written, the test that compares the vectors with the files succeeds.\<close>

theorem regenerated_vectors_pass_test:
  assumes "disk_contract d place files" "gen_main rt tk d manifest w = (Inr (), w1)"
  shows "\<exists>w2. committed_vectors_test rt tk d manifest w1 = (Inr (), w2)"
proof -
  from assms(2) obtain w2 out w3 vs where canon: "d_canonicalize d (vectors_dir manifest) w2 = (Inr out, w3)"
    and vs: "vectors rt tk = Some vs" and written: "write_all d out vs w3 = (Inr (), w1)"
    by (auto simp: gen_main_def result_simps Let_def)
  note names = vectors_files [OF vs]
  have "place w3 (path_join out n) = place w3 (path_join (vectors_dir manifest) n)"
    if "n \<in> set (map fst vs)" for n
    using disk_contractD(4) [OF assms(1) canon] names(2) [rule_format, OF that] by simp
  with write_all_files [OF assms(1) names written]
  have "\<forall>(n, c) \<in> set vs. files w1 (place w1 (path_join (vectors_dir manifest) n)) = Some c"
    by fastforce
  from check_all_passes [OF assms(1) this] show ?thesis
    by (simp add: committed_vectors_test_def io_some_def io_lift_def io_then_def vs ok_or_def)
qed

text \<open>A file system that is a map from paths to texts.\<close>

definition demo_disk :: "(string \<Rightarrow> string option, unit) disk" where
  "demo_disk = \<lparr>d_create_dir_all = \<lambda>p. io_return (), d_canonicalize = \<lambda>p. io_return p,
     d_write = \<lambda>p c w. (Inr (), w(p \<mapsto> c)),
     d_read_to_string = \<lambda>p w. (case w p of Some c \<Rightarrow> (Inr c, w) | None \<Rightarrow> (Inl (), w)),
     d_println = \<lambda>s. io_return ()\<rparr>"

lemma path_join_inj:
  assumes "path_join p n = path_join p n'" "file_name n" "file_name n'"
  shows "n = n'"
proof -
  have plain: "take 1 m \<noteq> ''/''" if "file_name m" for m
    using that by (cases m) (auto simp: file_name_def)
  note join = path_join_def [of p n] path_join_def [of p n']
  from assms(1) show ?thesis
    unfolding join if_not_P [OF plain [OF assms(2)]] if_not_P [OF plain [OF assms(3)]]
    by (simp split: if_splits)
qed

lemma demo_disk_contract: "disk_contract demo_disk (\<lambda>w p. p) (\<lambda>w. w)"
  unfolding disk_contract_def
proof (intro conjI allI impI)
  show "n = n'" if "file_name n" "file_name n'" "path_join p n = path_join p n'" for p n n'
    using path_join_inj that by blast
qed (auto simp: demo_disk_def io_return_def)

lemma demo_write_all: "\<exists>w'. write_all demo_disk out vs w = (Inr (), w')"
  by (induction vs arbitrary: w) (auto simp: demo_disk_def io_return_def io_then_def io_expect_def Let_def)

theorem regenerated_vectors_pass_test_witness:
  "\<exists>w1 w2. gen_main sample_runtime sample_toolkit demo_disk ''/repo'' Map.empty = (Inr (), w1)
     \<and> committed_vectors_test sample_runtime sample_toolkit demo_disk ''/repo'' w1 = (Inr (), w2)"
proof -
  obtain vs where vs: "vectors sample_runtime sample_toolkit = Some vs"
    by (rule vectors_generated [OF sample_vectors], erule that)
  from demo_write_all obtain w1
    where "write_all demo_disk (vectors_dir ''/repo'') vs Map.empty = (Inr (), w1)" by blast
  then have run: "gen_main sample_runtime sample_toolkit demo_disk ''/repo'' Map.empty = (Inr (), w1)"
    by (simp add: gen_main_def io_then_def io_expect_def io_some_def io_lift_def ok_or_def vs
        demo_disk_def io_return_def)
  with regenerated_vectors_pass_test [OF demo_disk_contract run] show ?thesis by blast
qed

end
