(* ===== verification/Json_Rpc.thy ===== *)
theory Json_Rpc
  imports Gen_Vectors World
begin

text \<open>
  \<open>programs/enclavekit/examples/kora_transfer_sol.rs\<close>, its JSON-RPC client: one call, the accessors
  that read a reply, and what the example asks a node for. The world outside (the network, the clock,
  the files, the random source) is a state \<open>'w\<close> that every operation takes and returns; what it does is
  a parameter, the record \<open>host\<close>. A function that returns \<open>Result\<close> gives an error or a value beside
  the new world. The texts of the error messages are the constructors of \<open>client_error\<close>.
\<close>

section \<open>Operations on the world\<close>

datatype client_error =
    SeedLength \<comment> \<open>\<open>ENCLAVE_SEED\<close> must be 64 hex chars\<close>
  | SeedDigit \<comment> \<open>\<open>ParseIntError\<close>\<close>
  | MissingString string json
  | NotANumber json
  | RpcError string json
  | NoResult string json
  | TransactionFailed string json
  | NotConfirmed string
  | NoSignature
  | Foreign nat \<comment> \<open>an error of another crate or of the system\<close>
  | Panicked

type_synonym ('w, 'a) io = "('w, client_error, 'a) operation"

text \<open>What the host provides: the environment, \<open>ureq::post(url).send_json(body)\<close> with \<open>read_json\<close>, a
  second's sleep, the seconds since the epoch, 32 random bytes, a new keypair, a keypair file.\<close>

record ('w, 'kp) host =
  h_env_var :: "string \<Rightarrow> string option"
  h_post :: "string \<Rightarrow> json \<Rightarrow> ('w, json) io"
  h_sleep :: "'w \<Rightarrow> 'w"
  h_unix_time :: "('w, u64) io"
  h_random_seed :: "('w, bytes) io"
  h_new_pubkey :: "('w, pubkey) io"
  h_read_keypair :: "string \<Rightarrow> ('w, 'kp) io"

section \<open>Calls and replies\<close>

definition env_or :: "('w, 'kp) host \<Rightarrow> string \<Rightarrow> string \<Rightarrow> string" where
  "env_or h name fallback = (case h_env_var h name of Some v \<Rightarrow> v | None \<Rightarrow> fallback)"

definition rpc_call :: "('w, 'kp) host \<Rightarrow> string \<Rightarrow> string \<Rightarrow> json \<Rightarrow> ('w, json) io" where
  "rpc_call h url method params =
     (let body = JObject [(''id'', JNumber 1), (''jsonrpc'', JString ''2.0''),
            (''method'', JString method), (''params'', params)] in
      io_then (h_post h url body) (\<lambda>reply.
      case json_get reply ''error'' of
        Some error \<Rightarrow> io_fail (RpcError method error)
      | None \<Rightarrow> io_some (json_get reply ''result'') (NoResult method reply)))"

text \<open>\<open>field.parse::<usize>()\<close>: decimal digits, with an optional plus sign, below \<open>2 ^ 64\<close>.\<close>

definition decimal_value :: "char \<Rightarrow> int option" where
  "decimal_value c = map_of (zip ''0123456789'' [0, 1, 2, 3, 4, 5, 6, 7, 8, 9]) c"

fun decimal_digits :: "int \<Rightarrow> string \<Rightarrow> int option" where
  "decimal_digits n [] = Some n"
| "decimal_digits n (c # cs) =
     (case decimal_value c of None \<Rightarrow> None
      | Some d \<Rightarrow> if 10 * n + d < 2 ^ 64 then decimal_digits (10 * n + d) cs else None)"

definition parse_usize :: "string \<Rightarrow> nat option" where
  "parse_usize s =
     (if s = [] \<or> s = ''+'' \<or> s = ''-'' then None
      else map_option nat (decimal_digits 0 (if hd s = CHR ''+'' then tl s else s)))"

definition str_field :: "json \<Rightarrow> string \<Rightarrow> client_error + string" where
  "str_field value field =
     (let inner = (case parse_usize field of Some index \<Rightarrow> json_element value index
                   | None \<Rightarrow> json_field value field) in
      ok_or (json_as_str inner) (MissingString field value))"

definition u64_of :: "json \<Rightarrow> client_error + u64" where
  "u64_of value = ok_or (json_as_u64 value) (NotANumber value)"

section \<open>What the example asks\<close>

definition commitment :: json where
  "commitment = JObject [(''commitment'', JString ''confirmed'')]"

definition rent_exempt_minimum :: "('w, 'kp) host \<Rightarrow> string \<Rightarrow> nat \<Rightarrow> ('w, u64) io" where
  "rent_exempt_minimum h rpc space =
     io_then (rpc_call h rpc ''getMinimumBalanceForRentExemption'' (JArray [JNumber (int space)]))
       (\<lambda>reply. io_lift (u64_of reply))"

definition balance :: "('w, 'kp) host \<Rightarrow> ('k, 'm) toolkit \<Rightarrow> string \<Rightarrow> pubkey \<Rightarrow> ('w, u64) io" where
  "balance h tk rpc address =
     io_then (rpc_call h rpc ''getBalance'' (JArray [JString (tk_base58 tk address), commitment]))
       (\<lambda>reply. io_lift (u64_of (json_field reply ''value'')))"

text \<open>\<open>confirm\<close>: one poll per second; \<open>n\<close> polls are left.\<close>

definition signature_status :: "('w, 'kp) host \<Rightarrow> string \<Rightarrow> string \<Rightarrow> ('w, json) io" where
  "signature_status h rpc signature =
     io_then (rpc_call h rpc ''getSignatureStatuses''
       (JArray [JArray [JString signature], JObject [(''searchTransactionHistory'', JBool True)]]))
       (\<lambda>statuses. io_return (json_element (json_field statuses ''value'') 0))"

fun confirm_polls :: "('w, 'kp) host \<Rightarrow> string \<Rightarrow> string \<Rightarrow> nat \<Rightarrow> ('w, unit) io" where
  "confirm_polls h rpc signature 0 = io_fail (NotConfirmed signature)"
| "confirm_polls h rpc signature (Suc n) =
     io_then (signature_status h rpc signature) (\<lambda>status.
       if \<not> json_is_null status \<and> \<not> json_is_null (json_field status ''err'')
       then io_fail (TransactionFailed signature (json_field status ''err''))
       else if \<not> json_is_null status \<and> json_as_str (json_field status ''confirmationStatus'')
           \<in> {Some ''confirmed'', Some ''finalized''}
       then io_return ()
       else (\<lambda>w. confirm_polls h rpc signature n (h_sleep h w)))"

definition confirm_transaction :: "('w, 'kp) host \<Rightarrow> string \<Rightarrow> string \<Rightarrow> ('w, unit) io" where
  "confirm_transaction h rpc signature = confirm_polls h rpc signature 60"

section \<open>The polls\<close>

text \<open>What one poll decides, if anything.\<close>

definition poll_verdict :: "string \<Rightarrow> client_error + json \<Rightarrow> (client_error + unit) option" where
  "poll_verdict signature reply =
     (case reply of
        Inl e \<Rightarrow> Some (Inl e)
      | Inr status \<Rightarrow>
          if status = JNull then None
          else if json_field status ''err'' \<noteq> JNull
          then Some (Inl (TransactionFailed signature (json_field status ''err'')))
          else if json_as_str (json_field status ''confirmationStatus'')
              \<in> {Some ''confirmed'', Some ''finalized''}
          then Some (Inr ())
          else None)"

text \<open>The world before poll \<open>i\<close>, if no earlier one decides.\<close>

primrec poll_world :: "('w, 'kp) host \<Rightarrow> string \<Rightarrow> string \<Rightarrow> nat \<Rightarrow> 'w \<Rightarrow> 'w" where
  "poll_world h rpc signature 0 w = w"
| "poll_world h rpc signature (Suc i) w
     = poll_world h rpc signature i (h_sleep h (snd (signature_status h rpc signature w)))"

lemma all_less_Suc_split: "(\<forall>j<Suc i. P j) \<longleftrightarrow> P 0 \<and> (\<forall>j<i. P (Suc j))"
  by (auto simp: less_Suc_eq_0_disj)

lemma confirm_polls_Suc:
  "confirm_polls h rpc signature (Suc n) w =
     (let (reply, w') = signature_status h rpc signature w in
      case poll_verdict signature reply of
        Some r \<Rightarrow> (r, w')
      | None \<Rightarrow> confirm_polls h rpc signature n (h_sleep h w'))"
  by (auto simp: io_then_def poll_verdict_def io_fail_def io_return_def json_is_null_def
      split: prod.splits sum.splits)

abbreviation poll_at ::
  "('w, 'kp) host \<Rightarrow> string \<Rightarrow> string \<Rightarrow> 'w \<Rightarrow> nat \<Rightarrow> (client_error + unit) option" where
  "poll_at h rpc signature w i \<equiv>
     poll_verdict signature (fst (signature_status h rpc signature (poll_world h rpc signature i w)))"

lemma confirm_polls_decided:
  "(\<exists>i r. i < n \<and> (\<forall>j<i. poll_at h rpc signature w j = None)
      \<and> poll_at h rpc signature w i = Some r
      \<and> confirm_polls h rpc signature n w
          = (r, snd (signature_status h rpc signature (poll_world h rpc signature i w))))
   \<or> (\<forall>j<n. poll_at h rpc signature w j = None)
      \<and> confirm_polls h rpc signature n w
          = (Inl (NotConfirmed signature), poll_world h rpc signature n w)"
proof (induction n arbitrary: w)
  case 0
  then show ?case by (simp add: io_fail_def)
next
  case (Suc n)
  obtain reply w' where s: "signature_status h rpc signature w = (reply, w')" by force
  show ?case
  proof (cases "poll_verdict signature reply")
    case (Some r)
    then have "confirm_polls h rpc signature (Suc n) w = (r, w')"
      by (simp only: confirm_polls_Suc s) simp
    then show ?thesis
      using Some s by (intro disjI1 exI [of _ 0] exI [of _ r]) simp
  next
    case None
    then have step: "confirm_polls h rpc signature (Suc n) w
        = confirm_polls h rpc signature n (h_sleep h w')"
      by (simp only: confirm_polls_Suc s) simp
    have all: "(\<forall>j<Suc i. poll_at h rpc signature w j = None)
        \<longleftrightarrow> (\<forall>j<i. poll_at h rpc signature (h_sleep h w') j = None)" for i
      using None s by (simp add: all_less_Suc_split)
    from Suc.IH [of "h_sleep h w'"] show ?thesis
    proof (elim disjE exE conjE)
      fix i r
      assume "i < n" "\<forall>j<i. poll_at h rpc signature (h_sleep h w') j = None"
        "poll_at h rpc signature (h_sleep h w') i = Some r"
        "confirm_polls h rpc signature n (h_sleep h w') = (r, snd (signature_status h rpc signature
          (poll_world h rpc signature i (h_sleep h w'))))"
      then show ?thesis
        using s unfolding all step by (intro disjI1 exI [of _ "Suc i"] exI [of _ r]) (simp add: all)
    next
      assume "\<forall>j<n. poll_at h rpc signature (h_sleep h w') j = None"
        "confirm_polls h rpc signature n (h_sleep h w') = (Inl (NotConfirmed signature),
          poll_world h rpc signature n (h_sleep h w'))"
      then show ?thesis
        using s unfolding all step by (intro disjI2) simp
    qed
  qed
qed

section \<open>Properties\<close>

text \<open>C38: waiting for a transaction ends. \<open>confirm\<close> polls at most 60 times, whatever the node answers:
  either some poll is the first to decide, and the result is its verdict (confirmed, failed on chain, or
  a failed call) with no further poll, or 60 polls decide nothing and the result is that error.\<close>

theorem confirm_ends:
  "(\<exists>i r. i < 60 \<and> (\<forall>j<i. poll_at h rpc signature w j = None)
      \<and> poll_at h rpc signature w i = Some r
      \<and> confirm_transaction h rpc signature w
          = (r, snd (signature_status h rpc signature (poll_world h rpc signature i w))))
   \<or> (\<forall>j<60. poll_at h rpc signature w j = None)
      \<and> confirm_transaction h rpc signature w
          = (Inl (NotConfirmed signature), poll_world h rpc signature 60 w)"
  unfolding confirm_transaction_def by (rule confirm_polls_decided)

text \<open>A node that has seen nothing for three seconds, then the confirmed transaction; the world is the
  seconds that passed.\<close>

definition slow_node :: "(nat, unit) host" where
  "slow_node = \<lparr>h_env_var = (\<lambda>name. None),
     h_post = (\<lambda>url body w. (Inr (JObject [(''result'', JObject [(''value'', JArray [
       if w < 3 then JNull
       else JObject [(''err'', JNull), (''confirmationStatus'', JString ''confirmed'')]])])]), w)),
     h_sleep = Suc,
     h_unix_time = (\<lambda>w. (Inr (of_nat w), w)),
     h_random_seed = (\<lambda>w. (Inr [], w)),
     h_new_pubkey = (\<lambda>w. (Inr [], w)),
     h_read_keypair = (\<lambda>path w. (Inr (), w))\<rparr>"

lemma slow_node_status:
  "signature_status slow_node rpc signature w = (Inr (if w < 3 then JNull
     else JObject [(''err'', JNull), (''confirmationStatus'', JString ''confirmed'')]), w)"
  by (simp add: signature_status_def rpc_call_def slow_node_def io_then_def io_some_def io_lift_def
      io_return_def json_field_def Let_def)

lemma slow_node_worlds: "poll_world slow_node rpc signature i w = w + i"
proof -
  have "h_sleep slow_node = Suc" by (simp add: slow_node_def)
  then show ?thesis by (induction i arbitrary: w) (simp_all add: slow_node_status)
qed

theorem confirm_ends_witness: "confirm_transaction slow_node ''rpc'' ''sig'' 0 = (Inr (), 3)"
proof -
  have verdict: "poll_at slow_node ''rpc'' ''sig'' 0 i = (if i < 3 then None else Some (Inr ()))" for i
    by (simp add: slow_node_worlds slow_node_status poll_verdict_def json_field_def)
  from confirm_ends [where h = slow_node and rpc = "''rpc''" and signature = "''sig''" and w = 0] show ?thesis
  proof (elim disjE exE conjE)
    fix i r
    assume i: "\<forall>j<i. poll_at slow_node ''rpc'' ''sig'' 0 j = None"
      "poll_at slow_node ''rpc'' ''sig'' 0 i = Some r"
      and run: "confirm_transaction slow_node ''rpc'' ''sig'' 0
        = (r, snd (signature_status slow_node ''rpc'' ''sig'' (poll_world slow_node ''rpc'' ''sig'' i 0)))"
    from i(1) have "\<not> 3 < i" using verdict [of 3] by auto
    with i(2) have "i = 3 \<and> r = Inr ()" by (simp add: verdict split: if_splits)
    with run show ?thesis by (simp add: slow_node_worlds slow_node_status)
  next
    assume "\<forall>j<60. poll_at slow_node ''rpc'' ''sig'' 0 j = None"
    then have "poll_at slow_node ''rpc'' ''sig'' 0 3 = None" by simp
    then show ?thesis by (simp only: verdict) simp
  qed
qed

end
