(* ===== verification/Requests.thy ===== *)
theory Requests
  imports Gen_Vectors
begin

text \<open>
  \<open>tests/common/requests.rs\<close>: the request builders that the example and the tests share. A request is one
  enclave-authorised call: what the enclave signs and what the relayer sends. The trait \<open>EnclaveRequest\<close> is
  the locale \<open>enclave_request\<close>, whose laws say that the action a request signs is the one the program rebuilds
  from the instruction it sends; each of the six request structs is an interpretation. \<open>EnclaveKey\<close> has the
  functions of the generator's, and one more.
\<close>

section \<open>The key\<close>

definition precompile_instruction ::
  "('k, 'm) toolkit \<Rightarrow> 'k EnclaveKey \<Rightarrow> bytes \<Rightarrow> Instruction option" where
  "precompile_instruction tk key message =
     map_option (tk_secp256r1_instruction tk message (key_sign tk key message)) (compressed_pubkey tk key)"

text \<open>The same signature with a high \<open>s\<close>, which the precompile refuses.\<close>

definition precompile_instruction_high_s ::
  "('k, 'm) toolkit \<Rightarrow> 'k EnclaveKey \<Rightarrow> bytes \<Rightarrow> Instruction option" where
  "precompile_instruction_high_s tk key message =
     Option.bind (key_sign_high_s tk key message) (\<lambda>signature.
     map_option (tk_secp256r1_instruction tk message signature) (compressed_pubkey tk key))"

definition event_authority :: "runtime \<Rightarrow> pubkey" where
  "event_authority rt = fst (rt_find_program_address rt [ascii ''__event_authority''])"

section \<open>The trait\<close>

text \<open>Its provided methods, on what the required ones return.\<close>

definition enclave_preimage :: "Authorization \<Rightarrow> Action \<Rightarrow> bytes" where
  "enclave_preimage auth action =
     to_bytes \<lparr>pre_program_id = PROGRAM_ID, pre_wallet_id = auth_wallet_id auth,
       pre_nonce = auth_nonce auth, pre_expires_at = auth_expires_at auth,
       pre_max_relayer_fee = auth_max_relayer_fee auth, pre_action = action\<rparr>"

definition enclave_sign ::
  "('k, 'm) toolkit \<Rightarrow> 'k EnclaveKey \<Rightarrow> bytes \<Rightarrow> Instruction \<Rightarrow> Instruction list option" where
  "enclave_sign tk key preimage instruction =
     map_option (\<lambda>precompile. [precompile, instruction]) (precompile_instruction tk key preimage)"

lemma enclave_preimage_expected: "enclave_preimage auth action = to_bytes (expected_preimage auth action)"
  by (simp add: enclave_preimage_def expected_preimage_def)

text \<open>A toolkit whose P-256 and precompile crates write what they document.\<close>

definition signs_with :: "('k, 'm) toolkit \<Rightarrow> 'k EnclaveKey \<Rightarrow> bytes \<Rightarrow> bool" where
  "signs_with tk key pk \<longleftrightarrow> secp256r1_contract tk \<and> compressed_pubkey tk key = Some pk
     \<and> (\<forall>m. length (key_sign tk key m) = 64)"

lemma signs_withD:
  assumes "signs_with tk key pk"
  shows "length pk = 33" "length (key_sign tk key m) = 64"
    "precompile_instruction tk key m = Some (signed_instruction pk (key_sign tk key m) m)"
proof -
  from assms have pk: "compressed_pubkey tk key = Some pk" by (simp add: signs_with_def)
  then show len: "length pk = 33" by (auto simp: compressed_pubkey_def Let_def split: if_splits)
  with assms show "length (key_sign tk key m) = 64"
    "precompile_instruction tk key m = Some (signed_instruction pk (key_sign tk key m) m)"
    by (simp_all add: precompile_instruction_def signs_with_def secp256r1_contract_def)
qed

lemma enclave_signed:
  assumes "signs_with tk key pk"
  shows "enclave_sign tk key m ix = Some [signed_instruction pk (key_sign tk key m) m, ix]"
  by (simp add: enclave_sign_def signs_withD [OF assms])

locale enclave_request =
  fixes authorization :: "'r \<Rightarrow> Authorization"
    and action :: "'r \<Rightarrow> Action"
    and call :: "'r \<Rightarrow> Call"
    and accounts :: "runtime \<Rightarrow> 'r \<Rightarrow> pubkey \<Rightarrow> AccountKeys"
    and wf :: "'r \<Rightarrow> bool"
  assumes authorizes: "call_authorization (call r) = Some (authorization r)"
    and acts: "call_action (accounts_of_keys (accounts rt r relayer)) (call r) = Some (action r)"
    and names: "ak_wallet (accounts rt r relayer) = fst (wallet_pda rt (auth_wallet_id (authorization r)))"
      "ak_vault (accounts rt r relayer) = fst (vault_pda rt (auth_wallet_id (authorization r)))"
      "ak_relayer (accounts rt r relayer) = relayer"
    and well_formed: "wf r \<Longrightarrow> wf_args (call r) \<and> wf_action (action r) \<and> length (auth_wallet_id (authorization r)) = 32"
begin

lemma instruction_runs:
  "wf r \<Longrightarrow> process_instruction rt env (client_instruction (call r) (accounts rt r relayer)) b
    = process rt env (accounts_of_keys (accounts rt r relayer)) (call r) b"
  by (rule client_runs) (simp add: well_formed)

lemma signature_verifies:
  assumes "wf r" "length pk = 33" "length sig = 64"
    and "env_previous env = Inr (signed_instruction pk sig (enclave_preimage (authorization r) (action r)))"
    and "env_clock env = Inr now" "sint now < sint (auth_expires_at (authorization r))"
    and "is_new w \<longrightarrow> rt_sha256 rt pk = auth_wallet_id (authorization r)"
    and "sw_nonce (checked_wallet w (authorization r) pk sb vb) = auth_nonce (authorization r)"
    and "unat (auth_nonce (authorization r)) + 1 < 2 ^ 64"
  shows "verify_enclave_authorization rt env w (authorization r) (action r) sb vb
    = Inr (pk, (checked_wallet w (authorization r) pk sb vb)\<lparr>sw_nonce := auth_nonce (authorization r) + 1\<rparr>)"
proof -
  have "length (enclave_preimage (authorization r) (action r)) \<le> HEADER_LEN + 103"
    unfolding enclave_preimage_expected using well_formed [OF assms(1)]
    by (intro to_bytes_length expected_preimage_wf) simp_all
  then show ?thesis
    using assms by (simp add: verify_Inr_iff load_signed_instruction layout_simps enclave_preimage_expected)
qed

lemma signature_passes:
  assumes "wf r" "length pk = 33" "length sig = 64"
    and "env_previous env = Inr (signed_instruction pk sig (enclave_preimage (authorization r) (action r)))"
    and "env_clock env = Inr now" "sint now < sint (auth_expires_at (authorization r))"
    and "\<not> is_new w" "sw_nonce w = auth_nonce (authorization r)" "unat (sw_nonce w) + 1 < 2 ^ 64"
  shows "verify_enclave_authorization rt env w (authorization r) (action r) sb vb
    = Inr (pk, w\<lparr>sw_nonce := sw_nonce w + 1\<rparr>)"
  using signature_verifies [OF assms(1-6), of w rt sb vb] assms(7-9) by (simp add: checked_wallet_def)

end

section \<open>The requests\<close>

text \<open>A struct without a destination leaves that field out of its accounts.\<close>

definition no_key :: pubkey where
  "no_key = replicate 32 0"

lemmas request_wf_simps = accounts_of_keys_def writable_def wf_auth_def wf_array_def wf_list_def
  wf_guardian_def list_all_iff

subsection \<open>\<open>TransferSolRequest\<close>\<close>

record TransferSolRequest =
  tr_wallet_id :: bytes
  tr_to :: pubkey
  tr_lamports :: u64
  tr_nonce :: u64
  tr_expires_at :: i64
  tr_max_relayer_fee :: u64
  tr_relayer_fee :: u64

definition request_authorization :: "TransferSolRequest \<Rightarrow> Authorization" where
  "request_authorization r = \<lparr>auth_wallet_id = tr_wallet_id r, auth_nonce = tr_nonce r,
     auth_expires_at = tr_expires_at r, auth_max_relayer_fee = tr_max_relayer_fee r\<rparr>"

definition request_action :: "TransferSolRequest \<Rightarrow> Action" where
  "request_action r = TransferSol (tr_to r) (tr_lamports r)"

definition request_call :: "TransferSolRequest \<Rightarrow> Call" where
  "request_call r = Call_TransferSol (request_authorization r) (tr_lamports r) (tr_relayer_fee r)"

definition request_accounts :: "runtime \<Rightarrow> TransferSolRequest \<Rightarrow> pubkey \<Rightarrow> AccountKeys" where
  "request_accounts rt r relayer = \<lparr>ak_wallet = fst (wallet_pda rt (tr_wallet_id r)),
     ak_vault = fst (vault_pda rt (tr_wallet_id r)), ak_to = tr_to r, ak_relayer = relayer,
     ak_instructions_sysvar = rt_instructions_sysvar rt, ak_system_program = rt_system_program rt,
     ak_event_authority = event_authority rt, ak_program = PROGRAM_ID\<rparr>"

definition request_instruction :: "runtime \<Rightarrow> TransferSolRequest \<Rightarrow> pubkey \<Rightarrow> Instruction" where
  "request_instruction rt r relayer = client_instruction (request_call r) (request_accounts rt r relayer)"

definition wf_request :: "TransferSolRequest \<Rightarrow> bool" where
  "wf_request r \<longleftrightarrow> wf_array 32 (tr_wallet_id r) \<and> wf_array 32 (tr_to r)"

interpretation transfersol_request: enclave_request request_authorization request_action request_call request_accounts wf_request
  by unfold_locales (auto simp: request_authorization_def request_action_def request_call_def request_accounts_def
      wf_request_def request_wf_simps)

subsection \<open>\<open>SetGuardiansRequest\<close>\<close>

record SetGuardiansRequest =
  sgr_wallet_id :: bytes
  sgr_guardians :: "Guardian list"
  sgr_nonce :: u64
  sgr_expires_at :: i64
  sgr_max_relayer_fee :: u64
  sgr_relayer_fee :: u64

definition set_guardians_request_authorization :: "SetGuardiansRequest \<Rightarrow> Authorization" where
  "set_guardians_request_authorization r = \<lparr>auth_wallet_id = sgr_wallet_id r, auth_nonce = sgr_nonce r,
     auth_expires_at = sgr_expires_at r, auth_max_relayer_fee = sgr_max_relayer_fee r\<rparr>"

definition set_guardians_request_action :: "SetGuardiansRequest \<Rightarrow> Action" where
  "set_guardians_request_action r = SetGuardians (map eguardian_of (sgr_guardians r))"

definition set_guardians_request_call :: "SetGuardiansRequest \<Rightarrow> Call" where
  "set_guardians_request_call r = Call_SetGuardians (set_guardians_request_authorization r) (sgr_guardians r) (sgr_relayer_fee r)"

definition set_guardians_request_accounts :: "runtime \<Rightarrow> SetGuardiansRequest \<Rightarrow> pubkey \<Rightarrow> AccountKeys" where
  "set_guardians_request_accounts rt r relayer = \<lparr>ak_wallet = fst (wallet_pda rt (sgr_wallet_id r)),
     ak_vault = fst (vault_pda rt (sgr_wallet_id r)), ak_to = no_key, ak_relayer = relayer,
     ak_instructions_sysvar = rt_instructions_sysvar rt, ak_system_program = rt_system_program rt,
     ak_event_authority = event_authority rt, ak_program = PROGRAM_ID\<rparr>"

definition set_guardians_request_instruction :: "runtime \<Rightarrow> SetGuardiansRequest \<Rightarrow> pubkey \<Rightarrow> Instruction" where
  "set_guardians_request_instruction rt r relayer = client_instruction (set_guardians_request_call r) (set_guardians_request_accounts rt r relayer)"

definition wf_set_guardians_request :: "SetGuardiansRequest \<Rightarrow> bool" where
  "wf_set_guardians_request r \<longleftrightarrow> wf_array 32 (sgr_wallet_id r) \<and> wf_list wf_guardian MAX_GUARDIANS (sgr_guardians r)"

interpretation setguardians_request: enclave_request set_guardians_request_authorization set_guardians_request_action set_guardians_request_call set_guardians_request_accounts wf_set_guardians_request
  by unfold_locales (auto simp: set_guardians_request_authorization_def set_guardians_request_action_def set_guardians_request_call_def set_guardians_request_accounts_def
      wf_set_guardians_request_def request_wf_simps)

subsection \<open>\<open>CancelRotationRequest\<close>\<close>

record CancelRotationRequest =
  crr_wallet_id :: bytes
  crr_nonce :: u64
  crr_expires_at :: i64
  crr_max_relayer_fee :: u64
  crr_relayer_fee :: u64

definition cancel_request_authorization :: "CancelRotationRequest \<Rightarrow> Authorization" where
  "cancel_request_authorization r = \<lparr>auth_wallet_id = crr_wallet_id r, auth_nonce = crr_nonce r,
     auth_expires_at = crr_expires_at r, auth_max_relayer_fee = crr_max_relayer_fee r\<rparr>"

definition cancel_request_action :: "CancelRotationRequest \<Rightarrow> Action" where
  "cancel_request_action r = CancelRotation"

definition cancel_request_call :: "CancelRotationRequest \<Rightarrow> Call" where
  "cancel_request_call r = Call_CancelRotation (cancel_request_authorization r) (crr_relayer_fee r)"

definition cancel_request_accounts :: "runtime \<Rightarrow> CancelRotationRequest \<Rightarrow> pubkey \<Rightarrow> AccountKeys" where
  "cancel_request_accounts rt r relayer = \<lparr>ak_wallet = fst (wallet_pda rt (crr_wallet_id r)),
     ak_vault = fst (vault_pda rt (crr_wallet_id r)), ak_to = no_key, ak_relayer = relayer,
     ak_instructions_sysvar = rt_instructions_sysvar rt, ak_system_program = rt_system_program rt,
     ak_event_authority = event_authority rt, ak_program = PROGRAM_ID\<rparr>"

definition cancel_request_instruction :: "runtime \<Rightarrow> CancelRotationRequest \<Rightarrow> pubkey \<Rightarrow> Instruction" where
  "cancel_request_instruction rt r relayer = client_instruction (cancel_request_call r) (cancel_request_accounts rt r relayer)"

definition wf_cancel_request :: "CancelRotationRequest \<Rightarrow> bool" where
  "wf_cancel_request r \<longleftrightarrow> wf_array 32 (crr_wallet_id r)"

interpretation cancelrotation_request: enclave_request cancel_request_authorization cancel_request_action cancel_request_call cancel_request_accounts wf_cancel_request
  by unfold_locales (auto simp: cancel_request_authorization_def cancel_request_action_def cancel_request_call_def cancel_request_accounts_def
      wf_cancel_request_def request_wf_simps)

subsection \<open>\<open>ProposeRotationRequest\<close>\<close>

record ProposeRotationRequest =
  prr_wallet_id :: bytes
  prr_new_key :: bytes
  prr_nonce :: u64
  prr_expires_at :: i64
  prr_max_relayer_fee :: u64
  prr_relayer_fee :: u64

definition propose_request_authorization :: "ProposeRotationRequest \<Rightarrow> Authorization" where
  "propose_request_authorization r = \<lparr>auth_wallet_id = prr_wallet_id r, auth_nonce = prr_nonce r,
     auth_expires_at = prr_expires_at r, auth_max_relayer_fee = prr_max_relayer_fee r\<rparr>"

definition propose_request_action :: "ProposeRotationRequest \<Rightarrow> Action" where
  "propose_request_action r = ProposeRotation (prr_new_key r)"

definition propose_request_call :: "ProposeRotationRequest \<Rightarrow> Call" where
  "propose_request_call r = Call_ProposeRotation (propose_request_authorization r) (prr_new_key r) (prr_relayer_fee r)"

definition propose_request_accounts :: "runtime \<Rightarrow> ProposeRotationRequest \<Rightarrow> pubkey \<Rightarrow> AccountKeys" where
  "propose_request_accounts rt r relayer = \<lparr>ak_wallet = fst (wallet_pda rt (prr_wallet_id r)),
     ak_vault = fst (vault_pda rt (prr_wallet_id r)), ak_to = no_key, ak_relayer = relayer,
     ak_instructions_sysvar = rt_instructions_sysvar rt, ak_system_program = rt_system_program rt,
     ak_event_authority = event_authority rt, ak_program = PROGRAM_ID\<rparr>"

definition propose_request_instruction :: "runtime \<Rightarrow> ProposeRotationRequest \<Rightarrow> pubkey \<Rightarrow> Instruction" where
  "propose_request_instruction rt r relayer = client_instruction (propose_request_call r) (propose_request_accounts rt r relayer)"

definition wf_propose_request :: "ProposeRotationRequest \<Rightarrow> bool" where
  "wf_propose_request r \<longleftrightarrow> wf_array 32 (prr_wallet_id r) \<and> wf_array COMPRESSED_PUBKEY_LEN (prr_new_key r)"

interpretation proposerotation_request: enclave_request propose_request_authorization propose_request_action propose_request_call propose_request_accounts wf_propose_request
  by unfold_locales (auto simp: propose_request_authorization_def propose_request_action_def propose_request_call_def propose_request_accounts_def
      wf_propose_request_def request_wf_simps)

subsection \<open>\<open>SweepVaultRequest\<close>\<close>

record SweepVaultRequest =
  svr_wallet_id :: bytes
  svr_to :: pubkey
  svr_nonce :: u64
  svr_expires_at :: i64
  svr_max_relayer_fee :: u64
  svr_relayer_fee :: u64

definition sweep_request_authorization :: "SweepVaultRequest \<Rightarrow> Authorization" where
  "sweep_request_authorization r = \<lparr>auth_wallet_id = svr_wallet_id r, auth_nonce = svr_nonce r,
     auth_expires_at = svr_expires_at r, auth_max_relayer_fee = svr_max_relayer_fee r\<rparr>"

definition sweep_request_action :: "SweepVaultRequest \<Rightarrow> Action" where
  "sweep_request_action r = SweepVault (svr_to r)"

definition sweep_request_call :: "SweepVaultRequest \<Rightarrow> Call" where
  "sweep_request_call r = Call_SweepVault (sweep_request_authorization r) (svr_relayer_fee r)"

definition sweep_request_accounts :: "runtime \<Rightarrow> SweepVaultRequest \<Rightarrow> pubkey \<Rightarrow> AccountKeys" where
  "sweep_request_accounts rt r relayer = \<lparr>ak_wallet = fst (wallet_pda rt (svr_wallet_id r)),
     ak_vault = fst (vault_pda rt (svr_wallet_id r)), ak_to = svr_to r, ak_relayer = relayer,
     ak_instructions_sysvar = rt_instructions_sysvar rt, ak_system_program = rt_system_program rt,
     ak_event_authority = event_authority rt, ak_program = PROGRAM_ID\<rparr>"

definition sweep_request_instruction :: "runtime \<Rightarrow> SweepVaultRequest \<Rightarrow> pubkey \<Rightarrow> Instruction" where
  "sweep_request_instruction rt r relayer = client_instruction (sweep_request_call r) (sweep_request_accounts rt r relayer)"

definition wf_sweep_request :: "SweepVaultRequest \<Rightarrow> bool" where
  "wf_sweep_request r \<longleftrightarrow> wf_array 32 (svr_wallet_id r) \<and> wf_array 32 (svr_to r)"

interpretation sweepvault_request: enclave_request sweep_request_authorization sweep_request_action sweep_request_call sweep_request_accounts wf_sweep_request
  by unfold_locales (auto simp: sweep_request_authorization_def sweep_request_action_def sweep_request_call_def sweep_request_accounts_def
      wf_sweep_request_def request_wf_simps)

subsection \<open>\<open>CloseWalletRequest\<close>\<close>

record CloseWalletRequest =
  cwr_wallet_id :: bytes
  cwr_to :: pubkey
  cwr_nonce :: u64
  cwr_expires_at :: i64
  cwr_max_relayer_fee :: u64
  cwr_relayer_fee :: u64

definition close_request_authorization :: "CloseWalletRequest \<Rightarrow> Authorization" where
  "close_request_authorization r = \<lparr>auth_wallet_id = cwr_wallet_id r, auth_nonce = cwr_nonce r,
     auth_expires_at = cwr_expires_at r, auth_max_relayer_fee = cwr_max_relayer_fee r\<rparr>"

definition close_request_action :: "CloseWalletRequest \<Rightarrow> Action" where
  "close_request_action r = CloseWallet (cwr_to r)"

definition close_request_call :: "CloseWalletRequest \<Rightarrow> Call" where
  "close_request_call r = Call_CloseWallet (close_request_authorization r) (cwr_relayer_fee r)"

definition close_request_accounts :: "runtime \<Rightarrow> CloseWalletRequest \<Rightarrow> pubkey \<Rightarrow> AccountKeys" where
  "close_request_accounts rt r relayer = \<lparr>ak_wallet = fst (wallet_pda rt (cwr_wallet_id r)),
     ak_vault = fst (vault_pda rt (cwr_wallet_id r)), ak_to = cwr_to r, ak_relayer = relayer,
     ak_instructions_sysvar = rt_instructions_sysvar rt, ak_system_program = rt_system_program rt,
     ak_event_authority = event_authority rt, ak_program = PROGRAM_ID\<rparr>"

definition close_request_instruction :: "runtime \<Rightarrow> CloseWalletRequest \<Rightarrow> pubkey \<Rightarrow> Instruction" where
  "close_request_instruction rt r relayer = client_instruction (close_request_call r) (close_request_accounts rt r relayer)"

definition wf_close_request :: "CloseWalletRequest \<Rightarrow> bool" where
  "wf_close_request r \<longleftrightarrow> wf_array 32 (cwr_wallet_id r) \<and> wf_array 32 (cwr_to r)"

interpretation closewallet_request: enclave_request close_request_authorization close_request_action close_request_call close_request_accounts wf_close_request
  by unfold_locales (auto simp: close_request_authorization_def close_request_action_def close_request_call_def close_request_accounts_def
      wf_close_request_def request_wf_simps)

text \<open>The pair of a transfer.\<close>

definition request_preimage :: "TransferSolRequest \<Rightarrow> bytes" where
  "request_preimage r = enclave_preimage (request_authorization r) (request_action r)"

definition request_sign ::
  "runtime \<Rightarrow> ('k, 'm) toolkit \<Rightarrow> TransferSolRequest \<Rightarrow> 'k EnclaveKey \<Rightarrow> pubkey \<Rightarrow> Instruction list option"
  where
  "request_sign rt tk r key relayer =
     enclave_sign tk key (request_preimage r) (request_instruction rt r relayer)"

subsection \<open>\<open>confirm_rotation_instruction\<close>\<close>

text \<open>Nothing to sign, anyone may send it.\<close>

definition confirm_request_instruction :: "runtime \<Rightarrow> bytes \<Rightarrow> Instruction" where
  "confirm_request_instruction rt wallet_id = client_instruction (Call_ConfirmRotation wallet_id)
     \<lparr>ak_wallet = fst (wallet_pda rt wallet_id), ak_vault = no_key, ak_to = no_key, ak_relayer = no_key,
       ak_instructions_sysvar = no_key, ak_system_program = no_key,
       ak_event_authority = event_authority rt, ak_program = PROGRAM_ID\<rparr>"

section \<open>Any request\<close>

text \<open>The six structs as one type, so that what holds of the trait is stated once.\<close>

datatype Request =
    Any_TransferSol TransferSolRequest
  | Any_SetGuardians SetGuardiansRequest
  | Any_CancelRotation CancelRotationRequest
  | Any_ProposeRotation ProposeRotationRequest
  | Any_SweepVault SweepVaultRequest
  | Any_CloseWallet CloseWalletRequest

primrec any_authorization :: "Request \<Rightarrow> Authorization" where
  "any_authorization (Any_TransferSol r) = request_authorization r"
| "any_authorization (Any_SetGuardians r) = set_guardians_request_authorization r"
| "any_authorization (Any_CancelRotation r) = cancel_request_authorization r"
| "any_authorization (Any_ProposeRotation r) = propose_request_authorization r"
| "any_authorization (Any_SweepVault r) = sweep_request_authorization r"
| "any_authorization (Any_CloseWallet r) = close_request_authorization r"

primrec any_action :: "Request \<Rightarrow> Action" where
  "any_action (Any_TransferSol r) = request_action r"
| "any_action (Any_SetGuardians r) = set_guardians_request_action r"
| "any_action (Any_CancelRotation r) = cancel_request_action r"
| "any_action (Any_ProposeRotation r) = propose_request_action r"
| "any_action (Any_SweepVault r) = sweep_request_action r"
| "any_action (Any_CloseWallet r) = close_request_action r"

primrec any_call :: "Request \<Rightarrow> Call" where
  "any_call (Any_TransferSol r) = request_call r"
| "any_call (Any_SetGuardians r) = set_guardians_request_call r"
| "any_call (Any_CancelRotation r) = cancel_request_call r"
| "any_call (Any_ProposeRotation r) = propose_request_call r"
| "any_call (Any_SweepVault r) = sweep_request_call r"
| "any_call (Any_CloseWallet r) = close_request_call r"

primrec any_accounts :: "runtime \<Rightarrow> Request \<Rightarrow> pubkey \<Rightarrow> AccountKeys" where
  "any_accounts rt (Any_TransferSol r) = request_accounts rt r"
| "any_accounts rt (Any_SetGuardians r) = set_guardians_request_accounts rt r"
| "any_accounts rt (Any_CancelRotation r) = cancel_request_accounts rt r"
| "any_accounts rt (Any_ProposeRotation r) = propose_request_accounts rt r"
| "any_accounts rt (Any_SweepVault r) = sweep_request_accounts rt r"
| "any_accounts rt (Any_CloseWallet r) = close_request_accounts rt r"

primrec any_instruction :: "runtime \<Rightarrow> Request \<Rightarrow> pubkey \<Rightarrow> Instruction" where
  "any_instruction rt (Any_TransferSol r) = request_instruction rt r"
| "any_instruction rt (Any_SetGuardians r) = set_guardians_request_instruction rt r"
| "any_instruction rt (Any_CancelRotation r) = cancel_request_instruction rt r"
| "any_instruction rt (Any_ProposeRotation r) = propose_request_instruction rt r"
| "any_instruction rt (Any_SweepVault r) = sweep_request_instruction rt r"
| "any_instruction rt (Any_CloseWallet r) = close_request_instruction rt r"

primrec any_wf :: "Request \<Rightarrow> bool" where
  "any_wf (Any_TransferSol r) = wf_request r"
| "any_wf (Any_SetGuardians r) = wf_set_guardians_request r"
| "any_wf (Any_CancelRotation r) = wf_cancel_request r"
| "any_wf (Any_ProposeRotation r) = wf_propose_request r"
| "any_wf (Any_SweepVault r) = wf_sweep_request r"
| "any_wf (Any_CloseWallet r) = wf_close_request r"

lemma any_instruction_client:
  "any_instruction rt r relayer = client_instruction (any_call r) (any_accounts rt r relayer)"
  by (cases r) (simp_all add: request_instruction_def set_guardians_request_instruction_def
      cancel_request_instruction_def propose_request_instruction_def sweep_request_instruction_def
      close_request_instruction_def)

interpretation any_request: enclave_request any_authorization any_action any_call any_accounts any_wf
proof
  fix r :: Request and rt relayer
  show "call_authorization (any_call r) = Some (any_authorization r)"
    by (cases r) (simp_all only: any_call.simps any_authorization.simps transfersol_request.authorizes setguardians_request.authorizes cancelrotation_request.authorizes
      proposerotation_request.authorizes sweepvault_request.authorizes closewallet_request.authorizes)
  show "call_action (accounts_of_keys (any_accounts rt r relayer)) (any_call r) = Some (any_action r)"
    by (cases r) (simp_all only: any_call.simps any_action.simps any_accounts.simps transfersol_request.acts setguardians_request.acts cancelrotation_request.acts
      proposerotation_request.acts sweepvault_request.acts closewallet_request.acts)
  show "ak_wallet (any_accounts rt r relayer) = fst (wallet_pda rt (auth_wallet_id (any_authorization r)))"
    "ak_vault (any_accounts rt r relayer) = fst (vault_pda rt (auth_wallet_id (any_authorization r)))"
    "ak_relayer (any_accounts rt r relayer) = relayer"
    by (cases r; simp only: any_authorization.simps any_accounts.simps transfersol_request.names setguardians_request.names cancelrotation_request.names
      proposerotation_request.names sweepvault_request.names closewallet_request.names)+
  show "any_wf r \<Longrightarrow> wf_args (any_call r) \<and> wf_action (any_action r)
      \<and> length (auth_wallet_id (any_authorization r)) = 32"
    by (cases r) (simp_all only: any_wf.simps any_call.simps any_action.simps any_authorization.simps transfersol_request.well_formed setguardians_request.well_formed cancelrotation_request.well_formed
      proposerotation_request.well_formed sweepvault_request.well_formed closewallet_request.well_formed)
qed

section \<open>Properties\<close>

text \<open>C18: what a request signs is what the program accepts and runs. For each of the six requests, the pair it
  makes with a key (the precompile instruction over its preimage, then its instruction) passes the
  program's signature check on any open wallet with the request's nonce, before its expiry, and hands on the
  key that signed; and the instruction runs the entry point of exactly the signed action, on the state and
  the vault of the request's wallet.\<close>

theorem signed_request_is_accepted:
  assumes "signs_with tk key pk" "any_wf r"
    and "enclave_sign tk key (enclave_preimage (any_authorization r) (any_action r))
      (any_instruction rt r relayer) = Some [precompile, ix]"
    and "env_previous env = Inr precompile" "env_clock env = Inr now"
    and "sint now < sint (auth_expires_at (any_authorization r))"
    and "\<not> is_new w" "sw_nonce w = auth_nonce (any_authorization r)" "unat (sw_nonce w) + 1 < 2 ^ 64"
  shows "verify_enclave_authorization rt env w (any_authorization r) (any_action r) sb vb
      = Inr (pk, w\<lparr>sw_nonce := sw_nonce w + 1\<rparr>)
    \<and> (\<exists>ac. process_instruction rt env ix b = process rt env ac (any_call r) b
        \<and> call_authorization (any_call r) = Some (any_authorization r)
        \<and> call_action ac (any_call r) = Some (any_action r)
        \<and> wallet_key ac = fst (wallet_pda rt (auth_wallet_id (any_authorization r)))
        \<and> vault_key ac = fst (vault_pda rt (auth_wallet_id (any_authorization r)))
        \<and> relayer_key ac = relayer)"
proof -
  let ?m = "enclave_preimage (any_authorization r) (any_action r)"
  from assms(3) have ixs: "precompile = signed_instruction pk (key_sign tk key ?m) ?m"
    "ix = client_instruction (any_call r) (any_accounts rt r relayer)"
    by (simp_all add: enclave_signed [OF assms(1)] any_instruction_client)
  have keys: "wallet_key (accounts_of_keys k) = ak_wallet k" "vault_key (accounts_of_keys k) = ak_vault k"
    "relayer_key (accounts_of_keys k) = ak_relayer k" for k
    by (simp_all add: accounts_of_keys_def writable_def paying_signer_def)
  show ?thesis
    using any_request.signature_passes [OF assms(2) signs_withD(1,2) [OF assms(1)] assms(4) [unfolded ixs(1)]
        assms(5-9)] any_request.instruction_runs [OF assms(2)] any_request.authorizes any_request.acts
      any_request.names
    unfolding ixs(2) by (intro conjI exI [of _ "accounts_of_keys (any_accounts rt r relayer)"]) (simp_all add: keys)
qed

end
