(* ===== verification/Kora_Transfer.thy ===== *)
theory Kora_Transfer
  imports Json_Rpc Transfer_Sol Requests
begin

text \<open>
  \<open>programs/enclavekit/examples/kora_transfer_sol.rs\<close>: one \<open>transfer_sol\<close> through a Kora relayer.
  \<open>println!\<close> is left out. The build is the one that \<open>cargo run --example\<close> makes: an integer overflow
  panics.
\<close>

section \<open>Constants\<close>

definition KORA_URL :: string where
  "KORA_URL = ''http://127.0.0.1:8080''"

definition RPC_URL :: string where
  "RPC_URL = ''https://api.devnet.solana.com''"

definition KORA_LAMPORTS :: u64 where
  "KORA_LAMPORTS = 10000000"

definition VAULT_RESERVE :: u64 where
  "VAULT_RESERVE = 5000000"

definition TRANSACTION_FEE :: u64 where
  "TRANSACTION_FEE = 10000"

definition AUTHORIZATION_TTL :: i64 where
  "AUTHORIZATION_TTL = 120"

section \<open>The enclave key\<close>

text \<open>The slice \<open>hex[2 * i..2 * i + 2]\<close> panics when it cuts a character: when the byte after it is a
  continuation byte of UTF-8. The rest of the string starts at a character, by the slices before.\<close>

definition is_continuation :: "char \<Rightarrow> bool" where
  "is_continuation c \<longleftrightarrow> digit7 c \<and> \<not> digit6 c"

fun seed_of_hex :: "string \<Rightarrow> client_error + bytes" where
  "seed_of_hex [] = Inr []"
| "seed_of_hex [c] = Inl Panicked"
| "seed_of_hex (a # b # rest) =
     (if rest \<noteq> [] \<and> is_continuation (hd rest) then Inl Panicked
      else and_then (ok_or (u8_from_radix16 [a, b]) SeedDigit) (\<lambda>byte.
           and_then (seed_of_hex rest) (\<lambda>bytes. Inr (byte # bytes))))"

definition parse_seed :: "string \<Rightarrow> client_error + bytes" where
  "parse_seed text = and_then (require_that (length text = 64) SeedLength) (\<lambda>_. seed_of_hex text)"

definition enclave_key :: "('w, 'kp) host \<Rightarrow> ('k, 'm) toolkit \<Rightarrow> ('w, 'k EnclaveKey) io" where
  "enclave_key h tk =
     io_then (case h_env_var h ''ENCLAVE_SEED'' of
         Some text \<Rightarrow> io_lift (parse_seed text)
       | None \<Rightarrow> h_random_seed h) (\<lambda>seed.
     io_some (from_seed tk seed) Panicked)"

section \<open>Third-party code of the client\<close>

text \<open>Parsing base58 and base64, System's transfer instruction, signing and serialising a funding
  transaction.\<close>

record ('kp, 'm) client =
  cl_pubkey_of_text :: "string \<Rightarrow> pubkey option"
  cl_hash_of_text :: "string \<Rightarrow> bytes option"
  cl_base64_decode :: "string \<Rightarrow> bytes option"
  cl_keypair_pubkey :: "'kp \<Rightarrow> pubkey"
  cl_system_transfer :: "pubkey \<Rightarrow> pubkey \<Rightarrow> u64 \<Rightarrow> Instruction"
  cl_signed_transaction :: "'m \<Rightarrow> 'kp \<Rightarrow> bytes option"

definition wallet_nonce ::
  "('w, 'kp) host \<Rightarrow> ('k, 'm) toolkit \<Rightarrow> ('kp, 'm) client \<Rightarrow> string \<Rightarrow> pubkey \<Rightarrow> ('w, u64 option) io" where
  "wallet_nonce h tk cl rpc wallet =
     io_then (rpc_call h rpc ''getAccountInfo'' (JArray [JString (tk_base58 tk wallet),
         JObject [(''commitment'', JString ''confirmed''), (''encoding'', JString ''base64'')]])) (\<lambda>info.
     if json_is_null (json_field info ''value'') then io_return None
     else io_then (io_lift (str_field (json_field (json_field info ''value'') ''data'') ''0'')) (\<lambda>text.
          io_then (io_some (cl_base64_decode cl text) (Foreign 1)) (\<lambda>data.
          io_then (io_some (wallet_of_data data) (Foreign 2)) (\<lambda>state.
          io_return (Some (sw_nonce state))))))"

definition fund ::
  "('w, 'kp) host \<Rightarrow> ('k, 'm) toolkit \<Rightarrow> ('kp, 'm) client \<Rightarrow> string \<Rightarrow> 'kp \<Rightarrow> pubkey \<Rightarrow> u64
     \<Rightarrow> ('w, string) io" where
  "fund h tk cl rpc funder dest lamports =
     io_then (rpc_call h rpc ''getLatestBlockhash'' (JArray [commitment])) (\<lambda>reply.
     io_then (io_lift (str_field (json_field reply ''value'') ''blockhash'')) (\<lambda>text.
     io_then (io_some (cl_hash_of_text cl text) (Foreign 3)) (\<lambda>blockhash.
     let payer = cl_keypair_pubkey cl funder;
         instruction = cl_system_transfer cl payer dest lamports;
         message = tk_message tk [instruction] (Some payer) blockhash in
     io_then (io_some (cl_signed_transaction cl message funder) (Foreign 4)) (\<lambda>tx.
     io_then (rpc_call h rpc ''sendTransaction'' (JArray [JString (tk_base64 tk tx),
         JObject [(''encoding'', JString ''base64''),
           (''preflightCommitment'', JString ''confirmed'')]])) (\<lambda>sent.
     io_then (io_some (json_as_str sent) NoSignature) (\<lambda>signature.
     io_then (confirm_transaction h rpc signature) (\<lambda>_.
     io_return signature)))))))"

section \<open>main\<close>

text \<open>\<open>a + b\<close> on \<open>u64\<close> and on \<open>i64\<close> (read with \<open>sint\<close>).\<close>

definition add_u64 :: "u64 \<Rightarrow> u64 \<Rightarrow> client_error + u64" where
  "add_u64 a b = ok_or (checked_add a b) Panicked"

definition add_i64 :: "i64 \<Rightarrow> i64 \<Rightarrow> client_error + i64" where
  "add_i64 a b =
     and_then (require_that (I64_MIN \<le> sint a + sint b \<and> sint a + sint b \<le> I64_MAX) Panicked)
       (\<lambda>_. Inr (a + b))"

text \<open>What the relayer advances: the transaction fee, and the rent of the state on first use.\<close>

definition advance ::
  "('w, 'kp) host \<Rightarrow> ('k, 'm) toolkit \<Rightarrow> ('kp, 'm) client \<Rightarrow> string \<Rightarrow> pubkey \<Rightarrow> ('w, u64 \<times> u64) io" where
  "advance h tk cl rpc wallet =
     io_then (wallet_nonce h tk cl rpc wallet) (\<lambda>nonce.
     io_then (case nonce of
         Some _ \<Rightarrow> io_return 0
       | None \<Rightarrow> rent_exempt_minimum h rpc (length DISCRIMINATOR + INIT_SPACE)) (\<lambda>rent.
     io_then (io_lift (add_u64 rent TRANSACTION_FEE)) (\<lambda>relayer_fee.
     io_return (case nonce of Some n \<Rightarrow> n | None \<Rightarrow> 0, relayer_fee))))"

text \<open>The vault is topped up when it holds less than the transfer, the fee and the reserve.\<close>

definition top_up ::
  "('w, 'kp) host \<Rightarrow> ('k, 'm) toolkit \<Rightarrow> ('kp, 'm) client \<Rightarrow> string \<Rightarrow> 'kp \<Rightarrow> pubkey \<Rightarrow> u64
     \<Rightarrow> ('w, unit) io" where
  "top_up h tk cl rpc funder vault relayer_fee =
     io_then (io_lift (and_then (add_u64 KORA_LAMPORTS relayer_fee) (\<lambda>sum. add_u64 sum VAULT_RESERVE)))
       (\<lambda>needed.
     io_then (balance h tk rpc vault) (\<lambda>held.
     if held < needed
     then io_then (fund h tk cl rpc funder vault (needed - held)) (\<lambda>_. io_return ())
     else io_return ()))"

text \<open>Steps 1 to 4: the relayer, the fee, the vault, and the request the enclave signs.\<close>

definition prepare ::
  "runtime \<Rightarrow> ('w, 'kp) host \<Rightarrow> ('k, 'm) toolkit \<Rightarrow> ('kp, 'm) client \<Rightarrow> string \<Rightarrow> string \<Rightarrow> 'kp \<Rightarrow> bytes
     \<Rightarrow> ('w, pubkey \<times> TransferSolRequest) io" where
  "prepare rt h tk cl kora rpc funder wallet_id =
     (let wallet = fst (wallet_pda rt wallet_id); vault = fst (vault_pda rt wallet_id) in
      io_then (h_new_pubkey h) (\<lambda>dest.
      io_then (rpc_call h kora ''getPayerSigner'' (JArray [])) (\<lambda>reply.
      io_then (io_lift (str_field reply ''signer_address'')) (\<lambda>text.
      io_then (io_some (cl_pubkey_of_text cl text) (Foreign 5)) (\<lambda>relayer.
      io_then (advance h tk cl rpc wallet) (\<lambda>(nonce, relayer_fee).
      io_then (top_up h tk cl rpc funder vault relayer_fee) (\<lambda>_.
      io_then (h_unix_time h) (\<lambda>now.
      io_then (io_lift (add_i64 now AUTHORIZATION_TTL)) (\<lambda>expires_at.
      io_return (relayer, \<lparr>tr_wallet_id = wallet_id, tr_to = dest, tr_lamports = KORA_LAMPORTS,
        tr_nonce = nonce, tr_expires_at = expires_at, tr_max_relayer_fee = relayer_fee,
        tr_relayer_fee = relayer_fee\<rparr>))))))))))"

text \<open>Steps 4 to 6: the unsigned transaction goes to Kora, which signs and sends it.\<close>

definition send ::
  "runtime \<Rightarrow> ('w, 'kp) host \<Rightarrow> ('k, 'm) toolkit \<Rightarrow> ('kp, 'm) client \<Rightarrow> string \<Rightarrow> string
     \<Rightarrow> 'k EnclaveKey \<Rightarrow> pubkey \<Rightarrow> TransferSolRequest \<Rightarrow> ('w, unit) io" where
  "send rt h tk cl kora rpc key relayer request =
     io_then (io_some (request_sign rt tk request key relayer) Panicked) (\<lambda>instructions.
     io_then (rpc_call h kora ''getBlockhash'' (JArray [])) (\<lambda>reply.
     io_then (io_lift (str_field reply ''blockhash'')) (\<lambda>text.
     io_then (io_some (cl_hash_of_text cl text) (Foreign 3)) (\<lambda>blockhash.
     let message = tk_message tk instructions (Some relayer) blockhash;
         unsigned = tk_base64 tk (tk_transaction_bytes tk [replicate 64 0] message) in
     io_then (balance h tk rpc relayer) (\<lambda>relayer_before.
     io_then (rpc_call h kora ''signAndSendTransaction''
         (JObject [(''transaction'', JString unsigned)])) (\<lambda>sent.
     io_then (io_lift (str_field sent ''signature'')) (\<lambda>signature.
     io_then (confirm_transaction h rpc signature) (\<lambda>_.
     io_then (balance h tk rpc relayer) (\<lambda>relayer_after.
     io_then (balance h tk rpc (tr_to request)) (\<lambda>to_balance.
     io_return ()))))))))))"

definition main ::
  "runtime \<Rightarrow> ('w, 'kp) host \<Rightarrow> ('k, 'm) toolkit \<Rightarrow> ('kp, 'm) client \<Rightarrow> ('w, unit) io" where
  "main rt h tk cl =
     (let kora = env_or h ''KORA_URL'' KORA_URL; rpc = env_or h ''RPC_URL'' RPC_URL in
      io_then (io_some (h_env_var h ''HOME'') (Foreign 6)) (\<lambda>home.
      io_then (h_read_keypair h (env_or h ''FUNDER_KEYPAIR'' (home @ ''/.config/solana/wallet-a.json'')))
        (\<lambda>funder.
      io_then (enclave_key h tk) (\<lambda>key.
      io_then (io_some (key_wallet_id rt tk key) Panicked) (\<lambda>wallet_id.
      io_then (prepare rt h tk cl kora rpc funder wallet_id) (\<lambda>(relayer, request).
      send rt h tk cl kora rpc key relayer request))))))"

section \<open>Reading a seed\<close>

lemma hex_not_continuation: "bs \<noteq> [] \<Longrightarrow> \<not> is_continuation (hd (hex bs))"
proof (cases bs)
  case (Cons b bs')
  have "0 \<le> uint b" "uint b < 256" using uint_bounded [of b] by simp_all
  then have "0 \<le> uint b div 16" "uint b div 16 < 16" by linarith+
  then show ?thesis
    using hex_digit_props(4) by (simp add: Cons hex_byte_def is_continuation_def)
qed simp

lemma seed_of_hex_hex: "seed_of_hex (hex bs) = Inr bs"
proof (induction bs)
  case (Cons b bs)
  then show ?case
    using hex_not_continuation [of bs] u8_from_hex_byte [of b]
    by (cases "bs = []") (auto simp: hex_byte_def)
qed simp

lemma seed_of_hex_length: "seed_of_hex s = Inr seed \<Longrightarrow> length s = 2 * length seed"
  by (induction s arbitrary: seed rule: seed_of_hex.induct)
    (auto simp: result_simps split: if_splits)

section \<open>The vault is funded\<close>

text \<open>What the network promises about the vault: its balance is reported as it is, a confirmed funding
  arrives, and reading the clock takes nothing. (\<open>held\<close> is the vault's balance in a world.)\<close>

definition vault_contract ::
  "('w, 'kp) host \<Rightarrow> ('k, 'm) toolkit \<Rightarrow> ('kp, 'm) client \<Rightarrow> string \<Rightarrow> 'kp \<Rightarrow> pubkey \<Rightarrow> ('w \<Rightarrow> u64) \<Rightarrow> bool"
  where
  "vault_contract h tk cl rpc funder vault held \<longleftrightarrow>
     (\<forall>w n w'. balance h tk rpc vault w = (Inr n, w') \<longrightarrow> held w' = n)
     \<and> (\<forall>w n s w'. fund h tk cl rpc funder vault n w = (Inr s, w') \<longrightarrow>
          unat (held w) + unat n \<le> unat (held w'))
     \<and> (\<forall>w. held (snd (h_unix_time h w)) = held w)"

lemma add_u64_Inr_iff [result_simps]:
  "add_u64 a b = Inr c \<longleftrightarrow> unat a + unat b < 2 ^ 64 \<and> unat c = unat a + unat b"
  by (simp add: add_u64_def result_simps checked_add_Some_iff)

lemma topped_up_covers:
  assumes "vault_contract h tk cl rpc funder vault held"
    and "top_up h tk cl rpc funder vault fee w = (Inr u, w')"
  shows "unat KORA_LAMPORTS + unat fee + unat VAULT_RESERVE \<le> unat (held w')"
proof -
  from assms(2) obtain needed n w1 where
    needed: "unat needed = unat KORA_LAMPORTS + unat fee + unat VAULT_RESERVE"
    and bal: "balance h tk rpc vault w = (Inr n, w1)"
    and tail: "(if n < needed then io_then (fund h tk cl rpc funder vault (needed - n))
        (\<lambda>_. io_return ()) else io_return ()) w1 = (Inr u, w')"
    by (auto simp: top_up_def result_simps)
  from assms(1) bal have held: "held w1 = n" by (auto simp: vault_contract_def)
  show ?thesis
  proof (cases "n < needed")
    case True
    with tail obtain s where "fund h tk cl rpc funder vault (needed - n) w1 = (Inr s, w')"
      by (auto simp: result_simps)
    with assms(1) held have "unat n + unat (needed - n) \<le> unat (held w')"
      by (auto simp: vault_contract_def)
    moreover have "unat (needed - n) = unat needed - unat n" "unat n < unat needed"
      using True unat_sub [of n needed] by (simp_all add: word_less_nat_alt word_le_nat_alt)
    ultimately show ?thesis using needed by simp
  next
    case False
    with tail have "w' = w1" by (simp add: result_simps)
    with False held needed show ?thesis by (simp add: word_less_nat_alt)
  qed
qed

lemma preparation_covers:
  assumes "vault_contract h tk cl rpc funder (fst (vault_pda rt wid)) held"
    and "prepare rt h tk cl kora rpc funder wid w = (Inr (relayer, r), w')"
  shows "tr_wallet_id r = wid \<and> tr_lamports r = KORA_LAMPORTS \<and> tr_relayer_fee r = tr_max_relayer_fee r
    \<and> unat (tr_lamports r) + unat (tr_max_relayer_fee r) + unat VAULT_RESERVE \<le> unat (held w')"
proof -
  from assms(2) obtain fee w1 w2 now where
    up: "top_up h tk cl rpc funder (fst (vault_pda rt wid)) fee w1 = (Inr (), w2)"
    and time: "h_unix_time h w2 = (Inr now, w')"
    and r: "tr_wallet_id r = wid" "tr_lamports r = KORA_LAMPORTS" "tr_relayer_fee r = fee"
      "tr_max_relayer_fee r = fee"
    by (auto simp: prepare_def result_simps Let_def)
  have "held w' = held w2"
    using assms(1) time by (auto simp: vault_contract_def dest: spec [of _ w2])
  with topped_up_covers [OF assms(1) up] r show ?thesis by simp
qed

section \<open>The pair a transaction carries\<close>

lemma request_preimage_expected:
  "request_preimage r = to_bytes (expected_preimage (request_authorization r) (request_action r))"
  by (simp add: request_preimage_def enclave_preimage_expected)

section \<open>A node\<close>

text \<open>For the witness: a node whose world is the balance of the vault. It knows the wallet of
  \<open>Scenario\<close> when \<open>opened\<close>, and none otherwise, credits what a funding transaction carries (its data, in hexadecimal, is the amount), and
  confirms at once.\<close>

definition node_reply :: "bool \<Rightarrow> string \<Rightarrow> json \<Rightarrow> u64 \<Rightarrow> json" where
  "node_reply opened method params w =
     (if method = ''getPayerSigner'' then JObject [(''signer_address'', JString ''r'')]
      else if method = ''getAccountInfo'' then JObject [(''value'', if opened
        then JObject [(''data'', JArray [JString (hex (account_data demo_wallet))])] else JNull)]
      else if method = ''getMinimumBalanceForRentExemption'' then json_of_u64 2301240
      else if method = ''getBalance'' then JObject [(''value'', json_of_u64 w)]
      else if method = ''getLatestBlockhash'' then JObject [(''value'',
        JObject [(''blockhash'', JString ''h'')])]
      else if method = ''sendTransaction'' then JString ''s''
      else JObject [(''value'', JArray [JObject [(''confirmationStatus'', JString ''confirmed'')]])])"

definition node_amount :: "json \<Rightarrow> u64" where
  "node_amount params = (case json_as_str (json_element params 0) of
     Some s \<Rightarrow> le_to_word (hex_literal s) | None \<Rightarrow> 0)"

definition node_post :: "bool \<Rightarrow> string \<Rightarrow> json \<Rightarrow> (u64, json) io" where
  "node_post opened url body w =
     (case json_as_str (json_field body ''method'') of
        None \<Rightarrow> (Inl (Foreign 9), w)
      | Some method \<Rightarrow>
          let params = json_field body ''params'' in
          if method = ''sendTransaction''
          then (case checked_add w (node_amount params) of
                  None \<Rightarrow> (Inl (Foreign 9), w)
                | Some w' \<Rightarrow> (Inr (JObject [(''result'', node_reply opened method params w)]), w'))
          else (Inr (JObject [(''result'', node_reply opened method params w)]), w))"

definition demo_node :: "bool \<Rightarrow> (u64, unit) host" where
  "demo_node opened = \<lparr>h_env_var = (\<lambda>name. None), h_post = node_post opened, h_sleep = (\<lambda>w. w),
     h_unix_time = (\<lambda>w. (Inr 1000, w)), h_random_seed = (\<lambda>w. (Inr [], w)),
     h_new_pubkey = (\<lambda>w. (Inr (to_key demo_accounts), w)), h_read_keypair = (\<lambda>path w. (Inr (), w))\<rparr>"

definition node_toolkit :: "(unit, Instruction list) toolkit" where
  "node_toolkit = \<lparr>tk_signing_key = (\<lambda>seed. Some ()), tk_sec1_point = (\<lambda>k. owner_key),
     tk_sign = (\<lambda>k m. (replicate 32 1, replicate 32 2)), tk_normalize_s = (\<lambda>s. s),
     tk_negate = (\<lambda>s. s), tk_from_scalars = (\<lambda>r s. Some (r, s)),
     tk_secp256r1_instruction = (\<lambda>m s p. signed_instruction p s m),
     tk_base58 = hex, tk_base64 = hex, tk_message = (\<lambda>ixs payer h. ixs),
     tk_message_bytes = (\<lambda>m. []), tk_transaction_bytes = (\<lambda>ss m. concat ss), tk_json_pretty = (\<lambda>v. [])\<rparr>"

definition node_client :: "(unit, Instruction list) client" where
  "node_client = \<lparr>cl_pubkey_of_text = (\<lambda>s. Some (relayer_key demo_accounts)),
     cl_hash_of_text = (\<lambda>s. Some []), cl_base64_decode = (\<lambda>s. Some (hex_literal s)),
     cl_keypair_pubkey = (\<lambda>k. []),
     cl_system_transfer = (\<lambda>payer dest n. \<lparr>ix_program_id = [], ix_accounts = [], ix_data = word_to_le 8 n\<rparr>),
     cl_signed_transaction = (\<lambda>m k. Some (concat (map ix_data m)))\<rparr>"

lemma node_call:
  "rpc_call (demo_node opened) url method params w =
     (if method = ''sendTransaction''
      then (case checked_add w (node_amount params) of
              None \<Rightarrow> (Inl (Foreign 9), w)
            | Some w' \<Rightarrow> (Inr (node_reply opened method params w), w'))
      else (Inr (node_reply opened method params w), w))"
  by (auto simp: rpc_call_def demo_node_def node_post_def io_then_def io_some_def io_lift_def
      json_field_def Let_def split: option.splits)

lemma node_host:
  "h_new_pubkey (demo_node opened) w = (Inr (to_key demo_accounts), w)" "h_unix_time (demo_node opened) w = (Inr 1000, w)"
  "cl_pubkey_of_text node_client s = Some (relayer_key demo_accounts)"
  by (simp_all add: demo_node_def node_client_def)

lemma field_names: "parse_usize ''signer_address'' = None" "parse_usize ''blockhash'' = None"
  "parse_usize ''0'' = Some 0"
  by code_simp+

lemma node_balance: "balance (demo_node opened) tk rpc a w = (Inr w, w)"
  by (simp add: balance_def io_then_def node_call node_reply_def json_field_def u64_of_def io_lift_def)

lemma node_confirms: "confirm_transaction (demo_node opened) rpc signature w = (Inr (), w)"
proof -
  have "signature_status (demo_node opened) rpc signature w
      = (Inr (JObject [(''confirmationStatus'', JString ''confirmed'')]), w)"
    by (simp add: signature_status_def io_then_def node_call node_reply_def json_field_def io_return_def)
  then have "confirm_polls (demo_node opened) rpc signature (Suc 59) w = (Inr (), w)"
    by (simp only: confirm_polls_Suc) (simp add: poll_verdict_def json_field_def)
  then show ?thesis by (simp add: confirm_transaction_def)
qed

lemma node_fund:
  "fund (demo_node opened) node_toolkit node_client rpc () dest n w =
     (case checked_add w n of None \<Rightarrow> (Inl (Foreign 9), w) | Some w' \<Rightarrow> (Inr ''s'', w'))"
  by (simp add: fund_def io_then_def node_call node_reply_def json_field_def str_field_def field_names
      io_lift_def io_some_def node_client_def node_toolkit_def node_amount_def hex_literal_hex
      node_confirms io_return_def Let_def split: option.splits)

lemma node_vault_contract: "vault_contract (demo_node opened) node_toolkit node_client rpc () vault (\<lambda>w. w)"
  by (auto simp: vault_contract_def node_balance node_fund checked_add_Some_iff split: option.splits)
    (simp add: demo_node_def)

lemma node_nonce: "wallet_nonce (demo_node opened) node_toolkit node_client rpc a w
    = (Inr (if opened then Some 5 else None), w)"
proof -
  have "wallet_of_data (account_data demo_wallet) = Some demo_wallet"
    using wallet_of_account_data [of demo_wallet "[]"] wallet_invD(1) [OF demo_wallet_inv] by simp
  then show ?thesis
    by (simp add: wallet_nonce_def io_then_def node_call node_reply_def json_field_def json_is_null_def
        str_field_def field_names io_lift_def io_some_def node_client_def hex_literal_hex io_return_def)
qed

definition node_request :: TransferSolRequest where
  "node_request = \<lparr>tr_wallet_id = demo_id, tr_to = to_key demo_accounts, tr_lamports = 10000000,
     tr_nonce = 5, tr_expires_at = 1120, tr_max_relayer_fee = 10000, tr_relayer_fee = 10000\<rparr>"

text \<open>The request of a wallet's first use: the fee covers the rent of the state.\<close>

definition first_request :: TransferSolRequest where
  "first_request = \<lparr>tr_wallet_id = demo_id, tr_to = to_key demo_accounts, tr_lamports = 10000000,
     tr_nonce = 0, tr_expires_at = 1120, tr_max_relayer_fee = 2311240, tr_relayer_fee = 2311240\<rparr>"

lemma node_advance:
  "advance (demo_node opened) node_toolkit node_client rpc a w
     = (Inr (if opened then (5, 10000) else (0, 2311240)), w)"
  by (simp add: advance_def io_then_def node_nonce io_return_def io_lift_def add_u64_def
      checked_add_def TRANSACTION_FEE_def rent_exempt_minimum_def node_call node_reply_def u64_of_def)

lemma node_top_up:
  "top_up (demo_node opened) node_toolkit node_client rpc () vault 10000 0 = (Inr (), 15010000)"
  "top_up (demo_node opened) node_toolkit node_client rpc () vault 2311240 0 = (Inr (), 17311240)"
  by (simp_all add: top_up_def io_then_def io_lift_def add_u64_def checked_add_def KORA_LAMPORTS_def
      VAULT_RESERVE_def node_balance node_fund io_return_def)

lemma node_prepare:
  "prepare demo_runtime (demo_node True) node_toolkit node_client kora rpc () demo_id 0
     = (Inr (relayer_key demo_accounts, node_request), 15010000)"
  "prepare demo_runtime (demo_node False) node_toolkit node_client kora rpc () demo_id 0
     = (Inr (relayer_key demo_accounts, first_request), 17311240)"
  by (simp_all add: prepare_def Let_def io_then_def node_call node_reply_def str_field_def field_names
      json_field_def io_lift_def io_some_def io_return_def add_i64_def AUTHORIZATION_TTL_def
      I64_MIN_def I64_MAX_def node_request_def first_request_def KORA_LAMPORTS_def node_host
      node_advance node_top_up)

section \<open>Properties\<close>

text \<open>A seed survives the text: the 64 hexadecimal digits that \<open>hex\<close> writes for 32 bytes are read
  back from \<open>ENCLAVE_SEED\<close> as the same bytes, and whatever is read has 32 of them.\<close>

theorem seed_roundtrip:
  "(length seed = 32 \<longrightarrow> parse_seed (hex seed) = Inr seed)
   \<and> (parse_seed txt = Inr seed \<longrightarrow> length seed = 32)"
  by (auto simp: parse_seed_def seed_of_hex_hex result_simps dest: seed_of_hex_length)

text \<open>What the client prepares is covered: once the request has passed the program's signature check,
  the transfer goes through.\<close>

lemma prepared_covered:
  assumes "vault_contract h tk cl rpc funder (fst (vault_pda rt wid)) held"
    and "prepare rt h tk cl kora rpc funder wid w = (Inr (relayer, r), w')"
    and "lamports_of b (vault_key ac) = held w'"
    and "transfer_contract rt"
    and "verify_enclave_authorization rt env v (request_authorization r)
      (TransferSol (to_key ac) (tr_lamports r)) sb vb = Inr (sw_active_key w1, w1)"
    and "env_rent env = Inr minimum_balance" "unat (minimum_balance 0) \<le> unat VAULT_RESERVE"
    and "rt_create_program_address rt [VAULT_SEED, sw_wallet_id w1, [sw_vault_bump w1]]
      = Some (vault_key ac)"
    and "acc_owner (b (vault_key ac)) = rt_system_program rt" "acc_data (b (vault_key ac)) = []"
    and "vault_key ac \<noteq> to_key ac" "vault_key ac \<noteq> relayer_key ac"
    and "unat (lamports_of b (to_key ac)) + unat (tr_lamports r) + unat (tr_max_relayer_fee r) < 2 ^ 64"
    and "unat (lamports_of b (relayer_key ac)) + unat (tr_lamports r) + unat (tr_max_relayer_fee r)
      < 2 ^ 64"
  shows "\<exists>ev b'. transfer rt env ac (request_authorization r) (tr_lamports r) (tr_relayer_fee r)
    sb vb v b = Inr (ev, w1, b')"
proof -
  have covers: "unat (tr_lamports r) + unat (tr_max_relayer_fee r) + unat VAULT_RESERVE \<le> unat (held w')"
    using preparation_covers [OF assms(1,2)] by blast
  show ?thesis
  proof (rule transfer_succeeds [where ac = ac and b = b and ?w1.0 = w1, OF assms(4,5,6,8-12)])
    show "unat (tr_lamports r) + unat (auth_max_relayer_fee (request_authorization r))
        + unat (minimum_balance 0) \<le> unat (lamports_of b (vault_key ac))"
      using covers assms(3,7) by (simp add: request_authorization_def)
  qed (use assms(13,14) in \<open>simp_all add: request_authorization_def\<close>)
qed

theorem seed_roundtrip_witness: "parse_seed (hex (replicate 32 0xAB)) = Inr (replicate 32 0xAB)"
  using seed_roundtrip [of "replicate 32 0xAB"] by simp

text \<open>The parser takes a sign for a digit: 32 times \<open>+f\<close> is a seed too.\<close>

lemma seed_accepts_signs: "parse_seed (concat (replicate 32 ''+f'')) = Inr (replicate 32 15)"
  by code_simp

lemma prepared_covered_example:
  "\<exists>ev b'. transfer demo_runtime
     \<lparr>env_clock = Inr 1000, env_rent = Inr (\<lambda>_. 890880), env_previous = Inr (signed_instruction owner_key
        (replicate 64 7) (request_preimage node_request))\<rparr>
     demo_accounts (request_authorization node_request) 10000000 10000 255 255 demo_wallet
     (demo_bank demo_wallet 15010000) = Inr (ev, demo_wallet\<lparr>sw_nonce := 6\<rparr>, b')"
proof -
  let ?env = "\<lparr>env_clock = Inr 1000, env_rent = Inr (\<lambda>_. 890880), env_previous = Inr (signed_instruction
    owner_key (replicate 64 7) (request_preimage node_request))\<rparr>"
  have "length (request_preimage node_request) \<le> HEADER_LEN + 103"
    unfolding request_preimage_expected
    by (intro to_bytes_length expected_preimage_wf)
      (simp_all add: request_authorization_def request_action_def node_request_def demo_id_def wf_array_def)
  then have verify: "verify_enclave_authorization demo_runtime ?env demo_wallet
      (request_authorization node_request) (TransferSol (to_key demo_accounts) (tr_lamports node_request))
      255 255 = Inr (sw_active_key (demo_wallet\<lparr>sw_nonce := 6\<rparr>), demo_wallet\<lparr>sw_nonce := 6\<rparr>)"
    by (simp add: verify_Inr_iff load_signed_instruction layout_simps checked_wallet_def
        request_preimage_expected) (simp add: request_authorization_def request_action_def node_request_def)
  show ?thesis
    using prepared_covered [OF node_vault_contract node_prepare(1) _ demo_runtime_contracts(1)
        verify, where b = "demo_bank demo_wallet 15010000" and minimum_balance = "\<lambda>_. 890880"]
    by (simp add: demo_seeds VAULT_RESERVE_def node_request_def)
qed

end
