(* ===== verification/Kora_Landing.thy ===== *)
theory Kora_Landing
  imports Kora_Transfer Transaction
begin

text \<open>
  The example client and the program together: the transaction whose two instructions the example signs
  (\<open>kora_transfer_sol.rs\<close>, \<open>requests.rs\<close>), run on the chain by the program.
\<close>

section \<open>The two instructions\<close>

lemma request_signed:
  assumes "signs_with tk key pk"
  shows "request_sign rt tk r key relayer = Some
    [signed_instruction pk (key_sign tk key (request_preimage r)) (request_preimage r),
     request_instruction rt r relayer]"
  by (simp add: request_sign_def enclave_signed [OF assms])

section \<open>The program accepts them\<close>

abbreviation request_metas :: "runtime \<Rightarrow> TransferSolRequest \<Rightarrow> pubkey \<Rightarrow> Accounts" where
  "request_metas rt r relayer \<equiv> accounts_of_keys (request_accounts rt r relayer)"

lemma request_keys:
  "wallet_key (request_metas rt r relayer) = wallet_address rt (tr_wallet_id r)"
  "vault_key (request_metas rt r relayer) = fst (vault_pda rt (tr_wallet_id r))"
  "to_key (request_metas rt r relayer) = tr_to r" "relayer_key (request_metas rt r relayer) = relayer"
  by (simp_all add: request_accounts_def accounts_of_keys_def writable_def paying_signer_def)

text \<open>What the client relies on to be still so when its transaction runs: the wallet is open with the key
  that signs and the nonce the client read, or it was never made, the key is the one of its id and the
  client read no nonce; then the relayer can pay for the state, and \<open>b0\<close> is the ledger with the new
  account.\<close>

definition wallet_ready ::
  "runtime \<Rightarrow> pubkey \<Rightarrow> bytes \<Rightarrow> bytes \<Rightarrow> u64 \<Rightarrow> bank \<Rightarrow> bank \<Rightarrow> bool" where
  "wallet_ready rt relayer wid pk nonce b b0 \<longleftrightarrow>
     (\<exists>v. wallet_with_id rt b wid = Some v \<and> sw_active_key v = pk \<and> sw_nonce v = nonce
        \<and> unat nonce + 1 < 2 ^ 64 \<and> b0 = b)
     \<or> (acc_owner (b (wallet_address rt wid)) = rt_system_program rt \<and> rt_sha256 rt pk = wid \<and> nonce = 0
        \<and> rt_init rt relayer (wallet_seeds wid (snd (wallet_pda rt wid))) (wallet_address rt wid) STATE_LEN b
          = Inr b0)"

text \<open>The wallet the program then works on.\<close>

lemma ready_wallet:
  assumes "runtime_contract rt ids" "ledger_inv rt ids b" "wid \<in> ids"
    and "wallet_ready rt relayer wid pk nonce b b0" "auth_wallet_id auth = wid"
  obtains v where
    "wallet_key ac = wallet_address rt wid \<Longrightarrow> meta_is_writable (ac_wallet ac) \<Longrightarrow>
     relayer_key ac = relayer \<Longrightarrow> load_or_init_wallet rt ac wid b = Inr (v, snd (wallet_pda rt wid), b0)"
    "is_new v \<longleftrightarrow> wallet_with_id rt b wid = None" "is_new v \<longrightarrow> rt_sha256 rt pk = wid"
    "sw_nonce (checked_wallet v auth pk (snd (wallet_pda rt wid)) (snd (vault_pda rt wid))) = nonce"
    "sw_active_key (checked_wallet v auth pk (snd (wallet_pda rt wid)) (snd (vault_pda rt wid))) = pk"
    "sw_wallet_id (checked_wallet v auth pk (snd (wallet_pda rt wid)) (snd (vault_pda rt wid))) = wid"
    "sw_vault_bump (checked_wallet v auth pk (snd (wallet_pda rt wid)) (snd (vault_pda rt wid)))
      = snd (vault_pda rt wid)"
    "unat nonce + 1 < 2 ^ 64"
    "\<And>a. a \<noteq> wallet_address rt wid \<Longrightarrow> same_state b b0 a"
    "\<And>a. a \<noteq> wallet_address rt wid \<Longrightarrow> a \<noteq> relayer \<Longrightarrow> lamports_of b0 a = lamports_of b a"
    "acc_owner (b0 (wallet_address rt wid)) = PROGRAM_ID"
proof -
  note contract = runtime_contractD [OF assms(1)]
  have zero: "rt_system_program rt \<noteq> PROGRAM_ID" using contract(1) by (simp add: address_contract_def)
  from assms(4) consider
    (opened) v where "wallet_with_id rt b wid = Some v" "sw_active_key v = pk" "sw_nonce v = nonce"
      "unat nonce + 1 < 2 ^ 64" "b0 = b"
  | (first) "acc_owner (b (wallet_address rt wid)) = rt_system_program rt" "rt_sha256 rt pk = wid" "nonce = 0"
      "rt_init rt relayer (wallet_seeds wid (snd (wallet_pda rt wid))) (wallet_address rt wid) STATE_LEN b = Inr b0"
    unfolding wallet_ready_def by blast
  then show thesis
  proof cases
    case opened
    note state = stored_wallet [OF contract(1) assms(2,3) opened(1)]
    have "wallet_of_data (account_data v) = Some v"
      using wallet_of_account_data [OF stored_wf [OF state(1)], of "[]"] by simp
    then have "load_or_init_wallet rt ac wid b = Inr (v, snd (wallet_pda rt wid), b0)"
      if "wallet_key ac = wallet_address rt wid" "meta_is_writable (ac_wallet ac)" for ac
      using that state(2,3) zero account_data_length [OF stored_wf [OF state(1)]] INIT_SPACE_matches opened(5)
      by (simp add: load_or_init_Inr_iff read_wallet_def require_that_def ok_or_def)
    moreover have "\<not> is_new v" "sw_wallet_id v = wid" "sw_vault_bump v = snd (vault_pda rt wid)"
      using state(1) stored_not_new by (auto simp: stored_def)
    ultimately show thesis
      using opened state(3) by (intro that [of v]) (simp_all add: checked_wallet_def same_state_def)
  next
    case first
    from contract(2) first(4) have made: "acc_owner (b0 (wallet_address rt wid)) = PROGRAM_ID"
      "acc_data (b0 (wallet_address rt wid)) = replicate STATE_LEN 0"
      "\<forall>a. a \<noteq> wallet_address rt wid \<longrightarrow> same_state b b0 a"
      "\<forall>a. a \<noteq> wallet_address rt wid \<longrightarrow> a \<noteq> relayer \<longrightarrow> lamports_of b0 a = lamports_of b a"
      unfolding init_contract_def same_state_def by blast+
    have "STATE_LEN - 8 = STATE_LEN - DISCRIMINATOR_LEN" by (simp add: layout_simps)
    with made(2) have "dec_wallet (drop 8 (acc_data (b0 (wallet_address rt wid)))) = Some (zero_wallet, [])"
      by (simp add: dec_zeros)
    then have "load_or_init_wallet rt ac wid b = Inr (zero_wallet, snd (wallet_pda rt wid), b0)"
      if "wallet_key ac = wallet_address rt wid" "meta_is_writable (ac_wallet ac)" "relayer_key ac = relayer" for ac
      using that first INIT_SPACE_matches by (simp add: load_or_init_Inr_iff)
    moreover have "wallet_with_id rt b wid = None"
      using first(1) zero by (simp add: wallet_with_id_def wallet_at_def)
    ultimately show thesis
      using first made assms(5) by (intro that [of zero_wallet])
        (simp_all add: checked_wallet_def is_new_zero_wallet created_wallet_def)
  qed
qed

lemma request_writable: "meta_is_writable (ac_wallet (request_metas rt r relayer))"
  by (simp add: request_accounts_def accounts_of_keys_def writable_def)

lemma request_accounts_load:
  assumes "load_or_init_wallet rt (request_metas rt r relayer) (tr_wallet_id r) b
      = Inr (v, snd (wallet_pda rt (tr_wallet_id r)), b0)"
    and "acc_owner (b0 (fst (vault_pda rt (tr_wallet_id r)))) = rt_system_program rt"
  shows "TransferSol_accounts rt (request_metas rt r relayer) (tr_wallet_id r) b
    = Inr (v, snd (wallet_pda rt (tr_wallet_id r)), snd (vault_pda rt (tr_wallet_id r)), b0)"
  using assms
  by (simp add: init_accounts_def check_vault_def check_vault_system_def check_relayer_and_programs_def
      check_event_cpi_def require_that_def require_mut_def request_keys)
    (simp add: accounts_of_keys_def request_accounts_def writable_def paying_signer_def readonly_def
      event_authority_def)

text \<open>The program's entry point, once the handler succeeded.\<close>

lemma request_processed:
  assumes "TransferSol_accounts rt (request_metas rt r relayer) (tr_wallet_id r) b = Inr (v, sb, vb, b0)"
    and "transfer rt env (request_metas rt r relayer) (request_authorization r) (tr_lamports r)
      (tr_relayer_fee r) sb vb v b0 = Inr (ev, w1, b1)"
  shows "process rt env (request_metas rt r relayer) (request_call r) b
    = Inr (created_event (is_new v) (tr_wallet_id r) w1 @ [ev],
        store_wallet (wallet_address rt (tr_wallet_id r)) w1 b1)"
proof -
  have id: "auth_wallet_id (request_authorization r) = tr_wallet_id r"
    by (simp add: request_authorization_def)
  have "transfer rt env (request_metas rt r relayer) \<lparr>auth_wallet_id = tr_wallet_id r,
      auth_nonce = auth_nonce (request_authorization r),
      auth_expires_at = auth_expires_at (request_authorization r),
      auth_max_relayer_fee = auth_max_relayer_fee (request_authorization r)\<rparr> (tr_lamports r)
      (tr_relayer_fee r) sb vb v b0 = Inr (ev, w1, b1)"
    using assms(2) by (simp add: request_authorization_def)
  with assms(1) show ?thesis
    by (simp add: request_call_def transfer_sol_def Let_def request_keys id)
qed

text \<open>What the handler pays for a prepared request.\<close>

lemma request_paid:
  assumes "transfer_contract rt" "vault_contract h tk cl rpc funder (fst (vault_pda rt wid)) held"
    and "prepare rt h tk cl kora rpc funder wid w = (Inr (relayer, r), w')"
    and "verify_enclave_authorization rt env v (request_authorization r)
      (TransferSol (to_key (request_metas rt r relayer)) (tr_lamports r)) sb vb = Inr (sw_active_key w1, w1)"
    and "env_rent env = Inr minimum_balance" "unat (minimum_balance 0) \<le> unat VAULT_RESERVE"
    and "rt_create_program_address rt [VAULT_SEED, sw_wallet_id w1, [sw_vault_bump w1]]
      = Some (vault_key (request_metas rt r relayer))"
    and "lamports_of b (fst (vault_pda rt wid)) = held w'"
    and "acc_owner (b (fst (vault_pda rt wid))) = rt_system_program rt"
    and "acc_data (b (fst (vault_pda rt wid))) = []"
    and "fst (vault_pda rt wid) \<noteq> tr_to r" "fst (vault_pda rt wid) \<noteq> relayer"
    and "\<forall>a \<in> {tr_to r, relayer}. unat (lamports_of b a) + unat (held w') < 2 ^ 64"
  obtains b1 where "transfer rt env (request_metas rt r relayer) (request_authorization r) (tr_lamports r)
      (tr_relayer_fee r) sb vb v b
      = Inr (SolTransferred (sw_wallet_id w1) (tr_to r) KORA_LAMPORTS (tr_relayer_fee r), w1, b1)"
    "paid_out b b1 (fst (vault_pda rt wid)) (tr_to r) relayer KORA_LAMPORTS (tr_relayer_fee r)"
proof -
  have prepared: "tr_wallet_id r = wid" "tr_lamports r = KORA_LAMPORTS" "tr_relayer_fee r = tr_max_relayer_fee r"
    "unat (tr_lamports r) + unat (tr_max_relayer_fee r) + unat VAULT_RESERVE \<le> unat (held w')"
    using preparation_covers [OF assms(2,3)] by blast+
  from prepared_covered [OF assms(2,3) _ assms(1,4-7)]
  obtain ev b1 where run: "transfer rt env (request_metas rt r relayer) (request_authorization r)
      (tr_lamports r) (tr_relayer_fee r) sb vb v b = Inr (ev, w1, b1)"
    using assms(8-13) prepared by (fastforce simp: request_keys)
  moreover have "ev = SolTransferred (sw_wallet_id w1) (tr_to r) KORA_LAMPORTS (tr_relayer_fee r)"
    using run transfer_Inr_iff [OF assms(1)] prepared
    by (auto simp: Let_def request_keys request_authorization_def)
  moreover have "paid_out b b1 (fst (vault_pda rt wid)) (tr_to r) relayer KORA_LAMPORTS (tr_relayer_fee r)"
    using transfer_pays [OF assms(1) run] assms(11,12) prepared
    by (simp add: request_keys request_authorization_def)
  ultimately show thesis using that by simp
qed

text \<open>The whole way of a prepared request.\<close>

lemma request_lands:
  assumes "runtime_contract rt ids" "ledger_inv rt ids b" "wid \<in> ids" "signs_with tk key pk"
    and "vault_contract h tk cl rpc funder (fst (vault_pda rt wid)) held"
    and "prepare rt h tk cl kora rpc funder wid w = (Inr (relayer, r), w')"
    and "request_sign rt tk r key relayer = Some [precompile, call]"
    and "tx_instructions tx = [(precompile, []), (call, [Invoke call])]"
    and "tx_clock tx = Inr now" "sint now < sint (tr_expires_at r)"
    and "tx_rent tx = Inr minimum_balance" "unat (minimum_balance 0) \<le> unat VAULT_RESERVE"
    and "wallet_ready rt relayer wid pk (tr_nonce r) b b0"
    and "lamports_of b (fst (vault_pda rt wid)) = held w'"
    and "acc_owner (b (fst (vault_pda rt wid))) = rt_system_program rt"
    and "acc_data (b (fst (vault_pda rt wid))) = []" "fst (vault_pda rt wid) \<noteq> wallet_address rt wid"
    and "length (tr_to r) = 32" "fst (vault_pda rt wid) \<noteq> tr_to r" "fst (vault_pda rt wid) \<noteq> relayer"
    and "\<forall>a \<in> {tr_to r, relayer}. unat (lamports_of b0 a) + unat (held w') < 2 ^ 64"
  shows "\<exists>b1 b'. run_transaction rt tx b
      = Inr ((if wallet_with_id rt b wid = None then [WalletCreated wid pk] else [])
          @ [SolTransferred wid (tr_to r) KORA_LAMPORTS (tr_relayer_fee r)], b')
    \<and> paid_out b0 b1 (fst (vault_pda rt wid)) (tr_to r) relayer KORA_LAMPORTS (tr_relayer_fee r)
    \<and> (\<forall>a. lamports_of b' a = lamports_of b1 a)"
proof -
  let ?ac = "request_metas rt r relayer" and ?env = "tx_env tx 1" and ?vault = "fst (vault_pda rt wid)"
    and ?auth = "request_authorization r" and ?sb = "snd (wallet_pda rt wid)" and ?vb = "snd (vault_pda rt wid)"
  note contract = runtime_contractD [OF assms(1)]
  have prepared: "tr_wallet_id r = wid" "tr_lamports r = KORA_LAMPORTS" "tr_relayer_fee r = tr_max_relayer_fee r"
    "unat (tr_lamports r) + unat (tr_max_relayer_fee r) + unat VAULT_RESERVE \<le> unat (held w')"
    using preparation_covers [OF assms(5,6)] by blast+
  have auth: "auth_wallet_id ?auth = wid" "auth_nonce ?auth = tr_nonce r" "auth_expires_at ?auth = tr_expires_at r"
    by (simp_all add: request_authorization_def prepared(1))
  obtain v where load: "load_or_init_wallet rt ?ac wid b = Inr (v, ?sb, b0)"
    and v: "is_new v \<longleftrightarrow> wallet_with_id rt b wid = None" "is_new v \<longrightarrow> rt_sha256 rt pk = wid"
      "sw_nonce (checked_wallet v ?auth pk ?sb ?vb) = tr_nonce r"
      "sw_active_key (checked_wallet v ?auth pk ?sb ?vb) = pk"
      "sw_wallet_id (checked_wallet v ?auth pk ?sb ?vb) = wid"
      "sw_vault_bump (checked_wallet v ?auth pk ?sb ?vb) = ?vb" "unat (tr_nonce r) + 1 < 2 ^ 64"
    and same: "same_state b b0 ?vault" "lamports_of b0 ?vault = lamports_of b ?vault"
    by (rule ready_wallet [OF assms(1-3,13) auth(1), of ?ac])
      (use assms(17,20) in \<open>auto simp: request_keys prepared(1) request_writable\<close>)
  define w1 where "w1 = (checked_wallet v ?auth pk ?sb ?vb)\<lparr>sw_nonce := tr_nonce r + 1\<rparr>"
  have w1: "sw_active_key w1 = pk" "sw_wallet_id w1 = wid" "sw_vault_bump w1 = ?vb"
    using v by (simp_all add: w1_def)
  have vault: "lamports_of b0 ?vault = held w'" "acc_owner (b0 ?vault) = rt_system_program rt"
    "acc_data (b0 ?vault) = []"
    using same assms(14-16) by (simp_all add: same_state_def)
  have len: "length (tr_wallet_id r) = 32" using contract(4) [OF assms(3)] prepared(1) by simp
  from request_signed [OF assms(4)] assms(7)
  have ixs: "precompile = signed_instruction pk (key_sign tk key (request_preimage r)) (request_preimage r)"
    "call = client_instruction (request_call r) (request_accounts rt r relayer)"
    by (simp_all add: request_instruction_def)
  have env: "env_clock ?env = Inr now" "env_rent ?env = Inr minimum_balance"
    "env_previous ?env = Inr (signed_instruction pk (key_sign tk key (request_preimage r))
      (enclave_preimage ?auth (request_action r)))"
    by (simp_all add: tx_env_def assms(8,9,11) ixs(1) request_preimage_def)
  have "wf_request r" using len assms(18) by (simp add: wf_request_def wf_array_def)
  from transfersol_request.signature_verifies [OF this signs_withD(1,2) [OF assms(4)] env(3,1), of v rt ?sb ?vb]
  have verified: "verify_enclave_authorization rt ?env v ?auth (TransferSol (to_key ?ac) (tr_lamports r)) ?sb ?vb
      = Inr (sw_active_key w1, w1)"
    using assms(10) v auth w1(1) by (simp add: w1_def request_keys request_action_def)
  have "rt_create_program_address rt [VAULT_SEED, sw_wallet_id w1, [sw_vault_bump w1]] = Some (vault_key ?ac)"
    using contract(1) find_creates [of rt "[VAULT_SEED, wid]"]
    by (simp add: w1 request_keys prepared(1) address_contract_def vault_pda_def)
  from request_paid [OF contract(3) assms(5,6) verified env(2) assms(12) this vault assms(19,20,21)]
  obtain b1 where run: "transfer rt ?env ?ac ?auth (tr_lamports r) (tr_relayer_fee r) ?sb ?vb v b0
      = Inr (SolTransferred wid (tr_to r) KORA_LAMPORTS (tr_relayer_fee r), w1, b1)"
    and paid: "paid_out b0 b1 ?vault (tr_to r) relayer KORA_LAMPORTS (tr_relayer_fee r)"
    unfolding w1(2) .
  have "TransferSol_accounts rt ?ac (tr_wallet_id r) b = Inr (v, ?sb, ?vb, b0)"
    using request_accounts_load [of rt r relayer b v b0] load vault(2) prepared(1) by simp
  note ran = request_processed [OF this run]
  have "wf_args (request_call r)"
    using len by (simp add: request_call_def request_authorization_def wf_auth_def wf_array_def)
  then have "process_instruction rt ?env call b
      = Inr (created_event (is_new v) wid w1 @ [SolTransferred wid (tr_to r) KORA_LAMPORTS (tr_relayer_fee r)],
          store_wallet (wallet_address rt wid) w1 b1)"
    using ran prepared(1) by (simp only: ixs(2) client_runs)
  then have "run_transaction rt tx b
      = Inr ((if wallet_with_id rt b wid = None then [WalletCreated wid pk] else [])
          @ [SolTransferred wid (tr_to r) KORA_LAMPORTS (tr_relayer_fee r)],
          store_wallet (wallet_address rt wid) w1 b1)"
    using v(1) w1(1) by (simp add: run_transaction_def tx_steps_def assms(8) upt_rec created_event_def)
  with paid show ?thesis by auto
qed

section \<open>Properties\<close>

text \<open>C17: what the client sends goes through, on a wallet's first use as on any later one. The client
  prepared a request against a network that reports balances as they are and delivers what it funds; then
  the transaction of the two instructions it signs, run by the program before the expiry on a ledger where
  the vault (neither the destination nor the relayer, whose balances do not overflow) holds what the
  client left and either the open wallet still has the nonce the client read and
  the signing key, or there is no wallet, the id is the key's and the relayer can pay for the state, is
  accepted: the destination gets exactly the amount, the relayer exactly its fee, out of the vault, and
  the events say so, after \<open>WalletCreated\<close> on first use.\<close>

theorem sent_transfer_lands:
  assumes "runtime_contract rt ids" "ledger_inv rt ids b" "wid \<in> ids" "signs_with tk key pk"
    and "vault_contract h tk cl rpc funder (fst (vault_pda rt wid)) held"
    and "prepare rt h tk cl kora rpc funder wid w = (Inr (relayer, r), w')"
    and "request_sign rt tk r key relayer = Some [precompile, call]"
    and "tx_instructions tx = [(precompile, []), (call, [Invoke call])]"
    and "tx_clock tx = Inr now" "sint now < sint (tr_expires_at r)"
    and "tx_rent tx = Inr minimum_balance" "unat (minimum_balance 0) \<le> unat VAULT_RESERVE"
    and "wallet_ready rt relayer wid pk (tr_nonce r) b b0"
    and "lamports_of b (fst (vault_pda rt wid)) = held w'"
    and "acc_owner (b (fst (vault_pda rt wid))) = rt_system_program rt"
    and "acc_data (b (fst (vault_pda rt wid))) = []" "fst (vault_pda rt wid) \<noteq> wallet_address rt wid"
    and "length (tr_to r) = 32" "fst (vault_pda rt wid) \<noteq> tr_to r" "fst (vault_pda rt wid) \<noteq> relayer"
    and "\<forall>a \<in> {tr_to r, relayer}. unat (lamports_of b0 a) + unat (held w') < 2 ^ 64"
  shows "\<exists>b1 b'. run_transaction rt tx b
      = Inr ((if wallet_with_id rt b wid = None then [WalletCreated wid pk] else [])
          @ [SolTransferred wid (tr_to r) KORA_LAMPORTS (tr_relayer_fee r)], b')
    \<and> paid_out b0 b1 (fst (vault_pda rt wid)) (tr_to r) relayer KORA_LAMPORTS (tr_relayer_fee r)
    \<and> (\<forall>a. lamports_of b' a = lamports_of b1 a)"
  by (rule request_lands [OF assms])

section \<open>Witnesses\<close>

lemma demo_ledger_any:
  assumes "demo_state w"
  shows "ledger_inv demo_runtime {demo_id} (demo_bank w n)"
proof -
  have "a = wallet_key demo_accounts" if "acc_owner (demo_bank w n a) = PROGRAM_ID" for a
    using that demo_zero_not_program by (auto simp: demo_bank_def split: if_splits)
  moreover have "wallet_key demo_accounts = wallet_address demo_runtime demo_id"
    by (simp add: demo_accounts_def plain_meta_def)
  moreover have "acc_data (demo_bank w n (wallet_key demo_accounts)) = account_data w" by simp
  ultimately show ?thesis
    using assms unfolding ledger_inv_def demo_state_def by (metis singletonD)
qed

lemma demo_wallet_state: "demo_state demo_wallet"
  using demo_wallet_inv
  by (simp add: demo_state_def stored_def demo_pda demo_wallet_def created_wallet_def)

definition request_tx :: "TransferSolRequest \<Rightarrow> Transaction" where
  "request_tx r = \<lparr>tx_clock = Inr 1000, tx_rent = Inr (\<lambda>_. 890880), tx_instructions =
     [(signed_instruction owner_key (replicate 32 1 @ replicate 32 2) (request_preimage r), []),
      (request_instruction demo_runtime r (relayer_key demo_accounts),
       [Invoke (request_instruction demo_runtime r (relayer_key demo_accounts))])]\<rparr>"

definition node_tx :: Transaction where
  "node_tx = request_tx node_request"

lemma node_signs: "signs_with node_toolkit (EnclaveKey ()) owner_key"
  by (simp add: signs_with_def secp256r1_contract_def compressed_pubkey_def key_sign_def node_toolkit_def)

lemma node_sign:
  "request_sign demo_runtime node_toolkit r (EnclaveKey ()) (relayer_key demo_accounts)
    = Some [signed_instruction owner_key (replicate 32 1 @ replicate 32 2) (request_preimage r),
        request_instruction demo_runtime r (relayer_key demo_accounts)]"
  unfolding request_signed [OF node_signs] by (simp add: key_sign_def node_toolkit_def)

lemma demo_vault: "fst (vault_pda demo_runtime demo_id) = vault_key demo_accounts"
  by (simp add: demo_accounts_def plain_meta_def)

lemmas node_facts = node_tx_def request_tx_def demo_vault node_request_def first_request_def VAULT_RESERVE_def
  KORA_LAMPORTS_def demo_seeds

lemma demo_ready:
  "wallet_ready demo_runtime (relayer_key demo_accounts) demo_id owner_key 5 (demo_bank demo_wallet n)
     (demo_bank demo_wallet n)"
  "wallet_ready demo_runtime (relayer_key demo_accounts) demo_id owner_key 0 (demo_unused n) (demo_fresh n)"
proof -
  show "wallet_ready demo_runtime (relayer_key demo_accounts) demo_id owner_key 5 (demo_bank demo_wallet n)
     (demo_bank demo_wallet n)"
    using demo_wallet_with_id(1) [OF demo_wallet_state] by (simp add: wallet_ready_def)
  have "pad32 (rev owner_key) = demo_id" by (simp add: pad32_def owner_key_def demo_id_def)
  then have "rt_sha256 demo_runtime owner_key = demo_id" by (simp add: demo_runtime_def)
  then show "wallet_ready demo_runtime (relayer_key demo_accounts) demo_id owner_key 0 (demo_unused n)
     (demo_fresh n)"
    by (simp add: wallet_ready_def demo_init_fresh demo_pda) (simp add: demo_unused_def)
qed

text \<open>The open wallet of \<open>Scenario\<close>: one step of the relayer's transaction.\<close>

lemma node_tx_lands:
  "\<exists>b1 b'. run_transaction demo_runtime node_tx (demo_bank demo_wallet 15010000)
     = Inr ([SolTransferred demo_id (to_key demo_accounts) 10000000 10000], b')
   \<and> paid_out (demo_bank demo_wallet 15010000) b1 (vault_key demo_accounts) (to_key demo_accounts)
       (relayer_key demo_accounts) 10000000 10000
   \<and> (\<forall>a. lamports_of b' a = lamports_of b1 a)"
  using request_lands [OF demo_contract demo_ledger_any [OF demo_wallet_state] _ node_signs
      node_vault_contract node_prepare(1) node_sign, of node_tx 1000 "\<lambda>_. 890880" 15010000
      "demo_bank demo_wallet 15010000"] demo_ready(1) demo_wallet_with_id(1) [OF demo_wallet_state]
  by (simp add: node_facts demo_pda)

theorem signed_request_is_accepted_witness:
  "verify_enclave_authorization demo_runtime (tx_env node_tx 1) demo_wallet
     (request_authorization node_request) (request_action node_request) 254 253
   = Inr (owner_key, demo_wallet\<lparr>sw_nonce := 6\<rparr>)"
proof -
  have sign: "enclave_sign node_toolkit (EnclaveKey ()) (enclave_preimage (any_authorization (Any_TransferSol node_request))
      (any_action (Any_TransferSol node_request)))
      (any_instruction demo_runtime (Any_TransferSol node_request) (relayer_key demo_accounts))
    = Some [signed_instruction owner_key (replicate 32 1 @ replicate 32 2) (request_preimage node_request),
        request_instruction demo_runtime node_request (relayer_key demo_accounts)]"
    using node_sign by (simp add: request_sign_def request_preimage_def)
  have env: "env_previous (tx_env node_tx 1)
      = Inr (signed_instruction owner_key (replicate 32 1 @ replicate 32 2) (request_preimage node_request))"
    "env_clock (tx_env node_tx 1) = Inr 1000"
    by (simp_all add: tx_env_def node_tx_def request_tx_def)
  have "any_wf (Any_TransferSol node_request)"
    by (simp add: wf_request_def wf_array_def node_request_def demo_id_def)
  from signed_request_is_accepted [OF node_signs this sign env, of demo_wallet 254 253]
  show ?thesis
    by (simp add: request_authorization_def node_request_def)
qed

text \<open>The first use of that wallet.\<close>

theorem sent_transfer_lands_witness:
  "\<exists>b'. run_transaction demo_runtime (request_tx first_request) (demo_unused 17311240)
     = Inr ([WalletCreated demo_id owner_key, SolTransferred demo_id (to_key demo_accounts) 10000000 2311240], b')
   \<and> lamports_of b' (to_key demo_accounts) = 10000000"
proof -
  from sent_transfer_lands [OF demo_contract demo_ledger_inv(3) _ node_signs
      node_vault_contract node_prepare(2) node_sign, of "request_tx first_request" 1000 "\<lambda>_. 890880"
      17311240 "demo_fresh 17311240"]
    demo_ready(2) demo_wallet_with_id(2)
  obtain b1 b' where "run_transaction demo_runtime (request_tx first_request) (demo_unused 17311240)
      = Inr ([WalletCreated demo_id owner_key, SolTransferred demo_id (to_key demo_accounts) 10000000 2311240], b')"
    "paid_out (demo_fresh 17311240) b1 (vault_key demo_accounts) (to_key demo_accounts)
      (relayer_key demo_accounts) 10000000 2311240"
    "\<forall>a. lamports_of b' a = lamports_of b1 a"
    by (auto simp: node_facts demo_pda demo_unused_def demo_fresh_def)
  then show ?thesis
    by (auto simp: paid_out_def word_unat_eq_iff demo_fresh_def)
qed

end
