(* ===== verification/Vault_Funds.thy ===== *)
theory Vault_Funds
  imports Kora_Landing "HOL-Library.Extended_Nat"
begin

text \<open>
  What can leave a vault. The signature of a call bounds it: the amount of a transfer and the fee cap, the
  fee cap alone for the calls that move nothing else, everything for a sweep and a close. Nothing else takes
  lamports from a vault: not a call on another wallet, whatever accounts it names, and not a confirmation.
\<close>

primrec allowance :: "Call \<Rightarrow> enat" where
  "allowance (Call_TransferSol auth lamports fee)
     = enat (unat lamports + unat (auth_max_relayer_fee auth))"
| "allowance (Call_SetGuardians auth guardians fee) = enat (unat (auth_max_relayer_fee auth))"
| "allowance (Call_CancelRotation auth fee) = enat (unat (auth_max_relayer_fee auth))"
| "allowance (Call_ProposeRotation auth new_key fee) = enat (unat (auth_max_relayer_fee auth))"
| "allowance (Call_ConfirmRotation wid) = 0"
| "allowance (Call_SweepVault auth fee) = \<infinity>"
| "allowance (Call_CloseWallet auth fee) = \<infinity>"

section \<open>One call\<close>

text \<open>\<open>keeps v n b b'\<close>: the account lost at most \<open>n\<close>.\<close>

definition keeps :: "pubkey \<Rightarrow> enat \<Rightarrow> bank \<Rightarrow> bank \<Rightarrow> bool" where
  "keeps v n b b' \<longleftrightarrow> enat (unat (lamports_of b v)) \<le> enat (unat (lamports_of b' v)) + n"

lemma keeps_refl [simp]: "keeps v 0 b b"
  by (simp add: keeps_def)

lemma keeps_infinity [simp]: "keeps v \<infinity> b b'"
  by (simp add: keeps_def)

lemma keeps_trans:
  assumes "keeps v n b b1" "keeps v m b1 b'"
  shows "keeps v (n + m) b b'"
proof -
  have "enat (unat (lamports_of b v)) \<le> enat (unat (lamports_of b1 v)) + n"
    using assms(1) by (simp add: keeps_def)
  also have "\<dots> \<le> (enat (unat (lamports_of b' v)) + m) + n"
    using assms(2) by (intro add_right_mono) (simp add: keeps_def)
  finally show ?thesis by (simp add: keeps_def ac_simps)
qed

lemma keeps_mono: "keeps v n b b' \<Longrightarrow> n \<le> m \<Longrightarrow> keeps v m b b'"
  unfolding keeps_def by (rule order_trans [OF _ add_left_mono])

lemma keeps_same: "lamports_of b' v = lamports_of b v \<Longrightarrow> keeps v 0 b b'"
  by (simp add: keeps_def)

lemma keeps_nat: "keeps v (enat n) b b' \<longleftrightarrow> unat (lamports_of b v) \<le> unat (lamports_of b' v) + n"
  by (simp add: keeps_def)

lemma keeps_move:
  assumes "transfer_allowed rt seeds src dst n b"
  shows "keeps v (if v = src then enat (unat n) else 0) b (move_lamports src dst n b)"
proof (cases "src = dst")
  case True
  then show ?thesis by (simp add: move_lamports_self keeps_def)
next
  case False
  from move_unat [OF assms False] show ?thesis
    by (cases "v = src"; cases "v = dst") (simp_all add: keeps_def move_lamports_other)
qed

text \<open>A payment and the relayer's refund, with the amounts the signature allows.\<close>

lemma keeps_refund:
  assumes "transfer_allowed rt seeds src dst (min fee cap) b"
  shows "keeps v (if v = src then enat (unat cap) else 0) b (move_lamports src dst (min fee cap) b)"
  using keeps_mono [OF keeps_move [OF assms, of v], of "if v = src then enat (unat cap) else 0"]
  by (simp add: unat_min_u64)

lemma keeps_two:
  assumes "keeps v (if v = src then n else 0) b b1" "keeps v (if v = src then m else 0) b1 b2"
  shows "keeps v (if v = src then n + m else 0) b b2"
  using keeps_trans [OF assms] by (simp split: if_splits)

lemma keeps_init:
  assumes "init_contract rt" "init_accounts has_to rt ac wid b = Inr (w, sb, vb, b1)"
    and "v \<noteq> wallet_key ac" "v \<noteq> relayer_key ac"
  shows "keeps v 0 b b1"
proof -
  from assms(2) have "load_or_init_wallet rt ac wid b = Inr (w, sb, b1)"
    by (auto simp: init_accounts_def result_simps)
  with assms(1,3,4) have "lamports_of b1 v = lamports_of b v"
    unfolding init_contract_def by (auto simp: load_or_init_Inr_iff split: if_splits)
  then show ?thesis by (rule keeps_same)
qed

lemma keeps_close:
  assumes "close_account rt a dst b = Inr b'" "v \<noteq> a"
  shows "keeps v 0 b b'"
  using assms by (auto simp: close_account_def result_simps Let_def checked_add_Some_iff keeps_def)

lemma keeps_store [simp]: "keeps v n b (store_wallet a w b') \<longleftrightarrow> keeps v n b b'"
  by (simp add: keeps_def)

text \<open>A payment out of the vault, then the refund.\<close>

lemma keeps_payout:
  assumes "transfer_allowed rt seeds src dst n b"
    and "transfer_allowed rt seeds src relayer (min fee cap) (move_lamports src dst n b)"
  shows "keeps v (if v = src then enat (unat n + unat cap) else 0) b
    (move_lamports src relayer (min fee cap) (move_lamports src dst n b))"
  using keeps_two [OF keeps_move [OF assms(1), of v] keeps_refund [OF assms(2)]]
  by (simp only: plus_enat_simps)

text \<open>The calls that pay somebody else, one by one.\<close>

lemma transfer_keeps:
  assumes "transfer_contract rt" "init_contract rt" "v \<noteq> wallet_key ac" "v \<noteq> relayer_key ac"
    and "process rt env ac (Call_TransferSol auth lamports fee) b = Inr (evs, b')"
  shows "keeps v (if v = vault_key ac then enat (unat lamports + unat (auth_max_relayer_fee auth)) else 0) b b'"
proof -
  from assms(5) obtain w w' sb vb b1 seeds where
    b1: "init_accounts True rt ac (auth_wallet_id auth) b = Inr (w, sb, vb, b1)"
    and pay: "transfer_allowed rt seeds (vault_key ac) (to_key ac) lamports b1"
      "transfer_allowed rt seeds (vault_key ac) (relayer_key ac) (min fee (auth_max_relayer_fee auth))
        (move_lamports (vault_key ac) (to_key ac) lamports b1)"
    and b': "b' = store_wallet (wallet_key ac) w' (move_lamports (vault_key ac) (relayer_key ac)
        (min fee (auth_max_relayer_fee auth)) (move_lamports (vault_key ac) (to_key ac) lamports b1))"
    by (auto simp: transfer_sol_def result_simps Let_def transfer_Inr_iff [OF assms(1)])
  from keeps_trans [OF keeps_init [OF assms(2) b1 assms(3,4)] keeps_payout [OF pay]]
  show ?thesis by (simp add: b')
qed

lemma set_guardians_keeps:
  assumes "transfer_contract rt" "init_contract rt" "v \<noteq> wallet_key ac" "v \<noteq> relayer_key ac"
    and "process rt env ac (Call_SetGuardians auth gs fee) b = Inr (evs, b')"
  shows "keeps v (if v = vault_key ac then enat (unat (auth_max_relayer_fee auth)) else 0) b b'"
proof -
  from assms(5) obtain w w' sb vb b1 seeds where
    b1: "init_accounts False rt ac (auth_wallet_id auth) b = Inr (w, sb, vb, b1)"
    and refund: "transfer_allowed rt seeds (vault_key ac) (relayer_key ac) (min fee (auth_max_relayer_fee auth)) b1"
    and b': "b' = store_wallet (wallet_key ac) w'
      (move_lamports (vault_key ac) (relayer_key ac) (min fee (auth_max_relayer_fee auth)) b1)"
    by (auto simp: set_guardians_entry_def result_simps Let_def set_guardians_Inr_iff [OF assms(1)])
  from keeps_trans [OF keeps_init [OF assms(2) b1 assms(3,4)] keeps_refund [OF refund]]
  show ?thesis by (simp add: b')
qed

lemma sweep_keeps:
  assumes "transfer_contract rt" "init_contract rt" "v \<noteq> wallet_key ac" "v \<noteq> relayer_key ac"
    and "process rt env ac (Call_SweepVault auth fee) b = Inr (evs, b')"
  shows "keeps v (if v = vault_key ac then \<infinity> else 0) b b'"
proof -
  from assms(5) obtain w w' sb vb b1 seeds n where
    b1: "init_accounts True rt ac (auth_wallet_id auth) b = Inr (w, sb, vb, b1)"
    and pay: "transfer_allowed rt seeds (vault_key ac) (to_key ac) n b1"
      "transfer_allowed rt seeds (vault_key ac) (relayer_key ac) (min fee (auth_max_relayer_fee auth))
        (move_lamports (vault_key ac) (to_key ac) n b1)"
    and b': "b' = store_wallet (wallet_key ac) w' (move_lamports (vault_key ac) (relayer_key ac)
        (min fee (auth_max_relayer_fee auth)) (move_lamports (vault_key ac) (to_key ac) n b1))"
    by (auto simp: sweep_vault_def result_simps Let_def sweep_Inr_iff [OF assms(1)])
  from keeps_trans [OF keeps_init [OF assms(2) b1 assms(3,4)] keeps_payout [OF pay]]
  show ?thesis by (cases "v = vault_key ac") (simp_all add: b')
qed

lemma close_keeps:
  assumes "transfer_contract rt" "v \<noteq> wallet_key ac"
    and "process rt env ac (Call_CloseWallet auth fee) b = Inr (evs, b')"
  shows "keeps v (if v = vault_key ac then \<infinity> else 0) b b'"
proof -
  from assms(3) obtain b1 seeds n m where
    pay: "transfer_allowed rt seeds (vault_key ac) (to_key ac) n b"
      "transfer_allowed rt seeds (vault_key ac) (relayer_key ac) m (move_lamports (vault_key ac) (to_key ac) n b)"
    and b1: "b1 = move_lamports (vault_key ac) (relayer_key ac) m (move_lamports (vault_key ac) (to_key ac) n b)"
    and gone: "close_account rt (wallet_key ac) (relayer_key ac) b1 = Inr b'"
    by (auto simp: close_wallet_def result_simps Let_def close_Inr_iff [OF assms(1)])
  from keeps_trans [OF keeps_two [OF keeps_move [OF pay(1)] keeps_move [OF pay(2)], folded b1]
      keeps_close [OF gone assms(2)]]
  show ?thesis by (cases "v = vault_key ac") simp_all
qed

text \<open>The whole call: only the account named as the vault can lose, and what the call allows.\<close>

lemma process_keeps:
  assumes "transfer_contract rt" "init_contract rt" "process rt env ac call b = Inr (evs, b')"
    and "v \<noteq> wallet_key ac" "v \<noteq> relayer_key ac"
  shows "keeps v (if v = vault_key ac then allowance call else 0) b b'"
proof (cases call)
  case (Call_CancelRotation auth fee)
  with assms(3) show ?thesis
    by (auto simp: cancel_rotation_def result_simps Let_def cancel_Inr_iff [OF assms(1)]
        dest!: keeps_refund [of _ _ _ _ _ _ _ v])
next
  case (Call_ProposeRotation auth k fee)
  with assms(3) show ?thesis
    by (auto simp: propose_rotation_def result_simps Let_def propose_Inr_iff [OF assms(1)]
        dest!: keeps_refund [of _ _ _ _ _ _ _ v])
next
  case (Call_ConfirmRotation wid)
  with assms(3) show ?thesis by (auto simp: confirm_rotation_def result_simps)
qed (use assms transfer_keeps set_guardians_keeps sweep_keeps close_keeps in
    \<open>simp_all only: allowance.simps, blast+\<close>)

section \<open>A transaction\<close>

text \<open>No two vaults, and no vault and wallet, share an address.\<close>

definition vaults_contract :: "runtime \<Rightarrow> bytes set \<Rightarrow> bool" where
  "vaults_contract rt ids \<longleftrightarrow> (\<forall>wid \<in> ids. \<forall>wid' \<in> ids. fst (vault_pda rt wid) \<noteq> wallet_address rt wid'
     \<and> (fst (vault_pda rt wid) = fst (vault_pda rt wid') \<longrightarrow> wid = wid'))"

text \<open>A vault has no key: it signs no instruction, and no other program can debit it.\<close>

definition vault_untouched :: "pubkey \<Rightarrow> tx_step \<Rightarrow> bool" where
  "vault_untouched v s \<longleftrightarrow> (case s of
       Invoke ix \<Rightarrow> \<forall>m \<in> set (ix_accounts ix). meta_is_signer m \<longrightarrow> meta_pubkey m \<noteq> v
     | Outside f \<Rightarrow> \<forall>b b'. f b = Inr b' \<longrightarrow> lamports_of b v \<le> lamports_of b' v)"

definition step_allowance :: "bytes \<Rightarrow> nat \<times> tx_step \<Rightarrow> enat" where
  "step_allowance wid s = (case step_call (snd s) of
       Some call \<Rightarrow> if call_wallet call = wid then allowance call else 0
     | None \<Rightarrow> 0)"

text \<open>The accounts of a call that succeeds.\<close>

lemma relayer_taken:
  assumes "take_accounts call ms = Inr ac" "call_authorization call = Some auth"
  shows "ac_relayer ac \<in> set ms"
  using assms by (cases call)
    (auto simp: accounts_with_to_def accounts_without_to_def result_simps)

lemma relayer_signs:
  assumes "process rt env ac call b = Inr r" "call_authorization call = Some auth"
  shows "meta_is_signer (ac_relayer ac)"
  using assms by (cases call)
    (auto simp: transfer_sol_def set_guardians_entry_def cancel_rotation_def propose_rotation_def
      sweep_vault_def close_wallet_def result_simps init_accounts_def existing_accounts_def
      check_relayer_and_programs_def)

lemma named_wallet_and_vault:
  assumes "runtime_contract rt ids" "ledger_inv rt ids b" "call_wallet call \<in> ids"
    and "process rt env ac call b = Inr r"
  shows "wallet_key ac = wallet_address rt (call_wallet call)"
    "call_authorization call = Some auth \<Longrightarrow> vault_key ac = fst (vault_pda rt (call_wallet call))"
proof -
  note contract = runtime_contractD(1) [OF assms(1)]
  have init: "wallet_key ac = wallet_address rt wid \<and> vault_key ac = fst (vault_pda rt wid)"
    if "init_accounts has_to rt ac wid b = Inr q" for has_to wid q
    using that by (auto simp: init_accounts_def result_simps load_or_init_Inr_iff check_vault_def)
  have existing: "wallet_key ac = wallet_address rt wid \<and> vault_key ac = fst (vault_pda rt wid)"
    if "existing_accounts has_to rt ac wid b = Inr w" "wid \<in> ids" for has_to wid w
  proof -
    from that(1) have load: "load_wallet rt ac wid b = Inr w"
      and vault: "rt_create_program_address rt [VAULT_SEED, wid, [sw_vault_bump w]] = Some (vault_key ac)"
      by (auto simp: existing_accounts_def result_simps check_vault_stored_def)
    note loaded = load_wallet_stored [OF contract assms(2) that(2) load]
    have "sw_vault_bump w = snd (vault_pda rt wid)"
      using stored_wallet(1) [OF contract assms(2) that(2) loaded(2)] by (simp add: stored_def)
    moreover have "rt_create_program_address rt [VAULT_SEED, wid, [snd (vault_pda rt wid)]]
        = Some (fst (vault_pda rt wid))"
      using contract find_creates [of rt "[VAULT_SEED, wid]" "fst (vault_pda rt wid)" "snd (vault_pda rt wid)"]
      by (simp add: address_contract_def vault_pda_def)
    ultimately show ?thesis using vault loaded(1) by simp
  qed
  have confirm: "wallet_key ac = wallet_address rt wid"
    if "confirm_accounts rt ac wid b = Inr w" "wid \<in> ids" for wid w
    using that load_wallet_stored(1) [OF contract assms(2)]
    by (auto simp: confirm_accounts_def result_simps)
  from assms(3,4) show "wallet_key ac = wallet_address rt (call_wallet call)"
    by (cases call) (auto simp: transfer_sol_def set_guardians_entry_def cancel_rotation_def
        propose_rotation_def confirm_rotation_def sweep_vault_def close_wallet_def result_simps
        dest!: init existing confirm)
  from assms(3,4) show "call_authorization call = Some auth \<Longrightarrow> vault_key ac = fst (vault_pda rt (call_wallet call))"
    by (cases call) (auto simp: transfer_sol_def set_guardians_entry_def cancel_rotation_def
        propose_rotation_def sweep_vault_def close_wallet_def result_simps dest!: init existing)
qed

text \<open>A step of a transaction.\<close>

lemma step_keeps:
  assumes "runtime_contract rt ids" "vaults_contract rt ids" "ledger_inv rt ids b" "wid \<in> ids"
    and "wf_tx rt ids valid tx" "zero_key_signs_nothing valid" "i < length (tx_instructions tx)"
    and "s \<in> set (snd (tx_instructions tx ! i))" "vault_untouched (fst (vault_pda rt wid)) s"
    and "run_step rt tx (i, s) b = Inr (evs, b')"
  shows "keeps (fst (vault_pda rt wid)) (step_allowance wid (i, s)) b b'"
proof (cases "step_call s")
  case None
  show ?thesis
  proof (cases s)
    case (Invoke ix)
    with None have "dispatch (ix_data ix) \<noteq> Inr call" for call using step_call_iff [of s call] by simp
    with assms(10) Invoke have "b' = b" by (auto elim!: process_instruction_cases)
    then show ?thesis by (simp add: step_allowance_def None)
  next
    case (Outside f)
    with assms(9,10) show ?thesis
      by (auto simp: step_allowance_def step_call_def vault_untouched_def result_simps keeps_def
          word_le_nat_alt)
  qed
next
  case (Some call)
  let ?v = "fst (vault_pda rt wid)"
  from invoked_call [OF assms(5-8) Some assms(10)] obtain ix ac now
    where ix: "s = Invoke ix" "take_accounts call (ix_accounts ix) = Inr ac"
      and run: "process rt (tx_env tx i) ac call b = Inr (evs, b')" and good: "good_call ids call" by metis
  have wid: "call_wallet call \<in> ids" using good by (simp add: good_call_def)
  note named = named_wallet_and_vault [OF assms(1,3) wid run]
  show ?thesis
  proof (cases "call_authorization call")
    case None
    with run have "lamports_of b' ?v = lamports_of b ?v" "allowance call = 0"
      by (cases call; auto simp: confirm_rotation_def result_simps)+
    then show ?thesis by (simp add: step_allowance_def Some keeps_same)
  next
    case (Some auth)
    have "meta_pubkey (ac_relayer ac) \<noteq> ?v"
      using assms(9) relayer_taken [OF ix(2) Some] relayer_signs [OF run Some]
      by (auto simp: vault_untouched_def ix(1))
    moreover have "wallet_key ac \<noteq> ?v"
      using assms(2,4) wid named(1) unfolding vaults_contract_def by metis
    ultimately have "keeps ?v (if ?v = vault_key ac then allowance call else 0) b b'"
      using process_keeps [OF runtime_contractD(3,2) [OF assms(1)] run, of ?v] by metis
    moreover have "?v = vault_key ac \<longleftrightarrow> call_wallet call = wid"
      using assms(2,4) wid named(2) [OF Some] unfolding vaults_contract_def by metis
    ultimately show ?thesis using \<open>step_call s = Some call\<close> by (simp add: step_allowance_def)
  qed
qed

lemma steps_keep:
  assumes "runtime_contract rt ids" "vaults_contract rt ids" "wid \<in> ids"
    and "wf_tx rt ids valid tx" "zero_key_signs_nothing valid"
    and "\<forall>s \<in> snd ` set (tx_steps tx). vault_untouched (fst (vault_pda rt wid)) s"
    and "ledger_inv rt ids b" "set ss \<subseteq> set (tx_steps tx)" "run_steps rt tx ss b = Inr (evs, b')"
  shows "keeps (fst (vault_pda rt wid)) (sum_list (map (step_allowance wid) ss)) b b'"
  using assms(7-9)
proof (induction ss arbitrary: b evs)
  case Nil
  then show ?case by simp
next
  case (Cons s ss)
  obtain i t where s: "s = (i, t)" by (cases s)
  from Cons.prems(3) obtain evs1 evs2 b1 where run: "run_step rt tx (i, t) b = Inr (evs1, b1)"
      "run_steps rt tx ss b1 = Inr (evs2, b')" by (auto simp: result_simps s)
  have place: "i < length (tx_instructions tx)" "t \<in> set (snd (tx_instructions tx ! i))"
    using tx_step_place [of i t tx] Cons.prems(2) s by auto
  have "vault_untouched (fst (vault_pda rt wid)) t"
    using assms(6) Cons.prems(2) s by force
  from step_keeps [OF assms(1,2) Cons.prems(1) assms(3-5) place this run(1)]
  have one: "keeps (fst (vault_pda rt wid)) (step_allowance wid s) b b1" by (simp add: s)
  have "ledger_inv rt ids b1"
    using run_refines [OF conjunct1 [OF run_step_runs [OF assms(4,5) place run(1) ledger_run.start
        logged_start]] assms(1) Cons.prems(1)] by blast
  from Cons.IH [OF this _ run(2)] Cons.prems(2) keeps_trans [OF one] show ?case by simp
qed

section \<open>Properties\<close>

text \<open>C4: a vault pays what was signed, and nothing else. In an accepted transaction, whatever programs it
  runs and whatever accounts its calls name, the vault of a wallet loses at most the sum of what the calls
  on that wallet allow: the amount and the fee cap of a transfer, the fee cap of a change of guardians, a
  proposal or a cancellation, and everything only if a sweep or a close of that wallet is among them. Calls
  on other wallets and confirmations take nothing.\<close>

theorem vault_pays_what_was_signed:
  assumes "runtime_contract rt ids" "vaults_contract rt ids" "ledger_inv rt ids b" "wid \<in> ids"
    and "wf_tx rt ids valid tx" "zero_key_signs_nothing valid"
    and "\<forall>s \<in> snd ` set (tx_steps tx). vault_untouched (fst (vault_pda rt wid)) s"
    and "run_transaction rt tx b = Inr (evs, b')"
  shows "enat (unat (lamports_of b (fst (vault_pda rt wid))))
    \<le> enat (unat (lamports_of b' (fst (vault_pda rt wid))))
      + sum_list (map (step_allowance wid) (tx_steps tx))"
  using steps_keep [OF assms(1,2,4-7,3) order_refl assms(8) [unfolded run_transaction_def]]
  by (simp add: keeps_def)

section \<open>Witness\<close>

lemma node_call_accounts:
  "\<forall>m \<in> set (ix_accounts (request_instruction demo_runtime node_request (relayer_key demo_accounts))).
     length (meta_pubkey m) = 32 \<and> (meta_is_signer m \<longrightarrow> meta_pubkey m \<noteq> vault_key demo_accounts)"
  by code_simp

lemma node_dispatch:
  "dispatch (ix_data (request_instruction demo_runtime node_request relayer)) = Inr (request_call node_request)"
proof -
  have "wf_args (request_call node_request)"
    by (simp add: request_call_def request_authorization_def node_request_def wf_auth_def wf_array_def demo_id_def)
  then show ?thesis by (simp add: request_instruction_def client_instruction_def dispatch_iff)
qed

lemma node_wf_tx: "wf_tx demo_runtime {demo_id} demo_valid node_tx"
proof -
  let ?ix = "request_instruction demo_runtime node_request (relayer_key demo_accounts)"
  have "call_wallet (request_call node_request) = demo_id"
    by (simp add: request_call_def request_authorization_def node_request_def)
  then have "wf_step demo_runtime {demo_id} (Invoke ?ix)"
    using node_call_accounts by (simp add: wf_step_def node_dispatch)
  moreover have "ix_program_id ?ix = PROGRAM_ID" by (simp add: request_instruction_def client_instruction_def)
  ultimately show ?thesis
    using demo_program_passes demo_signed_passes by (simp add: wf_tx_def node_tx_def request_tx_def I64_MAX_def)
qed

lemma demo_vaults_contract: "vaults_contract demo_runtime {demo_id}"
  by (simp add: vaults_contract_def) code_simp

lemma node_tx_steps: "tx_steps node_tx
    = [(1, Invoke (request_instruction demo_runtime node_request (relayer_key demo_accounts)))]"
  by (simp add: tx_steps_def node_tx_def request_tx_def upt_rec)

lemma node_allowance: "sum_list (map (step_allowance demo_id) (tx_steps node_tx)) = enat 10010000"
  by (simp add: node_tx_steps step_allowance_def step_call_def node_dispatch request_call_def
      request_authorization_def) (simp add: node_request_def)

theorem vault_pays_what_was_signed_witness:
  "\<exists>evs b'. run_transaction demo_runtime node_tx (demo_bank demo_wallet 15010000) = Inr (evs, b')
     \<and> 15010000 \<le> unat (lamports_of b' (vault_key demo_accounts)) + 10010000"
proof -
  let ?b = "demo_bank demo_wallet 15010000"
  obtain evs b' where run: "run_transaction demo_runtime node_tx ?b = Inr (evs, b')"
    using node_tx_lands by blast
  have "\<forall>s \<in> snd ` set (tx_steps node_tx). vault_untouched (fst (vault_pda demo_runtime demo_id)) s"
    using node_call_accounts by (simp add: node_tx_steps vault_untouched_def demo_vault)
  from vault_pays_what_was_signed [OF demo_contract demo_vaults_contract demo_ledger_any [OF demo_wallet_state]
      _ node_wf_tx demo_zero_key this run]
  have "enat 15010000 \<le> enat (unat (lamports_of b' (vault_key demo_accounts))) + enat 10010000"
    by (simp add: node_allowance demo_vault)
  with run show ?thesis by simp
qed

end
