(* ===== verification/Spec2Isabelle.thy ===== *)
theory Spec2Isabelle
  imports Scenario_Runs Raw_Instructions Event_Log Lamports Transaction Recovery Encoding_Tests Vectors_Execute
    Gen_Main Vault_Funds
begin

text \<open>
  EnclaveKit: a smart wallet on Solana whose owner is a P-256 key in a Secure Enclave. This
  development models the on-chain program, \<open>programs/enclavekit/src\<close>, the encoding crate it shares
  with its clients, \<open>crates/enclavekit-encoding/src\<close>, the generator of the test vectors those clients
  are tested against, \<open>crates/gen-vectors/src\<close>, and the example client,
  \<open>programs/enclavekit/examples/kora_transfer_sol.rs\<close>, and proves what they promise.

  \<^bold>\<open>The program.\<close> A wallet is a state account and a vault, both at addresses derived from
  the wallet's id, the SHA-256 of its first key. Somebody (a relayer) submits a transaction whose
  first instruction is the secp256r1 precompile over a preimage that the enclave signed; the program
  instruction after it rebuilds the preimage from its own arguments, compares, checks nonce and
  expiry, acts, and pays the relayer at most the signed fee. Guardians may propose a new key, which
  anyone can confirm after 72 hours and for 7 days; the owner can cancel. A client derives the same
  addresses, writes the same bytes and sends both instructions through a Kora relayer; the vectors fix
  those bytes for a second implementation in Swift.

  \<^bold>\<open>The theories\<close>, in the order of their imports.
  \<^item> \<open>Prelude\<close>: results, checked and saturating arithmetic, little-endian bytes, slices.
  \<^item> \<open>Codec\<close>: the locales \<open>codec\<close> and \<open>fixed_codec\<close> (an encoder and a decoder that
    invert each other) and their instances for borsh's integers, booleans, arrays and lists.
  \<^item> \<open>Action\<close> (\<open>action.rs\<close>, \<open>constants.rs\<close>, \<open>wallet.rs\<close>), \<open>Preimage\<close> (\<open>preimage.rs\<close>), \<open>Layout\<close>
    (\<open>state.rs\<close> of the crate): the bytes both sides agree on.
  \<^item> \<open>Wallet_State\<close> (\<open>state.rs\<close> and \<open>constants.rs\<close> of the program): the wallet and its slots.
    \<open>Account_Data\<close>: the bytes Anchor stores for it, and the layout theorems.
  \<^item> \<open>Precompile\<close> (\<open>precompile.rs\<close>, \<open>error.rs\<close>): reading the precompile instruction.
  \<^item> \<open>Runtime\<close>: the ledger and everything that is not in the repository, as a record of
    functions with contracts. \<open>Authorization\<close> (\<open>authorization.rs\<close>): the check and the payments.
  \<^item> \<open>Wallet_Invariant\<close>: the invariant of a stored wallet and the updates that keep it.
  \<^item> \<open>Accounts_Context\<close> (\<open>events.rs\<close>, the \<open>#[derive(Accounts)]\<close> structs): events, what
    Anchor checks, loads, writes back and closes, and the locales \<open>signed_handler\<close> and
    \<open>active_key_handler\<close>: the contract of the handlers that go through the signature check.
  \<^item> \<open>Scenario\<close>: a concrete wallet for the witnesses.
  \<^item> \<open>Transfer_Sol\<close>, \<open>Sweep_Vault\<close>, \<open>Close_Wallet\<close>, \<open>Set_Guardians\<close>, \<open>Propose_Rotation\<close>,
    \<open>Cancel_Rotation\<close>, \<open>Confirm_Rotation\<close> (\<open>instructions/\<close>): one handler each, its successful
    runs, its interpretation of the contract, its properties.
  \<^item> \<open>Program\<close> (\<open>lib.rs\<close>): the entry points and their dispatcher \<open>process\<close>.
  \<^item> \<open>Wallet_Machine\<close>: the abstract machine of one wallet, with facts on its runs.
    \<open>Ledger\<close>: stored wallets and the ledger invariant. \<open>Refinement\<close>: every entry point is a step
    of the machine. \<open>History\<close>: sequences of instructions, of any wallets, interleaved with
    everything else on the chain. \<open>Scenario_Runs\<close>: the concrete wallet through whole instructions.
  \<^item> \<open>Instruction_Data\<close>: what \<open>#[program]\<close> and \<open>#[derive(Accounts)]\<close> generate from \<open>lib.rs\<close> on both sides:
    the bytes of the arguments, the discriminators, the order and flags of the accounts; the program on
    a raw instruction. \<open>Raw_Instructions\<close>: its invariant for arbitrary bytes.
  \<^item> \<open>Lamports\<close>: conservation. \<open>Event_Data\<close> (\<open>events.rs\<close>, \<open>tests/common/mod.rs\<close>): the bytes of an event,
    the self-call that carries it and how an indexer reads it. \<open>Event_Log\<close>: replaying the events of a wallet
    from those bytes.
  \<^item> \<open>Transaction\<close>: the program inside transactions, called by other programs or not; transactions that fail
    leave nothing. \<open>Recovery\<close>: an undisturbed recovery completes.
  \<^item> \<open>Encoding_Tests\<close>: the unit tests of the crate, which hold in the model.
  \<^item> \<open>Hex\<close>, \<open>Json\<close>: hexadecimal text and JSON values. \<open>Gen_Vectors\<close>, \<open>Gen_Transactions\<close>, \<open>Gen_State\<close>
    (\<open>crates/gen-vectors/src/main.rs\<close>): the generator, up to the JSON value of every file.
  \<^item> \<open>Committed\<close> (\<open>vectors/\<close>): the six committed files as JSON values, read off by hand.
    \<open>Vectors_Conform\<close>: each part of them is what the generator computes, by evaluation. \<open>Vectors_Current\<close>:
    the whole files, up to the results of third-party code in three of them, which the theorem names.
    \<open>Vectors_Execute\<close>: what the program does with the vectors. \<open>Gen_Main\<close>: the generator's \<open>main\<close> and the
    test \<open>committed_vectors_are_up_to_date\<close>, over a file system.
  \<^item> \<open>Requests\<close> (\<open>tests/common/requests.rs\<close>): the six signed requests of a client, as interpretations of the
    locale \<open>enclave_request\<close>. \<open>World\<close>: operations on the world outside. \<open>Json_Rpc\<close>, \<open>Kora_Transfer\<close>
    (\<open>examples/kora_transfer_sol.rs\<close>): the client, as such operations. \<open>Kora_Landing\<close>: the transaction it
    sends, run by the program, on a wallet's first use and later. \<open>Vault_Funds\<close>: what can leave a
    vault, with that transaction as its example.
  \<^item> This theory: the properties that span components.

  \<^bold>\<open>How code is modelled.\<close> Structs are records, enums datatypes, integers words at their
  width (\<open>i64\<close> is a word read with \<open>sint\<close>), byte arrays lists with their length in a well-formedness
  predicate (\<open>wf_wallet\<close>, \<open>wf_action\<close>, ..., which Rust's types give for free). A fallible function
  returns \<open>error + value\<close>. A handler takes the runtime, the sysvars, the accounts, its arguments, the
  wallet and the ledger, and returns its event, the wallet and the ledger; an error keeps nothing, as
  the runtime rolls a failed transaction back. The ledger is a function from addresses to accounts,
  so aliasing (the vault as its own destination, a relayer that is the destination) is real. The
  model is of the default build; the feature \<open>devnet\<close> only shortens \<open>ROTATION_DELAY\<close>.

  \<^bold>\<open>What is assumed.\<close> SHA-256, the address derivation, the System program's transfer, account
  creation and the sysvars are parameters (\<open>runtime\<close>, \<open>env\<close>). Contracts used: \<open>transfer_contract\<close> (the
  transfer moves exactly the amount or fails), \<open>pda_contract\<close> and \<open>address_contract\<close> (the canonical bump
  derives the canonical address, and no two of the wallet ids in use collide), \<open>init_contract\<close> (a new
  account is zeroed and owned by the program). \<open>good_env\<close>: the clock is below its maximum, and the key
  the precompile verified is not the all-zero array, which is no curve point. \<open>external_step\<close>: other
  programs cannot write or assign the accounts at a wallet's address. \<open>wf_tx\<close>: a top-level instruction of the
  program runs it once, every secp256r1 instruction of an accepted transaction verified (\<open>precompile_passes\<close>,
  with \<open>zero_key_signs_nothing\<close>), and all of a transaction reads one clock. \<open>vaults_contract\<close> and
  \<open>vault_untouched\<close>: vaults have addresses of their own, sign nothing, and no other program can debit them. \<open>event_contract\<close>: the event tag and
  the eight event discriminators are eight bytes each and differ from each other and from those of the
  instructions. \<open>demo_runtime\<close> satisfies all
  of them. For the generator and the client: the P-256, base58, base64, JSON-text and message crates are
  the record \<open>toolkit\<close>, with the layout of the precompile instruction (\<open>secp256r1_contract\<close>) and, for the
  committed files, the names in them (\<open>vector_toolkit\<close>: the keys of the seeds, the two hashes, the derived
  addresses and their base58, and that a signature has 64 bytes; \<open>sample_toolkit\<close> satisfies it). The
  signatures, the compiled message and its base64 are not assumed. The network, the clock, the random source and
  the keypair files are the record \<open>host\<close>, with \<open>vault_contract\<close> (a balance is reported as it is and a confirmed
  funding arrives); the file system is the record \<open>disk\<close> with \<open>disk_contract\<close> (a write replaces one file and a
  read returns what was written); \<open>init_pays_contract\<close>: the rent of a new account comes from its payer. The
  discriminators, first bytes of a SHA-256, are the ones \<open>vectors/instructions.json\<close> commits.
  No fuel is used anywhere: no operation of the program loops, and the client's one loop is bounded in
  the code, by 60 polls.

  \<^bold>\<open>Not modelled.\<close> The verification of the signature itself (the precompile's), the runtime's signing of
  the self-call with the seeds of the event authority (the dispatch checks the signer flag it sets),
  compute and transaction-size limits, network fees, the runtime's rule that an account may not end a
  transaction below the rent-exempt minimum; of the generator, the text of a JSON value (\<open>render\<close>'s pretty
  printer is a parameter; a map of \<open>serde_json\<close> is listed by key); of the client, printing, and the
  compilation, signing and serialisation of a message (parameters); the LiteSVM tests
  and the tests of \<open>wallet.rs\<close>, which check SHA-256. The order of Anchor's account
  checks is fixed in the model; it only decides which error a rejected instruction reports.

  \<^bold>\<open>Findings.\<close> Places where a comment says one thing and the code does another. By example,
  \<open>closed_wallet_starts_over\<close>: after closing, old unexpired signatures pass again in order, and a key that
  was rotated away becomes active again; \<open>cancel_at_any_time\<close>: cancelling works after the window opened.
  \<open>sweep_to_vault_keeps_balance\<close>, \<open>close_pays_out\<close>: a sweep or a close to the vault itself does not empty it.
  \<open>seed_accepts_signs\<close>: the client reads a sign as a hexadecimal digit of a seed.
\<close>

section \<open>Signatures\<close>

text \<open>C8: one signature authorises one call. Two instructions that succeed with the same precompile
  instruction before them carry the same authorization (wallet, nonce, expiry, fee cap) and the same
  action with all its arguments, whatever the instruction, the accounts and the ledger.\<close>

theorem one_signature_one_call:
  assumes "process rt env ac call b = Inr r" "process rt' env' ac' call' b' = Inr r'"
    and "env_previous env = env_previous env'"
    and "call_authorization call = Some auth" "call_action ac call = Some action"
    and "call_authorization call' = Some auth'" "call_action ac' call' = Some action'"
    and "length (auth_wallet_id auth) = 32" "wf_action action"
    and "length (auth_wallet_id auth') = 32" "wf_action action'"
  shows "auth = auth' \<and> action = action'"
  by (rule same_signature_same_call [OF assms])

section \<open>The machine\<close>

text \<open>C2: every instruction implements the abstract machine. On a ledger that satisfies the
  invariant, a successful instruction is exactly one step of the wallet it names, labelled with the
  key that signed, the signed nonce and the operation, at the clock's time; every other wallet in use
  is as it was, and the invariant holds again.\<close>

theorem instructions_refine_machine:
  assumes "runtime_contract rt ids" "ledger_inv rt ids b" "good_call ids call" "good_env env now"
    and "process rt env ac call b = Inr (evs, b')"
  shows "ledger_inv rt ids b'
    \<and> (\<forall>wid \<in> ids. wid \<noteq> call_wallet call \<longrightarrow> wallet_with_id rt b' wid = wallet_with_id rt b wid)
    \<and> spec_step (rt_sha256 rt) (call_wallet call) MAX_GUARDIANS (sint now)
        (spec_at rt b (call_wallet call)) (label_of env call) (spec_at rt b' (call_wallet call))"
  using process_refines [OF assms(1,2) _ _ _ _ _ assms(5), of now] assms(3,4)
  by (simp add: refines_step_def others_kept_def good_call_def good_env_def)

text \<open>C9: whatever happened since the program was unused, every wallet it stores is well-formed: its
  data is exactly the encoding of a wallet with the id its address was derived from, with the
  canonical bumps, a non-zero active key and a cleared \<open>attested\<close> flag, whose guardians are empty or
  P-256 and whose rotation slot is all zeros or a proposal for a non-zero key by a slot that still
  holds a guardian.\<close>

theorem stored_wallets_well_formed:
  assumes "runtime_contract rt ids" "unused_ledger rt ids b" "ledger_run rt ids b tr b'"
    and "wid \<in> ids" "wallet_with_id rt b' wid = Some w"
  shows "acc_data (b' (wallet_address rt wid)) = account_data w
    \<and> sw_wallet_id w = wid \<and> sw_state_bump w = snd (wallet_pda rt wid)
    \<and> sw_vault_bump w = snd (vault_pda rt wid)
    \<and> sw_active_key w \<noteq> zero_key \<and> \<not> sw_attested w
    \<and> list_all good_slot (sw_guardians w) \<and> good_rotation (sw_guardians w) (sw_rotation w)"
proof -
  note inv = used_ledger_run(1) [OF assms(3,1,2,4)]
  from stored_wallet [OF runtime_contractD(1) [OF assms(1)] inv assms(4,5)] show ?thesis
    by (simp add: stored_def wallet_inv_def is_new_def)
qed

text \<open>C1: recovery takes a guardian and the timelock. When a confirmation succeeds, the new active
  key is the one a guardian, other than the active key and still in the wallet's list, proposed in a
  signed instruction between 72 hours and 10 days before; and since that proposal no instruction on
  the wallet but transfers and sweeps succeeded, so the owner did not cancel it, change the guardians
  or rotate, and no other proposal came.\<close>

theorem recovery_takes_guardian_and_timelock:
  assumes "runtime_contract rt ids" "unused_ledger rt ids b" "ledger_run rt ids b tr b1"
    and "wid \<in> ids" "good_env env now"
    and "process rt env ac (Call_ConfirmRotation wid) b1 = Inr (evs, b2)"
  shows "\<exists>w w' before t g n since i. wallet_with_id rt b1 wid = Some w
    \<and> wallet_with_id rt b2 wid = Some w'
    \<and> history_of wid tr = before @ [(t, Signed g n (Op_Propose (sw_active_key w')))] @ since
    \<and> only_spends since \<and> g \<noteq> sw_active_key w
    \<and> i < length (sw_guardians w) \<and> slot_kind (sw_guardians w ! i) = Kind_P256
    \<and> slot_key (sw_guardians w ! i) = g
    \<and> t + 72 * 60 * 60 \<le> sint now \<and> sint now \<le> t + 72 * 60 * 60 + 7 * 24 * 60 * 60"
proof -
  note run = used_ledger_run [OF assms(3,1,2,4)]
  have "refines_step rt ids wid now Confirmed b1 b2"
    using process_refines [OF assms(1) run(1) _ _ _ _ _ assms(6), of now] assms(4,5)
    by (simp add: good_env_def wf_call_def)
  then have step: "spec_step (rt_sha256 rt) wid MAX_GUARDIANS (sint now) (spec_at rt b1 wid) Confirmed
      (spec_at rt b2 wid)"
    by (simp add: refines_step_def)
  from confirmed_after_proposal [OF run(2) step] obtain s t i where
    s: "spec_at rt b1 wid = Some s"
      "spec_at rt b2 wid = Some (s\<lparr>sp_key := fst (the (sp_pending s)), sp_pending := None\<rparr>)"
    and p: "proposed_by_guardian (history_of wid tr) s (fst (the (sp_pending s))) t i"
    and t: "t + spec_delay \<le> sint now" "sint now \<le> t + spec_delay + spec_window" .
  from s obtain w w' where w: "wallet_with_id rt b1 wid = Some w" "s = spec_of w"
    and w': "wallet_with_id rt b2 wid = Some w'" "sw_active_key w' = fst (the (sp_pending s))"
    unfolding spec_at_def by (auto simp: spec_of_def)
  from p obtain before g n since where h: "history_of wid tr = before @ [(t, Signed g n (Op_Propose (sw_active_key w')))] @ since"
    "only_spends since" "g \<noteq> sw_active_key w" "i < length (sw_guardians w)"
    "slot_guardian (sw_guardians w ! i) = Some g"
    by (auto simp: proposed_by_guardian_def w(2) w'(2)) (auto simp: spec_of_def)
  then have "slot_kind (sw_guardians w ! i) = Kind_P256" "slot_key (sw_guardians w ! i) = g"
    by (simp_all add: slot_guardian_def split: if_splits)
  with h w(1) w'(1) t [unfolded spec_delay_def spec_window_def] show ?thesis by blast
qed

text \<open>C22: nonces are consumed one by one. While a wallet stays open, the signed instructions that
  succeed on it, in any order with others, carry the consecutive nonces from the one it stored at
  the start to the one before the one it stores at the end; in particular no nonce serves twice.\<close>

theorem nonces_consecutive:
  assumes "runtime_contract rt ids" "ledger_inv rt ids b" "ledger_run rt ids b tr b'"
    and "wid \<in> ids" "wallet_with_id rt b wid = Some w"
    and "\<not> list_ex closes (map snd (history_of wid tr))"
  shows "\<exists>w'. wallet_with_id rt b' wid = Some w'
    \<and> nonces (history_of wid tr) = [unat (sw_nonce w)..<unat (sw_nonce w')]
    \<and> distinct (nonces (history_of wid tr))"
proof -
  have "spec_run (rt_sha256 rt) wid MAX_GUARDIANS (Some (spec_of w)) (history_of wid tr) (spec_at rt b' wid)"
    using run_refines [OF assms(3,1,2)] assms(4,5) by (auto simp: spec_at_def)
  from run_nonces [OF this assms(6)] obtain s where "spec_at rt b' wid = Some s"
    "nonces (history_of wid tr) = [unat (sw_nonce w)..<sp_nonce s]" by auto
  then show ?thesis by (auto simp: spec_at_def)
qed

text \<open>C5: an authorization that passed never passes again while its wallet stays open, with any
  instruction, whatever happens in between: every later instruction with the same wallet and nonce
  fails.\<close>

theorem used_authorization_fails:
  assumes "runtime_contract rt ids" "ledger_inv rt ids b"
    and "good_call ids call" "good_env env now" "process rt env ac call b = Inr (evs, b1)"
    and "call_authorization call = Some auth"
    and "wallet_with_id rt b1 (auth_wallet_id auth) \<noteq> None"
    and "ledger_run rt ids b1 tr b2" "\<not> list_ex closes (map snd (history_of (auth_wallet_id auth) tr))"
    and "good_call ids call2" "good_env env2 now2" "call_authorization call2 = Some auth2"
    and "auth_wallet_id auth2 = auth_wallet_id auth" "auth_nonce auth2 = auth_nonce auth"
  shows "process rt env2 ac2 call2 b2 \<noteq> Inr r"
  by (rule spent_authorization_fails [OF assms])

text \<open>C10: the active key of an open wallet changes in two ways only: a proposal signed by that key,
  or a confirmation of the pending proposal.\<close>

theorem key_changes_in_two_ways:
  assumes "runtime_contract rt ids" "ledger_inv rt ids b"
    and "good_call ids call" "good_env env now" "process rt env ac call b = Inr (evs, b')"
    and "wallet_with_id rt b (call_wallet call) = Some w"
    and "wallet_with_id rt b' (call_wallet call) = Some w'"
    and "sw_active_key w' \<noteq> sw_active_key w"
  shows "(\<exists>auth fee. call = Call_ProposeRotation auth (sw_active_key w') fee
      \<and> signer_of env = sw_active_key w)
    \<or> (\<exists>p. call = Call_ConfirmRotation (call_wallet call)
      \<and> rotation_get (sw_rotation w) = Some p \<and> pr_new_key p = sw_active_key w')"
proof -
  have "refines_step rt ids (call_wallet call) now (label_of env call) b b'"
    using process_refines [OF assms(1,2) _ _ _ _ _ assms(5), of now] assms(3,4)
    by (simp add: good_env_def good_call_def)
  then have "spec_step (rt_sha256 rt) (call_wallet call) MAX_GUARDIANS (sint now) (Some (spec_of w))
      (label_of env call) (Some (spec_of w'))"
    using assms(6,7) by (simp add: refines_step_def spec_at_def)
  from key_changes [OF this] assms(8) consider
    n where "label_of env call = Signed (sw_active_key w) n (Op_Propose (sw_active_key w'))"
  | t i where "label_of env call = Confirmed" "sp_pending (spec_of w) = Some (sw_active_key w', t, i)"
    by auto
  then show ?thesis
  proof cases
    case 1
    with label_of_propose obtain auth fee where "call = Call_ProposeRotation auth (sw_active_key w') fee"
      by blast
    with 1 show ?thesis by simp
  next
    case 2
    with label_of_confirmed obtain wid where "call = Call_ConfirmRotation wid" by blast
    with 2 show ?thesis by (auto simp: spec_of_def)
  qed
qed

text \<open>C7: what a guardian can do. A signed instruction that succeeds on an open wallet without the
  active key's signature is a proposal by a P-256 guardian of the wallet: it sets the pending rotation
  and the next nonce, leaves the key and the guardians, and no account loses lamports but the vault,
  which loses at most the signed fee cap.\<close>

theorem guardian_only_proposes:
  assumes "runtime_contract rt ids" "ledger_inv rt ids b"
    and "good_call ids call" "good_env env now" "process rt env ac call b = Inr (evs, b')"
    and "call_authorization call = Some auth"
    and "wallet_with_id rt b (auth_wallet_id auth) = Some w" "signer_of env \<noteq> sw_active_key w"
  shows "\<exists>k fee i w'. call = Call_ProposeRotation auth k fee
    \<and> i < length (sw_guardians w) \<and> slot_guardian (sw_guardians w ! i) = Some (signer_of env)
    \<and> wallet_with_id rt b' (auth_wallet_id auth) = Some w'
    \<and> spec_of w' = (spec_of w)\<lparr>sp_nonce := unat (auth_nonce auth) + 1, sp_pending := Some (k, sint now, i)\<rparr>
    \<and> (\<forall>a. a \<noteq> vault_key ac \<longrightarrow> lamports_of b a \<le> lamports_of b' a)
    \<and> unat (lamports_of b (vault_key ac))
        \<le> unat (lamports_of b' (vault_key ac)) + unat (auth_max_relayer_fee auth)"
proof -
  let ?wid = "auth_wallet_id auth"
  have wid: "call_wallet call = ?wid" using assms(6) by (rule call_wallet_authorization)
  have "refines_step rt ids ?wid now (label_of env call) b b'"
    using process_refines [OF assms(1,2) _ _ _ _ _ assms(5), of now] assms(3,4) wid
    by (simp add: good_env_def good_call_def)
  moreover obtain c where c: "label_of env call = Signed (signer_of env) (unat (auth_nonce auth)) c"
    using label_of_signed [OF assms(6)] by blast
  ultimately have "spec_step (rt_sha256 rt) ?wid MAX_GUARDIANS (sint now) (Some (spec_of w))
      (Signed (signer_of env) (unat (auth_nonce auth)) c) (spec_at rt b' ?wid)"
    using assms(7) by (simp add: refines_step_def spec_at_def)
  moreover have "signer_of env \<noteq> sp_key (spec_of w)" using assms(8) by simp
  ultimately obtain k i where k: "c = Op_Propose k"
    "i < length (sp_guardians (spec_of w))" "sp_guardians (spec_of w) ! i = Some (signer_of env)"
    "spec_at rt b' ?wid = Some ((spec_of w)\<lparr>sp_nonce := unat (auth_nonce auth) + 1,
       sp_pending := Some (k, sint now, i)\<rparr>)"
    by (rule other_signer_proposes)
  from c k(1) label_of_propose assms(6) obtain fee where call: "call = Call_ProposeRotation auth k fee"
    by fastforce
  from propose_entry_lamports [OF runtime_contractD(3) [OF assms(1)] assms(5) [unfolded call]]
  have "\<forall>a. a \<noteq> vault_key ac \<longrightarrow> lamports_of b a \<le> lamports_of b' a"
    "unat (lamports_of b (vault_key ac))
        \<le> unat (lamports_of b' (vault_key ac)) + unat (auth_max_relayer_fee auth)" by blast+
  with call k(2-4) show ?thesis
    by (auto simp: spec_at_def) (auto simp: spec_of_def)
qed

text \<open>C23: first use. An instruction that succeeds on a wallet that does not exist makes it for the
  key that signed, whose hash is the wallet's id, with nonce 0 signed and nonce 1 stored, and emits
  \<open>WalletCreated\<close> with that id and key before the instruction's own event.\<close>

theorem first_use_creates:
  assumes "runtime_contract rt ids" "ledger_inv rt ids b"
    and "good_call ids call" "good_env env now" "process rt env ac call b = Inr (evs, b')"
    and "wallet_with_id rt b (call_wallet call) = None"
  shows "rt_sha256 rt (signer_of env) = call_wallet call
    \<and> (\<exists>auth. call_authorization call = Some auth \<and> auth_nonce auth = 0)
    \<and> (\<exists>w'. wallet_with_id rt b' (call_wallet call) = Some w'
         \<and> sw_active_key w' = signer_of env \<and> sw_nonce w' = 1)
    \<and> (\<exists>e. evs = [WalletCreated (call_wallet call) (signer_of env), e])"
proof -
  have wid: "call_wallet call \<in> ids" using assms(3) by (simp add: good_call_def)
  have "refines_step rt ids (call_wallet call) now (label_of env call) b b'"
    using process_refines [OF assms(1,2) _ _ _ _ _ assms(5), of now] assms(3,4)
    by (simp add: good_env_def good_call_def)
  then have "spec_step (rt_sha256 rt) (call_wallet call) MAX_GUARDIANS (sint now) None
      (label_of env call) (spec_at rt b' (call_wallet call))"
    using assms(6) by (simp add: refines_step_def spec_at_def)
  from first_step [OF this] obtain s c v where l: "label_of env call = Signed s 0 c"
    and v: "rt_sha256 rt s = call_wallet call" "spec_at rt b' (call_wallet call) = Some v"
      "sp_key v = s" "sp_nonce v = 1"
    and c: "c = Op_Spend \<or> (\<exists>gs. c = Op_Guardians gs)" by blast
  from v(2-4) obtain w' where w': "wallet_with_id rt b' (call_wallet call) = Some w'"
    "sw_active_key w' = s" "unat (sw_nonce w') = 1"
    by (auto simp: spec_at_def)
  have "sw_nonce w' = 1" using w'(3) by (simp add: word_unat_eq_iff)
  moreover have "s = signer_of env \<and> (\<exists>auth. call_authorization call = Some auth \<and> auth_nonce auth = 0)"
    using l by (cases call) (auto simp: unat_eq_0)
  moreover from first_use_events [OF assms(1,2) wid assms(5,6) l c]
  have "\<exists>e. evs = [WalletCreated (call_wallet call) (signer_of env), e]" .
  ultimately show ?thesis using v(1) w'(1,2) by blast
qed

section \<open>Closing\<close>

text \<open>Closing does not end the signatures of a wallet, by example. On the concrete runtime: the owner's first
  sweep makes the wallet, the owner rotates to another key, that key closes; the ledger is then
  exactly what it was before the first sweep, so the same three signed instructions pass once more in
  the same order, the closing one included, and after the sweep the key that was rotated away is the
  active key again.\<close>

theorem closed_wallet_starts_over:
  "process demo_runtime sweep_env demo_accounts (Call_SweepVault (demo_auth 0) 0) (demo_unused 0)
     = Inr ([WalletCreated demo_id owner_key, VaultSwept demo_id (to_key demo_accounts) 0 0],
         demo_bank first_wallet 0)
   \<and> process demo_runtime rotate_env demo_accounts (Call_ProposeRotation (demo_auth 1) device_key 0)
       (demo_bank first_wallet 0)
     = Inr ([KeyRotated demo_id device_key False], demo_bank rotated_wallet 0)
   \<and> process demo_runtime close_env demo_accounts (Call_CloseWallet (demo_auth 2) 0)
       (demo_bank rotated_wallet 0)
     = Inr ([WalletClosed demo_id (to_key demo_accounts) 0 0], demo_unused 0)
   \<and> sw_active_key first_wallet = owner_key \<and> sw_active_key rotated_wallet = device_key"
  using demo_sweep_run demo_rotate_run demo_close_run by (simp add: rotated_wallet_def)

section \<open>Witnesses\<close>

theorem one_signature_one_call_witness:
  "(\<exists>r r'. process demo_runtime (propose_env 1000) demo_accounts
       (Call_ProposeRotation (demo_auth 1) device_key 0) (demo_bank guarded_wallet 0) = Inr r
     \<and> process demo_runtime (propose_env 1500) demo_accounts
       (Call_ProposeRotation (demo_auth 1) device_key 0) (demo_bank guarded_wallet 7) = Inr r'
     \<and> ProposeRotation device_key = ProposeRotation device_key)
   \<and> \<not> (\<exists>r. process demo_runtime (propose_env 1000) demo_accounts
       (Call_CancelRotation (demo_auth 1) 0) (demo_bank guarded_wallet 0) = Inr r)"
proof -
  have one: "process demo_runtime (propose_env 1000) demo_accounts
       (Call_ProposeRotation (demo_auth 1) device_key 0) (demo_bank guarded_wallet 0)
    = Inr ([RotationProposed demo_id device_key guardian_key (saturating_add 1000 ROTATION_DELAY)],
        demo_bank (pending_wallet 1000) 0)" by (rule demo_propose_run) simp
  have two: "process demo_runtime (propose_env 1500) demo_accounts
       (Call_ProposeRotation (demo_auth 1) device_key 0) (demo_bank guarded_wallet 7)
    = Inr ([RotationProposed demo_id device_key guardian_key (saturating_add 1500 ROTATION_DELAY)],
        demo_bank (pending_wallet 1500) 7)" by (rule demo_propose_run) simp
  note wf = propose_env_def demo_env_def wf_array_def COMPRESSED_PUBKEY_LEN_def demo_id_def
  have "demo_auth 1 = demo_auth 1 \<and> ProposeRotation device_key = ProposeRotation device_key"
    by (rule one_signature_one_call [OF one two]) (simp_all add: wf)
  moreover have False if "process demo_runtime (propose_env 1000) demo_accounts
       (Call_CancelRotation (demo_auth 1) 0) (demo_bank guarded_wallet 0) = Inr r" for r
  proof -
    have "demo_auth 1 = demo_auth 1 \<and> ProposeRotation device_key = CancelRotation"
      by (rule one_signature_one_call [OF one that]) (simp_all add: wf)
    then show False by simp
  qed
  ultimately show ?thesis using one two by blast
qed

theorem instructions_refine_machine_witness:
  "spec_step (rt_sha256 demo_runtime) demo_id MAX_GUARDIANS 1000 (spec_at demo_runtime (demo_unused 0) demo_id)
     (Signed owner_key 0 (Op_Guardians [Some guardian_key, None, None]))
     (spec_at demo_runtime (demo_bank guarded_wallet 0) demo_id)"
  using instructions_refine_machine [OF demo_contract demo_ledger_inv(3) demo_calls(1) demo_envs(1)
      demo_set_guardians_run [of 0]]
  by (simp add: demo_envs demo_guardians_def guardian_key_of_def)

theorem stored_wallets_well_formed_witness:
  "acc_data (demo_bank guarded_wallet 0 (wallet_address demo_runtime demo_id))
     = account_data guarded_wallet
   \<and> list_all good_slot (sw_guardians guarded_wallet)"
  using stored_wallets_well_formed [OF demo_contract demo_unused_ledger [of 0] demo_run_guardians _
      demo_wallet_with_id(1) [OF guarded_wallet_state]]
  by blast

theorem recovery_takes_guardian_and_timelock_witness:
  "\<exists>w' g n. wallet_with_id demo_runtime (demo_bank (recovered_wallet 1000) 0) demo_id = Some w'
     \<and> (1000, Signed g n (Op_Propose (sw_active_key w')))
       \<in> set (history_of demo_id
          [(demo_id, 1000, label_of guardians_env (Call_SetGuardians (demo_auth 0) demo_guardians 0)),
           (demo_id, 1000, label_of (propose_env 1000) (Call_ProposeRotation (demo_auth 1) device_key 0))])"
proof -
  have run: "process demo_runtime (confirm_env 260200) demo_accounts (Call_ConfirmRotation demo_id)
      (demo_bank (pending_wallet 1000) 0)
    = Inr ([KeyRotated demo_id device_key True], demo_bank (recovered_wallet 1000) 0)"
    by (rule demo_confirm_run) simp_all
  from recovery_takes_guardian_and_timelock [OF demo_contract demo_unused_ledger demo_run_both _
      demo_envs(5) run]
  obtain w' before t g n since where w': "wallet_with_id demo_runtime
      (demo_bank (recovered_wallet 1000) 0) demo_id = Some w'"
    and h: "history_of demo_id
          [(demo_id, 1000, label_of guardians_env (Call_SetGuardians (demo_auth 0) demo_guardians 0)),
           (demo_id, 1000, label_of (propose_env 1000) (Call_ProposeRotation (demo_auth 1) device_key 0))]
      = before @ [(t, Signed g n (Op_Propose (sw_active_key w')))] @ since" by blast
  then have "t = 1000" by (auto simp: history_of_def Cons_eq_append_conv append_eq_Cons_conv)
  with w' h show ?thesis by auto
qed

theorem nonces_consecutive_witness:
  "nonces (history_of demo_id [(demo_id, 1000, label_of (propose_env 1000)
     (Call_ProposeRotation (demo_auth 1) device_key 0))]) = [1..<2]"
  using nonces_consecutive [OF demo_contract demo_ledger_inv(1) demo_run_propose [of 0] _
      demo_wallet_with_id(1) [OF guarded_wallet_state]] demo_wallet_with_id(1) [OF pending_wallet_state]
  by (simp add: history_of_def closes_def pending_wallet_def)

theorem used_authorization_fails_witness:
  "\<forall>r. process demo_runtime (propose_env 1000) demo_accounts
     (Call_ProposeRotation (demo_auth 1) device_key 0) (demo_bank (pending_wallet 1000) 0) \<noteq> Inr r"
proof
  fix r
  have run: "process demo_runtime (propose_env 1000) demo_accounts
       (Call_ProposeRotation (demo_auth 1) device_key 0) (demo_bank guarded_wallet 0)
    = Inr ([RotationProposed demo_id device_key guardian_key (saturating_add 1000 ROTATION_DELAY)],
        demo_bank (pending_wallet 1000) 0)" by (rule demo_propose_run) simp
  show "process demo_runtime (propose_env 1000) demo_accounts
     (Call_ProposeRotation (demo_auth 1) device_key 0) (demo_bank (pending_wallet 1000) 0) \<noteq> Inr r"
    by (rule used_authorization_fails [OF demo_contract demo_ledger_inv(1) demo_calls(2) demo_envs(3) run
          _ _ ledger_run.start _ demo_calls(2) demo_envs(3)])
      (simp_all add: demo_wallet_with_id(1) [OF pending_wallet_state])
qed

theorem key_changes_in_two_ways_witness:
  "\<exists>p. rotation_get (sw_rotation (pending_wallet 1000)) = Some p \<and> pr_new_key p = device_key"
proof -
  have run: "process demo_runtime (confirm_env 260200) demo_accounts (Call_ConfirmRotation demo_id)
      (demo_bank (pending_wallet 1000) 0)
    = Inr ([KeyRotated demo_id device_key True], demo_bank (recovered_wallet 1000) 0)"
    by (rule demo_confirm_run) simp_all
  from key_changes_in_two_ways [OF demo_contract demo_ledger_inv(2) demo_calls(3) demo_envs(5) run]
  show ?thesis
    using demo_wallet_with_id(1) [OF pending_wallet_state [of 1000]]
      demo_wallet_with_id(1) [OF recovered_wallet_state [of 1000]] demo_keys(5)
    by (simp add: recovered_wallet_def pending_wallet_def)
qed

theorem guardian_only_proposes_witness:
  "\<exists>w'. wallet_with_id demo_runtime (demo_bank (pending_wallet 1000) 0) demo_id = Some w'
     \<and> sp_pending (spec_of w') = Some (device_key, 1000, 0) \<and> sp_key (spec_of w') = owner_key"
proof -
  have run: "process demo_runtime (propose_env 1000) demo_accounts
       (Call_ProposeRotation (demo_auth 1) device_key 0) (demo_bank guarded_wallet 0)
    = Inr ([RotationProposed demo_id device_key guardian_key (saturating_add 1000 ROTATION_DELAY)],
        demo_bank (pending_wallet 1000) 0)" by (rule demo_propose_run) simp
  have "signer_of (propose_env 1000) \<noteq> sw_active_key guarded_wallet"
    using demo_envs(4) demo_keys(4) [THEN not_sym] by simp
  from guardian_only_proposes [OF demo_contract demo_ledger_inv(1) demo_calls(2) demo_envs(3) run _ _ this]
  obtain i w' where i: "i < Suc (Suc (Suc 0))" "slot_guardian (sw_guardians guarded_wallet ! i) = Some guardian_key"
    and w': "wallet_with_id demo_runtime (demo_bank (pending_wallet 1000) 0) demo_id = Some w'"
      "spec_of w' = (spec_of guarded_wallet)\<lparr>sp_nonce := Suc (Suc 0), sp_pending := Some (device_key, 1000, i)\<rparr>"
    using demo_wallet_with_id(1) [OF guarded_wallet_state] demo_envs(4) by auto
  from i have "i = 0"
    by (auto simp: less_Suc_eq slot_guardian_def EMPTY_SLOT_def split: if_splits)
  moreover have "sw_active_key w' = owner_key" using arg_cong [OF w'(2), of sp_key] by simp
  ultimately show ?thesis using w' by simp
qed

theorem first_use_creates_witness:
  "rt_sha256 demo_runtime owner_key = demo_id
   \<and> (\<exists>w'. wallet_with_id demo_runtime (demo_bank guarded_wallet 0) demo_id = Some w'
        \<and> sw_active_key w' = owner_key \<and> sw_nonce w' = 1)"
  using first_use_creates [OF demo_contract demo_ledger_inv(3) demo_calls(1) demo_envs(1)
      demo_set_guardians_run [of 0]] demo_wallet_with_id(2) [of 0] demo_envs(2)
  by simp

end
